(* ===== verification/Prelude.thy ===== *)
theory Prelude
  imports Main "HOL-Library.Word" "HOL-Library.Sublist" "HOL-Library.Multiset"
begin

unbundle bit_operations_syntax

text \<open>
  Shared ground of the development: what the Go sources use of the language and of its standard
  library. Run-time panics are values (\<open>outcome\<close>), \<open>error\<close> results are values
  (\<open>goerror\<close>), and the parts of \<^verbatim>\<open>strconv\<close>, \<^verbatim>\<open>strings\<close> and
  \<^verbatim>\<open>fmt\<close> that the sources call are executable functions on byte strings.
  A Go \<^verbatim>\<open>int\<close> that holds a bit pattern is a \<open>64 word\<close>; one that is an
  index, a length or a count is an \<open>int\<close>. The collection \<open>go_simps\<close> gathers the
  equations that component proofs rewrite with.
\<close>

named_theorems go_simps

section \<open>Panics and errors as values\<close>

datatype go_panic =
  IndexOutOfRange | NilDereference | NilMapWrite | IntegerDivideByZero | MakeSliceLen | NegativeShift | TypeAssertion | OsExit | LibraryPanic

datatype 'a outcome = Ret 'a | Panic go_panic

fun andThen :: "'a outcome \<Rightarrow> ('a \<Rightarrow> 'b outcome) \<Rightarrow> 'b outcome" where
  "andThen (Ret x) f = f x"
| "andThen (Panic p) f = Panic p"

lemma andThen_Ret_iff:
  "andThen m f = Ret y \<longleftrightarrow> (\<exists>x. m = Ret x \<and> f x = Ret y)"
  by (cases m) auto

text \<open>A loop whose body may panic.\<close>

fun foldO :: "('s \<Rightarrow> 'x \<Rightarrow> 's outcome) \<Rightarrow> 's \<Rightarrow> 'x list \<Rightarrow> 's outcome" where
  "foldO f s [] = Ret s"
| "foldO f s (x # xs) = andThen (f s x) (\<lambda>s'. foldO f s' xs)"

datatype num_error = ErrSyntax | ErrRange

text \<open>
  \<open>Errorf fmt args\<close> is the error made by \<^verbatim>\<open>fmt.Errorf\<close> or
  \<^verbatim>\<open>errors.New\<close>; \<open>NumError\<close> comes from \<^verbatim>\<open>strconv\<close>;
  \<open>AppErrorPtr\<close> is a pointer to an \<^verbatim>\<open>rmderror.AppError\<close> with its code, message and
  wrapped error. The dynamic type of an error is the constructor.
\<close>

datatype goerror =
    Errorf string "string list"
  | NumError num_error string
  | AppErrorPtr int string "goerror option"

type_synonym 'a with_err = "'a \<times> goerror option"

section \<open>Indexing and integer arithmetic\<close>

definition go_index :: "'a list \<Rightarrow> int \<Rightarrow> 'a outcome" where
  "go_index xs i = (if 0 \<le> i \<and> i < int (length xs) then Ret (xs ! nat i) else Panic IndexOutOfRange)"

definition go_slice :: "'a list \<Rightarrow> int \<Rightarrow> int \<Rightarrow> 'a list outcome" where
  "go_slice xs lo hi =
     (if 0 \<le> lo \<and> lo \<le> hi \<and> hi \<le> int (length xs)
      then Ret (take (nat hi - nat lo) (drop (nat lo) xs)) else Panic IndexOutOfRange)"

text \<open>Go's integer division and remainder truncate towards zero.\<close>

definition go_div :: "int \<Rightarrow> int \<Rightarrow> int" where
  "go_div a b = sgn a * sgn b * (\<bar>a\<bar> div \<bar>b\<bar>)"

definition go_rem :: "int \<Rightarrow> int \<Rightarrow> int" where
  "go_rem a b = a - b * go_div a b"

lemma go_div_nonneg [simp]: "0 \<le> a \<Longrightarrow> 0 < b \<Longrightarrow> go_div a b = a div b"
  by (cases "a = 0") (simp_all add: go_div_def)

lemma go_rem_nonneg [simp]: "0 \<le> a \<Longrightarrow> 0 < b \<Longrightarrow> go_rem a b = a mod b"
  by (simp add: go_rem_def minus_mult_div_eq_mod)

text \<open>
  A left shift \<open>x << uint(n)\<close> of a 64-bit value by a signed count that the source converts to
  \<^verbatim>\<open>uint\<close>: a negative count becomes huge and the result is 0.
\<close>

definition go_shl :: "64 word \<Rightarrow> int \<Rightarrow> 64 word" where
  "go_shl x n = (if 0 \<le> n \<and> n < 64 then push_bit (nat n) x else 0)"

section \<open>Formatting and parsing of numbers (strconv, fmt)\<close>

definition digit_char :: "nat \<Rightarrow> char" where
  "digit_char d = ''0123456789abcdef'' ! d"

fun format_nat :: "nat \<Rightarrow> nat \<Rightarrow> string" where
  "format_nat b n =
     (if b < 2 then []
      else if n < b then [digit_char n]
      else format_nat b (n div b) @ [digit_char (n mod b)])"

declare format_nat.simps [simp del]

text \<open>\<^verbatim>\<open>strconv.Itoa\<close> and the verb \<^verbatim>\<open>%d\<close>.\<close>

definition Itoa :: "int \<Rightarrow> string" where
  "Itoa n = (if n < 0 then ''-'' @ format_nat 10 (nat (- n)) else format_nat 10 (nat n))"

text \<open>The verbs \<^verbatim>\<open>%x\<close> and \<^verbatim>\<open>%08x\<close> on a signed 64-bit value.\<close>

definition zero_pad :: "nat \<Rightarrow> string \<Rightarrow> string" where
  "zero_pad w s = replicate (w - length s) (CHR ''0'') @ s"

definition Sprintf_x :: "nat \<Rightarrow> 64 word \<Rightarrow> string" where
  "Sprintf_x w v =
     (if sint v < 0 then ''-'' @ zero_pad (w - 1) (format_nat 16 (nat (- sint v)))
      else zero_pad w (format_nat 16 (unat v)))"

definition digit_val :: "char \<Rightarrow> nat option" where
  "digit_val c =
     (let n = (of_char c :: nat)
      in if 48 \<le> n \<and> n \<le> 57 then Some (n - 48)
         else if 97 \<le> n \<and> n \<le> 122 then Some (n - 87)
         else if 65 \<le> n \<and> n \<le> 90 then Some (n - 55)
         else None)"

fun parse_uint :: "nat \<Rightarrow> nat \<Rightarrow> nat \<Rightarrow> string \<Rightarrow> nat \<times> num_error option" where
  "parse_uint b m acc [] = (acc, None)"
| "parse_uint b m acc (c # cs) =
     (case digit_val c of
        None \<Rightarrow> (0, Some ErrSyntax)
      | Some d \<Rightarrow>
          if b \<le> d then (0, Some ErrSyntax)
          else if m < acc * b + d then (m, Some ErrRange)
          else parse_uint b m (acc * b + d) cs)"

definition ParseUint :: "string \<Rightarrow> nat \<Rightarrow> nat \<Rightarrow> nat \<times> num_error option" where
  "ParseUint s b bits = (if s = [] then (0, Some ErrSyntax) else parse_uint b (2 ^ bits - 1) 0 s)"

definition ParseInt :: "string \<Rightarrow> nat \<Rightarrow> nat \<Rightarrow> int \<times> num_error option" where
  "ParseInt s b bits =
     (let neg = (s \<noteq> [] \<and> hd s = CHR ''-'');
          body = (if s \<noteq> [] \<and> (hd s = CHR ''-'' \<or> hd s = CHR ''+'') then tl s else s);
          cutoff = (2 :: int) ^ (bits - 1)
      in case ParseUint body b bits of
           (un, Some ErrSyntax) \<Rightarrow> (0, Some ErrSyntax)
         | (un, e) \<Rightarrow>
             if \<not> neg \<and> cutoff \<le> int un then (cutoff - 1, Some ErrRange)
             else if neg \<and> cutoff < int un then (- cutoff, Some ErrRange)
             else (if neg then - int un else int un, None))"

definition Atoi :: "string \<Rightarrow> int \<times> num_error option" where
  "Atoi s = ParseInt s 10 64"

definition num_err :: "num_error option \<Rightarrow> string \<Rightarrow> goerror option" where
  "num_err e s = map_option (\<lambda>k. NumError k s) e"

subsection \<open>Parsing what was printed\<close>

lemma less_16_cases:
  "d < (16 :: nat) \<Longrightarrow>
     d = 0 \<or> d = 1 \<or> d = 2 \<or> d = 3 \<or> d = 4 \<or> d = 5 \<or> d = 6 \<or> d = 7 \<or>
     d = 8 \<or> d = 9 \<or> d = 10 \<or> d = 11 \<or> d = 12 \<or> d = 13 \<or> d = 14 \<or> d = 15"
  by arith

lemma digit_val_digit_char [simp]: "d < 16 \<Longrightarrow> digit_val (digit_char d) = Some d"
  by (drule less_16_cases) (elim disjE; simp add: digit_char_def digit_val_def)

lemma digit_char_neq [simp]:
  "d < 16 \<Longrightarrow> digit_char d \<noteq> CHR '',''"
  "d < 16 \<Longrightarrow> digit_char d \<noteq> CHR ''-''"
  "d < 16 \<Longrightarrow> digit_char d \<noteq> CHR ''+''"
  "d < 16 \<Longrightarrow> digit_char d \<noteq> CHR ''^''"
  "d < 16 \<Longrightarrow> digit_char d \<noteq> CHR ''x''"
  "d < 16 \<Longrightarrow> digit_char d \<noteq> CHR ''X''"
  "d < 16 \<Longrightarrow> digit_char d \<noteq> CHR '';''"
  "d < 16 \<Longrightarrow> digit_char d \<noteq> CHR ''=''"
  "d < 16 \<Longrightarrow> digit_char d \<noteq> CHR '':''"
  "d < 16 \<Longrightarrow> digit_char d \<noteq> CHR ''\<newline>''"
  by (drule less_16_cases, elim disjE; simp add: digit_char_def)+

lemma format_nat_nonempty [simp]: "2 \<le> b \<Longrightarrow> format_nat b n \<noteq> []"
  by (subst format_nat.simps) auto

lemma format_nat_digits:
  "b \<le> 16 \<Longrightarrow> c \<in> set (format_nat b n) \<Longrightarrow> \<exists>d < b. c = digit_char d"
proof (induction b n rule: format_nat.induct)
  case (1 b n)
  have "2 \<le> b \<Longrightarrow> \<exists>d < b. digit_char (n mod b) = digit_char d"
    by (rule exI [of _ "n mod b"]) simp
  with 1 show ?case
    by (subst (asm) (2) format_nat.simps) (auto split: if_splits)
qed

lemma parse_uint_append:
  "parse_uint b m acc (xs @ ys) =
     (case parse_uint b m acc xs of (v, None) \<Rightarrow> parse_uint b m v ys | r \<Rightarrow> r)"
  by (induction xs arbitrary: acc) (auto split: option.splits)

lemma parse_format_nat:
  "2 \<le> b \<Longrightarrow> b \<le> 16 \<Longrightarrow> n \<le> m \<Longrightarrow> parse_uint b m 0 (format_nat b n) = (n, None)"
proof (induction b n rule: format_nat.induct)
  case (1 b n)
  show ?case
  proof (cases "n < b")
    case True
    with 1 show ?thesis by (subst format_nat.simps) simp
  next
    case False
    have "n div b \<le> m" using 1 by (meson div_le_dividend le_trans)
    with 1 False have IH: "parse_uint b m 0 (format_nat b (n div b)) = (n div b, None)"
      by simp
    have "n mod b < b" using 1 by simp
    moreover from this have "n mod b < 16" using 1 by linarith
    moreover have "n div b * b + n mod b = n" by simp
    ultimately show ?thesis
      using 1 False IH by (subst format_nat.simps) (simp add: parse_uint_append not_le [symmetric])
  qed
qed

lemma parse_uint_zeros:
  "0 < b \<Longrightarrow> parse_uint b m 0 (replicate k (CHR ''0'') @ s) = parse_uint b m 0 s"
proof (induction k)
  case (Suc k)
  have "digit_val (CHR ''0'') = Some 0" by (simp add: digit_val_def)
  with Suc show ?case by simp
qed simp

lemma ParseUint_format_nat:
  "2 \<le> b \<Longrightarrow> b \<le> 16 \<Longrightarrow> n < 2 ^ bits \<Longrightarrow>
   ParseUint (replicate k (CHR ''0'') @ format_nat b n) b bits = (n, None)"
  by (simp add: ParseUint_def parse_uint_zeros parse_format_nat)

lemma ParseUint_format_nat0 [go_simps]:
  "2 \<le> b \<Longrightarrow> b \<le> 16 \<Longrightarrow> n < 2 ^ bits \<Longrightarrow> ParseUint (format_nat b n) b bits = (n, None)"
  using ParseUint_format_nat [where k = 0] by simp

lemma hd_format_nat_digit: "2 \<le> b \<Longrightarrow> b \<le> 16 \<Longrightarrow> \<exists>d < b. hd (format_nat b n) = digit_char d"
  by (rule format_nat_digits [of _ _ n]) auto

lemma Atoi_Itoa [go_simps]:
  assumes "0 \<le> n" "n < 2 ^ 63"
  shows "Atoi (Itoa n) = (n, None)"
proof -
  obtain d where d: "d < 10" "hd (format_nat 10 (nat n)) = digit_char d"
    using hd_format_nat_digit [of 10 "nat n"] by auto
  have "ParseUint (format_nat 10 (nat n)) 10 64 = (nat n, None)"
    using assms by (intro ParseUint_format_nat0) (auto simp: nat_less_iff)
  moreover have "digit_char d \<noteq> CHR ''-''" "digit_char d \<noteq> CHR ''+''"
    using d by simp_all
  ultimately show ?thesis
    using assms d by (simp add: Atoi_def ParseInt_def Itoa_def Let_def)
qed

lemma Itoa_nonempty [simp]: "Itoa n \<noteq> []"
  by (simp add: Itoa_def)

lemma Itoa_digits: "0 \<le> n \<Longrightarrow> c \<in> set (Itoa n) \<Longrightarrow> \<exists>d < 10. c = digit_char d"
  using format_nat_digits [of 10 c "nat n"] by (simp add: Itoa_def)

section \<open>String functions (strings)\<close>

fun split_on :: "char \<Rightarrow> string \<Rightarrow> string list" where
  "split_on c [] = [[]]"
| "split_on c (x # xs) =
     (if x = c then [] # split_on c xs
      else (case split_on c xs of [] \<Rightarrow> [[x]] | y # ys \<Rightarrow> (x # y) # ys))"

fun join :: "string \<Rightarrow> string list \<Rightarrow> string" where
  "join sep [] = []"
| "join sep [x] = x"
| "join sep (x # y # ys) = x @ sep @ join sep (y # ys)"

text \<open>\<^verbatim>\<open>strings.SplitN(s, sep, 2)\<close> for a one-byte separator.\<close>

definition splitN2 :: "char \<Rightarrow> string \<Rightarrow> string list" where
  "splitN2 c s =
     (if c \<in> set s then [takeWhile (\<lambda>x. x \<noteq> c) s, tl (dropWhile (\<lambda>x. x \<noteq> c) s)] else [s])"

definition is_space :: "char \<Rightarrow> bool" where
  "is_space c \<longleftrightarrow> (let n = (of_char c :: nat) in n = 32 \<or> (9 \<le> n \<and> n \<le> 13))"

definition TrimLeft :: "string \<Rightarrow> string \<Rightarrow> string" where
  "TrimLeft s cutset = dropWhile (\<lambda>c. c \<in> set cutset) s"

definition TrimRight :: "string \<Rightarrow> string \<Rightarrow> string" where
  "TrimRight s cutset = rev (dropWhile (\<lambda>c. c \<in> set cutset) (rev s))"

definition TrimSpace :: "string \<Rightarrow> string" where
  "TrimSpace s = rev (dropWhile is_space (rev (dropWhile is_space s)))"

definition TrimPrefix :: "string \<Rightarrow> string \<Rightarrow> string" where
  "TrimPrefix s p = (if prefix p s then drop (length p) s else s)"

fun str_contains :: "string \<Rightarrow> string \<Rightarrow> bool" where
  "str_contains [] sub = (sub = [])"
| "str_contains (x # xs) sub = (prefix sub (x # xs) \<or> str_contains xs sub)"

lemma split_on_nonempty [simp]: "split_on c s \<noteq> []"
  by (induction s) (auto split: list.splits)

lemma split_on_no_sep [simp]: "c \<notin> set s \<Longrightarrow> split_on c s = [s]"
  by (induction s) auto

lemma split_on_append_sep:
  "c \<notin> set s \<Longrightarrow> split_on c (s @ c # t) = s # split_on c t"
  by (induction s) auto

lemma split_on_join [go_simps]:
  "xs \<noteq> [] \<Longrightarrow> \<forall>x \<in> set xs. c \<notin> set x \<Longrightarrow> split_on c (join [c] xs) = xs"
  by (induction "[c]" xs rule: join.induct) (auto simp: split_on_append_sep)

lemma join_chars: "c \<in> set (join sep xs) \<Longrightarrow> c \<in> set sep \<or> (\<exists>x \<in> set xs. c \<in> set x)"
  by (induction sep xs rule: join.induct) auto

lemma join_append: "xs \<noteq> [] \<Longrightarrow> join sep (xs @ [y]) = join sep xs @ sep @ y"
  by (induction sep xs rule: join.induct) auto

lemma join_Cons: "xs \<noteq> [] \<Longrightarrow> join sep (x # xs) = x @ sep @ join sep xs"
  by (cases xs) auto

lemma join_append2: "xs \<noteq> [] \<Longrightarrow> ys \<noteq> [] \<Longrightarrow> join sep (xs @ ys) = join sep xs @ sep @ join sep ys"
  by (induction xs rule: induct_list012) (auto simp: join_Cons)

lemma join_concat: "\<forall>xs \<in> set xss. xs \<noteq> [] \<Longrightarrow> join sep (map (join sep) xss) = join sep (concat xss)"
proof (induction xss)
  case (Cons xs xss)
  then show ?case by (cases "xss = []") (auto simp: join_Cons join_append2)
qed simp

lemma splitN2_sep [go_simps]:
  assumes "c \<notin> set s"
  shows "splitN2 c (s @ c # t) = [s, t]"
proof -
  have "\<forall>x \<in> set s. x \<noteq> c" using assms by auto
  then show ?thesis by (simp add: splitN2_def takeWhile_append dropWhile_append)
qed

definition HasPrefix :: "string \<Rightarrow> string \<Rightarrow> bool" where
  "HasPrefix s p = prefix p s"

text \<open>\<^verbatim>\<open>strings.Replace(s, c, "", -1)\<close> for a one-byte \<open>c\<close>.\<close>

definition RemoveChar :: "char \<Rightarrow> string \<Rightarrow> string" where
  "RemoveChar c s = filter (\<lambda>x. x \<noteq> c) s"

definition ToLower :: "string \<Rightarrow> string" where
  "ToLower = map (\<lambda>c. let n = (of_char c :: nat) in if 65 \<le> n \<and> n \<le> 90 then char_of (n + 32) else c)"

section \<open>Maps\<close>

text \<open>
  A Go map is its list of entries in the order a \<^verbatim>\<open>range\<close> loop happens to visit them, or
  \<open>None\<close> for the nil map, which can be read but not written. Go leaves the order open: what holds
  of the model for every such list holds of the program for every iteration order.
\<close>

type_synonym ('k, 'v) gomap = "('k \<times> 'v) list option"

definition gm_items :: "('k, 'v) gomap \<Rightarrow> ('k \<times> 'v) list" where
  "gm_items m = (case m of None \<Rightarrow> [] | Some xs \<Rightarrow> xs)"

definition gm_get :: "('k, 'v) gomap \<Rightarrow> 'k \<Rightarrow> 'v option" where
  "gm_get m k = map_of (gm_items m) k"

fun al_put :: "'k \<Rightarrow> 'v \<Rightarrow> ('k \<times> 'v) list \<Rightarrow> ('k \<times> 'v) list" where
  "al_put k v [] = [(k, v)]"
| "al_put k v ((k', v') # xs) = (if k' = k then (k, v) # xs else (k', v') # al_put k v xs)"

definition gm_put :: "('k, 'v) gomap \<Rightarrow> 'k \<Rightarrow> 'v \<Rightarrow> ('k, 'v) gomap outcome" where
  "gm_put m k v = (case m of None \<Rightarrow> Panic NilMapWrite | Some xs \<Rightarrow> Ret (Some (al_put k v xs)))"

definition gm_wf :: "('k, 'v) gomap \<Rightarrow> bool" where
  "gm_wf m = distinct (map fst (gm_items m))"

lemma map_of_al_put [simp]: "map_of (al_put k v xs) = (map_of xs)(k \<mapsto> v)"
  by (induction xs) auto

lemma keys_al_put: "fst ` set (al_put k v xs) = insert k (fst ` set xs)"
  by (induction k v xs rule: al_put.induct) (auto simp: insert_commute)

lemma distinct_al_put [simp]: "distinct (map fst xs) \<Longrightarrow> distinct (map fst (al_put k v xs))"
proof (induction xs)
  case (Cons x xs)
  then show ?case using keys_al_put [of k v xs] by (cases x) (auto simp: image_iff)
qed simp

lemma al_put_fresh: "k \<notin> fst ` set xs \<Longrightarrow> al_put k v xs = xs @ [(k, v)]"
  by (induction xs) auto

lemma al_put_last: "k \<notin> fst ` set xs \<Longrightarrow> al_put k v (xs @ [(k, v')]) = xs @ [(k, v)]"
  by (induction xs) auto

lemma gm_get_put: "gm_put m k v = Ret m' \<Longrightarrow> gm_get m' = (gm_get m)(k \<mapsto> v)"
  by (auto simp: gm_put_def gm_get_def gm_items_def split: option.splits)

section \<open>Calls that leave the program\<close>

text \<open>
  The answer of code outside the repository (a C library, the operating system, a data base) to a
  call is a function of the calls made so far and of the call itself. The history is part of the
  state, so what the program asks for, and in which order, is visible in the theorems.
\<close>

definition extcall :: "('c list \<Rightarrow> 'c \<Rightarrow> 'r) \<Rightarrow> 'c \<Rightarrow> 'c list \<Rightarrow> 'r \<times> 'c list" where
  "extcall env c h = (env h c, h @ [c])"

end
