(* ===== verification/Bitmap.thy ===== *)
theory Bitmap
  imports Prelude
begin

unbundle bit_operations_syntax

text \<open>
  The bit maps of \<^verbatim>\<open>utils/bitmap/bitmap.go\<close>: CPU lists and cache-way masks as a
  length and a slice of 32-bit chunks, each kept in a Go \<^verbatim>\<open>int\<close>. Construction from
  hexadecimal masks and from human-style lists such as \<^verbatim>\<open>2-8,^3-4\<close>, the set
  operations, printing, and the search for runs of consecutive bits. Every read that Go checks at
  run time is checked here, so a panic of the code is a \<open>Panic\<close> of the model.
  Only the definitions are here; their correctness is in the theories \<open>Bitmap_Sets\<close>, \<open>Bitmap_Text\<close>,
  \<open>Bitmap_Parse\<close>, \<open>Bitmap_Hex\<close> and \<open>Bitmap_Runs\<close>.
\<close>

record bitmap =
  Len :: int
  Bits :: "64 word list"

text \<open>The dynamic types \<^verbatim>\<open>NewBitmap\<close> distinguishes among its variadic arguments.\<close>

datatype bm_arg = ArgInt int | ArgStrings "string list" | ArgString string | ArgOther

section \<open>Parsing human-style lists\<close>

definition is_digit :: "char \<Rightarrow> bool" where
  "is_digit c \<longleftrightarrow> (let n = (of_char c :: nat) in 48 \<le> n \<and> n \<le> 57)"

text \<open>All maximal runs of digits (the regular expression \<^verbatim>\<open>AllDatas\<close>).\<close>

fun AllDatas :: "string \<Rightarrow> string \<Rightarrow> string list" where
  "AllDatas cur [] = (if cur = [] then [] else [cur])"
| "AllDatas cur (c # cs) =
     (if is_digit c then AllDatas (cur @ [c]) cs
      else (if cur = [] then [] else [cur]) @ AllDatas [] cs)"

definition lenHumanStyle :: "string list \<Rightarrow> int outcome" where
  "lenHumanStyle scope =
     (let m = AllDatas [] (join '','' scope);
          n = map Atoi m
      in if \<exists>r \<in> set n. snd r \<noteq> None then Ret (- 1)
         else case map fst n of
                [] \<Rightarrow> Panic IndexOutOfRange
              | x # xs \<Rightarrow> Ret (foldl (\<lambda>mx v. if mx < v then v else mx) x (x # xs)))"

text \<open>
  \<^verbatim>\<open>BitMapBadExpression\<close> finds a match exactly when the text holds a character
  other than digits, \<^verbatim>\<open>^\<close>, \<^verbatim>\<open>-\<close> and the comma, a hyphen with a non-digit on
  either side, a caret followed by a non-digit, or a caret at the end.
\<close>

definition allowed_char :: "char \<Rightarrow> bool" where
  "allowed_char c \<longleftrightarrow> is_digit c \<or> c \<in> {CHR ''^'', CHR ''-'', CHR '',''}"

definition bad_pair :: "char \<Rightarrow> char \<Rightarrow> bool" where
  "bad_pair a b \<longleftrightarrow>
     (\<not> is_digit a \<and> b = CHR ''-'') \<or> (a = CHR ''-'' \<and> \<not> is_digit b) \<or>
     (a = CHR ''^'' \<and> \<not> is_digit b)"

fun BitMapBadExpression :: "string \<Rightarrow> bool" where
  "BitMapBadExpression [] = False"
| "BitMapBadExpression [c] = (\<not> allowed_char c \<or> c = CHR ''^'')"
| "BitMapBadExpression (a # b # cs) =
     (\<not> allowed_char a \<or> bad_pair a b \<or> BitMapBadExpression (b # cs))"

fun sliceString2Int :: "string list \<Rightarrow> int list with_err" where
  "sliceString2Int [] = ([], None)"
| "sliceString2Int (v # vs) =
     (case ParseInt v 10 32 of
        (ni, Some e) \<Rightarrow> (ni # replicate (length vs) 0, num_err (Some e) v)
      | (ni, None) \<Rightarrow> (case sliceString2Int vs of (r, e) \<Rightarrow> (ni # r, e)))"

definition genBitmap :: "int \<Rightarrow> 64 word list outcome" where
  "genBitmap num =
     (let n = go_div (num + 32 - 1) 32
      in if n < 0 then Panic MakeSliceLen else Ret (replicate (nat n) 0))"

definition hyphenSpan :: "string \<Rightarrow> (64 word) with_err outcome" where
  "hyphenSpan scope =
     (case splitN2 (CHR ''-'') scope of
        [s0, s1] \<Rightarrow>
          (case Atoi s0 of
             (_, Some e) \<Rightarrow> Ret (0, num_err (Some e) s0)
           | (low, None) \<Rightarrow>
               (case Atoi s1 of
                  (_, Some e) \<Rightarrow> Ret (0, num_err (Some e) s1)
                | (high, None) \<Rightarrow>
                    (let l = go_rem low 32; h = go_rem high 32
                     in Ret (go_shl (go_shl 1 (h - l + 1) - 1) l, None))))
      | _ \<Rightarrow> Panic IndexOutOfRange)"

definition singleBit :: "int \<Rightarrow> 64 word" where
  "singleBit n = go_shl 1 n"

definition setOrClear :: "bool \<Rightarrow> 64 word \<Rightarrow> 64 word \<Rightarrow> 64 word" where
  "setOrClear sign bits sv = (if sign then bits OR sv else bits AND NOT sv)"

fun fillScopes :: "64 word \<Rightarrow> string list \<Rightarrow> (64 word) with_err outcome" where
  "fillScopes bits [] = Ret (bits, None)"
| "fillScopes bits (v0 # vs) =
     (let sign = (CHR ''^'' \<notin> set v0);
          v = (if sign then v0 else TrimLeft (TrimSpace v0) ''^'')
      in if CHR ''-'' \<in> set v
         then andThen (hyphenSpan v) (\<lambda>(sv, e).
                case e of Some _ \<Rightarrow> Ret (bits, e)
                | None \<Rightarrow> fillScopes (setOrClear sign bits sv) vs)
         else (case Atoi v of
                 (_, Some e) \<Rightarrow> Ret (bits, num_err (Some e) v)
               | (vi, None) \<Rightarrow> fillScopes (setOrClear sign bits (singleBit (go_rem vi 32))) vs))"

definition fillBitMap :: "64 word \<Rightarrow> string \<Rightarrow> (64 word) with_err outcome" where
  "fillBitMap bits scope = fillScopes bits (split_on (CHR '','') scope)"

definition isSpan :: "string \<Rightarrow> bool" where
  "isSpan span \<longleftrightarrow> CHR ''-'' \<in> set span"

definition locate :: "int \<Rightarrow> int" where
  "locate pos = go_div pos 32"

definition spanPhypen2int :: "string \<Rightarrow> (int \<times> int) with_err outcome" where
  "spanPhypen2int span =
     (case splitN2 (CHR ''-'') span of
        [s0, s1] \<Rightarrow>
          (case Atoi s0 of
             (_, Some e) \<Rightarrow> Ret ((0, 0), num_err (Some e) s0)
           | (low, None) \<Rightarrow>
               (case Atoi s1 of
                  (_, Some e) \<Rightarrow> Ret ((low, 0), num_err (Some e) s1)
                | (high, None) \<Rightarrow> Ret ((low, high), None)))
      | [s0] \<Rightarrow>
          (case Atoi s0 of
             (_, Some e) \<Rightarrow> Ret ((0, 0), num_err (Some e) s0)
           | (low, None) \<Rightarrow> Panic IndexOutOfRange)
      | _ \<Rightarrow> Panic IndexOutOfRange)"

text \<open>A span that crosses a 32-bit boundary is cut at the boundaries and printed again.\<close>

definition spanPiece :: "bool \<Rightarrow> int \<Rightarrow> int \<Rightarrow> int \<Rightarrow> string" where
  "spanPiece sign low high i =
     (let e = (if (i + 1) * 32 - 1 < high then (i + 1) * 32 - 1 else high);
          b = (if go_div low 32 < i then i * 32 else low);
          s = Itoa b @ ''-'' @ Itoa e
      in if sign then s else ''^'' @ s)"

definition silitSpan :: "string \<Rightarrow> string list with_err outcome" where
  "silitSpan span0 =
     (if \<not> isSpan span0 then Ret ([], None)
      else
        let sign = (CHR ''^'' \<notin> set span0);
            span = (if sign then span0 else TrimSpace span0);
            v = (if sign then span0 else TrimLeft span ''^'')
        in andThen (spanPhypen2int v) (\<lambda>((low, high), err).
             case err of
               Some _ \<Rightarrow> Ret ([], err)
             | None \<Rightarrow>
                 if go_div high 32 = go_div low 32 then Ret ([span], None)
                 else Ret (map (spanPiece sign low high) [go_div low 32 .. go_div high 32], None)))"

definition fillAt :: "64 word list \<Rightarrow> int \<Rightarrow> string \<Rightarrow> 64 word list outcome" where
  "fillAt ws pos span =
     andThen (go_index ws pos) (\<lambda>w.
       andThen (fillBitMap w span) (\<lambda>(w', _). Ret (ws[nat pos := w'])))"

fun fillSpans :: "64 word list \<Rightarrow> string list \<Rightarrow> 64 word list outcome" where
  "fillSpans ws [] = Ret ws"
| "fillSpans ws (span0 # spans) =
     (let span = TrimSpace span0
      in andThen (spanPhypen2int (TrimLeft span ''^'')) (\<lambda>((low, _), _).
           andThen (fillAt ws (locate low) span) (\<lambda>ws'. fillSpans ws' spans)))"

fun genScopes :: "64 word list \<Rightarrow> string list \<Rightarrow> (64 word list) with_err outcome" where
  "genScopes ws [] = Ret (ws, None)"
| "genScopes ws (v # vs) =
     (if isSpan v
      then andThen (silitSpan v) (\<lambda>(spans, err).
             case err of
               Some _ \<Rightarrow> Ret (ws, err)
             | None \<Rightarrow> andThen (fillSpans ws spans) (\<lambda>ws'. genScopes ws' vs))
      else (case Atoi (TrimLeft v ''^'') of
              (_, Some e) \<Rightarrow> Ret (ws, num_err (Some e) (TrimLeft v ''^''))
            | (i, None) \<Rightarrow> andThen (fillAt ws (locate i) v) (\<lambda>ws'. genScopes ws' vs)))"

fun genMapList :: "64 word list \<Rightarrow> string list \<Rightarrow> (64 word list) with_err outcome" where
  "genMapList ws [] = Ret (ws, None)"
| "genMapList ws (v # vs) =
     (if BitMapBadExpression v then Ret (ws, Some (Errorf ''wrong expression : %s'' [v]))
      else andThen (genScopes ws (split_on (CHR '','') v)) (\<lambda>(ws', err).
             case err of Some _ \<Rightarrow> Ret (ws', err) | None \<Rightarrow> genMapList ws' vs))"

definition genBits :: "string list \<Rightarrow> int \<Rightarrow> (64 word list) with_err outcome" where
  "genBits mapList bitLen = andThen (genBitmap bitLen) (\<lambda>ws. genMapList ws mapList)"

text \<open>\<^verbatim>\<open>GenCPUResString\<close> prints each chunk with \<^verbatim>\<open>%x\<close>, lowest chunk last.\<close>

definition GenCPUResString :: "string list \<Rightarrow> int \<Rightarrow> string with_err outcome" where
  "GenCPUResString mapList bitLen =
     andThen (genBits mapList bitLen) (\<lambda>(ws, err).
       case err of Some _ \<Rightarrow> Ret ([], err)
       | None \<Rightarrow> Ret (join '','' (rev (map (Sprintf_x 0) ws)), None))"

section \<open>Parsing hexadecimal masks\<close>

text \<open>\<^verbatim>\<open>unsafe.Sizeof(uint)\<close> is 8 on the 64-bit targets the program is built for.\<close>

definition intLen :: nat where
  "intLen = 8"

fun string2dataComma :: "string \<Rightarrow> nat \<Rightarrow> string list \<Rightarrow> 64 word list \<Rightarrow> (64 word list) with_err" where
  "string2dataComma s i [] datas = (datas, None)"
| "string2dataComma s i (v # vs) datas =
     (if intLen < length v
      then (datas, Some (Errorf ''String lenth > %d'' [Itoa (int intLen)]))
      else (case ParseUint v 16 32 of
              (ui, None) \<Rightarrow>
                string2dataComma s (Suc i) vs (datas[length datas - 1 - i := of_nat ui])
            | (_, Some _) \<Rightarrow> (datas, Some (Errorf ''Can not parser %s in %s'' [v, s]))))"

definition hexPart :: "string \<Rightarrow> nat \<Rightarrow> string" where
  "hexPart s i =
     (let l = int (length s);
          start = l - (int i + 1) * int intLen;
          e = l - int i * int intLen
      in if 0 < start then take (nat e - nat start) (drop (nat start) s) else take (nat e) s)"

fun string2dataPlain :: "string \<Rightarrow> nat list \<Rightarrow> 64 word list \<Rightarrow> (64 word list) with_err" where
  "string2dataPlain s [] datas = (datas, None)"
| "string2dataPlain s (i # is) datas =
     (case ParseUint (hexPart s i) 16 32 of
        (ui, None) \<Rightarrow> string2dataPlain s is (datas[i := of_nat ui])
      | (_, Some _) \<Rightarrow> (datas, Some (Errorf ''Can not parser %s in  %s'' [hexPart s i, s])))"

definition string2data :: "string \<Rightarrow> (64 word list) with_err" where
  "string2data s0 =
     (let s = TrimPrefix (TrimPrefix s0 ''0x'') ''0X''
      in if CHR '','' \<in> set s
         then (let ss = split_on (CHR '','') s
               in string2dataComma s 0 ss (replicate (length ss) 0))
         else (let n = nat (go_div (int (length s) - 1 + int intLen) (int intLen))
               in string2dataPlain s [0..<n] (replicate n 0)))"

definition genBitsFromHexString :: "string \<Rightarrow> (64 word list) with_err" where
  "genBitsFromHexString s = string2data s"

section \<open>Construction\<close>

fun newLen :: "int \<Rightarrow> bm_arg list \<Rightarrow> int" where
  "newLen l [] = l"
| "newLen l (ArgInt v # as) = newLen v as"
| "newLen l (_ # as) = newLen l as"

fun newFromArgs :: "int \<Rightarrow> bm_arg list \<Rightarrow> bitmap with_err outcome" where
  "newFromArgs l [] = andThen (genBitmap l) (\<lambda>ws. Ret (\<lparr>Len = l, Bits = ws\<rparr>, None))"
| "newFromArgs l (ArgStrings v # as) =
     andThen (if l = 0 then andThen (lenHumanStyle v) (\<lambda>m. Ret (m + 1)) else Ret l) (\<lambda>l'.
       andThen (genBits v l') (\<lambda>(ws, err). Ret (\<lparr>Len = l', Bits = ws\<rparr>, err)))"
| "newFromArgs l (ArgString v # as) =
     (case genBitsFromHexString v of (ws, err) \<Rightarrow>
        Ret (\<lparr>Len = (if l = 0 then int (length ws) * 32 else l), Bits = ws\<rparr>, err))"
| "newFromArgs l (ArgInt v # as) = newFromArgs l as"
| "newFromArgs l (ArgOther # as) =
     Ret (\<lparr>Len = l, Bits = []\<rparr>, Some (Errorf ''Unknown value type'' []))"

definition NewBitmap :: "bm_arg list \<Rightarrow> bitmap with_err outcome" where
  "NewBitmap value = newFromArgs (newLen 0 (take 2 value)) value"

text \<open>\<open>NewBitmap\<close> as the sources call it when they ignore the error: \<^verbatim>\<open>r, _ := NewBitmap(...)\<close>.\<close>

definition NewBitmapIgn :: "bm_arg list \<Rightarrow> bitmap outcome" where
  "NewBitmapIgn value = andThen (NewBitmap value) (\<lambda>(b, _). Ret b)"

section \<open>Set operations\<close>

definition go_copy :: "'a list \<Rightarrow> 'a list \<Rightarrow> 'a list" where
  "go_copy dst src = take (length dst) src @ drop (length src) dst"

text \<open>
  The loop \<^verbatim>\<open>for i := 0; i < minc; i++ { r.Bits[i] = f(maxb.Bits[i], minb.Bits[i]) }\<close>.
\<close>

fun combine :: "(64 word \<Rightarrow> 64 word \<Rightarrow> 64 word) \<Rightarrow> 64 word list \<Rightarrow> 64 word list \<Rightarrow> 64 word list
    \<Rightarrow> 64 word list outcome" where
  "combine f r xs [] = Ret r"
| "combine f (r # rs) (x # xs) (y # ys) = andThen (combine f rs xs ys) (\<lambda>t. Ret (f x y # t))"
| "combine f r xs ys = Panic IndexOutOfRange"

definition bm_max :: "bitmap \<Rightarrow> bitmap \<Rightarrow> bitmap" where
  "bm_max b m = (if Len b < Len m then m else b)"

definition bm_min :: "bitmap \<Rightarrow> bitmap \<Rightarrow> bitmap" where
  "bm_min b m = (if Len b < Len m then b else m)"

definition bm_Or :: "bitmap \<Rightarrow> bitmap \<Rightarrow> bitmap outcome" where
  "bm_Or b m =
     (let maxb = bm_max b m; minb = bm_min b m
      in andThen (NewBitmapIgn [ArgInt (Len maxb)]) (\<lambda>r.
           andThen (combine (\<lambda>x y. x OR y) (go_copy (Bits r) (Bits maxb)) (Bits maxb) (Bits minb)) (\<lambda>ws.
             Ret (r\<lparr>Bits := ws\<rparr>))))"

definition bm_And :: "bitmap \<Rightarrow> bitmap \<Rightarrow> bitmap outcome" where
  "bm_And b m =
     (let maxb = bm_max b m; minb = bm_min b m
      in andThen (NewBitmapIgn [ArgInt (Len minb)]) (\<lambda>r.
           andThen (combine (\<lambda>x y. x AND y) (Bits r) (Bits maxb) (Bits minb)) (\<lambda>ws.
             Ret (r\<lparr>Bits := ws\<rparr>))))"

definition bm_Xor :: "bitmap \<Rightarrow> bitmap \<Rightarrow> bitmap outcome" where
  "bm_Xor b m =
     (let maxb = bm_max b m; minb = bm_min b m
      in andThen (NewBitmapIgn [ArgInt (Len maxb)]) (\<lambda>r.
           andThen (combine (\<lambda>x y. x XOR y) (go_copy (Bits r) (Bits maxb)) (Bits maxb) (Bits minb)) (\<lambda>ws.
             Ret (r\<lparr>Bits := ws\<rparr>))))"

definition bm_Axor :: "bitmap \<Rightarrow> bitmap \<Rightarrow> bitmap outcome" where
  "bm_Axor b m =
     (let maxb = bm_max b m; minb = bm_min b m; longer = (Len b = Len maxb)
      in andThen (NewBitmapIgn [ArgInt (if longer then Len maxb else Len minb)]) (\<lambda>r0.
           let r = (if longer then go_copy (Bits r0) (Bits maxb) else Bits r0)
           in andThen (combine (\<lambda>x y. (x XOR y) AND (if longer then x else y)) r (Bits maxb) (Bits minb))
                (\<lambda>ws. Ret (r0\<lparr>Bits := ws\<rparr>))))"

definition IsEmpty :: "bitmap \<Rightarrow> bool" where
  "IsEmpty b = (case Bits b of [] \<Rightarrow> True | w # ws \<Rightarrow> foldl (\<lambda>r v. r OR v) w ws = 0)"

function maximumLoop :: "64 word \<Rightarrow> nat \<Rightarrow> nat" where
  "maximumLoop val mx = (if 0 < sint val then maximumLoop (signed_drop_bit 1 val) (Suc mx) else mx)"
  by pat_completeness auto
termination
  by (relation "measure (\<lambda>(val, mx). nat (sint val))") (auto simp: sint_signed_drop_bit_eq drop_bit_eq_div)

declare maximumLoop.simps [simp del]

definition Maximum :: "bitmap \<Rightarrow> 32 word" where
  "Maximum b =
     (if Bits b = [] then 0
      else of_nat (maximumLoop (last (Bits b)) 0 + 8 * 4 * (length (Bits b) - 1)))"

section \<open>Printing\<close>

fun toStringLoop :: "nat \<Rightarrow> nat \<Rightarrow> 64 word list \<Rightarrow> string \<Rightarrow> string" where
  "toStringLoop l i [] str = str"
| "toStringLoop l i (v # vs) str =
     (let s = (if i + 1 = l then Sprintf_x 0 v else Sprintf_x 8 v)
      in toStringLoop l (Suc i) vs (if i = 0 then s else s @ '','' @ str))"

definition ToString :: "bitmap \<Rightarrow> string" where
  "ToString b = toStringLoop (length (Bits b)) 0 (Bits b) []"

definition binChunk :: "int \<Rightarrow> bool \<Rightarrow> 64 word \<Rightarrow> string" where
  "binChunk ln isLast v =
     (let rb = format_nat 2 (unat v);
          l = int (length rb);
          end0 = (if l \<le> 32 then 32 - l else 0);
          e = (if isLast \<and> l \<le> go_rem ln 32 then go_rem ln 32 - l else end0)
      in replicate (nat e) (CHR ''0'') @ rb)"

fun toBinLoop :: "int \<Rightarrow> nat \<Rightarrow> nat \<Rightarrow> 64 word list \<Rightarrow> string \<Rightarrow> string" where
  "toBinLoop ln n i [] ts = ts"
| "toBinLoop ln n i (v # vs) ts =
     (let s = binChunk ln (n = i + 1) v
      in toBinLoop ln n (Suc i) vs (if i = 0 then s else s @ '','' @ ts))"

definition ToBinString :: "bitmap \<Rightarrow> string" where
  "ToBinString b = toBinLoop (Len b) (length (Bits b)) 0 (Bits b) []"

text \<open>The text of \<open>ToBinString\<close> with the commas dropped, highest bit first.\<close>

definition binText :: "bitmap \<Rightarrow> string" where
  "binText b = filter (\<lambda>c. c \<noteq> CHR '','') (ToBinString b)"

text \<open>
  The loop of \<^verbatim>\<open>ToBinStrings\<close>, from index \<open>Len - 1\<close> down to 0; its state is
  the slices found so far, \<^verbatim>\<open>orgV\<close> and \<^verbatim>\<open>orgIndex\<close>.
\<close>

fun binStringsLoop :: "string \<Rightarrow> nat \<Rightarrow> string list \<Rightarrow> char \<Rightarrow> int \<Rightarrow> string list outcome" where
  "binStringsLoop ts 0 ss orgV orgIndex = Ret ss"
| "binStringsLoop ts (Suc i) ss orgV orgIndex =
     andThen (go_index ts (int i)) (\<lambda>c.
       andThen (if c \<noteq> orgV
                then andThen (go_slice ts (int i + 1) orgIndex) (\<lambda>p. Ret (ss @ [p], c, int i + 1))
                else Ret (ss, orgV, orgIndex)) (\<lambda>(ss1, v1, ix1).
         andThen (if i = 0 then andThen (go_slice ts 0 ix1) (\<lambda>p. Ret (ss1 @ [p])) else Ret ss1) (\<lambda>ss2.
           binStringsLoop ts i ss2 v1 ix1)))"

definition ToBinStrings :: "bitmap \<Rightarrow> string list outcome" where
  "ToBinStrings b =
     (let ts = binText b
      in if length ts < 1 then Ret []
         else binStringsLoop ts (nat (Len b)) [] (last ts) (int (length ts)))"

fun humanLoop :: "string list \<Rightarrow> int \<Rightarrow> string list outcome" where
  "humanLoop [] pos = Ret []"
| "humanLoop (v # vs) pos =
     andThen (go_index v 0) (\<lambda>c.
       andThen (humanLoop vs (pos + int (length v))) (\<lambda>hs.
         Ret (if c = CHR ''1''
              then (if length v = 1 then Itoa pos
                    else Itoa pos @ ''-'' @ Itoa (pos + int (length v) - 1)) # hs
              else hs)))"

definition ToHumanString :: "bitmap \<Rightarrow> string outcome" where
  "ToHumanString b =
     andThen (ToBinStrings b) (\<lambda>ts.
       andThen (humanLoop ts 0) (\<lambda>hs. Ret (join '','' (if hs = [] then [''''] else hs))))"

section \<open>Runs of consecutive bits\<close>

text \<open>The state of the first loop of \<^verbatim>\<open>MaxConnectiveBits\<close>: tot length, longest run so far, its start.\<close>

fun maxRunLoop :: "string list \<Rightarrow> int \<Rightarrow> int \<Rightarrow> int \<Rightarrow> int \<times> int" where
  "maxRunLoop [] totalLen maxLen cur = (maxLen, cur)"
| "maxRunLoop (v # vs) totalLen maxLen cur =
     (let l = int (length v)
      in if CHR ''1'' \<in> set v \<and> maxLen < l
         then maxRunLoop vs (totalLen + l) l totalLen
         else maxRunLoop vs (totalLen + l) maxLen cur)"

definition MaxConnectiveBits :: "bitmap \<Rightarrow> bitmap outcome" where
  "MaxConnectiveBits b =
     andThen (ToBinStrings b) (\<lambda>ss.
       case maxRunLoop ss 0 0 0 of (maxLen, cur) \<Rightarrow>
         if maxLen = 0 then NewBitmapIgn [ArgInt (Len b)]
         else NewBitmapIgn [ArgInt (Len b),
                ArgStrings [if maxLen = 1 then Itoa cur else Itoa cur @ ''-'' @ Itoa (cur + maxLen - 1)]])"

text \<open>
  The two search loops of \<^verbatim>\<open>GetConnectiveBits\<close> over a list of indices: \<open>tot\<close> counts
  the ones in a row and the loop breaks when it reaches \<open>ways\<close>.
\<close>

fun scanLoop :: "string \<Rightarrow> 32 word \<Rightarrow> int list \<Rightarrow> 32 word \<Rightarrow> (32 word \<times> 32 word) outcome" where
  "scanLoop ts ways [] tot = Ret (tot, 0)"
| "scanLoop ts ways (i # is) tot =
     andThen (go_index ts i) (\<lambda>c.
       if c = CHR ''1''
       then (if ways \<le> tot + 1 then Ret (tot + 1, of_int i) else scanLoop ts ways is (tot + 1))
       else scanLoop ts ways is 0)"

definition connScope :: "int \<Rightarrow> 32 word \<Rightarrow> 32 word \<Rightarrow> bool \<Rightarrow> string" where
  "connScope ln cur ways fromLow =
     (let u = (of_int ln :: 32 word) - 1 - cur
      in if 1 < ways
         then (if fromLow
               then Itoa (uint (u - (ways - 1))) @ ''-'' @ Itoa (uint u)
               else Itoa (uint u) @ ''-'' @ Itoa (uint (u + (ways - 1))))
         else Itoa (ln - 1 - uint cur))"

definition GetConnectiveBits :: "bitmap \<Rightarrow> 32 word \<Rightarrow> 32 word \<Rightarrow> bool \<Rightarrow> bitmap outcome" where
  "GetConnectiveBits b ways offset fromLow =
     (let ts = binText b
      in if of_nat (length ts) < offset + ways then NewBitmapIgn [ArgInt (Len b)]
         else
           andThen (scanLoop ts ways
                      (if fromLow then rev [0 .. Len b - 1 - uint offset]
                       else [uint offset .. uint (of_int (Len b) :: 32 word) - 1]) 0) (\<lambda>(tot, cur).
             if tot < ways then NewBitmapIgn [ArgInt (Len b)]
             else NewBitmapIgn [ArgInt (Len b), ArgStrings [connScope (Len b) cur ways fromLow]]))"

end
