(* ===== verification/Bitmap_Sets.thy ===== *)
theory Bitmap_Sets
  imports Bitmap
begin

unbundle bit_operations_syntax

text \<open>
  Bit maps as sets of positions. \<open>bm_set\<close> is the abstraction, \<open>bm_wf\<close> the representation
  invariant: as many chunks as the length needs, no bit above bit 31 of a chunk, no position at or
  past the length. The locale \<open>bitset\<close> is the contract clients of the bit maps rely on; the
  cache-pool code is proved against it.
\<close>

section \<open>Abstraction and invariant\<close>

definition chunk_ok :: "64 word \<Rightarrow> bool" where
  "chunk_ok w \<longleftrightarrow> (\<forall>n. bit w n \<longrightarrow> n < 32)"

definition bits_set :: "64 word list \<Rightarrow> nat set" where
  "bits_set ws = {p. p div 32 < length ws \<and> bit (ws ! (p div 32)) (p mod 32)}"

definition bm_set :: "bitmap \<Rightarrow> nat set" where
  "bm_set b = bits_set (Bits b)"

definition chunks_for :: "int \<Rightarrow> nat" where
  "chunks_for l = nat ((l + 31) div 32)"

definition bm_wf :: "bitmap \<Rightarrow> bool" where
  "bm_wf b \<longleftrightarrow> 0 \<le> Len b \<and> length (Bits b) = chunks_for (Len b) \<and>
     (\<forall>w \<in> set (Bits b). chunk_ok w) \<and> bm_set b \<subseteq> {..<nat (Len b)}"

lemma bm_wfD:
  assumes "bm_wf b"
  shows "0 \<le> Len b" "length (Bits b) = chunks_for (Len b)"
    "w \<in> set (Bits b) \<Longrightarrow> chunk_ok w" "bm_set b \<subseteq> {..<nat (Len b)}"
  using assms by (auto simp: bm_wf_def)

lemma chunks_for_mono: "l \<le> m \<Longrightarrow> chunks_for l \<le> chunks_for m"
  unfolding chunks_for_def by (intro nat_mono zdiv_mono1) auto

lemma chunk_ok_0 [simp, intro]: "chunk_ok 0"
  by (simp add: chunk_ok_def)

lemma chunk_ok_ops:
  "chunk_ok x \<Longrightarrow> chunk_ok y \<Longrightarrow> chunk_ok (x OR y)"
  "chunk_ok x \<Longrightarrow> chunk_ok y \<Longrightarrow> chunk_ok (x XOR y)"
  "chunk_ok x \<Longrightarrow> chunk_ok (x AND y)"
  "chunk_ok y \<Longrightarrow> chunk_ok (x AND y)"
  by (auto simp: chunk_ok_def bit_or_iff bit_xor_iff bit_and_iff)

lemma bits_set_replicate [simp]: "bits_set (replicate n 0) = {}"
  by (auto simp: bits_set_def)

lemma bits_set_Nil [simp]: "bits_set [] = {}"
  by (simp add: bits_set_def)

lemma bits_set_zero_iff:
  assumes "\<forall>w \<in> set ws. chunk_ok w"
  shows "bits_set ws = {} \<longleftrightarrow> (\<forall>w \<in> set ws. w = 0)"
proof
  assume e: "bits_set ws = {}"
  show "\<forall>w \<in> set ws. w = 0"
  proof
    fix w assume "w \<in> set ws"
    then obtain k where k: "k < length ws" "ws ! k = w" by (auto simp: in_set_conv_nth)
    have "\<not> bit w n" for n
    proof
      assume "bit w n"
      with assms \<open>w \<in> set ws\<close> have "n < 32" by (auto simp: chunk_ok_def)
      with k \<open>bit w n\<close> have "32 * k + n \<in> bits_set ws" by (simp add: bits_set_def)
      with e show False by blast
    qed
    then show "w = 0" by (intro bit_eqI) simp
  qed
qed (auto simp: bits_set_def all_set_conv_all_nth)

section \<open>The representation is made and combined as sets\<close>

lemma genBitmap_Ret [go_simps]: "0 \<le> l \<Longrightarrow> genBitmap l = Ret (replicate (chunks_for l) 0)"
  by (simp add: genBitmap_def chunks_for_def Let_def add.commute not_less pos_imp_zdiv_nonneg_iff)

lemma NewBitmap_int [go_simps]:
  "0 \<le> l \<Longrightarrow> NewBitmapIgn [ArgInt l] = Ret \<lparr>Len = l, Bits = replicate (chunks_for l) 0\<rparr>"
  by (simp add: NewBitmapIgn_def NewBitmap_def genBitmap_Ret)

lemma bm_wf_zero [simp]: "0 \<le> l \<Longrightarrow> bm_wf \<lparr>Len = l, Bits = replicate (chunks_for l) 0\<rparr>"
  by (auto simp: bm_wf_def bm_set_def)

lemma bm_set_zero [simp]: "bm_set \<lparr>Len = l, Bits = replicate n 0\<rparr> = {}"
  by (simp add: bm_set_def)

lemma go_copy_same [simp]: "length dst = length src \<Longrightarrow> go_copy dst src = src"
  by (simp add: go_copy_def)

lemma combine_Ret:
  "length ys \<le> length xs \<Longrightarrow> length ys \<le> length r \<Longrightarrow>
   combine f r xs ys = Ret (map2 f xs ys @ drop (length ys) r)"
proof (induction f r xs ys rule: combine.induct)
  case (2 f r rs x xs y ys)
  then show ?case by simp
qed auto

lemma bits_set_combine:
  assumes "length ys \<le> length xs"
  shows "p \<in> bits_set (map2 f xs ys @ drop (length ys) r) \<longleftrightarrow>
     (if p div 32 < length ys then bit (f (xs ! (p div 32)) (ys ! (p div 32))) (p mod 32)
      else p div 32 < length r \<and> bit (r ! (p div 32)) (p mod 32))"
  using assms by (auto simp: bits_set_def nth_append)

lemma chunks_ok_combine:
  assumes "\<And>x y. chunk_ok x \<Longrightarrow> chunk_ok y \<Longrightarrow> chunk_ok (f x y)"
    and "\<forall>w \<in> set xs. chunk_ok w" "\<forall>w \<in> set ys. chunk_ok w" "\<forall>w \<in> set r. chunk_ok w"
  shows "\<forall>w \<in> set (map2 f xs ys @ drop (length ys) r). chunk_ok w"
  using assms by (auto dest: in_set_dropD) (metis set_zip_leftD set_zip_rightD)

lemma bm_max_min_wf:
  assumes "bm_wf b" "bm_wf m"
  shows "bm_wf (bm_max b m)" "bm_wf (bm_min b m)"
    "Len (bm_min b m) \<le> Len (bm_max b m)"
    "length (Bits (bm_min b m)) \<le> length (Bits (bm_max b m))"
  using assms chunks_for_mono [of "Len b" "Len m"] chunks_for_mono [of "Len m" "Len b"]
  by (auto simp: bm_max_def bm_min_def bm_wf_def)

lemmas bm_mm = bm_max_min_wf bm_wfD [OF bm_max_min_wf(1)] bm_wfD [OF bm_max_min_wf(2)]

lemma mem_bits_lt: "p \<in> bits_set ws \<Longrightarrow> p div 32 < length ws"
  by (simp add: bits_set_def)

lemma bm_mm_set:
  "bm_set (bm_max b m) \<union> bm_set (bm_min b m) = bm_set b \<union> bm_set m"
  "bm_set (bm_max b m) \<inter> bm_set (bm_min b m) = bm_set b \<inter> bm_set m"
  by (auto simp: bm_max_def bm_min_def)

section \<open>Correctness of the set operations\<close>

lemma subset_lessThan_mono: "A \<subseteq> {..<nat l} \<Longrightarrow> l \<le> m \<Longrightarrow> A \<subseteq> {..<nat m}"
  by (auto simp: subset_iff)

lemma bm_Or_spec:
  assumes "bm_wf b" "bm_wf m"
  shows "\<exists>r. bm_Or b m = Ret r \<and> bm_wf r \<and> Len r = max (Len b) (Len m) \<and>
     bm_set r = bm_set b \<union> bm_set m"
proof -
  let ?M = "bm_max b m" and ?N = "bm_min b m"
  let ?ws = "map2 (\<lambda>x y. x OR y) (Bits ?M) (Bits ?N) @ drop (length (Bits ?N)) (Bits ?M)"
  note mm = bm_mm [OF assms]
  have r: "bm_Or b m = Ret \<lparr>Len = Len ?M, Bits = ?ws\<rparr>"
    using mm by (simp add: bm_Or_def Let_def NewBitmap_int combine_Ret)
  have S: "bits_set ?ws = bm_set ?M \<union> bm_set ?N"
    using mm(4) by (intro set_eqI, subst bits_set_combine) (auto simp: bm_set_def bits_set_def bit_or_iff)
  have "\<forall>w \<in> set ?ws. chunk_ok w"
    using mm by (intro chunks_ok_combine) (auto intro: chunk_ok_ops)
  moreover have "bits_set ?ws \<subseteq> {..<nat (Len ?M)}"
    using S mm(8) subset_lessThan_mono [OF mm(12) mm(3)] by simp
  ultimately have "bm_wf \<lparr>Len = Len ?M, Bits = ?ws\<rparr>"
    using mm by (simp add: bm_wf_def bm_set_def)
  moreover have "Len ?M = max (Len b) (Len m)" by (simp add: bm_max_def)
  moreover have "bm_set \<lparr>Len = Len ?M, Bits = ?ws\<rparr> = bm_set b \<union> bm_set m"
    using S bm_mm_set by (simp add: bm_set_def)
  ultimately show ?thesis using r by auto
qed

lemma bm_Xor_spec:
  assumes "bm_wf b" "bm_wf m"
  shows "\<exists>r. bm_Xor b m = Ret r \<and> bm_wf r \<and> Len r = max (Len b) (Len m) \<and>
     bm_set r = (bm_set b - bm_set m) \<union> (bm_set m - bm_set b)"
proof -
  let ?M = "bm_max b m" and ?N = "bm_min b m"
  let ?ws = "map2 (\<lambda>x y. x XOR y) (Bits ?M) (Bits ?N) @ drop (length (Bits ?N)) (Bits ?M)"
  note mm = bm_mm [OF assms]
  have r: "bm_Xor b m = Ret \<lparr>Len = Len ?M, Bits = ?ws\<rparr>"
    using mm by (simp add: bm_Xor_def Let_def NewBitmap_int combine_Ret)
  have S: "bits_set ?ws = (bm_set ?M - bm_set ?N) \<union> (bm_set ?N - bm_set ?M)"
    using mm(4) by (intro set_eqI, subst bits_set_combine) (auto simp: bm_set_def bits_set_def bit_xor_iff)
  have "\<forall>w \<in> set ?ws. chunk_ok w"
    using mm by (intro chunks_ok_combine) (auto intro: chunk_ok_ops)
  moreover have "bits_set ?ws \<subseteq> {..<nat (Len ?M)}"
    using S mm(8) subset_lessThan_mono [OF mm(12) mm(3)] by auto
  ultimately have "bm_wf \<lparr>Len = Len ?M, Bits = ?ws\<rparr>"
    using mm by (simp add: bm_wf_def bm_set_def)
  moreover have "Len ?M = max (Len b) (Len m)" by (simp add: bm_max_def)
  moreover have "bm_set \<lparr>Len = Len ?M, Bits = ?ws\<rparr> = (bm_set b - bm_set m) \<union> (bm_set m - bm_set b)"
    using S by (auto simp: bm_set_def bm_max_def bm_min_def)
  ultimately show ?thesis using r by auto
qed

lemma bm_And_spec:
  assumes "bm_wf b" "bm_wf m"
  shows "\<exists>r. bm_And b m = Ret r \<and> bm_wf r \<and> Len r = min (Len b) (Len m) \<and>
     bm_set r = bm_set b \<inter> bm_set m"
proof -
  let ?M = "bm_max b m" and ?N = "bm_min b m"
  let ?ws = "map2 (\<lambda>x y. x AND y) (Bits ?M) (Bits ?N)"
  note mm = bm_mm [OF assms]
  have r: "bm_And b m = Ret \<lparr>Len = Len ?N, Bits = ?ws\<rparr>"
    using mm by (simp add: bm_And_def Let_def NewBitmap_int combine_Ret)
  have S: "bits_set ?ws = bm_set ?M \<inter> bm_set ?N"
    using mm(4) by (auto simp: bm_set_def bits_set_def bit_and_iff)
  have "\<forall>w \<in> set ?ws. chunk_ok w"
    using chunks_ok_combine [of "\<lambda>x y. x AND y" "Bits ?M" "Bits ?N" "[]"] mm(7,11)
    by (simp add: chunk_ok_ops)
  moreover have "bits_set ?ws \<subseteq> {..<nat (Len ?N)}"
    using S mm(12) by auto
  ultimately have "bm_wf \<lparr>Len = Len ?N, Bits = ?ws\<rparr>"
    using mm by (simp add: bm_wf_def bm_set_def)
  moreover have "Len ?N = min (Len b) (Len m)" by (simp add: bm_min_def)
  moreover have "bm_set \<lparr>Len = Len ?N, Bits = ?ws\<rparr> = bm_set b \<inter> bm_set m"
    using S bm_mm_set(2) by (simp add: bm_set_def)
  ultimately show ?thesis using r by auto
qed

lemma bm_Axor_longer:
  assumes "bm_wf b" "bm_wf m" "Len m \<le> Len b"
  shows "bm_Axor b m = Ret \<lparr>Len = Len b,
     Bits = map2 (\<lambda>x y. (x XOR y) AND x) (Bits b) (Bits m) @ drop (length (Bits m)) (Bits b)\<rparr>"
proof -
  have "bm_max b m = b" "bm_min b m = m" using assms(3) by (auto simp: bm_max_def bm_min_def)
  with assms show ?thesis
    by (simp add: bm_Axor_def Let_def NewBitmap_int combine_Ret bm_wfD chunks_for_mono)
qed

lemma bm_Axor_shorter:
  assumes "bm_wf b" "bm_wf m" "Len b < Len m"
  shows "bm_Axor b m = Ret \<lparr>Len = Len b, Bits = map2 (\<lambda>x y. (x XOR y) AND y) (Bits m) (Bits b)\<rparr>"
proof -
  have "bm_max b m = m" "bm_min b m = b" using assms(3) by (auto simp: bm_max_def bm_min_def)
  with assms show ?thesis
    by (simp add: bm_Axor_def Let_def NewBitmap_int combine_Ret bm_wfD chunks_for_mono)
qed

lemma bm_Axor_spec:
  assumes "bm_wf b" "bm_wf m"
  shows "\<exists>r. bm_Axor b m = Ret r \<and> bm_wf r \<and> Len r = Len b \<and> bm_set r = bm_set b - bm_set m"
proof -
  obtain ws where r: "bm_Axor b m = Ret \<lparr>Len = Len b, Bits = ws\<rparr>"
    and l: "length ws = length (Bits b)" and c: "\<forall>w \<in> set ws. chunk_ok w"
    and S: "bits_set ws = bm_set b - bm_set m"
  proof (cases "Len m \<le> Len b")
    case True
    let ?ws = "map2 (\<lambda>x y. (x XOR y) AND x) (Bits b) (Bits m) @ drop (length (Bits m)) (Bits b)"
    have len: "length (Bits m) \<le> length (Bits b)"
      using True assms by (simp add: bm_wfD chunks_for_mono)
    have "bits_set ?ws = bm_set b - bm_set m"
      using len by (intro set_eqI, subst bits_set_combine)
        (auto simp: bm_set_def bits_set_def bit_xor_iff bit_and_iff)
    moreover have "\<forall>w \<in> set ?ws. chunk_ok w"
      using assms by (intro chunks_ok_combine) (auto intro: chunk_ok_ops bm_wfD)
    ultimately show ?thesis
      using that [OF bm_Axor_longer [OF assms True]] len by simp
  next
    case False
    let ?ws = "map2 (\<lambda>x y. (x XOR y) AND y) (Bits m) (Bits b)"
    have len: "length (Bits b) \<le> length (Bits m)"
      using False assms by (simp add: bm_wfD chunks_for_mono)
    have "bits_set ?ws = bm_set b - bm_set m"
      using len by (auto simp: bm_set_def bits_set_def bit_xor_iff bit_and_iff)
    moreover have "\<forall>w \<in> set (?ws @ drop (length (Bits b)) []). chunk_ok w"
      using assms by (intro chunks_ok_combine) (auto intro: chunk_ok_ops bm_wfD)
    ultimately show ?thesis
      using that [OF bm_Axor_shorter [OF assms]] False len by simp
  qed
  then have "bm_wf \<lparr>Len = Len b, Bits = ws\<rparr>"
    using assms(1) by (auto simp: bm_wf_def bm_set_def)
  then show ?thesis using r S by (auto simp: bm_set_def)
qed

lemma foldl_or_zero: "foldl (\<lambda>r v. r OR v) w ws = (0 :: 64 word) \<longleftrightarrow> w = 0 \<and> (\<forall>v \<in> set ws. v = 0)"
  by (induction ws arbitrary: w) (auto simp: or_eq_0_iff)

lemma IsEmpty_iff:
  assumes "bm_wf b"
  shows "IsEmpty b \<longleftrightarrow> bm_set b = {}"
proof -
  have "IsEmpty b \<longleftrightarrow> (\<forall>w \<in> set (Bits b). w = 0)"
    by (simp add: IsEmpty_def foldl_or_zero split: list.split)
  also have "\<dots> \<longleftrightarrow> bm_set b = {}"
    using bits_set_zero_iff [of "Bits b"] assms by (simp add: bm_wf_def bm_set_def)
  finally show ?thesis .
qed

section \<open>Bit maps of one chunk\<close>

lemma bm_set_one: "chunk_ok w \<Longrightarrow> bm_set \<lparr>Len = l, Bits = [w]\<rparr> = {n. bit w n}"
proof -
  assume "chunk_ok w"
  then have "n < 32" if "bit w n" for n using that by (auto simp: chunk_ok_def)
  then show ?thesis by (auto simp: bm_set_def bits_set_def)
qed

lemma bm_wf_one:
  assumes "0 < l" "l \<le> 32" "take_bit (nat l) w = w"
  shows "bm_wf \<lparr>Len = l, Bits = [w]\<rparr>" "bm_set \<lparr>Len = l, Bits = [w]\<rparr> = {n. bit w n}"
proof -
  have b: "n < nat l" if "bit w n" for n
    using that assms(3) by (metis bit_take_bit_iff)
  then have c: "chunk_ok w" using assms(2) by (force simp: chunk_ok_def)
  show "bm_set \<lparr>Len = l, Bits = [w]\<rparr> = {n. bit w n}" by (rule bm_set_one [OF c])
  moreover have "chunks_for l = 1" using assms(1,2) by (auto simp: chunks_for_def)
  ultimately show "bm_wf \<lparr>Len = l, Bits = [w]\<rparr>" using b c assms(1) by (auto simp: bm_wf_def)
qed

section \<open>The contract clients rely on\<close>

locale bitset =
  fixes abs :: "'b \<Rightarrow> nat set"
    and inv :: "'b \<Rightarrow> bool"
    and width :: "'b \<Rightarrow> int"
    and union :: "'b \<Rightarrow> 'b \<Rightarrow> 'b outcome"
    and inter :: "'b \<Rightarrow> 'b \<Rightarrow> 'b outcome"
    and diff :: "'b \<Rightarrow> 'b \<Rightarrow> 'b outcome"
    and is_empty :: "'b \<Rightarrow> bool"
  assumes union_spec: "inv x \<Longrightarrow> inv y \<Longrightarrow>
      \<exists>r. union x y = Ret r \<and> inv r \<and> width r = max (width x) (width y) \<and> abs r = abs x \<union> abs y"
    and inter_spec: "inv x \<Longrightarrow> inv y \<Longrightarrow>
      \<exists>r. inter x y = Ret r \<and> inv r \<and> width r = min (width x) (width y) \<and> abs r = abs x \<inter> abs y"
    and diff_spec: "inv x \<Longrightarrow> inv y \<Longrightarrow>
      \<exists>r. diff x y = Ret r \<and> inv r \<and> width r = width x \<and> abs r = abs x - abs y"
    and is_empty_spec: "inv x \<Longrightarrow> is_empty x \<longleftrightarrow> abs x = {}"
begin

lemma diff_all:
  "inv x \<Longrightarrow> \<forall>y \<in> set ys. inv y \<Longrightarrow>
   \<exists>r. foldO diff x ys = Ret r \<and> inv r \<and> width r = width x \<and> abs r = abs x - (\<Union>y \<in> set ys. abs y)"
proof (induction ys arbitrary: x)
  case (Cons y ys)
  then obtain d where d: "diff x y = Ret d" "inv d" "width d = width x" "abs d = abs x - abs y"
    using diff_spec [of x y] by auto
  with Cons.IH [of d] Cons.prems obtain r where
    "foldO diff d ys = Ret r" "inv r" "width r = width d" "abs r = abs d - (\<Union>y \<in> set ys. abs y)"
    by auto
  with d show ?case by auto
qed simp

lemma union_all:
  "inv x \<Longrightarrow> \<forall>y \<in> set ys. inv y \<Longrightarrow>
   \<exists>r. foldO union x ys = Ret r \<and> inv r \<and> abs r = abs x \<union> (\<Union>y \<in> set ys. abs y)"
proof (induction ys arbitrary: x)
  case (Cons y ys)
  then obtain d where d: "union x y = Ret d" "inv d" "abs d = abs x \<union> abs y"
    using union_spec [of x y] by auto
  with Cons.IH [of d] Cons.prems obtain r where
    "foldO union d ys = Ret r" "inv r" "abs r = abs d \<union> (\<Union>y \<in> set ys. abs y)"
    by auto
  with d show ?case by auto
qed simp

lemma disjoint_iff_inter_empty:
  "inv x \<Longrightarrow> inv y \<Longrightarrow> inter x y = Ret r \<Longrightarrow> is_empty r \<longleftrightarrow> abs x \<inter> abs y = {}"
  using inter_spec [of x y] is_empty_spec by auto

end

interpretation bms: bitset bm_set bm_wf Len bm_Or bm_And bm_Axor IsEmpty
  by unfold_locales (rule bm_Or_spec bm_And_spec bm_Axor_spec IsEmpty_iff; assumption)+

end
