(* ===== verification/Bitmap_Text.thy ===== *)
theory Bitmap_Text
  imports Bitmap_Sets
begin

unbundle bit_operations_syntax

text \<open>
  The binary text of a bit map. \<open>lowText b\<close> is the reference: one character per position,
  position 0 first. \<open>ToBinString\<close> without its commas is that text reversed, and
  \<open>ToBinStrings\<close> cuts it into its maximal runs (\<open>runs\<close>), lowest run first.
\<close>

section \<open>Binary text\<close>

definition bitchar :: "bool \<Rightarrow> char" where
  "bitchar x = (if x then CHR ''1'' else CHR ''0'')"

definition lowText :: "bitmap \<Rightarrow> string" where
  "lowText b = map (\<lambda>p. bitchar (p \<in> bm_set b)) [0..<nat (Len b)]"

lemma bitchar_simps [simp]:
  "bitchar x = CHR ''1'' \<longleftrightarrow> x" "bitchar x = CHR ''0'' \<longleftrightarrow> \<not> x" "bitchar x \<noteq> CHR '',''"
  "bitchar x = bitchar y \<longleftrightarrow> x = y"
  by (auto simp: bitchar_def)

lemma upt_Suc_shift: "[0..<Suc w] = 0 # map Suc [0..<w]"
  by (simp add: upt_conv_Cons map_Suc_upt del: upt_Suc)

lemma format_binary:
  "0 < w \<Longrightarrow> n < 2 ^ w \<Longrightarrow>
   length (format_nat 2 n) \<le> w \<and>
   replicate (w - length (format_nat 2 n)) (CHR ''0'') @ format_nat 2 n =
     rev (map (\<lambda>p. bitchar (bit n p)) [0..<w])"
proof (induction w arbitrary: n)
  case (Suc w)
  have d: "digit_char (n mod 2) = bitchar (bit n 0)" for n :: nat
    by (cases "odd n") (auto simp: digit_char_def bitchar_def bit_0 odd_iff_mod_2_eq_one even_iff_mod_2_eq_zero)
  have low: "rev (map (\<lambda>p. bitchar (bit n p)) [0..<Suc w]) =
      rev (map (\<lambda>p. bitchar (bit (n div 2) p)) [0..<w]) @ [bitchar (bit n 0)]"
    by (simp add: upt_Suc_shift bit_Suc o_def del: upt_Suc)
  show ?case
  proof (cases "n < 2")
    case True
    then have "n div 2 = 0" "n mod 2 = n" by auto
    moreover have "rev (map (\<lambda>p. CHR ''0'') [0..<w]) = replicate w (CHR ''0'')"
      by (simp add: map_replicate_const)
    ultimately show ?thesis
      using True d [of n] low by (subst (1 2 3) format_nat.simps) (simp add: bitchar_def)
  next
    case False
    then have w: "0 < w" "n div 2 < 2 ^ w" using Suc.prems by (cases w; auto)+
    have "format_nat 2 n = format_nat 2 (n div 2) @ [bitchar (bit n 0)]"
      using False d [of n] by (subst format_nat.simps) simp
    with Suc.IH [OF w] low show ?thesis by (simp del: upt_Suc)
  qed
qed simp

lemma unat_less_bits:
  fixes v :: "64 word"
  assumes "\<And>n. bit v n \<Longrightarrow> n < w"
  shows "unat v < 2 ^ w"
proof -
  have "take_bit w v = v"
    using assms by (intro bit_eqI) (auto simp: bit_take_bit_iff)
  then have "take_bit w (unat v) = unat v"
    by (metis unsigned_take_bit_eq)
  then show ?thesis by (metis take_bit_nat_less_exp)
qed

definition chunkWidth :: "int \<Rightarrow> nat" where
  "chunkWidth ln = (if ln mod 32 = 0 then 32 else nat (ln mod 32))"

lemma chunkWidth_bounds: "0 < chunkWidth ln" "chunkWidth ln \<le> 32"
  using pos_mod_bound [of 32 ln] pos_mod_sign [of 32 ln] unfolding chunkWidth_def by auto

lemma binChunk_full:
  assumes "chunk_ok v" "w = 32"
  shows "binChunk ln False v = rev (map (\<lambda>p. bitchar (bit v p)) [0..<w])"
proof -
  have "unat v < 2 ^ w" using assms by (intro unat_less_bits) (auto simp: chunk_ok_def)
  note fb = format_binary [OF _ this]
  then have "int (length (format_nat 2 (unat v))) \<le> 32" using assms(2) by simp
  then have "binChunk ln False v =
      replicate (w - length (format_nat 2 (unat v))) (CHR ''0'') @ format_nat 2 (unat v)"
    using assms(2) by (simp add: binChunk_def Let_def nat_diff_distrib)
  with fb assms(2) show ?thesis by (simp add: bit_unsigned_iff)
qed

lemma binChunk_last:
  assumes "0 < ln" "\<And>n. bit v n \<Longrightarrow> n < chunkWidth ln"
  shows "binChunk ln True v = rev (map (\<lambda>p. bitchar (bit v p)) [0..<chunkWidth ln])"
proof -
  have "unat v < 2 ^ chunkWidth ln" using assms by (intro unat_less_bits) auto
  note fb = format_binary [OF chunkWidth_bounds(1) this]
  have w: "binChunk ln True v = replicate (chunkWidth ln - length (format_nat 2 (unat v))) (CHR ''0'')
      @ format_nat 2 (unat v)"
  proof (cases "ln mod 32 = 0")
    case True
    have "0 < length (format_nat 2 (unat v))" by simp
    with True fb assms(1) show ?thesis
      by (simp add: binChunk_def Let_def chunkWidth_def nat_diff_distrib)
  next
    case False
    moreover have "int (length (format_nat 2 (unat v))) \<le> ln mod 32"
      using fb False assms(1) by (simp add: chunkWidth_def le_nat_iff)
    ultimately show ?thesis
      using assms(1) by (simp add: binChunk_def Let_def chunkWidth_def nat_diff_distrib)
  qed
  with fb show ?thesis by (simp add: bit_unsigned_iff)
qed

fun lowChunks :: "int \<Rightarrow> 64 word list \<Rightarrow> string" where
  "lowChunks ln [] = []"
| "lowChunks ln [v] = map (\<lambda>p. bitchar (bit v p)) [0..<chunkWidth ln]"
| "lowChunks ln (v # w # ws) = map (\<lambda>p. bitchar (bit v p)) [0..<32] @ lowChunks ln (w # ws)"

declare lowChunks.simps(3) [simp del]

lemma filter_bitchars [simp]:
  "filter (\<lambda>c. c \<noteq> CHR '','') (map (\<lambda>p. bitchar (f p)) ps) = map (\<lambda>p. bitchar (f p)) ps"
  by (induction ps) auto

lemma toBinLoop_lowChunks:
  "0 < ln \<Longrightarrow> vs \<noteq> [] \<Longrightarrow> \<forall>v \<in> set vs. chunk_ok v \<Longrightarrow> (\<And>n. bit (last vs) n \<Longrightarrow> n < chunkWidth ln) \<Longrightarrow>
   n = i + length vs \<Longrightarrow> (i = 0 \<Longrightarrow> ts = []) \<Longrightarrow>
   filter (\<lambda>c. c \<noteq> CHR '','') (toBinLoop ln n i vs ts) =
     rev (lowChunks ln vs) @ filter (\<lambda>c. c \<noteq> CHR '','') ts"
proof (induction ln vs arbitrary: i ts rule: lowChunks.induct)
  case (2 ln v)
  then have "binChunk ln True v = rev (map (\<lambda>p. bitchar (bit v p)) [0..<chunkWidth ln])"
    by (intro binChunk_last) auto
  with 2 show ?case by (auto simp: Let_def rev_map)
next
  case (3 ln v w ws)
  have f: "binChunk ln False v = rev (map (\<lambda>p. bitchar (bit v p)) [0..<32])"
    using 3 by (intro binChunk_full) auto
  let ?ts = "if i = 0 then binChunk ln False v else binChunk ln False v @ '','' @ ts"
  have "toBinLoop ln n i (v # w # ws) ts = toBinLoop ln n (Suc i) (w # ws) ?ts"
    using 3 by (subst toBinLoop.simps) (simp add: Let_def)
  moreover have "filter (\<lambda>c. c \<noteq> CHR '','') (toBinLoop ln n (Suc i) (w # ws) ?ts) =
      rev (lowChunks ln (w # ws)) @ filter (\<lambda>c. c \<noteq> CHR '','') ?ts"
    using "3.prems" by (intro "3.IH") auto
  ultimately show ?case using f "3.prems"(6)
    by (auto simp: rev_map lowChunks.simps(3) simp del: upt_rec_numeral)
qed simp

lemma chunks_for_step: "32 < ln \<Longrightarrow> chunks_for ln = Suc (chunks_for (ln - 32))"
  by (simp add: chunks_for_def Suc_nat_eq_nat_zadd1 pos_imp_zdiv_nonneg_iff)

lemma chunks_for_gt1: "0 < ln \<Longrightarrow> 32 < ln \<longleftrightarrow> 1 < chunks_for ln"
  unfolding chunks_for_def by linarith

lemma bits_set_Cons:
  "p \<in> bits_set (w # ws) \<longleftrightarrow> (if p < 32 then bit w p else p - 32 \<in> bits_set ws)"
proof -
  have "\<not> p < 32 \<Longrightarrow> p div 32 = Suc ((p - 32) div 32) \<and> p mod 32 = (p - 32) mod 32"
    by (simp add: le_div_geq le_mod_geq)
  then show ?thesis by (auto simp: bits_set_def)
qed

lemma lowChunks_cong: "chunkWidth a = chunkWidth b \<Longrightarrow> lowChunks a ws = lowChunks b ws"
  by (induction a ws rule: lowChunks.induct) (simp_all add: lowChunks.simps(3))

lemma lowChunks_shift: "lowChunks (ln - 32) ws = lowChunks ln ws"
proof (rule lowChunks_cong)
  have "(ln - 32) mod 32 = ln mod 32" by (rule minus_mod_self2)
  then show "chunkWidth (ln - 32) = chunkWidth ln" by (simp only: chunkWidth_def)
qed

lemma lowChunks_set:
  "length ws = chunks_for ln \<Longrightarrow> 0 < ln \<Longrightarrow>
   lowChunks ln ws = map (\<lambda>p. bitchar (p \<in> bits_set ws)) [0..<nat ln]"
proof (induction ws arbitrary: ln)
  case Nil
  then show ?case by (simp add: chunks_for_def)
next
  case (Cons v ws)
  show ?case
  proof (cases ws)
    case Nil
    with Cons have ln: "ln \<le> 32" using chunks_for_gt1 [of ln] by simp
    then have "chunkWidth ln = nat ln"
      using Cons by (cases "ln = 32") (auto simp: chunkWidth_def)
    with ln Nil show ?thesis by (auto simp: bits_set_def)
  next
    case (Cons w us)
    with Cons.prems have gt: "32 < ln" using chunks_for_gt1 [of ln] by simp
    then have IH: "lowChunks ln ws = map (\<lambda>p. bitchar (p \<in> bits_set ws)) [0..<nat (ln - 32)]"
      using Cons.IH [of "ln - 32"] Cons.prems chunks_for_step [of ln] by (simp add: lowChunks_shift)
    have "nat ln = 32 + nat (ln - 32)" using gt by simp
    then have "[0..<nat ln] = [0..<32] @ map (\<lambda>p. p + 32) [0..<nat (ln - 32)]"
      by (metis add.commute add_0 map_add_upt upt_add_eq_append zero_le)
    with IH show ?thesis
      by (simp add: Cons lowChunks.simps(3) bits_set_Cons o_def del: upt_rec_numeral)
  qed
qed

lemma last_chunk_width:
  assumes "bm_wf b" "0 < Len b" "bit (last (Bits b)) n"
  shows "n < chunkWidth (Len b)"
proof -
  have pos: "Bits b \<noteq> []" using assms by (auto simp: bm_wf_def chunks_for_def)
  then have "n < 32" using assms by (auto simp: bm_wf_def chunk_ok_def)
  moreover have "last (Bits b) = Bits b ! (chunks_for (Len b) - 1)"
    using assms pos by (simp add: last_conv_nth bm_wf_def)
  moreover have "0 < chunks_for (Len b)" using assms pos by (simp add: bm_wf_def flip: length_greater_0_conv)
  ultimately have "32 * (chunks_for (Len b) - 1) + n \<in> bm_set b"
    using assms pos by (auto simp: bm_set_def bits_set_def bm_wf_def intro: diff_less)
  then have lt: "32 * (chunks_for (Len b) - 1) + n < nat (Len b)"
    using assms by (auto simp: bm_wf_def)
  show ?thesis
  proof (cases "Len b mod 32 = 0")
    case True
    with \<open>n < 32\<close> show ?thesis by (simp add: chunkWidth_def)
  next
    case False
    then have "0 < Len b mod 32" using pos_mod_sign [of 32 "Len b"] by linarith
    then have "(Len b + 31) div 32 = Len b div 32 + 1"
      by (intro int_div_pos_eq [where r = "Len b mod 32 - 1"]) (auto simp: mult_div_mod_eq algebra_simps)
    then have "int (chunks_for (Len b)) = Len b div 32 + 1" using assms by (simp add: chunks_for_def)
    then have "int n < Len b - 32 * (Len b div 32)" using lt assms by linarith
    then show ?thesis using False by (simp add: chunkWidth_def minus_mult_div_eq_mod zless_nat_eq_int_zless)
  qed
qed

lemma binText_lowText:
  assumes "bm_wf b" "0 < Len b"
  shows "binText b = rev (lowText b)"
proof -
  have "Bits b \<noteq> []" using assms by (auto simp: bm_wf_def chunks_for_def)
  then have "binText b = rev (lowChunks (Len b) (Bits b))"
    using assms last_chunk_width [OF assms] unfolding binText_def ToBinString_def
    by (subst toBinLoop_lowChunks) (auto simp: bm_wf_def)
  then show ?thesis
    using assms by (simp add: lowChunks_set bm_wf_def lowText_def bm_set_def)
qed

section \<open>Runs\<close>

function runs :: "'a list \<Rightarrow> 'a list list" where
  "runs [] = []"
| "runs (x # xs) = (x # takeWhile (\<lambda>y. y = x) xs) # runs (dropWhile (\<lambda>y. y = x) xs)"
  by pat_completeness auto
termination
  by (relation "measure length") (auto simp: less_Suc_eq_le length_dropWhile_le)

lemma runs_replicate:
  assumes "0 < m" "rest = [] \<or> hd rest \<noteq> v"
  shows "runs (replicate m v @ rest) = replicate m v # runs rest"
proof -
  obtain k where m: "m = Suc k" using assms(1) gr0_implies_Suc by blast
  have "takeWhile (\<lambda>y. y = v) (replicate k v @ rest) = replicate k v"
    "dropWhile (\<lambda>y. y = v) (replicate k v @ rest) = rest"
    using assms(2) by (induction k) (cases rest; simp)+
  with m show ?thesis by simp
qed

lemma concat_runs: "concat (runs xs) = xs"
  by (induction xs rule: runs.induct) auto

lemma runs_nonempty: "r \<in> set (runs xs) \<Longrightarrow> r \<noteq> []"
  by (induction xs rule: runs.induct) auto

lemma replicate_rev_append:
  "go_index (rev (p @ replicate m v @ c # rest)) (int (length rest)) = Ret c"
  "go_slice (rev (p @ replicate m v @ rest)) (int (length rest)) (int (length rest + m)) = Ret (replicate m v)"
  by (simp_all add: go_index_def go_slice_def nth_append nat_add_distrib)

lemma binStringsLoop_runs:
  assumes "rest \<noteq> []" "m = 0 \<Longrightarrow> hd rest = v"
  shows "binStringsLoop (rev (p @ replicate m v @ rest)) (length rest) ss v (int (length rest + m)) =
     Ret (ss @ runs (replicate m v @ rest))"
  using assms
proof (induction rest arbitrary: p m v ss)
  case (Cons c rest)
  let ?ts = "rev (p @ replicate m v @ c # rest)"
  note ix = replicate_rev_append(1) [of p m v c rest]
  show ?case
  proof (cases "c = v")
    case True
    then have ts: "?ts = rev (p @ replicate (Suc m) v @ rest)"
      by (simp add: replicate_app_Cons_same)
    show ?thesis
    proof (cases "rest = []")
      case True
      then show ?thesis
        using ts ix \<open>c = v\<close> replicate_rev_append(2) [of p "Suc m" v "[]"] runs_replicate [of "Suc m" "[]" v]
        by (simp add: replicate_append_same)
    next
      case False
      then show ?thesis
        using Cons.IH [of "Suc m" v p ss] ts ix \<open>c = v\<close>
        by (simp add: replicate_app_Cons_same)
    qed
  next
    case False
    then have m: "0 < m" using Cons.prems by auto
    have ts: "?ts = rev ((p @ replicate m v) @ replicate 1 c @ rest)" by simp
    have sl: "go_slice ?ts (int (length rest) + 1) (int (length (c # rest) + m)) = Ret (replicate m v)"
      using replicate_rev_append(2) [of p m v "c # rest"] by (simp add: add.commute)
    have r: "runs (replicate m v @ c # rest) = replicate m v # runs (c # rest)"
      using m False by (intro runs_replicate) auto
    show ?thesis
    proof (cases "rest = []")
      case True
      have "go_slice ?ts 0 1 = Ret [c]"
        using True by (simp add: go_slice_def)
      then show ?thesis using True False ix sl r by simp
    next
      case ne: False
      have "binStringsLoop ?ts (length rest) (ss @ [replicate m v]) c (int (length rest + 1)) =
          Ret ((ss @ [replicate m v]) @ runs (replicate 1 c @ rest))"
        using Cons.IH [of 1 c "p @ replicate m v" "ss @ [replicate m v]"] ts ne by simp
      then show ?thesis using ne False ix sl r by (simp add: add.commute)
    qed
  qed
qed simp

lemma ToBinStrings_runs:
  assumes "bm_wf b" "0 < Len b"
  shows "ToBinStrings b = Ret (runs (lowText b))"
proof -
  have l: "length (lowText b) = nat (Len b)" "lowText b \<noteq> []"
    using assms(2) by (auto simp: lowText_def)
  then show ?thesis
    using binText_lowText [OF assms] binStringsLoop_runs [of "lowText b" 0 "hd (lowText b)" "[]" "[]"]
    by (simp add: ToBinStrings_def Let_def last_rev not_less Suc_le_eq)
qed
end
