(* ===== verification/Bitmap_Parse.thy ===== *)
theory Bitmap_Parse
  imports Bitmap_Text
begin

unbundle bit_operations_syntax

text \<open>
  The meaning of human-style lists. An \<open>item\<close> is a position or a span, to be set or (with a
  caret) cleared; \<open>item_text\<close> writes it the way the program and its users do, and
  \<open>item_apply\<close> is its effect on a set of positions. \<open>genBits\<close> on such texts computes
  the left-to-right effect of all items, spans across the 32-bit chunks included.
\<close>

section \<open>Characters of printed items\<close>

lemma is_digit_digit_char [simp]: "d < 10 \<Longrightarrow> is_digit (digit_char d)"
proof -
  assume "d < 10"
  then have "d < 16" "d \<noteq> 10" "d \<noteq> 11" "d \<noteq> 12" "d \<noteq> 13" "d \<noteq> 14" "d \<noteq> 15" by auto
  then show ?thesis
    by - (drule less_16_cases, elim disjE; simp add: digit_char_def is_digit_def)
qed

lemma is_digit_neq:
  "is_digit c \<Longrightarrow> c \<noteq> CHR ''-''" "is_digit c \<Longrightarrow> c \<noteq> CHR ''^''" "is_digit c \<Longrightarrow> c \<noteq> CHR '',''"
  "is_digit c \<Longrightarrow> \<not> is_space c" "is_digit c \<Longrightarrow> allowed_char c"
  by (auto simp: is_digit_def is_space_def allowed_char_def Let_def)

lemma Itoa_is_digit: "0 \<le> n \<Longrightarrow> c \<in> set (Itoa n) \<Longrightarrow> is_digit c"
  using Itoa_digits [of n c] by auto

lemma Itoa_not_in:
  assumes "0 \<le> n"
  shows "CHR ''-'' \<notin> set (Itoa n)" "CHR ''^'' \<notin> set (Itoa n)" "CHR '','' \<notin> set (Itoa n)"
  using Itoa_is_digit [OF assms] is_digit_neq by blast+

lemma TrimSpace_id: "s = [] \<or> (\<not> is_space (hd s) \<and> \<not> is_space (last s)) \<Longrightarrow> TrimSpace s = s"
  by (auto simp: TrimSpace_def dropWhile_eq_self_iff [THEN iffD2] hd_rev)

lemma TrimLeft_hd: "s = [] \<or> hd s \<notin> set cs \<Longrightarrow> TrimLeft s cs = s"
  by (cases s) (auto simp: TrimLeft_def)

lemma TrimLeft_Cons: "c \<in> set cs \<Longrightarrow> TrimLeft (c # s) cs = TrimLeft s cs"
  by (simp add: TrimLeft_def)

lemma BitMapBadExpression_iff:
  "BitMapBadExpression s \<longleftrightarrow>
     \<not> ((\<forall>c \<in> set s. allowed_char c) \<and> successively (\<lambda>a b. \<not> bad_pair a b) s \<and>
        (s \<noteq> [] \<longrightarrow> last s \<noteq> CHR ''^''))"
  by (induction s rule: BitMapBadExpression.induct) auto

section \<open>Items: single positions and spans, set or cleared\<close>

datatype item = One bool int | Span bool int int

fun item_sign :: "item \<Rightarrow> bool" where
  "item_sign (One s n) = s"
| "item_sign (Span s l h) = s"

fun item_body :: "item \<Rightarrow> string" where
  "item_body (One s n) = Itoa n"
| "item_body (Span s l h) = Itoa l @ ''-'' @ Itoa h"

definition item_text :: "item \<Rightarrow> string" where
  "item_text it = (if item_sign it then item_body it else ''^'' @ item_body it)"

fun item_set :: "item \<Rightarrow> nat set" where
  "item_set (One s n) = {nat n}"
| "item_set (Span s l h) = {nat l..nat h}"

definition item_apply :: "nat set \<Rightarrow> item \<Rightarrow> nat set" where
  "item_apply A it = (if item_sign it then A \<union> item_set it else A - item_set it)"

fun item_ok :: "int \<Rightarrow> item \<Rightarrow> bool" where
  "item_ok len (One s n) = (0 \<le> n \<and> n < len)"
| "item_ok len (Span s l h) = (0 \<le> l \<and> l \<le> h \<and> h < len)"

lemma item_body_chars:
  assumes "item_ok len it"
  shows "item_body it \<noteq> []" "is_digit (hd (item_body it))" "is_digit (last (item_body it))"
    "CHR '','' \<notin> set (item_body it)" "CHR ''^'' \<notin> set (item_body it)"
    "\<forall>c \<in> set (item_body it). allowed_char c"
    "successively (\<lambda>a b. \<not> bad_pair a b) (item_body it)"
proof -
  have succ: "successively (\<lambda>a b. \<not> bad_pair a b) (Itoa n)" if "0 \<le> n" for n
  proof -
    have "\<not> bad_pair a b" if "a \<in> set (Itoa n)" "b \<in> set (Itoa n)" for a b
      using that Itoa_is_digit [OF \<open>0 \<le> n\<close>] is_digit_neq unfolding bad_pair_def by blast
    then show ?thesis by (simp add: successively_conv_nth)
  qed
  have hd: "is_digit (hd (Itoa n))" "is_digit (last (Itoa n))" if "0 \<le> n" for n
    using Itoa_is_digit [OF that] by auto
  show "item_body it \<noteq> []" "is_digit (hd (item_body it))" "is_digit (last (item_body it))"
    using assms hd by (cases it; auto)+
  show "CHR '','' \<notin> set (item_body it)" "CHR ''^'' \<notin> set (item_body it)"
    using assms Itoa_not_in by (cases it; force)+
  show "\<forall>c \<in> set (item_body it). allowed_char c"
    using assms Itoa_is_digit is_digit_neq(5) order_trans
    by (cases it) (auto simp: allowed_char_def, blast)
  show "successively (\<lambda>a b. \<not> bad_pair a b) (item_body it)"
    using assms succ hd by (cases it) (auto simp: successively_append_iff successively_Cons bad_pair_def is_digit_neq)
qed

lemma item_text_chars:
  assumes "item_ok len it"
  shows "CHR '','' \<notin> set (item_text it)" "(CHR ''^'' \<in> set (item_text it)) = (\<not> item_sign it)"
    "TrimSpace (item_text it) = item_text it" "TrimLeft (item_text it) ''^'' = item_body it"
    "item_text it \<noteq> []" "last (item_text it) = last (item_body it)" 
    "isSpan (item_text it) = (\<exists>s l h. it = Span s l h)"
    "successively (\<lambda>a b. \<not> bad_pair a b) (item_text it)" "\<forall>c \<in> set (item_text it). allowed_char c"
    "hd (item_text it) \<noteq> CHR ''-''"
proof -
  note b = item_body_chars [OF assms]
  have sp: "\<not> is_space (CHR ''^'')" by (simp add: is_space_def)
  show "CHR '','' \<notin> set (item_text it)" "(CHR ''^'' \<in> set (item_text it)) = (\<not> item_sign it)"
    "item_text it \<noteq> []" "last (item_text it) = last (item_body it)" 
    using b by (auto simp: item_text_def)
  show "TrimSpace (item_text it) = item_text it"
    using b sp is_digit_neq(4) by (intro TrimSpace_id) (auto simp: item_text_def)
  show "TrimLeft (item_text it) ''^'' = item_body it"
    using b TrimLeft_hd [of "item_body it" "''^''"] is_digit_neq(2) by (auto simp: item_text_def TrimLeft_Cons)
  show "isSpan (item_text it) = (\<exists>s l h. it = Span s l h)"
    using assms Itoa_not_in(1) by (cases it) (auto simp: isSpan_def item_text_def)
  show "successively (\<lambda>a b. \<not> bad_pair a b) (item_text it)"
    using b is_digit_neq by (auto simp: item_text_def successively_Cons bad_pair_def)
  show "\<forall>c \<in> set (item_text it). allowed_char c"
    using b by (auto simp: item_text_def allowed_char_def)
  show "hd (item_text it) \<noteq> CHR ''-''"
    using b(2) is_digit_neq(1) by (auto simp: item_text_def)
qed


section \<open>One item into one chunk\<close>

definition in_chunk :: "int \<Rightarrow> item \<Rightarrow> bool" where
  "in_chunk k it \<longleftrightarrow> (case it of One s n \<Rightarrow> n div 32 = k | Span s l h \<Rightarrow> l div 32 = k \<and> h div 32 = k)"

definition chunk_mask :: "item \<Rightarrow> nat set" where
  "chunk_mask it = (\<lambda>p. p mod 32) ` item_set it"

lemma bit_singleBit: "0 \<le> n \<Longrightarrow> n < 32 \<Longrightarrow> bit (singleBit n) m \<longleftrightarrow> m = nat n"
  by (auto simp: singleBit_def go_shl_def bit_exp_iff)

lemma bit_spanMask:
  assumes "0 \<le> l" "l \<le> h" "h < (32 :: int)"
  shows "bit (go_shl (go_shl 1 (h - l + 1) - 1) l) m \<longleftrightarrow> nat l \<le> m \<and> m \<le> nat h"
proof -
  have "go_shl 1 (h - l + 1) - 1 = mask (nat (h - l + 1))"
    using assms by (simp add: go_shl_def mask_eq_exp_minus_1 push_bit_eq_mult)
  then have "bit (go_shl (go_shl 1 (h - l + 1) - 1) l) m \<longleftrightarrow>
      nat l \<le> m \<and> m < 64 \<and> m - nat l < nat (h - l + 1)"
    using assms by (auto simp: go_shl_def bit_push_bit_iff bit_mask_iff)
  then show ?thesis using assms by auto
qed

lemma hyphenSpan_Ret:
  assumes "0 \<le> l" "l \<le> h" "h < 2 ^ 63" "l div 32 = h div 32"
  shows "\<exists>sv. hyphenSpan (Itoa l @ ''-'' @ Itoa h) = Ret (sv, None) \<and>
     (\<forall>m. bit sv m \<longleftrightarrow> nat (l mod 32) \<le> m \<and> m \<le> nat (h mod 32))"
proof -
  have "l mod 32 \<le> h mod 32"
    using assms by (metis add_le_cancel_left mult_div_mod_eq)
  then show ?thesis
    using assms bit_spanMask [of "l mod 32" "h mod 32"]
    by (simp add: hyphenSpan_def splitN2_sep Itoa_not_in Atoi_Itoa Let_def)
qed

lemma span_mod_image:
  assumes "0 \<le> l" "l \<le> h" "l div 32 = k" "h div 32 = (k :: int)"
  shows "(\<lambda>p. p mod 32) ` {nat l..nat h} = {nat (l mod 32)..nat (h mod 32)}"
proof -
  have split: "nat x = 32 * nat (x div 32) + nat (x mod 32)" if "0 \<le> x" for x :: int
    using that by (simp add: nat_div_distrib nat_mod_distrib)
  have l: "nat l = 32 * nat k + nat (l mod 32)" and h: "nat h = 32 * nat k + nat (h mod 32)"
    using assms split [of l] split [of h] by auto
  have "nat (h mod 32) < 32" by (simp add: nat_less_iff)
  then have "p mod 32 = p - 32 * nat k" if "p \<in> {nat l..nat h}" for p
  proof -
    have "p div 32 = nat k" using that l h \<open>nat (h mod 32) < 32\<close>
      by (intro div_nat_eqI) auto
    then show ?thesis by (metis minus_mult_div_eq_mod)
  qed
  then have "(\<lambda>p. p mod 32) ` {nat l..nat h} = (\<lambda>p. p - 32 * nat k) ` {nat l..nat h}"
    by (intro image_cong) auto
  also have "\<dots> = {nat (l mod 32)..nat (h mod 32)}"
    using image_image [of "\<lambda>p. p - 32 * nat k" "(+) (32 * nat k)" "{nat (l mod 32)..nat (h mod 32)}"]
    unfolding l h image_add_atLeastAtMost by (simp add: add.commute)
  finally show ?thesis .
qed

lemma bit_setOrClear:
  "bit (setOrClear s w sv) m \<longleftrightarrow> (if s then bit w m \<or> bit sv m else bit w m \<and> \<not> bit sv m)"
  for w :: "64 word"
  using bit_imp_le_length [of w m]
  by (auto simp: setOrClear_def bit_or_iff bit_and_iff bit_not_iff)

lemma fillBitMap_item:
  assumes "item_ok len it" "in_chunk k it" "len \<le> 2 ^ 63"
  shows "\<exists>w'. fillBitMap w (item_text it) = Ret (w', None) \<and>
     (\<forall>m. bit w' m \<longleftrightarrow> (if item_sign it then bit w m \<or> m \<in> chunk_mask it
                          else bit w m \<and> m \<notin> chunk_mask it))"
proof -
  note t = item_text_chars [OF assms(1)] and b = item_body_chars [OF assms(1)]
  have v: "(if CHR ''^'' \<notin> set (item_text it) then item_text it
      else TrimLeft (TrimSpace (item_text it)) ''^'') = item_body it"
    unfolding t(2,3,4) by (simp add: item_text_def)
  show ?thesis
  proof (cases it)
    case (One s n)
    then have "fillBitMap w (item_text it) = Ret (setOrClear s w (singleBit (n mod 32)), None)"
      using assms t(1,2) v
      by (simp add: fillBitMap_def Let_def Itoa_not_in Atoi_Itoa cong: if_cong)
    with One assms(1) show ?thesis
      by (auto simp: bit_setOrClear bit_singleBit chunk_mask_def nat_mod_distrib)
  next
    case (Span s l h)
    with assms obtain sv where sv: "hyphenSpan (Itoa l @ ''-'' @ Itoa h) = Ret (sv, None)"
      "\<And>m. bit sv m \<longleftrightarrow> nat (l mod 32) \<le> m \<and> m \<le> nat (h mod 32)"
      using hyphenSpan_Ret [of l h] by (auto simp: in_chunk_def)
    have "fillBitMap w (item_text it) = Ret (setOrClear s w sv, None)"
      using Span assms t(1,2) v sv(1) by (simp add: fillBitMap_def Let_def cong: if_cong)
    moreover have "chunk_mask it = {nat (l mod 32)..nat (h mod 32)}"
      using Span assms span_mod_image [of l h k] by (simp add: chunk_mask_def in_chunk_def)
    ultimately show ?thesis using Span sv(2) by (auto simp: bit_setOrClear)
  qed
qed

lemma item_set_div:
  assumes "item_ok len it" "in_chunk k it" "p \<in> item_set it"
  shows "p div 32 = nat k"
proof (cases it)
  case (One s n)
  with assms show ?thesis by (auto simp: in_chunk_def nat_div_distrib)
next
  case (Span s l h)
  with assms have "nat l div 32 = nat k" "nat h div 32 = nat k" "nat l \<le> p" "p \<le> nat h"
    using nat_div_distrib [of l 32] nat_div_distrib [of h 32] by (auto simp: in_chunk_def)
  then show ?thesis by (metis div_le_mono le_antisym)
qed

lemma item_set_chunk:
  assumes "item_ok len it" "in_chunk k it"
  shows "p \<in> item_set it \<longleftrightarrow> p div 32 = nat k \<and> p mod 32 \<in> chunk_mask it"
proof
  assume "p div 32 = nat k \<and> p mod 32 \<in> chunk_mask it"
  then obtain q where "q \<in> item_set it" "p mod 32 = q mod 32" "p div 32 = q div 32"
    using item_set_div [OF assms] by (auto simp: chunk_mask_def)
  then have "p = q" by (metis div_mult_mod_eq)
  with \<open>q \<in> item_set it\<close> show "p \<in> item_set it" by simp
qed (use item_set_div [OF assms] in \<open>auto simp: chunk_mask_def\<close>)

lemma item_chunk_lt:
  assumes "item_ok len it" "in_chunk k it"
  shows "0 \<le> k" "nat k < chunks_for len"
proof -
  obtain n where n: "0 \<le> n" "n < len" "k = n div 32"
    using assms by (cases it) (auto simp: in_chunk_def)
  then show "0 \<le> k" by simp
  have "n div 32 < (len + 31) div 32" using n by linarith
  then show "nat k < chunks_for len" using n by (simp add: chunks_for_def)
qed

definition ws_ok :: "int \<Rightarrow> 64 word list \<Rightarrow> bool" where
  "ws_ok len ws \<longleftrightarrow> length ws = chunks_for len \<and> (\<forall>w \<in> set ws. chunk_ok w)"

lemma fillAt_item:
  assumes "item_ok len it" "in_chunk k it" "len \<le> 2 ^ 63" "ws_ok len ws"
  shows "\<exists>ws'. fillAt ws k (item_text it) = Ret ws' \<and> ws_ok len ws' \<and>
     bits_set ws' = item_apply (bits_set ws) it"
proof -
  note k = item_chunk_lt [OF assms(1,2)]
  obtain w' where w: "fillBitMap (ws ! nat k) (item_text it) = Ret (w', None)"
    "\<And>m. bit w' m \<longleftrightarrow> (if item_sign it then bit (ws ! nat k) m \<or> m \<in> chunk_mask it
        else bit (ws ! nat k) m \<and> m \<notin> chunk_mask it)"
    using fillBitMap_item [OF assms(1,2,3)] by blast
  have len: "nat k < length ws" using k assms(4) by (simp add: ws_ok_def)
  have "chunk_ok (ws ! nat k)" using len assms(4) by (simp add: ws_ok_def)
  then have "chunk_ok w'" using w(2) by (auto simp: chunk_ok_def chunk_mask_def split: if_splits)
  then have ok: "ws_ok len (ws[nat k := w'])"
    using assms(4) by (auto simp: ws_ok_def dest: set_update_subset_insert [THEN subsetD])
  have "bits_set (ws[nat k := w']) = item_apply (bits_set ws) it"
    using len w(2) item_set_chunk [OF assms(1,2)]
    by (auto simp: bits_set_def item_apply_def nth_list_update)
  moreover have "fillAt ws k (item_text it) = Ret (ws[nat k := w'])"
    using k len w(1) by (simp add: fillAt_def go_index_def)
  ultimately show ?thesis using ok by blast
qed

section \<open>Spans cut at chunk boundaries\<close>

definition cut :: "bool \<Rightarrow> int \<Rightarrow> int \<Rightarrow> int \<Rightarrow> item" where
  "cut s l h i = Span s (if l div 32 < i then i * 32 else l)
     (if (i + 1) * 32 - 1 < h then (i + 1) * 32 - 1 else h)"

lemma spanPiece_cut: "0 \<le> l \<Longrightarrow> spanPiece s l h i = item_text (cut s l h i)"
  by (simp add: spanPiece_def cut_def item_text_def Let_def)

lemma cut_ok:
  assumes "0 \<le> l" "l \<le> h" "h < len" "i \<in> {l div 32..h div 32}"
  shows "item_ok len (cut s l h i)" "in_chunk i (cut s l h i)" "item_sign (cut s l h i) = s"
proof -
  have i: "0 \<le> i" "l div 32 \<le> i" "i \<le> h div 32" using assms by auto
  show "item_ok len (cut s l h i)"
    using i assms by (auto simp: cut_def; linarith)
  have "(i * 32) div 32 = i" "((i + 1) * 32 - 1) div 32 = i" by simp_all
  then show "in_chunk i (cut s l h i)"
    using i assms by (auto simp: cut_def in_chunk_def; linarith)
  show "item_sign (cut s l h i) = s" by (simp add: cut_def)
qed

lemma cut_sets:
  assumes "0 \<le> l" "l \<le> h"
  shows "(\<Union>i \<in> {l div 32..h div 32}. item_set (cut s l h i)) = {nat l..nat h}"
proof
  show "(\<Union>i \<in> {l div 32..h div 32}. item_set (cut s l h i)) \<subseteq> {nat l..nat h}"
    using assms by (auto simp: cut_def split: if_splits; linarith)
  show "{nat l..nat h} \<subseteq> (\<Union>i \<in> {l div 32..h div 32}. item_set (cut s l h i))"
  proof
    fix p assume "p \<in> {nat l..nat h}"
    then have p: "l \<le> int p" "int p \<le> h" using assms by auto
    then have "int p div 32 \<in> {l div 32..h div 32}" by (auto intro: zdiv_mono1)
    moreover have "p \<in> item_set (cut s l h (int p div 32))"
      using p by (auto simp: cut_def; linarith)
    ultimately show "p \<in> (\<Union>i \<in> {l div 32..h div 32}. item_set (cut s l h i))" by blast
  qed
qed

lemma fillSpans_items:
  assumes "len \<le> 2 ^ 63" "\<forall>it \<in> set its. item_ok len it \<and> (\<exists>k. in_chunk k it) \<and> (\<exists>s l h. it = Span s l h)"
    "ws_ok len ws"
  shows "\<exists>ws'. fillSpans ws (map item_text its) = Ret ws' \<and> ws_ok len ws' \<and>
     bits_set ws' = foldl item_apply (bits_set ws) its"
  using assms(2,3)
proof (induction its arbitrary: ws)
  case (Cons it its)
  then obtain k s l h where it: "item_ok len it" "in_chunk k it" "it = Span s l h" by auto
  note t = item_text_chars [OF it(1)]
  obtain ws1 where ws1: "fillAt ws k (item_text it) = Ret ws1" "ws_ok len ws1"
    "bits_set ws1 = item_apply (bits_set ws) it"
    using fillAt_item [OF it(1,2) assms(1) Cons.prems(2)] by blast
  have "spanPhypen2int (item_body it) = Ret ((l, h), None)" "locate l = k"
    using it assms(1)
    by (auto simp: spanPhypen2int_def splitN2_sep Itoa_not_in Atoi_Itoa locate_def in_chunk_def)
  with ws1 have "fillSpans ws (map item_text (it # its)) = fillSpans ws1 (map item_text its)"
    by (simp add: Let_def t(3,4))
  with Cons.IH [of ws1] Cons.prems ws1 show ?case by simp
qed simp

lemma foldl_item_apply_same:
  "\<forall>it \<in> set its. item_sign it = s \<Longrightarrow>
   foldl item_apply A its = (let S = (\<Union>it \<in> set its. item_set it) in if s then A \<union> S else A - S)"
  by (induction its arbitrary: A) (auto simp: item_apply_def Let_def)

lemma genScopes_item:
  assumes "len \<le> 2 ^ 63" "item_ok len it" "ws_ok len ws"
  shows "\<exists>ws'. genScopes ws (item_text it # vs) = genScopes ws' vs \<and> ws_ok len ws' \<and>
     bits_set ws' = item_apply (bits_set ws) it"
proof (cases it)
  case (One s n)
  note t = item_text_chars [OF assms(2)]
  have "in_chunk (n div 32) it" using One by (simp add: in_chunk_def)
  then obtain ws1 where "fillAt ws (n div 32) (item_text it) = Ret ws1" "ws_ok len ws1"
    "bits_set ws1 = item_apply (bits_set ws) it"
    using fillAt_item [OF assms(2) _ assms(1,3)] by blast
  then show ?thesis
    using One assms t(4,7) by (auto simp: Atoi_Itoa locate_def)
next
  case (Span s l h)
  then have lh: "0 \<le> l" "l \<le> h" "h < len" using assms(2) by auto
  note t = item_text_chars [OF assms(2)]
  define its where
    "its = (if h div 32 = l div 32 then [it] else map (cut s l h) [l div 32..h div 32])"
  have its: "\<forall>i \<in> set its. item_ok len i \<and> (\<exists>k. in_chunk k i) \<and> (\<exists>s l h. i = Span s l h)"
    using cut_ok [OF lh] Span assms(2) by (auto simp: its_def in_chunk_def cut_def)
  have "spanPhypen2int (item_body it) = Ret ((l, h), None)"
    using Span lh assms(1) by (simp add: spanPhypen2int_def splitN2_sep Itoa_not_in Atoi_Itoa)
  moreover have sp: "isSpan (item_text it)" using t(7) Span by blast
  ultimately have "silitSpan (item_text it) = Ret (map item_text its, None)"
  proof (cases s)
    case True
    then have "item_text it = item_body it" using Span by (simp add: item_text_def)
    with \<open>spanPhypen2int _ = _\<close> True t(2) sp Span lh show ?thesis
      by (simp add: silitSpan_def Let_def its_def spanPiece_cut)
  next
    case False
    with \<open>spanPhypen2int _ = _\<close> t(2,3,4) sp Span lh show ?thesis
      by (simp add: silitSpan_def Let_def its_def spanPiece_cut)
  qed
  moreover obtain ws1 where ws1: "fillSpans ws (map item_text its) = Ret ws1" "ws_ok len ws1"
    "bits_set ws1 = foldl item_apply (bits_set ws) its"
    using fillSpans_items [OF assms(1) its assms(3)] by blast
  moreover have "foldl item_apply (bits_set ws) its = item_apply (bits_set ws) it"
  proof (cases "h div 32 = l div 32")
    case False
    have "\<forall>i \<in> set its. item_sign i = s" using cut_ok(3) [OF lh] Span by (auto simp: its_def)
    from foldl_item_apply_same [OF this, of "bits_set ws"] show ?thesis
      using False Span cut_sets [OF lh(1,2), of s] by (simp add: its_def item_apply_def Let_def)
  qed (simp add: its_def)
  ultimately show ?thesis using sp by auto
qed

lemma genScopes_items:
  assumes "len \<le> 2 ^ 63" "\<forall>it \<in> set its. item_ok len it" "ws_ok len ws"
  shows "\<exists>ws'. genScopes ws (map item_text its) = Ret (ws', None) \<and> ws_ok len ws' \<and>
     bits_set ws' = foldl item_apply (bits_set ws) its"
  using assms(2,3)
proof (induction its arbitrary: ws)
  case (Cons it its)
  then obtain ws1 where "genScopes ws (map item_text (it # its)) = genScopes ws1 (map item_text its)"
    "ws_ok len ws1" "bits_set ws1 = item_apply (bits_set ws) it"
    using genScopes_item [OF assms(1), of it ws "map item_text its"]
    by (auto simp del: genScopes.simps)
  with Cons.IH [of ws1] Cons.prems show ?case by (simp del: genScopes.simps)
qed simp

definition items_text :: "item list \<Rightarrow> string" where
  "items_text its = join '','' (map item_text its)"

lemma items_text_good:
  "its \<noteq> [] \<Longrightarrow> \<forall>it \<in> set its. item_ok len it \<Longrightarrow>
   items_text its \<noteq> [] \<and> hd (items_text its) \<noteq> CHR ''-'' \<and> \<not> BitMapBadExpression (items_text its)"
proof (induction its rule: induct_list012)
  case (2 it)
  then have it: "item_ok len it" by simp
  show ?case
    using item_text_chars [OF it] item_body_chars(3) [OF it] is_digit_neq(2)
    by (auto simp: items_text_def BitMapBadExpression_iff)
next
  case (3 it it' its)
  then have it: "item_ok len it" and IH: "items_text (it' # its) \<noteq> []"
    "hd (items_text (it' # its)) \<noteq> CHR ''-''" "\<not> BitMapBadExpression (items_text (it' # its))"
    by auto
  have e: "items_text (it # it' # its) = item_text it @ CHR '','' # items_text (it' # its)"
    by (simp add: items_text_def)
  note d = item_body_chars(3) [OF it] and t = item_text_chars [OF it]
  have "\<not> bad_pair (last (item_text it)) (CHR '','')"
    "\<not> bad_pair (CHR '','') (hd (items_text (it' # its)))" "allowed_char (CHR '','')"
    using d IH(2) t(6) is_digit_neq by (auto simp: bad_pair_def allowed_char_def is_digit_def)
  then show ?case
    using IH t unfolding e
    by (auto simp: BitMapBadExpression_iff successively_append_iff successively_Cons)
qed simp

lemma genBits_items:
  assumes "0 \<le> len" "len \<le> 2 ^ 63" "\<forall>its \<in> set itss. its \<noteq> [] \<and> (\<forall>it \<in> set its. item_ok len it)"
  shows "\<exists>ws. genBits (map items_text itss) len = Ret (ws, None) \<and> ws_ok len ws \<and>
     bits_set ws = foldl item_apply {} (concat itss)"
proof -
  have "\<exists>ws'. genMapList ws (map items_text itss) = Ret (ws', None) \<and> ws_ok len ws' \<and>
     bits_set ws' = foldl item_apply (bits_set ws) (concat itss)" if "ws_ok len ws" for ws
    using assms(3) that
  proof (induction itss arbitrary: ws)
    case (Cons its itss)
    then have its: "its \<noteq> []" "\<forall>it \<in> set its. item_ok len it" by auto
    from its have "split_on (CHR '','') (items_text its) = map item_text its"
      unfolding items_text_def by (intro split_on_join) (auto simp: item_text_chars)
    moreover obtain ws1 where "genScopes ws (map item_text its) = Ret (ws1, None)" "ws_ok len ws1"
      "bits_set ws1 = foldl item_apply (bits_set ws) its"
      using genScopes_items [OF assms(2) its(2) Cons.prems(2)] by blast
    ultimately show ?case
      using Cons.IH [of ws1] Cons.prems(1) items_text_good [OF its] by simp
  qed simp
  from this [of "replicate (chunks_for len) 0"] show ?thesis
    using assms(1) by (simp add: genBits_def genBitmap_Ret ws_ok_def)
qed

section \<open>Construction from lists\<close>

lemma foldl_item_apply_bound:
  "A \<subseteq> {..<nat len} \<Longrightarrow> \<forall>it \<in> set its. item_ok len it \<Longrightarrow> foldl item_apply A its \<subseteq> {..<nat len}"
proof (induction its arbitrary: A)
  case (Cons it its)
  have "item_set it \<subseteq> {..<nat len}" using Cons.prems(2) by (cases it) auto
  then have "item_apply A it \<subseteq> {..<nat len}" using Cons.prems(1) by (auto simp: item_apply_def)
  with Cons show ?case by simp
qed simp

lemma NewBitmap_items:
  assumes "0 < len" "len \<le> 2 ^ 63" "\<forall>its \<in> set itss. its \<noteq> [] \<and> (\<forall>it \<in> set its. item_ok len it)"
  shows "\<exists>b. NewBitmap [ArgInt len, ArgStrings (map items_text itss)] = Ret (b, None) \<and> bm_wf b \<and>
     Len b = len \<and> bm_set b = foldl item_apply {} (concat itss)"
proof -
  obtain ws where ws: "genBits (map items_text itss) len = Ret (ws, None)" "ws_ok len ws"
    "bits_set ws = foldl item_apply {} (concat itss)"
    using genBits_items [of len itss] assms by auto
  moreover have "bits_set ws \<subseteq> {..<nat len}"
    using ws(3) foldl_item_apply_bound [of "{}" len "concat itss"] assms(3) by auto
  ultimately show ?thesis
    using assms(1) by (auto simp: NewBitmap_def bm_wf_def bm_set_def ws_ok_def)
qed

lemma NewBitmapIgn_item:
  assumes "0 < len" "len \<le> 2 ^ 63" "item_ok len it" "item_sign it"
  shows "\<exists>b. NewBitmapIgn [ArgInt len, ArgStrings [item_text it]] = Ret b \<and> bm_wf b \<and> Len b = len \<and>
     bm_set b = item_set it"
  using NewBitmap_items [OF assms(1,2), of "[[it]]"] assms(3,4)
  by (auto simp: NewBitmapIgn_def items_text_def item_apply_def)

lemma bm_eqI:
  assumes "bm_wf a" "bm_wf b" "Len a = Len b" "bm_set a = bm_set b"
  shows "a = b"
proof -
  have l: "length (Bits a) = length (Bits b)" using assms by (simp add: bm_wf_def)
  have "Bits a ! i = Bits b ! i" if i: "i < length (Bits a)" for i
  proof (rule bit_eqI)
    fix n
    have "n < 32" if "bit (Bits a ! i) n \<or> bit (Bits b ! i) n"
      using that i l assms(1,2) by (auto simp: bm_wf_def chunk_ok_def)
    moreover have "32 * i + n \<in> bm_set a \<longleftrightarrow> 32 * i + n \<in> bm_set b" using assms(4) by simp
    ultimately show "bit (Bits a ! i) n \<longleftrightarrow> bit (Bits b ! i) n"
      using i l by (auto simp: bm_set_def bits_set_def)
  qed
  then have "Bits a = Bits b" using l by (intro nth_equalityI) auto
  with assms(3) show ?thesis by simp
qed

section \<open>Lists without a given length\<close>

fun item_nums :: "item \<Rightarrow> int list" where
  "item_nums (One s n) = [n]"
| "item_nums (Span s l h) = [l, h]"

lemma AllDatas_run:
  "\<forall>c \<in> set ds. is_digit c \<Longrightarrow> rest = [] \<or> \<not> is_digit (hd rest) \<Longrightarrow> cur @ ds \<noteq> [] \<Longrightarrow>
   AllDatas cur (ds @ rest) = (cur @ ds) # AllDatas [] rest"
  by (induction ds arbitrary: cur) (cases rest, auto)+

lemma AllDatas_skip: "\<not> is_digit c \<Longrightarrow> AllDatas [] (c # rest) = AllDatas [] rest"
  by simp

lemma AllDatas_item:
  assumes "item_ok len it" "rest = [] \<or> \<not> is_digit (hd rest)"
  shows "AllDatas [] (item_text it @ rest) = map Itoa (item_nums it) @ AllDatas [] rest"
proof -
  have d: "AllDatas [] (Itoa n @ r) = Itoa n # AllDatas [] r" if "0 \<le> n" "r = [] \<or> \<not> is_digit (hd r)" for n r
    using AllDatas_run [of "Itoa n" r "[]"] that Itoa_is_digit [OF that(1)] by simp
  have p: "\<not> is_digit (CHR ''-'')" "\<not> is_digit (CHR ''^'')" by (simp_all add: is_digit_def)
  have b: "AllDatas [] (item_body it @ rest) = map Itoa (item_nums it) @ AllDatas [] rest"
    using assms d p by (cases it) (auto simp: AllDatas_skip)
  show ?thesis using b p by (simp add: item_text_def)
qed

lemma AllDatas_items:
  "\<forall>it \<in> set its. item_ok len it \<Longrightarrow>
   AllDatas [] (join '','' (map item_text its)) = map Itoa (concat (map item_nums its))"
proof (induction its rule: induct_list012)
  case (2 it)
  then show ?case using AllDatas_item [of len it "[]"] by simp
next
  case (3 it it' its)
  have "\<not> is_digit (CHR '','')" by (simp add: is_digit_def)
  with 3 show ?case
    using AllDatas_item [of len it "CHR '','' # join '','' (map item_text (it' # its))"]
    by (simp add: AllDatas_skip)
qed simp

lemma foldl_max:
  "\<forall>x \<in> set xs. x \<le> foldl (\<lambda>mx v. if mx < v then v else mx) (m :: int) xs"
  "m \<le> foldl (\<lambda>mx v. if mx < v then v else mx) m xs"
  "foldl (\<lambda>mx v. if mx < v then v else mx) m xs \<in> insert m (set xs)"
proof (induction xs arbitrary: m)
  case (Cons x xs)
  { case 1 show ?case using Cons.IH(1,2) [of "if m < x then x else m"] by (auto split: if_splits)
  next case 2 show ?case using Cons.IH(2) [of "if m < x then x else m"] by (auto split: if_splits)
  next case 3 show ?case using Cons.IH(3) [of "if m < x then x else m"] by (auto split: if_splits) }
qed simp_all

lemma item_nums_ok: "item_ok len it \<Longrightarrow> n \<in> set (item_nums it) \<Longrightarrow> 0 \<le> n \<and> n < len"
  by (cases it) auto

lemma item_ok_nums: "item_ok len it \<Longrightarrow> \<forall>n \<in> set (item_nums it). n < m \<Longrightarrow> item_ok m it"
  by (cases it) auto

lemma lenHumanStyle_items:
  assumes "itss \<noteq> []" "\<forall>its \<in> set itss. its \<noteq> [] \<and> (\<forall>it \<in> set its. item_ok (2 ^ 63 - 1) it)"
  shows "\<exists>m. lenHumanStyle (map items_text itss) = Ret m \<and> 0 \<le> m \<and> m + 1 \<le> 2 ^ 63 \<and>
     (\<forall>its \<in> set itss. \<forall>it \<in> set its. item_ok (m + 1) it)"
proof -
  let ?ns = "concat (map item_nums (concat itss))"
  have ok: "\<forall>it \<in> set (concat itss). item_ok (2 ^ 63 - 1) it" using assms(2) by auto
  have r: "0 \<le> n \<and> n < 2 ^ 63 - 1" if "n \<in> set ?ns" for n
    using that ok item_nums_ok by fastforce
  have atoi: "map Atoi (map Itoa ?ns) = map (\<lambda>n. (n, None)) ?ns"
    using r Atoi_Itoa by (simp only: map_map comp_def) (rule map_cong, simp, fastforce)
  have "join '','' (map items_text itss) = join '','' (map item_text (concat itss))"
    using join_concat [of "map (map item_text) itss" "'',''"] assms(2)
    by (auto simp: items_text_def [abs_def] comp_def map_concat)
  then have a: "map Atoi (AllDatas [] (join '','' (map items_text itss))) = map (\<lambda>n. (n, None)) ?ns"
    using AllDatas_items [OF ok] atoi by simp
  obtain it its' where "concat itss = it # its'" using assms by (cases itss) (auto simp: neq_Nil_conv)
  then obtain x xs where ne: "?ns = x # xs" by (cases it) auto
  define m where "m = foldl (\<lambda>mx v. if mx < v then v else mx) x (x # xs)"
  have m: "\<forall>n \<in> set ?ns. n \<le> m" "m \<in> set ?ns"
    unfolding m_def ne using foldl_max(1) [of "x # xs" x] foldl_max(3) [of x "x # xs"] by auto
  have "lenHumanStyle (map items_text itss) = Ret m"
    unfolding lenHumanStyle_def Let_def a using ne by (auto simp: m_def comp_def)
  moreover have "item_ok (m + 1) it" if "it \<in> set (concat itss)" for it
    using item_ok_nums [of _ it "m + 1"] ok m(1) that by fastforce
  ultimately show ?thesis using r [OF m(2)] by auto
qed

lemma NewBitmap_strings:
  assumes "itss \<noteq> []" "\<forall>its \<in> set itss. its \<noteq> [] \<and> (\<forall>it \<in> set its. item_ok (2 ^ 63 - 1) it)"
  shows "\<exists>b. NewBitmap [ArgStrings (map items_text itss)] = Ret (b, None) \<and> bm_wf b \<and>
     bm_set b = foldl item_apply {} (concat itss)"
proof -
  obtain m where m: "lenHumanStyle (map items_text itss) = Ret m" "0 \<le> m" "m + 1 \<le> 2 ^ 63"
    "\<forall>its \<in> set itss. \<forall>it \<in> set its. item_ok (m + 1) it"
    using lenHumanStyle_items [OF assms] by auto
  have "NewBitmap [ArgStrings (map items_text itss)] =
      NewBitmap [ArgInt (m + 1), ArgStrings (map items_text itss)]"
    using m(1,2) by (simp add: NewBitmap_def)
  then show ?thesis using NewBitmap_items [of "m + 1" itss] m assms(2) by auto
qed

lemma NewBitmap_empty_text:
  "NewBitmap [ArgString []] = Ret (\<lparr>Len = 0, Bits = []\<rparr>, None)"
  by code_simp

end
