(* ===== verification/Bitmap_Runs.thy ===== *)
theory Bitmap_Runs
  imports Bitmap_Parse
begin

unbundle bit_operations_syntax

text \<open>
  Runs of consecutive ones. \<open>GetConnectiveBits\<close> returns the first window of the asked number of
  ways in scan order, or an empty map when there is none; \<open>MaxConnectiveBits\<close> returns a longest
  run; \<open>ToHumanString\<close> prints the runs as a list that parses back to the same map.
\<close>

section \<open>Counting ones in a row\<close>

fun run_len :: "(nat \<Rightarrow> bool) \<Rightarrow> nat \<Rightarrow> nat" where
  "run_len P 0 = 0"
| "run_len P (Suc q) = (if P q then Suc (run_len P q) else 0)"

lemma run_len_ge: "w \<le> run_len P a \<longleftrightarrow> w \<le> a \<and> (\<forall>q \<in> {a - w..<a}. P q)"
proof (induction a arbitrary: w)
  case (Suc a)
  show ?case
  proof (cases w)
    case (Suc w')
    then show ?thesis using Suc.IH [of w'] by (auto simp: less_Suc_eq)
  qed simp
qed simp

lemma unat_of_nat_below: "n < unat (w :: 32 word) \<Longrightarrow> unat (of_nat n :: 32 word) = n"
proof -
  assume "n < unat w"
  then have "n < 2 ^ 32" using unsigned_less [of w, where 'a = nat] by simp
  then show ?thesis by (simp add: unsigned_of_nat take_bit_nat_eq_self)
qed

lemma scanLoop_run:
  assumes "a \<le> m" "run_len P a < unat ways"
    "\<And>q. a \<le> q \<Longrightarrow> q < m \<Longrightarrow> go_index ts (idx q) = Ret (c q)" "\<And>q. a \<le> q \<Longrightarrow> q < m \<Longrightarrow> c q = CHR ''1'' \<longleftrightarrow> P q"
  shows "scanLoop ts ways (map idx [a..<m]) (of_nat (run_len P a)) =
    (if \<exists>e. a < e \<and> e \<le> m \<and> unat ways \<le> run_len P e
     then Ret (ways, of_int (idx ((LEAST e. a < e \<and> e \<le> m \<and> unat ways \<le> run_len P e) - 1)))
     else Ret (of_nat (run_len P m), 0))"
  using assms
proof (induction "m - a" arbitrary: a)
  case 0
  then show ?case by auto
next
  case (Suc k)
  then have am: "a < m" "[a..<m] = a # [Suc a..<m]" by (auto simp: upt_conv_Cons)
  note ix = Suc.prems(3) [of a] Suc.prems(4) [of a]
  let ?Q = "\<lambda>a e. a < e \<and> e \<le> m \<and> unat ways \<le> run_len P e"
  show ?case
  proof (cases "unat ways \<le> run_len P (Suc a)")
    case True
    then have Pa: "P a" "unat ways = Suc (run_len P a)"
      using Suc.prems(2) by (auto split: if_splits)
    have "ways = of_nat (unat ways)" by simp
    then have w: "ways = of_nat (run_len P a) + 1"
      unfolding Pa(2) by (simp add: add.commute)
    have "(LEAST e. ?Q a e) = Suc a"
      using True am(1) by (intro Least_equality) auto
    moreover have "\<exists>e. ?Q a e" using True am(1) by (intro exI [of _ "Suc a"]) auto
    moreover have "scanLoop ts ways (map idx [a..<m]) (of_nat (run_len P a)) = Ret (ways, of_int (idx a))"
      using am ix Pa w by auto
    ultimately show ?thesis by simp
  next
    case False
    have "?Q a e = ?Q (Suc a) e" for e using False by (cases "e = Suc a") auto
    then have Q: "?Q a = ?Q (Suc a)" by (intro ext)
    have t: "P a \<Longrightarrow> \<not> ways \<le> of_nat (run_len P a) + 1"
    proof -
      assume "P a"
      then have "Suc (run_len P a) < unat ways" using False by simp
      then have "unat (of_nat (Suc (run_len P a)) :: 32 word) < unat ways"
        by (simp only: unat_of_nat_below)
      then show ?thesis by (simp add: word_le_nat_alt add.commute)
    qed
    have IH: "scanLoop ts ways (map idx [Suc a..<m]) (of_nat (run_len P (Suc a))) =
      (if \<exists>e. ?Q (Suc a) e then Ret (ways, of_int (idx ((LEAST e. ?Q (Suc a) e) - 1)))
       else Ret (of_nat (run_len P m), 0))"
      using Suc.hyps(2) Suc.prems False am(1) by (intro Suc.hyps(1)) auto
    have "scanLoop ts ways (map idx [a..<m]) (of_nat (run_len P a)) =
      scanLoop ts ways (map idx [Suc a..<m]) (of_nat (run_len P (Suc a)))"
      using am ix t by (auto simp: add.commute)
    then show ?thesis unfolding Q IH by simp
  qed
qed

definition window :: "nat set \<Rightarrow> nat \<Rightarrow> nat \<Rightarrow> bool" where
  "window A s w \<longleftrightarrow> {s..<s + w} \<subseteq> A"

text \<open>The scan of the ones at offsets \<open>0..<m\<close> in scan order ends at the first full window.\<close>

lemma scanLoop_first:
  assumes "0 < ways"
    "\<And>q. q < m \<Longrightarrow> go_index ts (idx q) = Ret (bitchar (P q))"
  shows "\<exists>t c. scanLoop ts ways (map idx [0..<m]) 0 = Ret (t, c) \<and>
    (if ways \<le> t
     then \<exists>s. s + unat ways \<le> m \<and> window {q. P q} s (unat ways) \<and>
            (\<forall>s' < s. \<not> window {q. P q} s' (unat ways)) \<and> c = of_int (idx (s + unat ways - 1))
     else \<forall>s. s + unat ways \<le> m \<longrightarrow> \<not> window {q. P q} s (unat ways))"
proof -
  let ?w = "unat ways" and ?Q = "\<lambda>e. 0 < e \<and> e \<le> m \<and> unat ways \<le> run_len P e"
  have w: "0 < ?w" using assms(1) by (simp add: word_less_nat_alt)
  have ge: "?w \<le> run_len P e \<longleftrightarrow> ?w \<le> e \<and> window {q. P q} (e - ?w) ?w" for e
    by (auto simp: run_len_ge window_def)
  have scan: "scanLoop ts ways (map idx [0..<m]) 0 =
    (if \<exists>e. ?Q e then Ret (ways, of_int (idx ((LEAST e. ?Q e) - 1))) else Ret (of_nat (run_len P m), 0))"
    using scanLoop_run [of 0 m P ways ts idx "\<lambda>q. bitchar (P q)"] assms(2) w by simp
  show ?thesis
  proof (cases "\<exists>e. ?Q e")
    case True
    let ?e = "LEAST e. ?Q e"
    have e: "?Q ?e" using True by (rule LeastI_ex)
    then have s: "?e - ?w + ?w = ?e" using ge by simp
    have "\<not> window {q. P q} s' ?w" if "s' < ?e - ?w" for s'
    proof
      assume "window {q. P q} s' ?w"
      then have "?Q (s' + ?w)" using that e w ge [of "s' + ?w"] by auto
      then have "?e \<le> s' + ?w" by (rule Least_le)
      with that s show False by linarith
    qed
    moreover have "?e - ?w + ?w \<le> m" "window {q. P q} (?e - ?w) ?w" using e s ge by auto
    moreover have "scanLoop ts ways (map idx [0..<m]) 0 = Ret (ways, of_int (idx (?e - ?w + ?w - 1)))"
      using scan True s by simp
    ultimately show ?thesis using order_refl [of ways] by fastforce
  next
    case False
    have no: "\<not> window {q. P q} s ?w" if "s + ?w \<le> m" for s
      using False that w ge [of "s + ?w"] by auto
    have "run_len P m < ?w"
      using False w by (cases "m = 0") (auto simp: not_le dest: spec [of _ m])
    then have "\<not> ways \<le> of_nat (run_len P m)"
      by (simp add: word_le_nat_alt unat_of_nat_below not_le)
    moreover have "scanLoop ts ways (map idx [0..<m]) 0 = Ret (of_nat (run_len P m), 0)"
      unfolding scan using False by (rule if_not_P)
    ultimately show ?thesis using no by simp
  qed
qed

section \<open>The window that is taken\<close>

lemma uint_of_int32: "0 \<le> x \<Longrightarrow> x < 2 ^ 32 \<Longrightarrow> uint (of_int x :: 32 word) = x"
  by (simp add: unsigned_of_int take_bit_int_eq_self)

definition window_item :: "int \<Rightarrow> 32 word \<Rightarrow> item" where
  "window_item x ways = (if 1 < ways then Span True x (x + uint ways - 1) else One True x)"

lemma span_set: "0 \<le> x \<Longrightarrow> 0 < k \<Longrightarrow> {nat x..nat (x + int k - 1)} = {nat x..<nat x + k}"
  by auto

lemma window_item_props:
  assumes "0 < ways" "0 \<le> x" "x + uint ways \<le> len"
  shows "item_ok len (window_item x ways)" "item_sign (window_item x ways)"
    "item_set (window_item x ways) = {nat x..<nat x + unat ways}"
proof -
  have w: "0 < uint ways" "0 < unat ways"
    using assms(1) by (simp add: word_less_def, simp add: word_less_nat_alt)
  show "item_ok len (window_item x ways)" "item_sign (window_item x ways)"
    using assms w by (auto simp: window_item_def word_less_def)
  show "item_set (window_item x ways) = {nat x..<nat x + unat ways}"
  proof (cases "1 < ways")
    case True
    then show ?thesis using span_set [of x "unat ways"] assms w by (simp add: window_item_def)
  next
    case False
    then have "unat ways = 1" using w by (simp add: word_less_nat_alt)
    with False show ?thesis by (auto simp: window_item_def)
  qed
qed

lemma connScope_text:
  assumes "0 < ways" "0 \<le> x" "x + uint ways \<le> len" "len < 2 ^ 32"
  shows "connScope len (of_int (len - x - uint ways)) ways True = item_text (window_item x ways)"
    "connScope len (of_int (len - 1 - x)) ways False = item_text (window_item x ways)"
proof -
  have w: "0 < uint ways" using assms(1) by (simp add: word_less_def)
  have one: "uint ways = 1" if "\<not> 1 < ways" using that w by (simp add: word_less_def)
  have u: "of_int len - 1 - of_int (len - x - uint ways) = (of_int (x + uint ways - 1) :: 32 word)"
    "of_int (x + uint ways - 1) - (ways - 1) = (of_int x :: 32 word)"
    "of_int len - 1 - of_int (len - 1 - x) = (of_int x :: 32 word)"
    "of_int x + (ways - 1) = (of_int (x + uint ways - 1) :: 32 word)"
    by simp_all
  show "connScope len (of_int (len - x - uint ways)) ways True = item_text (window_item x ways)"
    using assms w one unfolding connScope_def Let_def u
    by (simp add: item_text_def window_item_def uint_of_int32 del: of_int_diff of_int_add)
  show "connScope len (of_int (len - 1 - x)) ways False = item_text (window_item x ways)"
    using assms w one unfolding connScope_def Let_def u
    by (simp add: item_text_def window_item_def uint_of_int32 del: of_int_diff of_int_add)
qed

lemma GetConnectiveBits_miss:
  "0 \<le> Len b \<Longrightarrow> GetConnectiveBits b ways offset fromLow = NewBitmapIgn [ArgInt (Len b)] \<Longrightarrow>
   \<exists>r. GetConnectiveBits b ways offset fromLow = Ret r \<and> bm_wf r \<and> Len r = Len b \<and> bm_set r = {}"
  by (simp add: NewBitmap_int)

lemma GetConnectiveBits_hit:
  assumes "0 < Len b" "Len b < 2 ^ 32" "0 < ways" "0 \<le> x" "x + uint ways \<le> Len b"
    "GetConnectiveBits b ways offset fromLow =
       NewBitmapIgn [ArgInt (Len b), ArgStrings [item_text (window_item x ways)]]"
  shows "\<exists>r. GetConnectiveBits b ways offset fromLow = Ret r \<and> bm_wf r \<and> Len r = Len b \<and>
     bm_set r = {nat x..<nat x + unat ways}"
  using NewBitmapIgn_item [OF assms(1) _ window_item_props(1,2) [OF assms(3,4,5)]]
    window_item_props(3) [OF assms(3,4,5)] assms(2,6) by simp

lemma window_bound: "bm_wf b \<Longrightarrow> 0 < w \<Longrightarrow> window (bm_set b) s w \<Longrightarrow> s + w \<le> nat (Len b)"
proof -
  assume a: "bm_wf b" "0 < w" "window (bm_set b) s w"
  then have "s + w - 1 \<in> bm_set b" by (auto simp: window_def)
  with a bm_wfD(4) [OF a(1)] have "s + w - 1 < nat (Len b)" by auto
  then show ?thesis by linarith
qed

lemma offset_sum:
  assumes "unat offset + unat ways < 2 ^ 32"
  shows "unat (offset + ways :: 32 word) = unat offset + unat ways"
  using assms by (simp add: unat_word_ariths(1))

lemma scan_indices:
  "rev [0..l - 1 - int off] = map (\<lambda>q. l - 1 - int off - int q) [0..<nat l - off]"
  "[int off..l - 1] = map (\<lambda>q. int off + int q) [0..<nat l - off]"
proof -
  have n: "nat (l - int off) = nat l - off" by simp
  show "rev [0..l - 1 - int off] = map (\<lambda>q. l - 1 - int off - int q) [0..<nat l - off]"
    by (rule nth_equalityI) (auto simp: rev_nth n, subst nth_upto, auto)
  show "[int off..l - 1] = map (\<lambda>q. int off + int q) [0..<nat l - off]"
    by (rule nth_equalityI) (auto simp: nth_upto n)
qed

lemma GetConnectiveBits_scan:
  assumes "bm_wf b" "0 < Len b" "Len b < 2 ^ 32" "unat offset + unat ways < 2 ^ 32"
  shows "GetConnectiveBits b ways offset fromLow =
    (if nat (Len b) < unat offset + unat ways then NewBitmapIgn [ArgInt (Len b)]
     else andThen (scanLoop (rev (lowText b)) ways
            (map (\<lambda>q. if fromLow then Len b - 1 - uint offset - int q else uint offset + int q)
              [0..<nat (Len b) - unat offset]) 0) (\<lambda>(tot, cur).
          if tot < ways then NewBitmapIgn [ArgInt (Len b)]
          else NewBitmapIgn [ArgInt (Len b), ArgStrings [connScope (Len b) cur ways fromLow]]))"
proof -
  have l: "length (rev (lowText b)) = nat (Len b)" by (simp add: lowText_def)
  have lt: "(of_nat (nat (Len b)) :: 32 word) < offset + ways \<longleftrightarrow> nat (Len b) < unat offset + unat ways"
    unfolding word_less_nat_alt offset_sum [OF assms(4)] unsigned_of_nat
    using assms(3) by (subst take_bit_nat_eq_self) (auto simp: nat_less_iff)
  note low = scan_indices(1) [of "Len b" "unat offset", simplified]
  note high = scan_indices(2) [of "unat offset" "Len b", simplified]
  have u: "uint (of_int (Len b) :: 32 word) = Len b" using assms by (intro uint_of_int32) auto
  show ?thesis
    unfolding GetConnectiveBits_def Let_def binText_lowText [OF assms(1,2)] l lt low high u
    by (cases fromLow) simp_all
qed

lemma rev_lowText_index:
  "0 \<le> i \<Longrightarrow> i < Len b \<Longrightarrow>
   go_index (rev (lowText b)) i = Ret (bitchar (nat (Len b - 1 - i) \<in> bm_set b))"
  by (simp add: go_index_def lowText_def rev_nth nat_less_iff) (simp add: nat_diff_distrib)

text \<open>The position looked at after \<open>q\<close> steps of the scan.\<close>

definition scanPos :: "nat \<Rightarrow> nat \<Rightarrow> bool \<Rightarrow> nat \<Rightarrow> nat" where
  "scanPos n off fromLow q = (if fromLow then off + q else n - 1 - off - q)"

lemma scanPos_window:
  assumes "s + w \<le> n - off" "0 < w"
  shows "window {q. scanPos n off fromLow q \<in> A} s w \<longleftrightarrow>
     window A (if fromLow then off + s else n - off - s - w) w"
proof -
  let ?x = "if fromLow then off + s else n - off - s - w"
  have "{?x..<?x + w} = scanPos n off fromLow ` {s..<s + w}"
  proof (intro equalityI subsetI)
    fix x assume "x \<in> {?x..<?x + w}"
    then have "(if fromLow then x - off else n - 1 - off - x) \<in> {s..<s + w}"
      "x = scanPos n off fromLow (if fromLow then x - off else n - 1 - off - x)"
      using assms by (auto simp: scanPos_def split: if_splits)
    then show "x \<in> scanPos n off fromLow ` {s..<s + w}" by blast
  qed (use assms in \<open>auto simp: scanPos_def\<close>)
  then show ?thesis by (auto simp only: window_def image_subset_iff)
qed

lemma scanPos_index:
  "q < nat (Len b) - off \<Longrightarrow>
   go_index (rev (lowText b)) (if fromLow then Len b - 1 - int off - int q else int off + int q) =
     Ret (bitchar (scanPos (nat (Len b)) off fromLow q \<in> bm_set b))"
  using rev_lowText_index [of "if fromLow then Len b - 1 - int off - int q else int off + int q" b]
  by (auto simp: scanPos_def nat_add_distrib nat_diff_distrib')

lemma GetConnectiveBits_found:
  assumes "bm_wf b" "0 < Len b" "Len b < 2 ^ 32" "0 < ways" "unat offset + unat ways < 2 ^ 32"
    "unat offset + unat ways \<le> nat (Len b)"
  shows "\<exists>r. GetConnectiveBits b ways offset fromLow = Ret r \<and> bm_wf r \<and> Len r = Len b \<and>
    (let P = {q. scanPos (nat (Len b)) (unat offset) fromLow q \<in> bm_set b};
         m = nat (Len b) - unat offset; w = unat ways in
     (\<exists>s. s + w \<le> m \<and> window P s w \<and> (\<forall>s' < s. \<not> window P s' w) \<and>
        bm_set r = (let x = if fromLow then unat offset + s else m - s - w in {x..<x + w})) \<or>
     (\<forall>s. s + w \<le> m \<longrightarrow> \<not> window P s w) \<and> bm_set r = {})"
proof -
  let ?n = "nat (Len b)" and ?o = "unat offset" and ?w = "unat ways"
  let ?P = "\<lambda>q. scanPos ?n ?o fromLow q \<in> bm_set b"
  let ?idx = "\<lambda>q. if fromLow then Len b - 1 - uint offset - int q else uint offset + int q"
  have w: "0 < ?w" using assms(4) by (simp add: word_less_nat_alt)
  have "go_index (rev (lowText b)) (?idx q) = Ret (bitchar (?P q))" if "q < ?n - ?o" for q
    using scanPos_index [OF that, of fromLow] by (cases fromLow) simp_all
  from scanLoop_first [OF assms(4), of "?n - ?o" "rev (lowText b)" ?idx ?P, OF this]
  obtain t c where tc: "scanLoop (rev (lowText b)) ways (map ?idx [0..<?n - ?o]) 0 = Ret (t, c)"
    "if ways \<le> t
     then \<exists>s. s + ?w \<le> ?n - ?o \<and> window {q. ?P q} s ?w \<and>
          (\<forall>s' < s. \<not> window {q. ?P q} s' ?w) \<and> c = of_int (?idx (s + ?w - 1))
     else \<forall>s. s + ?w \<le> ?n - ?o \<longrightarrow> \<not> window {q. ?P q} s ?w"
    by blast
  note scan = GetConnectiveBits_scan [OF assms(1,2,3,5), of fromLow]
  show ?thesis
  proof (cases "ways \<le> t")
    case True
    with tc(2) obtain s where s: "s + ?w \<le> ?n - ?o" "window {q. ?P q} s ?w"
      "\<forall>s' < s. \<not> window {q. ?P q} s' ?w" "c = of_int (?idx (s + ?w - 1))" by auto
    define x where "x = (if fromLow then ?o + s else ?n - ?o - s - ?w)"
    have "x + ?w \<le> ?n" using s(1) w by (auto simp: x_def)
    then have "int x + int ?w \<le> Len b" using assms(2) by linarith
    then have x: "0 \<le> int x" "int x + uint ways \<le> Len b" by simp_all
    have "?idx (s + ?w - 1) = (if fromLow then Len b - int x - uint ways else Len b - 1 - int x)"
      using w s(1) by (auto simp: x_def of_nat_diff)
    then have "connScope (Len b) c ways fromLow = item_text (window_item (int x) ways)"
      unfolding s(4) using connScope_text [OF assms(4) x assms(3)] by (cases fromLow) (simp_all only: if_True if_False)
    with assms(6) True scan tc(1) have "GetConnectiveBits b ways offset fromLow =
        NewBitmapIgn [ArgInt (Len b), ArgStrings [item_text (window_item (int x) ways)]]"
      by (simp add: not_less [symmetric])
    from GetConnectiveBits_hit [OF assms(2,3,4) x this] s(1,2,3) show ?thesis
      unfolding Let_def x_def nat_int by blast
  next
    case False
    then have "GetConnectiveBits b ways offset fromLow = NewBitmapIgn [ArgInt (Len b)]"
      using scan assms(6) tc(1) by (simp add: not_le)
    from GetConnectiveBits_miss [OF _ this] False tc(2) assms(2) show ?thesis by (auto simp: Let_def)
  qed
qed

lemma GetConnectiveBits_fromLow:
  assumes "bm_wf b" "0 < Len b" "Len b < 2 ^ 32" "0 < ways" "unat offset + unat ways < 2 ^ 32"
  shows "\<exists>r. GetConnectiveBits b ways offset True = Ret r \<and> bm_wf r \<and> Len r = Len b \<and>
    (if \<exists>s \<ge> unat offset. window (bm_set b) s (unat ways)
     then \<exists>s \<ge> unat offset. window (bm_set b) s (unat ways) \<and> bm_set r = {s..<s + unat ways} \<and>
            (\<forall>s' \<ge> unat offset. window (bm_set b) s' (unat ways) \<longrightarrow> s \<le> s')
     else bm_set r = {})"
proof -
  let ?w = "unat ways" and ?o = "unat offset" and ?n = "nat (Len b)"
  have w: "0 < ?w" using assms(4) by (simp add: word_less_nat_alt)
  note bound = window_bound [OF assms(1) w]
  show ?thesis
  proof (cases "?n < ?o + ?w")
    case True
    then have "\<not> (\<exists>s \<ge> ?o. window (bm_set b) s ?w)" using bound by fastforce
    with True GetConnectiveBits_scan [OF assms(1,2,3,5), of True]
      GetConnectiveBits_miss [of b ways offset True] assms(2) show ?thesis by auto
  next
    case False
    let ?P = "{q. scanPos ?n ?o True q \<in> bm_set b}"
    have win: "window (bm_set b) s ?w \<longleftrightarrow> s + ?w \<le> ?n \<and> window ?P (s - ?o) ?w" if "?o \<le> s" for s
      using that bound [of s] scanPos_window [of "s - ?o" ?w ?n ?o True "bm_set b"] w by auto
    obtain r where r: "GetConnectiveBits b ways offset True = Ret r" "bm_wf r" "Len r = Len b"
      and c: "(\<exists>s. s + ?w \<le> ?n - ?o \<and> window ?P s ?w \<and> (\<forall>s' < s. \<not> window ?P s' ?w) \<and>
          bm_set r = {?o + s..<?o + s + ?w}) \<or>
        (\<forall>s. s + ?w \<le> ?n - ?o \<longrightarrow> \<not> window ?P s ?w) \<and> bm_set r = {}"
      using GetConnectiveBits_found [OF assms, of True] False by (auto simp: Let_def)
    from c show ?thesis
    proof (elim disjE exE conjE)
      fix s assume s: "s + ?w \<le> ?n - ?o" "window ?P s ?w" "\<forall>s' < s. \<not> window ?P s' ?w"
        "bm_set r = {?o + s..<?o + s + ?w}"
      have "?o + s \<le> s'" if "?o \<le> s'" "window (bm_set b) s' ?w" for s'
        using s(3) that win [of s'] by (metis le_add_diff_inverse nat_add_left_cancel_le not_le)
      moreover have "window (bm_set b) (?o + s) ?w" using s(1,2) False win [of "?o + s"] by simp
      ultimately show ?thesis using r s(4) by (auto intro!: exI [of _ "?o + s"])
    next
      assume "\<forall>s. s + ?w \<le> ?n - ?o \<longrightarrow> \<not> window ?P s ?w" "bm_set r = {}"
      moreover from this have "\<not> window (bm_set b) s ?w" if "?o \<le> s" for s
        using win [OF that] that by auto
      ultimately show ?thesis using r by auto
    qed
  qed
qed

lemma GetConnectiveBits_fromHigh:
  assumes "bm_wf b" "0 < Len b" "Len b < 2 ^ 32" "0 < ways" "unat offset + unat ways < 2 ^ 32"
  shows "\<exists>r. GetConnectiveBits b ways offset False = Ret r \<and> bm_wf r \<and> Len r = Len b \<and>
    (if \<exists>s. s + unat ways + unat offset \<le> nat (Len b) \<and> window (bm_set b) s (unat ways)
     then \<exists>s. s + unat ways + unat offset \<le> nat (Len b) \<and> window (bm_set b) s (unat ways) \<and>
            bm_set r = {s..<s + unat ways} \<and>
            (\<forall>s'. s' + unat ways + unat offset \<le> nat (Len b) \<longrightarrow> window (bm_set b) s' (unat ways) \<longrightarrow> s' \<le> s)
     else bm_set r = {})"
proof -
  let ?w = "unat ways" and ?o = "unat offset" and ?n = "nat (Len b)"
  have w: "0 < ?w" using assms(4) by (simp add: word_less_nat_alt)
  show ?thesis
  proof (cases "?n < ?o + ?w")
    case True
    then have "\<not> (\<exists>s. s + ?w + ?o \<le> ?n \<and> window (bm_set b) s ?w)" by auto
    with True GetConnectiveBits_scan [OF assms(1,2,3,5), of False]
      GetConnectiveBits_miss [of b ways offset False] assms(2) show ?thesis by auto
  next
    case False
    let ?P = "{q. scanPos ?n ?o False q \<in> bm_set b}" and ?m = "?n - ?o - ?w"
    have win: "window (bm_set b) s ?w \<longleftrightarrow> window ?P (?m - s) ?w" if "s \<le> ?m" for s
      using that False scanPos_window [of "?m - s" ?w ?n ?o False "bm_set b"] w by auto
    obtain r where r: "GetConnectiveBits b ways offset False = Ret r" "bm_wf r" "Len r = Len b"
      and c: "(\<exists>s \<le> ?m. window ?P s ?w \<and> (\<forall>s' < s. \<not> window ?P s' ?w) \<and>
          bm_set r = {?m - s..<?m - s + ?w}) \<or>
        (\<forall>s \<le> ?m. \<not> window ?P s ?w) \<and> bm_set r = {}"
    proof -
      have e: "s + ?w \<le> ?n - ?o \<longleftrightarrow> s \<le> ?m" "?n - ?o - s - ?w = ?m - s" for s using False by auto
      show ?thesis
        using GetConnectiveBits_found [OF assms, of False] False that unfolding Let_def e if_False
        by (auto simp only: not_less add.commute)
    qed
    have le: "s + ?w + ?o \<le> ?n \<longleftrightarrow> s \<le> ?m" for s using False by auto
    from c show ?thesis
    proof (elim disjE exE conjE)
      fix s assume s: "s \<le> ?m" "window ?P s ?w" "\<forall>s' < s. \<not> window ?P s' ?w"
        "bm_set r = {?m - s..<?m - s + ?w}"
      have "s' \<le> ?m - s" if "s' \<le> ?m" "window (bm_set b) s' ?w" for s'
        using s(1,3) that win [of s'] by (metis diff_diff_cancel diff_le_mono2 not_le)
      moreover have "window (bm_set b) (?m - s) ?w" 
        using s(1,2) win [of "?m - s"] by (metis diff_diff_cancel diff_le_self)
      ultimately show ?thesis using r s(4) unfolding le by (auto intro!: exI [of _ "?m - s"])
    next
      assume "\<forall>s \<le> ?m. \<not> window ?P s ?w" "bm_set r = {}"
      then show ?thesis using r win unfolding le by auto
    qed
  qed
qed

section \<open>Runs as items\<close>

definition ones :: "nat \<Rightarrow> string \<Rightarrow> nat set" where
  "ones pos xs = {p. pos \<le> p \<and> p < pos + length xs \<and> xs ! (p - pos) = CHR ''1''}"

lemma ones_append: "ones pos (xs @ ys) = ones pos xs \<union> ones (pos + length xs) ys"
proof (intro equalityI subsetI)
  fix p assume "p \<in> ones pos (xs @ ys)"
  then show "p \<in> ones pos xs \<union> ones (pos + length xs) ys"
    by (cases "p < pos + length xs") (auto simp: ones_def nth_append split: if_splits)
qed (auto simp: ones_def nth_append)

lemma ones_Nil [simp]: "ones pos [] = {}"
  by (simp add: ones_def)

lemma ones_replicate: "ones pos (replicate k c) = (if c = CHR ''1'' then {pos..<pos + k} else {})"
  by (auto simp: ones_def)

lemma ones_lowText: "bm_wf b \<Longrightarrow> ones 0 (lowText b) = bm_set b"
  using bm_wfD(4) by (auto simp: ones_def lowText_def subset_iff)

fun is_run :: "string \<Rightarrow> bool" where
  "is_run r = (r \<noteq> [] \<and> r = replicate (length r) (hd r))"

lemma runs_are_runs: "r \<in> set (runs xs) \<Longrightarrow> is_run r"
proof (induction xs rule: runs.induct)
  case (2 x xs)
  have "takeWhile (\<lambda>y. y = x) xs = replicate (length (takeWhile (\<lambda>y. y = x) xs)) x"
    by (rule replicate_length_same [symmetric]) (auto dest: set_takeWhileD)
  with 2 show ?case by auto
qed simp

lemma runs_adjacent: "successively (\<lambda>r r'. hd r \<noteq> hd r') (runs xs)"
proof (induction xs rule: runs.induct)
  case (2 x xs)
  show ?case
  proof (cases "dropWhile (\<lambda>y. y = x) xs")
    case (Cons y ys)
    then have "y \<noteq> x" by (metis (full_types) hd_dropWhile list.sel(1) list.distinct(1))
    with 2 Cons show ?thesis by (simp add: successively_Cons)
  next
    case Nil
    show ?thesis unfolding runs.simps(2) Nil by simp
  qed
qed simp

fun run_items :: "int \<Rightarrow> string list \<Rightarrow> item list" where
  "run_items pos [] = []"
| "run_items pos (r # rs) =
     (if hd r = CHR ''1''
      then [if length r = 1 then One True pos else Span True pos (pos + int (length r) - 1)]
      else []) @ run_items (pos + int (length r)) rs"

lemma humanLoop_items:
  "\<forall>r \<in> set rs. r \<noteq> [] \<Longrightarrow> humanLoop rs pos = Ret (map item_text (run_items pos rs))"
  by (induction rs arbitrary: pos) (auto simp: go_index_def item_text_def hd_conv_nth)

lemma run_items_ok:
  "\<forall>r \<in> set rs. is_run r \<Longrightarrow> 0 \<le> pos \<Longrightarrow> pos + int (length (concat rs)) \<le> len \<Longrightarrow>
   it \<in> set (run_items pos rs) \<Longrightarrow> item_ok len it \<and> item_sign it"
proof (induction rs arbitrary: pos)
  case (Cons r rs)
  then have "0 < length r" by auto
  moreover have "it \<in> set (run_items (pos + int (length r)) rs) \<Longrightarrow> item_ok len it \<and> item_sign it"
    using Cons by (intro Cons.IH) (auto simp: add.assoc)
  ultimately show ?case using Cons.prems by (auto split: if_splits)
qed simp

lemma run_items_set:
  "\<forall>r \<in> set rs. is_run r \<Longrightarrow> (\<Union>it \<in> set (run_items (int pos) rs). item_set it) = ones pos (concat rs)"
proof (induction rs arbitrary: pos)
  case (Cons r rs)
  then have r: "r = replicate (length r) (hd r)" "0 < length r" by auto
  have "ones pos r = (if hd r = CHR ''1'' then {pos..<pos + length r} else {})"
    using ones_replicate [of pos "length r" "hd r"] r(1) by simp
  moreover have "item_set (if length r = 1 then One True (int pos)
      else Span True (int pos) (int pos + int (length r) - 1)) = {pos..<pos + length r}"
    using r(2) span_set [of "int pos" "length r"] by auto
  moreover have "(\<Union>it \<in> set (run_items (int (pos + length r)) rs). item_set it) =
      ones (pos + length r) (concat rs)"
    using Cons by (intro Cons.IH) simp
  ultimately show ?case by (simp add: ones_append del: is_run.simps)
qed simp

lemma ToHumanString_items:
  assumes "bm_wf b" "0 < Len b"
  obtains its where
    "ToHumanString b = Ret (items_text its)" "\<forall>it \<in> set its. item_ok (Len b) it \<and> item_sign it"
    "(\<Union>it \<in> set its. item_set it) = bm_set b"
proof
  let ?rs = "runs (lowText b)"
  have rs: "\<forall>r \<in> set ?rs. is_run r" using runs_are_runs by blast
  have c: "concat ?rs = lowText b" by (rule concat_runs)
  have l: "int (length (concat ?rs)) = Len b" unfolding c using assms(2) by (simp add: lowText_def)
  show "ToHumanString b = Ret (items_text (run_items 0 ?rs))"
    using humanLoop_items [of ?rs 0] rs ToBinStrings_runs [OF assms]
    by (simp add: ToHumanString_def items_text_def)
  show "\<forall>it \<in> set (run_items 0 ?rs). item_ok (Len b) it \<and> item_sign it"
    using run_items_ok [OF rs, of 0 "Len b"] l by simp
  show "(\<Union>it \<in> set (run_items 0 ?rs). item_set it) = bm_set b"
    using run_items_set [OF rs, of 0] ones_lowText [OF assms(1)] by (simp add: c)
qed

lemma ToHumanString_parses_back:
  assumes "bm_wf b" "0 < Len b" "Len b \<le> 2 ^ 63" "bm_set b \<noteq> {}"
  shows "\<exists>h. ToHumanString b = Ret h \<and> NewBitmap [ArgInt (Len b), ArgStrings [h]] = Ret (b, None)"
proof -
  obtain its where its: "ToHumanString b = Ret (items_text its)"
    "\<forall>it \<in> set its. item_ok (Len b) it \<and> item_sign it" "(\<Union>it \<in> set its. item_set it) = bm_set b"
    using ToHumanString_items [OF assms(1,2)] by blast
  have "its \<noteq> []" using its(3) assms(4) by auto
  then obtain c where c: "NewBitmap [ArgInt (Len b), ArgStrings [items_text its]] = Ret (c, None)"
    "bm_wf c" "Len c = Len b" "bm_set c = foldl item_apply {} its"
    using NewBitmap_items [OF assms(2,3), of "[its]"] its(2) by auto
  have "foldl item_apply {} its = bm_set b"
    using foldl_item_apply_same [of its True "{}"] its(2,3) by (simp add: Let_def)
  then have "c = b" using c assms(1) by (intro bm_eqI) auto
  with its(1) c(1) show ?thesis by auto
qed

section \<open>The longest run\<close>

lemma window_ones_run:
  assumes "is_run r" "window (ones pos (r @ ys)) s w" "s < pos + length r" "0 < w"
    "ys = [] \<or> hd ys \<noteq> hd r"
  shows "hd r = CHR ''1'' \<and> w \<le> length r"
proof -
  have r: "r = replicate (length r) (hd r)" "r \<noteq> []" using assms(1) by auto
  have "s \<in> ones pos (r @ ys)" using assms(2,4) by (auto simp: window_def)
  then have s: "pos \<le> s" "s - pos < length r" "r ! (s - pos) = CHR ''1''"
    using assms(3) by (auto simp: ones_def nth_append split: if_splits)
  then have "hd r = CHR ''1''" using r by (metis nth_replicate)
  moreover have "w \<le> length r"
  proof (rule ccontr)
    assume "\<not> w \<le> length r"
    then have "pos + length r \<in> {s..<s + w}" using s(1) assms(3) by auto
    then have "pos + length r \<in> ones pos (r @ ys)" using assms(2) by (auto simp: window_def)
    then have "ys \<noteq> []" "hd ys = CHR ''1''" by (auto simp: ones_def hd_conv_nth nth_append)
    with assms(5) \<open>hd r = CHR ''1''\<close> show False by simp
  qed
  ultimately show ?thesis by simp
qed

lemma window_later:
  assumes "window (ones pos (r @ ys)) s w" "pos + length r \<le> s"
  shows "window (ones (pos + length r) ys) s w"
proof -
  have "x \<in> ones (pos + length r) ys" if "x \<in> {s..<s + w}" for x
  proof -
    have "x \<in> ones pos r \<union> ones (pos + length r) ys"
      using assms(1) that by (auto simp: window_def ones_append [symmetric])
    moreover have "x \<notin> ones pos r" using that assms(2) by (auto simp: ones_def)
    ultimately show ?thesis by blast
  qed
  then show ?thesis by (auto simp: window_def)
qed

lemma concat_hd: "rs \<noteq> [] \<Longrightarrow> \<forall>r \<in> set rs. r \<noteq> [] \<Longrightarrow> concat rs \<noteq> [] \<and> hd (concat rs) = hd (hd rs)"
  by (cases rs) auto

lemma maxRunLoop_longest:
  assumes "\<forall>r \<in> set rs. is_run r" "successively (\<lambda>r r'. hd r \<noteq> hd r') rs" "0 \<le> mx"
  shows "\<exists>k s. maxRunLoop rs (int pos) mx cur = (if mx < int k then (int k, int s) else (mx, cur)) \<and>
    window (ones pos (concat rs)) s k \<and> (\<forall>s' w. window (ones pos (concat rs)) s' w \<longrightarrow> w \<le> k)"
  using assms
proof (induction rs arbitrary: pos mx cur)
  case Nil
  then show ?case by (intro exI [of _ 0]) (auto simp: window_def)
next
  case (Cons r rs)
  have r: "is_run r" "r \<noteq> []" "r = replicate (length r) (hd r)" using Cons.prems(1) by auto
  have one: "CHR ''1'' \<in> set r \<longleftrightarrow> hd r = CHR ''1''" using r(2,3) by (metis in_set_replicate length_0_conv)
  let ?l = "length r" and ?ys = "concat rs"
  define upd where "upd = (hd r = CHR ''1'' \<and> mx < int ?l)"
  define mx1 cur1 where "mx1 = (if upd then int ?l else mx)" and "cur1 = (if upd then int pos else cur)"
  have step: "maxRunLoop (r # rs) (int pos) mx cur = maxRunLoop rs (int (pos + ?l)) mx1 cur1"
    by (simp add: one upd_def mx1_def cur1_def Let_def)
  have "successively (\<lambda>r r'. hd r \<noteq> hd r') rs" using Cons.prems(2) by (cases rs) auto
  moreover have "0 \<le> mx1" using Cons.prems(3) by (simp add: mx1_def)
  ultimately obtain k s where IH: "maxRunLoop rs (int (pos + ?l)) mx1 cur1 =
      (if mx1 < int k then (int k, int s) else (mx1, cur1))"
    "window (ones (pos + ?l) ?ys) s k" "\<And>s' w. window (ones (pos + ?l) ?ys) s' w \<Longrightarrow> w \<le> k"
    using Cons.IH [of mx1 "pos + ?l" cur1] Cons.prems(1) by auto
  have next_run: "?ys = [] \<or> hd ?ys \<noteq> hd r"
    using Cons.prems(1,2) concat_hd [of rs] by (cases rs) (auto simp: successively_Cons)
  have le: "w \<le> (if hd r = CHR ''1'' then max ?l k else k)" if "window (ones pos (r @ ?ys)) s' w" for s' w
    using window_ones_run [OF r(1) that _ _ next_run] window_later [OF that] IH(3) [of s' w]
    by (cases "w = 0"; cases "s' < pos + ?l") (auto simp: not_less le_max_iff_disj)
  have "window (ones pos (r @ ?ys)) s k" using IH(2) by (auto simp: window_def ones_append)
  moreover have "window (ones pos (r @ ?ys)) pos ?l" if "hd r = CHR ''1''"
    using ones_replicate [of pos ?l "hd r"] r(3) that by (auto simp: window_def ones_append)
  ultimately show ?case
    using step IH(1) le
    by (intro exI [of _ "if hd r = CHR ''1'' then max ?l k else k"]
         exI [of _ "if hd r = CHR ''1'' \<and> k \<le> ?l then pos else s"])
      (auto simp: upd_def mx1_def cur1_def max_def)
qed

lemma MaxConnectiveBits_longest:
  assumes "bm_wf b" "0 < Len b" "Len b \<le> 2 ^ 63"
  shows "\<exists>r s k. MaxConnectiveBits b = Ret r \<and> bm_wf r \<and> Len r = Len b \<and> bm_set r = {s..<s + k} \<and>
     window (bm_set b) s k \<and> (\<forall>s' w. window (bm_set b) s' w \<longrightarrow> w \<le> k)"
proof -
  let ?rs = "runs (lowText b)"
  have rs: "\<forall>r \<in> set ?rs. is_run r" using runs_are_runs by blast
  obtain k s where k: "maxRunLoop ?rs 0 0 0 = (if 0 < int k then (int k, int s) else (0, 0))"
    "window (bm_set b) s k" "\<forall>s' w. window (bm_set b) s' w \<longrightarrow> w \<le> k"
    using maxRunLoop_longest [OF rs runs_adjacent, of 0 0 0] ones_lowText [OF assms(1)]
    by (auto simp: concat_runs)
  show ?thesis
  proof (cases "k = 0")
    case True
    then have "MaxConnectiveBits b = NewBitmapIgn [ArgInt (Len b)]"
      using k(1) ToBinStrings_runs [OF assms(1,2)] by (simp add: MaxConnectiveBits_def)
    with True k(2,3) assms(2) show ?thesis by (auto simp: NewBitmap_int)
  next
    case False
    define it where "it = (if k = 1 then One True (int s) else Span True (int s) (int s + int k - 1))"
    have "s + k \<le> nat (Len b)" using window_bound [OF assms(1) _ k(2)] False by simp
    then have ok: "item_ok (Len b) it" "item_sign it" using False assms(2) by (auto simp: it_def)
    moreover have "item_set it = {s..<s + k}"
      using span_set [of "int s" k] False by (auto simp: it_def)
    moreover have "MaxConnectiveBits b = NewBitmapIgn [ArgInt (Len b), ArgStrings [item_text it]]"
      using False k(1) ToBinStrings_runs [OF assms(1,2)]
      by (simp add: MaxConnectiveBits_def it_def item_text_def)
    ultimately show ?thesis using NewBitmapIgn_item [OF assms(2,3) ok] k(2,3) by metis
  qed
qed
end
