(* ===== verification/Bitmap_Hex.thy ===== *)
theory Bitmap_Hex
  imports Bitmap_Text
begin

unbundle bit_operations_syntax

text \<open>
  Hexadecimal masks: what \<open>ToString\<close> prints (the format of the resctrl file system, chunks
  separated by commas) parses back to the same bit map.
\<close>

section \<open>Hexadecimal masks\<close>

lemma length_format_nat: "2 \<le> b \<Longrightarrow> 0 < k \<Longrightarrow> n < b ^ k \<Longrightarrow> length (format_nat b n) \<le> k"
proof (induction k arbitrary: n)
  case (Suc k)
  show ?case
  proof (cases "n < b")
    case True
    then show ?thesis using Suc.prems(1) by (subst format_nat.simps) simp
  next
    case False
    then have "0 < k" "n div b < b ^ k"
      using Suc.prems by (cases k; simp add: less_mult_imp_div_less mult.commute)+
    with Suc False show ?thesis by (subst format_nat.simps) simp
  qed
qed simp

definition chunk_hex :: "nat \<Rightarrow> 64 word \<Rightarrow> string" where
  "chunk_hex w v = zero_pad w (format_nat 16 (unat v))"

lemma chunk_unat: "chunk_ok v \<Longrightarrow> unat v < 2 ^ 32"
  by (rule unat_less_bits) (auto simp: chunk_ok_def)

lemma Sprintf_x_chunk:
  assumes "chunk_ok v"
  shows "Sprintf_x w v = chunk_hex w v"
proof -
  have "\<not> bit v 63" using assms by (auto simp: chunk_ok_def)
  then have "0 \<le> sint v" using bit_last_iff [of v] by simp
  then show ?thesis by (simp add: Sprintf_x_def chunk_hex_def)
qed

lemma chunk_hex_parses:
  assumes "chunk_ok v" "w \<le> 8"
  shows "ParseUint (chunk_hex w v) 16 32 = (unat v, None)" "length (chunk_hex w v) \<le> 8" "chunk_hex w v \<noteq> []"
    "c \<in> set (chunk_hex w v) \<Longrightarrow> \<exists>d < 16. c = digit_char d"
proof -
  have n: "unat v < 16 ^ 8" using chunk_unat [OF assms(1)] by simp
  then show "length (chunk_hex w v) \<le> 8"
    using length_format_nat [of 16 8 "unat v"] assms(2) by (simp add: chunk_hex_def zero_pad_def)
  show "ParseUint (chunk_hex w v) 16 32 = (unat v, None)"
    unfolding chunk_hex_def zero_pad_def using n by (intro ParseUint_format_nat) simp_all
  show "chunk_hex w v \<noteq> []" by (simp add: chunk_hex_def zero_pad_def)
  have "\<exists>d < 16. CHR ''0'' = digit_char d" by (intro exI [of _ 0]) (simp add: digit_char_def)
  then show "\<exists>d < 16. c = digit_char d" if "c \<in> set (chunk_hex w v)"
    using that format_nat_digits [of 16 c "unat v"] by (auto simp: chunk_hex_def zero_pad_def split: if_splits)
qed

definition hex_parts :: "64 word list \<Rightarrow> string list" where
  "hex_parts ws = chunk_hex 0 (last ws) # rev (map (chunk_hex 8) (butlast ws))"

lemma toStringLoop_parts:
  "ws \<noteq> [] \<Longrightarrow> \<forall>w \<in> set ws. chunk_ok w \<Longrightarrow> l = i + length ws \<Longrightarrow>
   toStringLoop l i ws str = join '','' (hex_parts ws) @ (if i = 0 then [] else '','' @ str)"
proof (induction ws arbitrary: i str)
  case (Cons w ws)
  show ?case
  proof (cases ws)
    case Nil
    with Cons.prems show ?thesis by (simp add: hex_parts_def Sprintf_x_chunk)
  next
    case (Cons v vs)
    then have "hex_parts (w # ws) = hex_parts ws @ [chunk_hex 8 w]" by (simp add: hex_parts_def)
    then have "join '','' (hex_parts (w # ws)) = join '','' (hex_parts ws) @ '','' @ chunk_hex 8 w"
      using join_append [of "hex_parts ws"] by (simp add: hex_parts_def [of ws])
    moreover have "toStringLoop l (Suc i) ws str' = join '','' (hex_parts ws) @ '','' @ str'" for str'
      using Cons.IH [of "Suc i" str'] Cons.prems Cons by simp
    ultimately show ?thesis using Cons.prems Cons by (simp add: Sprintf_x_chunk Let_def)
  qed
qed simp

lemma string2dataComma_Ret:
  "\<forall>v \<in> set vs. length v \<le> 8 \<and> ParseUint v 16 32 = (val v, None) \<Longrightarrow> i + length vs = length datas \<Longrightarrow>
   string2dataComma s i vs datas = (rev (map (\<lambda>v. of_nat (val v)) vs) @ drop (length vs) datas, None)"
proof (induction vs arbitrary: i datas)
  case (Cons v vs)
  have "length datas - 1 - i = length vs" "length vs < length datas" using Cons.prems(2) by auto
  then have "drop (length vs) (datas[length datas - 1 - i := of_nat (val v)]) =
      of_nat (val v) # drop (Suc (length vs)) datas"
    by (simp add: drop_update_swap Cons_nth_drop_Suc [symmetric])
  with Cons show ?case by (simp add: intLen_def)
qed simp

lemma hex_text_no_prefix:
  assumes "\<forall>c \<in> set s. c \<noteq> CHR ''x'' \<and> c \<noteq> CHR ''X''"
  shows "TrimPrefix (TrimPrefix s ''0x'') ''0X'' = s"
proof -
  have "\<not> prefix ''0x'' s" "\<not> prefix ''0X'' s" using assms set_mono_prefix [of _ s] by fastforce+
  then show ?thesis by (simp add: TrimPrefix_def)
qed

lemma hex_parts_props:
  assumes "ws \<noteq> []" "\<forall>w \<in> set ws. chunk_ok w" "p \<in> set (hex_parts ws)"
  shows "length p \<le> 8" "p \<noteq> []" "ParseUint p 16 32 = (fst (ParseUint p 16 32), None)"
    "c \<in> set p \<Longrightarrow> \<exists>d < 16. c = digit_char d"
proof -
  obtain w v where "w \<le> 8" "v \<in> set ws" "p = chunk_hex w v"
    using assms(1,3) by (force simp: hex_parts_def dest: in_set_butlastD)
  with assms(2) chunk_hex_parses [of v w] show "length p \<le> 8" "p \<noteq> []"
    "ParseUint p 16 32 = (fst (ParseUint p 16 32), None)" "c \<in> set p \<Longrightarrow> \<exists>d < 16. c = digit_char d"
    by auto
qed

lemma hex_parts_no_comma:
  assumes "ws \<noteq> []" "\<forall>w \<in> set ws. chunk_ok w" "p \<in> set (hex_parts ws)"
  shows "CHR '','' \<notin> set p"
  using hex_parts_props(4) [OF assms] digit_char_neq(1) by metis

lemma hex_parts_values:
  assumes "ws \<noteq> []" "\<forall>w \<in> set ws. chunk_ok w"
  shows "rev (map (\<lambda>p. of_nat (fst (ParseUint p 16 32))) (hex_parts ws)) = ws"
proof -
  have "map (\<lambda>w. of_nat (fst (ParseUint (chunk_hex 8 w) 16 32))) (butlast ws) = butlast ws"
    using assms(2) chunk_hex_parses(1) by (intro map_idI) (auto dest: in_set_butlastD)
  with assms chunk_hex_parses(1) [of "last ws" 0] show ?thesis
    by (simp add: hex_parts_def rev_map o_def)
qed

lemma string2data_parts:
  assumes "ws \<noteq> []" "\<forall>w \<in> set ws. chunk_ok w"
  shows "string2data (join '','' (hex_parts ws)) = (ws, None)"
proof -
  let ?ps = "hex_parts ws" and ?s = "join '','' (hex_parts ws)"
  note p = hex_parts_props [OF assms]
  note nocomma = hex_parts_no_comma [OF assms]
  have dig: "c = CHR '','' \<or> (\<exists>d < 16. c = digit_char d)" if "c \<in> set ?s" for c
    using join_chars [OF that] p(4) by auto
  have "c \<noteq> CHR ''x'' \<and> c \<noteq> CHR ''X''" if "c \<in> set ?s" for c
    using dig [OF that] by auto
  then have trim: "TrimPrefix (TrimPrefix ?s ''0x'') ''0X'' = ?s"
    by (intro hex_text_no_prefix) blast
  show ?thesis
  proof (cases "butlast ws = []")
    case True
    then obtain w where w: "ws = [w]" using assms(1) by (metis append_butlast_last_id append_Nil)
    have s: "join '','' (hex_parts [w]) = chunk_hex 0 w" by (simp add: hex_parts_def)
    have "CHR '','' \<notin> set (chunk_hex 0 w)" using nocomma [of "chunk_hex 0 w"] w by (simp add: hex_parts_def)
    moreover have "length (chunk_hex 0 w) \<le> 8" "chunk_hex 0 w \<noteq> []" "ParseUint (chunk_hex 0 w) 16 32 = (unat w, None)"
      using chunk_hex_parses [of w 0] assms(2) w by auto
    moreover from this have "(int (length (chunk_hex 0 w)) + 7) div 8 = 1"
      by (intro int_div_pos_eq [where r = "int (length (chunk_hex 0 w)) - 1"]) (auto simp: Suc_le_eq)
    ultimately show ?thesis
      using trim unfolding w s by (simp add: string2data_def Let_def intLen_def hexPart_def add.commute)
  next
    case False
    then obtain x y zs where xyz: "?ps = x # y # zs" 
      by (cases "rev (map (chunk_hex 8) (butlast ws))") (simp_all add: hex_parts_def)
    have "split_on (CHR '','') ?s = ?ps"
      using nocomma by (intro split_on_join) (auto simp: hex_parts_def)
    moreover have "CHR '','' \<in> set ?s" by (simp add: xyz)
    moreover have "string2dataComma ?s 0 ?ps (replicate (length ?ps) 0) = (ws, None)"
      using string2dataComma_Ret [of ?ps "\<lambda>p. fst (ParseUint p 16 32)" 0 "replicate (length ?ps) 0" ?s]
        p hex_parts_values [OF assms] by simp
    ultimately show ?thesis by (simp add: string2data_def trim Let_def)
  qed
qed

lemma ToString_parses_back:
  assumes "bm_wf b" "0 < Len b"
  shows "NewBitmap [ArgInt (Len b), ArgString (ToString b)] = Ret (b, None)"
proof -
  have ws: "Bits b \<noteq> []" "\<forall>w \<in> set (Bits b). chunk_ok w"
    using assms by (auto simp: bm_wf_def chunks_for_def)
  have "ToString b = join '','' (hex_parts (Bits b))"
    using toStringLoop_parts [OF ws, of _ 0 "[]"] by (simp add: ToString_def)
  with string2data_parts [OF ws] assms(2) show ?thesis
    by (simp add: NewBitmap_def genBitsFromHexString_def)
qed
end
