(* ===== verification/Util.thy ===== *)
theory Util
  imports Prelude
begin

text \<open>
  The helpers of \<^verbatim>\<open>utils/util.go\<close> and \<^verbatim>\<open>utils/bitmap/bitmaputil.go\<close>: slice search and
  subtraction (with the backing array the subtraction overwrites), the types of plugin parameters,
  and the older byte-wise CPU bit maps.
\<close>

section \<open>Slices (utils/util.go)\<close>

fun HasElem :: "'a list \<Rightarrow> 'a \<Rightarrow> bool" where
  "HasElem [] e = False"
| "HasElem (x # xs) e = (x = e \<or> HasElem xs e)"

fun findPos :: "'a \<Rightarrow> 'a list \<Rightarrow> nat option" where
  "findPos x [] = None"
| "findPos x (y # ys) = (if x = y then Some 0 else map_option Suc (findPos x ys))"

text \<open>
  \<^verbatim>\<open>append(slice[:pos], slice[pos+1:]...)\<close> on a slice of length \<open>n\<close> moves the tail down inside
  the backing array; the cell that falls off the end keeps its value.
\<close>

definition shiftLeft :: "'a list \<Rightarrow> nat \<Rightarrow> nat \<Rightarrow> 'a list" where
  "shiftLeft arr n pos = take pos arr @ take (n - 1 - pos) (drop (Suc pos) arr) @ drop (n - 1) arr"

fun subtractLoop :: "string list \<Rightarrow> nat \<Rightarrow> string list \<Rightarrow> string list \<times> nat" where
  "subtractLoop arr n [] = (arr, n)"
| "subtractLoop arr n (i # s) =
     (case findPos i (take n arr) of
        None \<Rightarrow> subtractLoop arr n s
      | Some pos \<Rightarrow> subtractLoop (shiftLeft arr n pos) (n - 1) s)"

text \<open>The returned slice, and the cells of the slice that was passed as the caller sees them afterwards.\<close>

definition SubtractStringSlice :: "string list \<Rightarrow> string list \<Rightarrow> string list \<times> string list" where
  "SubtractStringSlice sl s =
     (case subtractLoop sl (length sl) s of (arr, n) \<Rightarrow> (take n arr, arr))"

section \<open>Plugin parameters (utils/util.go)\<close>

text \<open>
  The dynamic values the type switch of \<^verbatim>\<open>UnifyMapParamsTypes\<close> distinguishes. Floating-point
  numbers are a type parameter \<open>'f\<close>; how a decimal text is read as one is the argument
  \<open>parseFloat\<close>, and the conversion from \<^verbatim>\<open>float32\<close> the argument \<open>widen\<close>.
\<close>

datatype 'f gval =
    VNumber string | VFloat32 'f | VFloat64 'f | VInt int | VInt32 int | VInt64 int
  | VInts "int list" | VInt32s "int list" | VInt64s "int list" | VFloat32s "'f list" | VFloat64s "'f list"
  | VNil | VBool bool | VString string | VAnys | VOther

datatype 'f unified = Unified "'f gval" | Dropped | Failed

fun unifyValue :: "(string \<Rightarrow> 'f option) \<Rightarrow> ('f \<Rightarrow> 'f) \<Rightarrow> 'f gval \<Rightarrow> 'f unified" where
  "unifyValue parseFloat widen (VNumber s) =
     (case ParseInt s 10 64 of
        (i, None) \<Rightarrow> Unified (VInt64 i)
      | (_, Some _) \<Rightarrow> (case parseFloat s of Some x \<Rightarrow> Unified (VFloat64 x) | None \<Rightarrow> Failed))"
| "unifyValue parseFloat widen (VFloat32 x) = Unified (VFloat64 (widen x))"
| "unifyValue parseFloat widen (VInt i) = Dropped"
| "unifyValue parseFloat widen (VInt32 i) = Unified (VInt64 i)"
| "unifyValue parseFloat widen (VInts is) = Dropped"
| "unifyValue parseFloat widen (VInt32s is) = Unified (VInt64s is)"
| "unifyValue parseFloat widen (VFloat32s xs) = Unified (VFloat64s (map widen xs))"
| "unifyValue parseFloat widen v = Unified v"

fun unifyLoop :: "(string \<Rightarrow> 'f option) \<Rightarrow> ('f \<Rightarrow> 'f) \<Rightarrow> (string \<times> 'f gval) list
    \<Rightarrow> (string \<times> 'f gval) list \<Rightarrow> ((string \<times> 'f gval) list) with_err" where
  "unifyLoop parseFloat widen [] acc = (acc, None)"
| "unifyLoop parseFloat widen ((k, v) # ps) acc =
     (case unifyValue parseFloat widen v of
        Failed \<Rightarrow> ([], Some (Errorf ''Failed to convert from json.Number'' []))
      | Dropped \<Rightarrow> unifyLoop parseFloat widen ps acc
      | Unified u \<Rightarrow> unifyLoop parseFloat widen ps (al_put k u acc))"

definition UnifyMapParamsTypes :: "(string \<Rightarrow> 'f option) \<Rightarrow> ('f \<Rightarrow> 'f) \<Rightarrow> (string \<times> 'f gval) list
    \<Rightarrow> ((string \<times> 'f gval) list) with_err" where
  "UnifyMapParamsTypes parseFloat widen pluginParams = unifyLoop parseFloat widen pluginParams []"

section \<open>Byte-wise bit maps (utils/bitmap/bitmaputil.go)\<close>

fun StringInSlice :: "string \<Rightarrow> string list \<Rightarrow> bool" where
  "StringInSlice val [] = False"
| "StringInSlice val (v # vs) = (v = val \<or> StringInSlice val vs)"

definition stringReverse :: "string \<Rightarrow> string" where
  "stringReverse s = rev s"

definition sliceReverse :: "string list \<Rightarrow> string list" where
  "sliceReverse s = map (\<lambda>i. s ! (length s - 1 - i)) [0..<length s]"

definition initBitMap :: "int \<Rightarrow> string outcome" where
  "initBitMap num = (if num < 0 then Panic MakeSliceLen else Ret (replicate (nat num) (CHR ''0'')))"

definition setByte :: "string \<Rightarrow> int \<Rightarrow> string outcome" where
  "setByte bm i =
     (if 0 \<le> i \<and> i < int (length bm) then Ret (bm[nat i := CHR ''1'']) else Panic IndexOutOfRange)"

definition setBitMap :: "string \<Rightarrow> string \<Rightarrow> string with_err outcome" where
  "setBitMap scope bm =
     (if CHR ''-'' \<in> set scope
      then (case splitN2 (CHR ''-'') scope of
              [s0, s1] \<Rightarrow>
                (case Atoi s0 of
                   (_, Some e) \<Rightarrow> Ret (bm, num_err (Some e) s0)
                 | (low, None) \<Rightarrow>
                     (case Atoi s1 of
                        (_, Some e) \<Rightarrow> Ret (bm, num_err (Some e) s1)
                      | (high, None) \<Rightarrow>
                          if int (length bm) \<le> low \<or> int (length bm) \<le> high
                          then Ret (bm, Some (Errorf ''Set bitmap out index'' []))
                          else andThen (foldO setByte bm [low..high]) (\<lambda>bm'. Ret (bm', None))))
            | _ \<Rightarrow> Panic IndexOutOfRange)
      else (case Atoi scope of
              (_, Some e) \<Rightarrow> Ret (bm, num_err (Some e) scope)
            | (i, None) \<Rightarrow>
                if int (length bm) \<le> i then Ret (bm, Some (Errorf ''Set bitmap out index'' []))
                else andThen (setByte bm i) (\<lambda>bm'. Ret (bm', None))))"

text \<open>\<^verbatim>\<open>delimiterByComma\<close> with the default step 32: commas go in from the right.\<close>

fun commaLoop :: "nat \<Rightarrow> string \<Rightarrow> string" where
  "commaLoop 0 s = s"
| "commaLoop (Suc k) s = commaLoop k (take (32 * Suc k) s @ '','' @ drop (32 * Suc k) s)"

definition delimiterByComma :: "string \<Rightarrow> string" where
  "delimiterByComma bitstr = commaLoop (length bitstr div 32) bitstr"

definition binary2Hex :: "string \<Rightarrow> string with_err" where
  "binary2Hex str =
     (case ParseInt (stringReverse str) 2 64 of
        (_, Some e) \<Rightarrow> ([], num_err (Some e) (stringReverse str))
      | (v, None) \<Rightarrow> (format_nat 16 (unat (of_int v :: 64 word)), None))"

fun setBitMaps :: "string list \<Rightarrow> string \<Rightarrow> string with_err outcome" where
  "setBitMaps [] bm = Ret (bm, None)"
| "setBitMaps (v # vs) bm =
     andThen (setBitMap v bm) (\<lambda>(bm', e). case e of Some _ \<Rightarrow> Ret (bm', e) | None \<Rightarrow> setBitMaps vs bm')"

definition GenerateBitMap :: "string list \<Rightarrow> int \<Rightarrow> string with_err outcome" where
  "GenerateBitMap coreids num =
     andThen (initBitMap num) (\<lambda>bm0.
       andThen (setBitMaps coreids bm0) (\<lambda>(bm, e).
         case e of
           Some _ \<Rightarrow> Ret ([], e)
         | None \<Rightarrow>
             let cpulist = split_on (CHR '','') (delimiterByComma (stringReverse bm))
             in Ret (join '','' (sliceReverse (map (\<lambda>s. fst (binary2Hex s)) cpulist)), None)))"

definition IsZeroHexString :: "string \<Rightarrow> bool" where
  "IsZeroHexString s0 =
     (let s = TrimSpace (RemoveChar (CHR '','') (TrimPrefix (TrimPrefix s0 ''0x'') ''0X''))
      in length s = length (filter (\<lambda>c. c = CHR ''0'') s))"

definition HexMap :: "char \<Rightarrow> int" where
  "HexMap c =
     (if c = CHR ''1'' then 1 else if c = CHR ''3'' then 2 else if c = CHR ''7'' then 3
      else if c = CHR ''f'' \<or> c = CHR ''F'' then 4 else 0)"

definition CbmLen :: "string \<Rightarrow> int" where
  "CbmLen cbm = sum_list (map HexMap cbm)"

section \<open>Correctness\<close>

lemma HasElem_iff [simp]: "HasElem xs e \<longleftrightarrow> e \<in> set xs"
  by (induction xs) auto

lemma StringInSlice_iff [simp]: "StringInSlice v xs \<longleftrightarrow> v \<in> set xs"
  by (induction xs) auto

lemma sliceReverse_rev [simp]: "sliceReverse s = rev s"
  by (rule nth_equalityI) (auto simp: sliceReverse_def rev_nth)

lemma findPos_None [simp]: "findPos x ys = None \<longleftrightarrow> x \<notin> set ys"
  by (induction ys) auto

lemma findPos_Some:
  "findPos x ys = Some p \<Longrightarrow> p < length ys \<and> ys ! p = x \<and> remove1 x ys = take p ys @ drop (Suc p) ys"
  by (induction ys arbitrary: p) (auto split: if_splits)

lemma shiftLeft_props:
  assumes "pos < n" "n \<le> length arr"
  shows "length (shiftLeft arr n pos) = length arr"
    "take (n - 1) (shiftLeft arr n pos) = take pos arr @ drop (Suc pos) (take n arr)"
proof -
  show "length (shiftLeft arr n pos) = length arr" using assms by (auto simp: shiftLeft_def)
  obtain k where n: "n = Suc (pos + k)" using assms(1) less_iff_Suc_add by auto
  show "take (n - 1) (shiftLeft arr n pos) = take pos arr @ drop (Suc pos) (take n arr)"
    using assms(2) unfolding n by (auto simp: shiftLeft_def drop_take)
qed

lemma subtractLoop_remove:
  "n \<le> length arr \<Longrightarrow> subtractLoop arr n s = (arr', n') \<Longrightarrow>
   n' \<le> length arr' \<and> length arr' = length arr \<and> take n' arr' = fold remove1 s (take n arr)"
proof (induction s arbitrary: arr n)
  case (Cons i s)
  show ?case
  proof (cases "findPos i (take n arr)")
    case None
    then have "i \<notin> set (take n arr)" by simp
    with None Cons.IH [of n arr] Cons.prems show ?thesis by (simp add: remove1_idem del: findPos_None)
  next
    case (Some pos)
    with findPos_Some [OF Some] have p: "pos < n" "n \<le> length arr"
      "remove1 i (take n arr) = take pos arr @ drop (Suc pos) (take n arr)"
      using Cons.prems(1) by (auto simp: min_def split: if_splits)
    moreover have "n - 1 \<le> length arr" using p(2) by linarith
    ultimately show ?thesis
      using shiftLeft_props [OF p(1,2)] Cons.IH [of "n - 1" "shiftLeft arr n pos"] Cons.prems Some
      by simp
  qed
qed auto

lemma SubtractStringSlice_result:
  "fst (SubtractStringSlice sl s) = fold remove1 s sl"
  using subtractLoop_remove [of "length sl" sl s]
  by (auto simp: SubtractStringSlice_def split: prod.splits)

lemma fold_remove1_mset: "mset (fold remove1 s xs) = mset xs - mset s"
  by (induction s arbitrary: xs) (auto simp: diff_diff_add_mset)

end
