(* ===== verification/Task.thy ===== *)
theory Task
  imports Prelude
begin

text \<open>
  Transactions of tasks (\<^verbatim>\<open>utils/task/task.go\<close>): the tasks run in order; the first that fails is
  rolled back together with all that ran before it, last one first, and its error is returned.
  A task is any value \<open>'t\<close> with a \<open>run\<close> and a \<open>rollback\<close> on a state \<open>'w\<close>.
\<close>

text \<open>The first loop: tasks that ran (last one first), and the task that failed with its error.\<close>

fun runLoop :: "('t \<Rightarrow> 'w \<Rightarrow> goerror option \<times> 'w) \<Rightarrow> 't list \<Rightarrow> 't list \<Rightarrow> 'w
    \<Rightarrow> (goerror \<times> 't list) option \<times> 'w" where
  "runLoop run past [] w = (None, w)"
| "runLoop run past (t # ts) w =
     (case run t w of
        (None, w') \<Rightarrow> runLoop run (t # past) ts w'
      | (Some e, w') \<Rightarrow> (Some (e, t # past), w'))"

fun rollbackLoop :: "('t \<Rightarrow> 'w \<Rightarrow> goerror option \<times> 'w) \<Rightarrow> 't list \<Rightarrow> 'w \<Rightarrow> 'w" where
  "rollbackLoop rollback [] w = w"
| "rollbackLoop rollback (t # ts) w = rollbackLoop rollback ts (snd (rollback t w))"

definition Start :: "('t \<Rightarrow> 'w \<Rightarrow> goerror option \<times> 'w) \<Rightarrow> ('t \<Rightarrow> 'w \<Rightarrow> goerror option \<times> 'w)
    \<Rightarrow> 't list \<Rightarrow> 'w \<Rightarrow> goerror option \<times> 'w" where
  "Start run rollback tasks w =
     (case runLoop run [] tasks w of
        (None, w') \<Rightarrow> (None, w')
      | (Some (e, failed), w') \<Rightarrow> (Some e, rollbackLoop rollback failed w'))"

section \<open>What the loops do\<close>

fun runs_ok :: "('t \<Rightarrow> 'w \<Rightarrow> goerror option \<times> 'w) \<Rightarrow> 't list \<Rightarrow> 'w \<Rightarrow> bool" where
  "runs_ok run [] w = True"
| "runs_ok run (t # ts) w = (fst (run t w) = None \<and> runs_ok run ts (snd (run t w)))"

definition run_all :: "('t \<Rightarrow> 'w \<Rightarrow> goerror option \<times> 'w) \<Rightarrow> 't list \<Rightarrow> 'w \<Rightarrow> 'w" where
  "run_all run ts w = fold (\<lambda>t w. snd (run t w)) ts w"

lemma runLoop_ok: "runs_ok run ts w \<Longrightarrow> runLoop run past ts w = (None, run_all run ts w)"
  by (induction ts arbitrary: w past) (auto simp: run_all_def split: prod.splits option.splits)

lemma runLoop_fail:
  "runs_ok run ts w \<Longrightarrow> run t (run_all run ts w) = (Some e, w') \<Longrightarrow>
   runLoop run past (ts @ t # rest) w = (Some (e, t # rev ts @ past), w')"
  by (induction ts arbitrary: w past) (auto simp: run_all_def split: prod.splits option.splits)

lemma not_runs_ok_split:
  "\<not> runs_ok run ts w \<Longrightarrow>
   \<exists>us t vs e w'. ts = us @ t # vs \<and> runs_ok run us w \<and> run t (run_all run us w) = (Some e, w')"
proof (induction ts arbitrary: w)
  case (Cons t ts)
  show ?case
  proof (cases "run t w")
    case (Pair r w1)
    show ?thesis
    proof (cases r)
      case (Some e)
      with Pair show ?thesis
        by (intro exI [of _ "[]"] exI [of _ t] exI [of _ ts]) (auto simp: run_all_def)
    next
      case None
      with Pair Cons.prems have "\<not> runs_ok run ts w1" by simp
      from Cons.IH [OF this] obtain us u vs e w' where
        "ts = us @ u # vs" "runs_ok run us w1" "run u (run_all run us w1) = (Some e, w')" by blast
      with Pair None show ?thesis
        by (intro exI [of _ "t # us"] exI [of _ u] exI [of _ vs]) (auto simp: run_all_def)
    qed
  qed
qed simp

lemma Start_ok: "runs_ok run ts w \<Longrightarrow> Start run rollback ts w = (None, run_all run ts w)"
  by (simp add: Start_def runLoop_ok)

lemma Start_fail:
  "runs_ok run us w \<Longrightarrow> run t (run_all run us w) = (Some e, w') \<Longrightarrow>
   Start run rollback (us @ t # vs) w = (Some e, run_all rollback (t # rev us) w')"
proof -
  assume "runs_ok run us w" "run t (run_all run us w) = (Some e, w')"
  from runLoop_fail [OF this, of "[]" vs] have
    "Start run rollback (us @ t # vs) w = (Some e, rollbackLoop rollback (t # rev us) w')"
    by (simp add: Start_def)
  moreover have "rollbackLoop rollback ts w = run_all rollback ts w" for ts w
    by (induction ts arbitrary: w) (auto simp: run_all_def)
  ultimately show ?thesis by (simp add: run_all_def)
qed

section \<open>The contract of a task list\<close>

text \<open>
  \<open>keeps\<close> is a property of the state that every run and every rollback preserves, whether it
  succeeds or not. A transaction then preserves it on every path.
\<close>

locale task_contract =
  fixes run :: "'t \<Rightarrow> 'w \<Rightarrow> goerror option \<times> 'w"
    and rollback :: "'t \<Rightarrow> 'w \<Rightarrow> goerror option \<times> 'w"
    and valid :: "'t \<Rightarrow> bool"
    and keeps :: "'w \<Rightarrow> bool"
  assumes run_keeps: "valid t \<Longrightarrow> keeps w \<Longrightarrow> keeps (snd (run t w))"
    and rollback_keeps: "valid t \<Longrightarrow> keeps w \<Longrightarrow> keeps (snd (rollback t w))"
begin

lemma run_all_keeps:
  "\<forall>t \<in> set ts. valid t \<Longrightarrow> keeps w \<Longrightarrow> keeps (run_all run ts w)"
  by (induction ts arbitrary: w) (auto simp: run_all_def run_keeps)

lemma rollback_all_keeps:
  "\<forall>t \<in> set ts. valid t \<Longrightarrow> keeps w \<Longrightarrow> keeps (run_all rollback ts w)"
  by (induction ts arbitrary: w) (auto simp: run_all_def rollback_keeps)

lemma Start_keeps:
  assumes "\<forall>t \<in> set ts. valid t" "keeps w"
  shows "keeps (snd (Start run rollback ts w))"
proof (cases "runs_ok run ts w")
  case True
  with assms show ?thesis by (simp add: Start_ok run_all_keeps)
next
  case False
  then obtain us t vs e w' where ts: "ts = us @ t # vs" and ok: "runs_ok run us w"
    and fail: "run t (run_all run us w) = (Some e, w')"
    using not_runs_ok_split by metis
  have "keeps w'" using run_keeps [of t "run_all run us w"] run_all_keeps [of us w] assms fail ts by auto
  with assms ts have "keeps (run_all rollback (t # rev us) w')" by (intro rollback_all_keeps) auto
  with ts Start_fail [OF ok fail] show ?thesis by simp
qed

end

end
