(* ===== verification/Resctrl.thy ===== *)
theory Resctrl
  imports Util Task
begin

text \<open>
  The resource-control file system (\<^verbatim>\<open>utils/resctrl\<close>): reading all resource groups and the RDT
  information below \<^verbatim>\<open>info\<close>, the number of classes of service, the mount point, and the task
  list that writes a group with rollback. The file system that is read is a tree; what is written
  goes through \<open>extcall\<close>, so the operating system decides about every operation.
\<close>

section \<open>Data\<close>

record CacheCos =
  cacheID :: "8 word"
  Mask :: string

record MbaCos =
  mbaID :: "8 word"
  Mba :: "32 word"

record ResAssociation =
  Tasks :: "string list"
  CPUs :: string
  CacheSchemata :: "(string, CacheCos list) gomap"
  MbaSchemata :: "(string, MbaCos list) gomap"

definition NewResAssociation :: ResAssociation where
  "NewResAssociation =
     \<lparr>Tasks = [], CPUs = [], CacheSchemata = Some [], MbaSchemata = Some []\<rparr>"

text \<open>\<^verbatim>\<open>&ResAssociation{}\<close>: both maps are nil.\<close>

definition zeroResAssociation :: ResAssociation where
  "zeroResAssociation = \<lparr>Tasks = [], CPUs = [], CacheSchemata = None, MbaSchemata = None\<rparr>"

record RdtCosInfo =
  CbmMask :: string
  MinCbmBits :: int
  NumClosids :: int

definition zeroRdtCosInfo :: RdtCosInfo where
  "zeroRdtCosInfo = \<lparr>CbmMask = [], MinCbmBits = 0, NumClosids = 0\<rparr>"

section \<open>Reading resource groups\<close>

text \<open>One \<^verbatim>\<open>id=mask\<close> of a schemata line.\<close>

definition parseCos :: "string \<Rightarrow> CacheCos outcome" where
  "parseCos cos =
     (case splitN2 (CHR ''='') cos of
        [i, m] \<Rightarrow> Ret \<lparr>cacheID = of_nat (fst (ParseUint i 10 8)), Mask = m\<rparr>
      | _ \<Rightarrow> Panic IndexOutOfRange)"

fun parseCoses :: "string list \<Rightarrow> CacheCos list \<Rightarrow> CacheCos list outcome" where
  "parseCoses [] acc = Ret acc"
| "parseCoses (c # cs) acc = andThen (parseCos c) (\<lambda>x. parseCoses cs (acc @ [x]))"

fun parseSchemata :: "string list \<Rightarrow> (string, CacheCos list) gomap \<Rightarrow> (string, CacheCos list) gomap outcome" where
  "parseSchemata [] m = Ret m"
| "parseSchemata (data # strs) m =
     (let datas = splitN2 (CHR '':'') data;
          key = RemoveChar (CHR '' '') (hd datas)
      in if key = [] then Ret m
         else andThen (case gm_get m key of None \<Rightarrow> gm_put m key [] | Some _ \<Rightarrow> Ret m) (\<lambda>m1.
                andThen (go_index datas 1) (\<lambda>body.
                  andThen (parseCoses (split_on (CHR '';'') body)
                             (case gm_get m1 key of None \<Rightarrow> [] | Some v \<Rightarrow> v)) (\<lambda>v.
                    andThen (gm_put m1 key v) (\<lambda>m2. parseSchemata strs m2)))))"

text \<open>
  The inner function \<^verbatim>\<open>parser\<close>. The field is set by reflection: a name that is no field is an
  error the caller ignores, a field of another type than \<^verbatim>\<open>[]string\<close> panics.
\<close>

definition parseField :: "ResAssociation \<Rightarrow> string \<Rightarrow> string \<Rightarrow> ResAssociation outcome" where
  "parseField res name val =
     (if name = ''Cpus'' then Ret (res\<lparr>CPUs := TrimSpace val\<rparr>)
      else if name = ''Schemata''
      then (let strs = split_on (CHR ''\<newline>'') val
            in andThen (parseSchemata strs (if 1 < length strs then Some [] else CacheSchemata res)) (\<lambda>m.
                 Ret (res\<lparr>CacheSchemata := m\<rparr>)))
      else if name = ''Tasks'' then Ret (res\<lparr>Tasks := butlast (split_on (CHR ''\<newline>'') val)\<rparr>)
      else if name \<in> {''CPUs'', ''CacheSchemata'', ''MbaSchemata''} then Panic TypeAssertion
      else Ret res)"

text \<open>\<^verbatim>\<open>strings.Title\<close> after underscores became spaces, then the spaces dropped.\<close>

definition is_lower :: "char \<Rightarrow> bool" where
  "is_lower c \<longleftrightarrow> (let n = (of_char c :: nat) in 97 \<le> n \<and> n \<le> 122)"

definition is_word_char :: "char \<Rightarrow> bool" where
  "is_word_char c \<longleftrightarrow> (let n = (of_char c :: nat) in
     is_lower c \<or> (65 \<le> n \<and> n \<le> 90) \<or> (48 \<le> n \<and> n \<le> 57) \<or> c = CHR ''_'')"

fun titleLoop :: "bool \<Rightarrow> string \<Rightarrow> string" where
  "titleLoop start [] = []"
| "titleLoop start (c # cs) =
     (if start \<and> is_lower c then char_of ((of_char c :: nat) - 32) else c) # titleLoop (\<not> is_word_char c) cs"

definition fieldName :: "string \<Rightarrow> string" where
  "fieldName f =
     RemoveChar (CHR '' '') (titleLoop True (map (\<lambda>c. if c = CHR ''_'' then CHR '' '' else c) f))"

datatype fnode = FFile string string | FDir string "fnode list"

definition relJoin :: "string \<Rightarrow> string \<Rightarrow> string" where
  "relJoin dir name = (if dir = ''.'' then name else dir @ ''/'' @ name)"

text \<open>
  \<^verbatim>\<open>filepath.Walk\<close> with \<^verbatim>\<open>parserResAssociation\<close>: \<open>rel\<close> is the path of the directory
  relative to the base. An ignored directory is skipped with everything below it.
\<close>

fun walkRes :: "string list \<Rightarrow> string \<Rightarrow> fnode \<Rightarrow> (string \<times> ResAssociation) list
    \<Rightarrow> (string \<times> ResAssociation) list outcome"
  and walkResList :: "string list \<Rightarrow> string \<Rightarrow> fnode list \<Rightarrow> (string \<times> ResAssociation) list
    \<Rightarrow> (string \<times> ResAssociation) list outcome" where
  "walkRes ignore rel (FFile f data) ps =
     (if f \<in> set ignore then Ret ps
      else case map_of ps rel of
             None \<Rightarrow> Panic NilDereference
           | Some pl \<Rightarrow> andThen (parseField pl (fieldName f) data) (\<lambda>pl'. Ret (al_put rel pl' ps)))"
| "walkRes ignore rel (FDir f nodes) ps =
     (if f \<in> set ignore then Ret ps
      else walkResList ignore rel nodes (al_put rel zeroResAssociation ps))"
| "walkResList ignore rel [] ps = Ret ps"
| "walkResList ignore rel (n # ns) ps =
     andThen (walkRes ignore (case n of FFile _ _ \<Rightarrow> rel | FDir f _ \<Rightarrow> relJoin rel f) n ps) (\<lambda>ps'.
       walkResList ignore rel ns ps')"

definition GetResAssociation :: "fnode option \<Rightarrow> string list \<Rightarrow> (string \<times> ResAssociation) list outcome" where
  "GetResAssociation sysResctrl availableCLOS =
     (case sysResctrl of
        None \<Rightarrow> Ret []
      | Some root \<Rightarrow> walkRes ([''info'', ''mon_data'', ''mon_groups''] @ availableCLOS) ''.'' root [])"

section \<open>Reading RDT information\<close>

text \<open>\<^verbatim>\<open>SetField\<close> on an \<^verbatim>\<open>RdtCosInfo\<close> with a string value.\<close>

definition setInfoField :: "RdtCosInfo \<Rightarrow> string \<Rightarrow> string \<Rightarrow> RdtCosInfo with_err" where
  "setInfoField res name val =
     (if name = ''CbmMask'' then (res\<lparr>CbmMask := val\<rparr>, None)
      else if name = ''MinCbmBits''
      then (case Atoi val of (i, None) \<Rightarrow> (res\<lparr>MinCbmBits := i\<rparr>, None) | (_, e) \<Rightarrow> (res, num_err e val))
      else if name = ''NumClosids''
      then (case Atoi val of (i, None) \<Rightarrow> (res\<lparr>NumClosids := i\<rparr>, None) | (_, e) \<Rightarrow> (res, num_err e val))
      else (res, Some (Errorf ''No such field: %s in obj'' [name])))"

text \<open>An error returned by the visitor ends the walk; an ignored directory is entered all the same.\<close>

fun walkInfo :: "string list \<Rightarrow> string \<Rightarrow> fnode \<Rightarrow> (string \<times> RdtCosInfo) list
    \<Rightarrow> ((string \<times> RdtCosInfo) list) with_err outcome"
  and walkInfoList :: "string list \<Rightarrow> string \<Rightarrow> fnode list \<Rightarrow> (string \<times> RdtCosInfo) list
    \<Rightarrow> ((string \<times> RdtCosInfo) list) with_err outcome" where
  "walkInfo ignore rel (FFile f data) mres =
     (if f \<in> set ignore then Ret (mres, None)
      else case map_of mres (ToLower rel) of
             None \<Rightarrow> Panic NilDereference
           | Some res \<Rightarrow>
               (case setInfoField res (fieldName f) (TrimSpace data) of
                  (res', e) \<Rightarrow> Ret (al_put (ToLower rel) res' mres, e)))"
| "walkInfo ignore rel (FDir f nodes) mres =
     walkInfoList ignore rel nodes
       (if f \<in> set ignore then mres else al_put (ToLower rel) zeroRdtCosInfo mres)"
| "walkInfoList ignore rel [] mres = Ret (mres, None)"
| "walkInfoList ignore rel (n # ns) mres =
     andThen (walkInfo ignore (case n of FFile _ _ \<Rightarrow> rel | FDir f _ \<Rightarrow> relJoin rel f) n mres) (\<lambda>(m, e).
       case e of Some _ \<Rightarrow> Ret (m, e) | None \<Rightarrow> walkInfoList ignore rel ns m)"

text \<open>The result is kept in the package variable \<^verbatim>\<open>RdtInfo\<close> after the first call.\<close>

definition GetRdtCosInfo :: "fnode option \<Rightarrow> (string \<times> RdtCosInfo) list option
    \<Rightarrow> ((string \<times> RdtCosInfo) list \<times> (string \<times> RdtCosInfo) list option) outcome" where
  "GetRdtCosInfo infoDir rdtInfo =
     (case rdtInfo of
        Some info \<Rightarrow> Ret (info, rdtInfo)
      | None \<Rightarrow>
          (case infoDir of
             None \<Rightarrow> Ret ([], Some [])
           | Some root \<Rightarrow>
               andThen (walkInfo [''info'', ''bit_usage'', ''shareable_bits''] ''.'' root []) (\<lambda>(info, _).
                 Ret (info, Some info))))"

section \<open>Number of classes, mount point\<close>

text \<open>\<^verbatim>\<open>bufio.Scanner\<close> in line mode.\<close>

definition scanLines :: "string \<Rightarrow> string list" where
  "scanLines content =
     (let ls = split_on (CHR ''\<newline>'') content;
          body = (if last ls = [] then butlast ls else ls)
      in map (\<lambda>l. if l \<noteq> [] \<and> last l = CHR 0x0D then butlast l else l) body)"

text \<open>The text of the last line of a file; \<open>None\<close> stands for a file that cannot be opened.\<close>

definition readClosNum :: "string option \<Rightarrow> int with_err" where
  "readClosNum file =
     (case file of
        None \<Rightarrow> (0, Some (Errorf ''open'' []))
      | Some content \<Rightarrow>
          (let text = (case rev (scanLines content) of [] \<Rightarrow> [] | l # _ \<Rightarrow> l)
           in case Atoi text of (n, None) \<Rightarrow> (n, None) | (_, e) \<Rightarrow> (0, num_err e text)))"

definition GetNumOfCLOS :: "string option \<Rightarrow> string option \<Rightarrow> bool \<Rightarrow> bool \<Rightarrow> int with_err" where
  "GetNumOfCLOS l3File mbaFile getL3Clos getMbaClos =
     (if \<not> getL3Clos \<and> \<not> getMbaClos
      then (0, Some (Errorf ''Invalid input flags for GetNumOfCLOS'' []))
      else
        case (if getL3Clos then readClosNum l3File else (0, None)) of
          (_, Some e) \<Rightarrow> (0, Some e)
        | (numL3Clos, None) \<Rightarrow>
            (case (if getMbaClos then readClosNum mbaFile else (0, None)) of
               (_, Some e) \<Rightarrow> (0, Some e)
             | (numMbaClos, None) \<Rightarrow>
                 if getL3Clos \<and> \<not> getMbaClos then (numL3Clos, None)
                 else if getL3Clos \<and> \<not> getMbaClos then (numMbaClos, None)
                 else if numL3Clos < numMbaClos then (numL3Clos, None)
                 else (numMbaClos, None)))"

text \<open>\<^verbatim>\<open>strings.Index(text, " - ")\<close>, and \<^verbatim>\<open>strings.Fields\<close>.\<close>

fun indexOf :: "string \<Rightarrow> string \<Rightarrow> nat option" where
  "indexOf sub [] = (if sub = [] then Some 0 else None)"
| "indexOf sub (c # cs) = (if prefix sub (c # cs) then Some 0 else map_option Suc (indexOf sub cs))"

fun fieldsLoop :: "string \<Rightarrow> string \<Rightarrow> string list" where
  "fieldsLoop cur [] = (if cur = [] then [] else [cur])"
| "fieldsLoop cur (c # cs) =
     (if is_space c then (if cur = [] then [] else [cur]) @ fieldsLoop [] cs else fieldsLoop (cur @ [c]) cs)"

datatype mountErr = MountNotFound string | MountOther goerror

fun mountLoop :: "string list \<Rightarrow> (string + mountErr) outcome" where
  "mountLoop [] = Ret (Inr (MountNotFound ''Intel RDT''))"
| "mountLoop (text # rest) =
     andThen (go_slice text (case indexOf '' - '' text of None \<Rightarrow> 2 | Some i \<Rightarrow> int i + 3)
                (int (length text))) (\<lambda>post.
       case fieldsLoop [] post of
         [] \<Rightarrow> Ret (Inr (MountOther (Errorf ''Found no fields post '-' in %q'' [text])))
       | f # fs \<Rightarrow>
           if f = ''resctrl''
           then (if length (f # fs) < 3
                 then Ret (Inr (MountOther (Errorf ''Error found less than 3 fields post '-' in %q'' [text])))
                 else andThen (go_index (split_on (CHR '' '') text) 4) (\<lambda>r. Ret (Inl r)))
           else mountLoop rest)"

text \<open>\<open>None\<close> stands for a mountinfo file that cannot be opened.\<close>

definition findIntelRdtMountpointDir :: "string list option \<Rightarrow> (string + mountErr) outcome" where
  "findIntelRdtMountpointDir mountinfo =
     (case mountinfo of
        None \<Rightarrow> Ret (Inr (MountOther (Errorf ''open /proc/self/mountinfo'' [])))
      | Some ls \<Rightarrow> mountLoop ls)"

text \<open>\<open>intelRdtRoot\<close> is the package variable; \<open>statOk\<close> tells whether a path can be accessed.\<close>

definition getIntelRdtRoot :: "string list option \<Rightarrow> (string \<Rightarrow> bool) \<Rightarrow> string
    \<Rightarrow> ((string + mountErr) \<times> string) outcome" where
  "getIntelRdtRoot mountinfo statOk intelRdtRoot =
     (if intelRdtRoot \<noteq> [] then Ret (Inl intelRdtRoot, intelRdtRoot)
      else andThen (findIntelRdtMountpointDir mountinfo) (\<lambda>r.
             case r of
               Inr e \<Rightarrow> Ret (Inr e, intelRdtRoot)
             | Inl root \<Rightarrow>
                 if statOk root then Ret (Inl root, root)
                 else Ret (Inr (MountOther (Errorf ''stat %s'' [root])), intelRdtRoot)))"

definition IsNotFound :: "mountErr option \<Rightarrow> bool" where
  "IsNotFound err = (case err of Some (MountNotFound _) \<Rightarrow> True | _ \<Rightarrow> False)"

definition IsIntelRdtMounted :: "string list option \<Rightarrow> (string \<Rightarrow> bool) \<Rightarrow> string \<Rightarrow> (bool \<times> string) outcome" where
  "IsIntelRdtMounted mountinfo statOk intelRdtRoot =
     andThen (getIntelRdtRoot mountinfo statOk intelRdtRoot) (\<lambda>(r, root).
       Ret (case r of Inl _ \<Rightarrow> True | Inr e \<Rightarrow> \<not> IsNotFound (Some e), root))"

section \<open>Writing\<close>

datatype fsop =
    WriteFile string string | MkdirAll string | Remove string | RemoveAll string | Stat string
  | Exec "string list"

datatype oserr = ENOENT | EOther string

type_synonym os = "fsop list \<Rightarrow> fsop \<Rightarrow> oserr option"

definition os_err :: "oserr option \<Rightarrow> goerror option" where
  "os_err e = map_option (\<lambda>x. Errorf ''%v'' [case x of ENOENT \<Rightarrow> ''no such file or directory'' | EOther s \<Rightarrow> s]) e"

text \<open>\<^verbatim>\<open>filepath.Join\<close> of a clean directory and a file or group name.\<close>

definition pathJoin :: "string \<Rightarrow> string \<Rightarrow> string" where
  "pathJoin dir name = (if name = ''.'' then dir else dir @ ''/'' @ name)"

definition writeFile :: "os \<Rightarrow> string \<Rightarrow> string \<Rightarrow> string \<Rightarrow> fsop list \<Rightarrow> goerror option \<times> fsop list" where
  "writeFile os dir file data0 h =
     (if dir = [] then (Some (Errorf ''no such directory for %s'' [file]), h)
      else
        let data = (if suffix ''\<newline>'' data0 then data0 else data0 @ ''\<newline>'')
        in case extcall os (WriteFile (pathJoin dir file) data) h of
             (None, h') \<Rightarrow> (None, h')
           | (Some e, h') \<Rightarrow> (Some (Errorf ''failed to write %v to %v: %v'' [data, file]), h'))"

definition DestroyResAssociation :: "os \<Rightarrow> string \<Rightarrow> string \<Rightarrow> fsop list \<Rightarrow> goerror option \<times> fsop list" where
  "DestroyResAssociation os sysResctrl grp h =
     (case extcall os (RemoveAll (pathJoin sysResctrl grp)) h of (e, h') \<Rightarrow> (os_err e, h'))"

fun removeLoop :: "os \<Rightarrow> string \<Rightarrow> string list \<Rightarrow> goerror option \<Rightarrow> fsop list \<Rightarrow> goerror option \<times> fsop list" where
  "removeLoop os sysResctrl [] err h = (err, h)"
| "removeLoop os sysResctrl (v # vs) err h =
     (case writeFile os sysResctrl ''tasks'' v h of (e, h') \<Rightarrow> removeLoop os sysResctrl vs e h')"

definition RemoveTasks :: "os \<Rightarrow> string \<Rightarrow> string list \<Rightarrow> fsop list \<Rightarrow> goerror option \<times> fsop list" where
  "RemoveTasks os sysResctrl tasks h = removeLoop os sysResctrl tasks None h"

definition mountCmd :: "os \<Rightarrow> string list \<Rightarrow> fsop list \<Rightarrow> bool \<times> fsop list" where
  "mountCmd os args h =
     (case extcall os (MkdirAll ''/sys/fs/resctrl'') h of
        (Some _, h1) \<Rightarrow> (False, h1)
      | (None, h1) \<Rightarrow> (case extcall os (Exec args) h1 of (e, h2) \<Rightarrow> (e = None, h2)))"

definition EnableCat :: "os \<Rightarrow> fsop list \<Rightarrow> bool \<times> fsop list" where
  "EnableCat os = mountCmd os [''mount'', ''-t'', ''resctrl'', ''resctrl'', ''/sys/fs/resctrl'']"

definition EnableCdp :: "os \<Rightarrow> fsop list \<Rightarrow> bool \<times> fsop list" where
  "EnableCdp os = mountCmd os [''mount'', ''-t'', ''resctrl'', ''-o'', ''cdp'', ''resctrl'', ''/sys/fs/resctrl'']"

definition DisableRdt :: "os \<Rightarrow> bool \<Rightarrow> fsop list \<Rightarrow> bool \<times> fsop list" where
  "DisableRdt os mounted h =
     (if mounted
      then (case extcall os (Exec [''umount'', ''/sys/fs/resctrl'']) h of (e, h') \<Rightarrow> (e = None, h'))
      else (True, h))"

section \<open>The task flow\<close>

datatype taskKind = GroupTask | CPUsTask | TasksTask | SchemataTask

record Task =
  kind :: taskKind
  TaskName :: string
  Res :: ResAssociation
  RessSnapshot :: "(string \<times> ResAssociation) list"
  Group :: string
  Path :: string
  Revert :: bool

fun writeTasks :: "os \<Rightarrow> string \<Rightarrow> string list \<Rightarrow> fsop list \<Rightarrow> goerror option \<times> fsop list" where
  "writeTasks os path [] h = (None, h)"
| "writeTasks os path (v # vs) h =
     (case writeFile os path ''tasks'' v h of
        (None, h') \<Rightarrow> writeTasks os path vs h'
      | (Some e, h') \<Rightarrow> (Some e, h'))"

text \<open>The entries of one resource in the order of their ids, each id below the number of entries once.\<close>

definition orderedCos :: "('c \<Rightarrow> 8 word) \<Rightarrow> ('c \<Rightarrow> string) \<Rightarrow> 'c list \<Rightarrow> string list" where
  "orderedCos cid val v =
     concat (map (\<lambda>i. case find (\<lambda>c. cid c = of_nat i) v of
                        None \<Rightarrow> []
                      | Some c \<Rightarrow> [Itoa (uint (cid c)) @ ''='' @ val c]) [0..<length v])"

definition schemataLines :: "('c \<Rightarrow> 8 word) \<Rightarrow> ('c \<Rightarrow> string) \<Rightarrow> (string \<times> 'c list) list \<Rightarrow> string" where
  "schemataLines cid val m =
     join ''\<newline>'' (map (\<lambda>(k, v). k @ '':'' @ join '';'' (orderedCos cid val v)) m)"

definition schemataData :: "ResAssociation \<Rightarrow> string" where
  "schemataData r =
     (let dataCache = schemataLines cacheID Mask (gm_items (CacheSchemata r));
          dataMba = schemataLines mbaID (\<lambda>c. Itoa (uint (Mba c))) (gm_items (MbaSchemata r))
      in (if dataCache \<noteq> [] then dataCache @ ''\<newline>'' else []) @ dataMba)"

definition GroupTask_Run :: "os \<Rightarrow> Task \<Rightarrow> fsop list \<Rightarrow> goerror option \<times> fsop list" where
  "GroupTask_Run os t h = (case extcall os (MkdirAll (Path t)) h of (e, h') \<Rightarrow> (os_err e, h'))"

definition CPUsTask_Run :: "os \<Rightarrow> Task \<Rightarrow> fsop list \<Rightarrow> goerror option \<times> fsop list" where
  "CPUsTask_Run os t h =
     (if CPUs (Res t) \<noteq> [] then writeFile os (Path t) ''cpus'' (CPUs (Res t)) h else (None, h))"

definition TasksTask_Run :: "os \<Rightarrow> Task \<Rightarrow> fsop list \<Rightarrow> goerror option \<times> fsop list" where
  "TasksTask_Run os t h =
     (if Group t \<noteq> ''.'' \<and> Tasks (Res t) \<noteq> [] then writeTasks os (Path t) (Tasks (Res t)) h
      else (None, h))"

definition SchemataTask_Run :: "os \<Rightarrow> Task \<Rightarrow> fsop list \<Rightarrow> goerror option \<times> fsop list" where
  "SchemataTask_Run os t h = writeFile os (Path t) ''schemata'' (schemataData (Res t)) h"

text \<open>The method tables of the interface \<^verbatim>\<open>task.Task\<close>.\<close>

definition Run :: "os \<Rightarrow> Task \<Rightarrow> fsop list \<Rightarrow> goerror option \<times> fsop list" where
  "Run os t =
     (case kind t of
        GroupTask \<Rightarrow> GroupTask_Run os t
      | CPUsTask \<Rightarrow> CPUsTask_Run os t
      | TasksTask \<Rightarrow> TasksTask_Run os t
      | SchemataTask \<Rightarrow> SchemataTask_Run os t)"

lemmas Run_defs = Run_def GroupTask_Run_def CPUsTask_Run_def TasksTask_Run_def SchemataTask_Run_def

fun writeBack :: "os \<Rightarrow> string \<Rightarrow> string list \<Rightarrow> fsop list \<Rightarrow> fsop list" where
  "writeBack os path [] h = h"
| "writeBack os path (v # vs) h = writeBack os path vs (snd (writeFile os path ''tasks'' v h))"

text \<open>
  In the roll back of tasks the first subtraction overwrites the cells of the snapshot's slice, and
  the second one reads them (\<open>snapTasks\<close>).
\<close>

definition GroupTask_Rollback :: "os \<Rightarrow> Task \<Rightarrow> fsop list \<Rightarrow> goerror option \<times> fsop list" where
  "GroupTask_Rollback os t h = (None, snd (extcall os (Remove (Path t)) h))"

definition CPUsTask_Rollback :: "os \<Rightarrow> Task \<Rightarrow> fsop list \<Rightarrow> goerror option \<times> fsop list" where
  "CPUsTask_Rollback os t h =
     (if \<not> Revert t then (None, h)
      else case map_of (RessSnapshot t) (Group t) of
             Some res \<Rightarrow> writeFile os (Path t) ''cpus'' (CPUs res) h
           | None \<Rightarrow> (None, h))"

definition TasksTask_Rollback :: "os \<Rightarrow> string \<Rightarrow> Task \<Rightarrow> fsop list \<Rightarrow> goerror option \<times> fsop list" where
  "TasksTask_Rollback os sysResctrl t h =
     (if \<not> Revert t then (None, h)
      else case map_of (RessSnapshot t) (Group t) of
             Some res \<Rightarrow>
               (case SubtractStringSlice (Tasks res) (Tasks (Res t)) of
                  (ts, snapTasks) \<Rightarrow>
                    if ts \<noteq> [] then (None, writeBack os (Path t) ts h)
                    else (None, snd (RemoveTasks os sysResctrl
                           (fst (SubtractStringSlice (Tasks (Res t)) snapTasks)) h)))
           | None \<Rightarrow> (None, h))"

definition SchemataTask_Rollback :: "Task \<Rightarrow> fsop list \<Rightarrow> goerror option \<times> fsop list" where
  "SchemataTask_Rollback t h = (None, h)"

definition Rollback :: "os \<Rightarrow> string \<Rightarrow> Task \<Rightarrow> fsop list \<Rightarrow> goerror option \<times> fsop list" where
  "Rollback os sysResctrl t =
     (case kind t of
        GroupTask \<Rightarrow> GroupTask_Rollback os t
      | CPUsTask \<Rightarrow> CPUsTask_Rollback os t
      | TasksTask \<Rightarrow> TasksTask_Rollback os sysResctrl t
      | SchemataTask \<Rightarrow> SchemataTask_Rollback t)"

lemmas Rollback_defs = Rollback_def GroupTask_Rollback_def CPUsTask_Rollback_def TasksTask_Rollback_def
  SchemataTask_Rollback_def

definition taskFlowTasks :: "string \<Rightarrow> ResAssociation \<Rightarrow> (string \<times> ResAssociation) list \<Rightarrow> string \<Rightarrow> bool
    \<Rightarrow> Task list" where
  "taskFlowTasks grp r rs path missing =
     (let mk = (\<lambda>k n rev. \<lparr>kind = k, TaskName = n, Res = r, RessSnapshot = rs, Group = grp,
                            Path = path, Revert = rev\<rparr>)
      in (if missing then [mk GroupTask ''creat-group'' True] else []) @
         [mk CPUsTask ''update-cpus'' (\<not> missing), mk TasksTask ''update-tasks'' (\<not> missing),
          mk SchemataTask ''update-schemata'' (\<not> missing)])"

definition taskFlow :: "os \<Rightarrow> string \<Rightarrow> string \<Rightarrow> ResAssociation \<Rightarrow> (string \<times> ResAssociation) list
    \<Rightarrow> fsop list \<Rightarrow> goerror option \<times> fsop list" where
  "taskFlow os sysResctrl grp r rs h =
     (let path = (if ToLower grp \<noteq> ''default'' \<and> grp \<noteq> ''.'' then pathJoin sysResctrl grp else sysResctrl)
      in case extcall os (Stat path) h of
           (st, h1) \<Rightarrow>
             Start (Run os) (Rollback os sysResctrl) (taskFlowTasks grp r rs path (st = Some ENOENT)) h1)"

end
