(* ===== verification/Resctrl_Laws.thy ===== *)
theory Resctrl_Laws
  imports Resctrl
begin

text \<open>
  What the resctrl component promises: a schemata file that was written is read back, ignored groups
  never show up, the task flow touches nothing but its own group (through the contract
  \<open>task_contract\<close>), writes exactly the group it was given, and removes a group it created when
  a step fails.
\<close>

section \<open>Reading what was written\<close>

text \<open>Entries whose ids are their positions, the order resctrl requires.\<close>

definition id_ordered :: "('c \<Rightarrow> 8 word) \<Rightarrow> 'c list \<Rightarrow> bool" where
  "id_ordered cid v \<longleftrightarrow> v \<noteq> [] \<and> length v \<le> 256 \<and> (\<forall>i < length v. cid (v ! i) = of_nat i)"

lemma uint_small: "i < 256 \<Longrightarrow> uint (of_nat i :: 8 word) = int i"
  by (simp add: uint_nat unsigned_of_nat take_bit_nat_eq_self)

lemma of_nat_inj8: "i < 256 \<Longrightarrow> j < 256 \<Longrightarrow> (of_nat i :: 8 word) = of_nat j \<longleftrightarrow> i = j"
  using uint_small by (metis of_nat_eq_iff)

lemma find_id:
  assumes "id_ordered cid v" "i < length v"
  shows "find (\<lambda>c. cid c = of_nat i) v = Some (v ! i)"
proof -
  have "cid (v ! i) = of_nat i" "\<And>j. j < i \<Longrightarrow> cid (v ! j) \<noteq> of_nat i"
    using assms of_nat_inj8 [of _ i] by (auto simp: id_ordered_def)
  with assms(2) show ?thesis unfolding find_Some_iff by auto
qed

lemma orderedCos_map:
  assumes "id_ordered cid v"
  shows "orderedCos cid val v = map (\<lambda>c. Itoa (uint (cid c)) @ ''='' @ val c) v"
proof -
  have "orderedCos cid val v = concat (map (\<lambda>i. [Itoa (uint (cid (v ! i))) @ ''='' @ val (v ! i)]) [0..<length v])"
    unfolding orderedCos_def using find_id [OF assms] by (intro arg_cong [of _ _ concat] map_cong) auto
  also have "\<dots> = map (\<lambda>c. Itoa (uint (cid c)) @ ''='' @ val c) (map ((!) v) [0..<length v])"
    by (simp add: o_def concat_map_singleton)
  finally show ?thesis by (simp add: map_nth)
qed

text \<open>What reading makes of an entry: its id and its value as text.\<close>

definition asCacheCos :: "('c \<Rightarrow> 8 word) \<Rightarrow> ('c \<Rightarrow> string) \<Rightarrow> 'c \<Rightarrow> CacheCos" where
  "asCacheCos cid val c = \<lparr>cacheID = cid c, Mask = val c\<rparr>"

lemma uint8_lt: "uint (x :: 8 word) < 256" "0 \<le> uint x"
  using unsigned_less [of x, where 'a = int] by simp_all

lemma Itoa_no:
  assumes "0 \<le> n"
  shows "CHR ''='' \<notin> set (Itoa n)" "CHR '';'' \<notin> set (Itoa n)" "CHR '':'' \<notin> set (Itoa n)"
    "CHR ''\<newline>'' \<notin> set (Itoa n)"
proof -
  have d: "\<exists>d < 16. c = digit_char d" if c: "c \<in> set (Itoa n)" for c
  proof -
    obtain d where "d < 10" "c = digit_char d" using Itoa_digits [OF assms c] by blast
    then show ?thesis by (intro exI [of _ d]) simp
  qed
  show "CHR ''='' \<notin> set (Itoa n)" "CHR '';'' \<notin> set (Itoa n)" "CHR '':'' \<notin> set (Itoa n)"
    "CHR ''\<newline>'' \<notin> set (Itoa n)"
    using d digit_char_neq by metis+
qed

lemma parseCos_text:
  "parseCos (Itoa (uint (cid c)) @ ''='' @ val c) = Ret (asCacheCos cid val c)"
proof -
  have "Itoa (uint (cid c)) = format_nat 10 (unat (cid c))"
    using uint8_lt [of "cid c"] by (simp add: Itoa_def)
  moreover have "unat (cid c) < 2 ^ 8" using unsigned_less [of "cid c", where 'a = nat] by simp
  ultimately have "ParseUint (Itoa (uint (cid c))) 10 8 = (unat (cid c), None)"
    by (simp only: ParseUint_format_nat0)
  with Itoa_no(1) [of "uint (cid c)"] uint8_lt show ?thesis
    by (simp add: parseCos_def splitN2_sep asCacheCos_def)
qed

lemma parseCoses_texts:
  "parseCoses (map (\<lambda>c. Itoa (uint (cid c)) @ ''='' @ val c) v) acc =
     Ret (acc @ map (asCacheCos cid val) v)"
  by (induction v arbitrary: acc) (auto simp: parseCos_text simp del: append_Cons)

definition clean_key :: "string \<Rightarrow> bool" where
  "clean_key k \<longleftrightarrow> k \<noteq> [] \<and> set k \<inter> {CHR '' '', CHR '':'', CHR ''\<newline>''} = {}"

definition clean_entries :: "('c \<Rightarrow> 8 word) \<Rightarrow> ('c \<Rightarrow> string) \<Rightarrow> (string \<times> 'c list) list \<Rightarrow> bool" where
  "clean_entries cid val m \<longleftrightarrow> (\<forall>(k, v) \<in> set m. clean_key k \<and> id_ordered cid v \<and>
     (\<forall>c \<in> set v. set (val c) \<inter> {CHR '';'', CHR ''\<newline>''} = {}))"

definition schemataLine :: "('c \<Rightarrow> 8 word) \<Rightarrow> ('c \<Rightarrow> string) \<Rightarrow> string \<times> 'c list \<Rightarrow> string" where
  "schemataLine cid val e = fst e @ '':'' @ join '';'' (orderedCos cid val (snd e))"

lemma schemataLines_join: "schemataLines cid val m = join ''\<newline>'' (map (schemataLine cid val) m)"
  by (simp add: schemataLines_def schemataLine_def [abs_def] case_prod_unfold)

lemma parseSchemata_line:
  assumes "clean_key k" "id_ordered cid v" "\<forall>c \<in> set v. CHR '';'' \<notin> set (val c)" "k \<notin> fst ` set m"
  shows "parseSchemata (schemataLine cid val (k, v) # strs) (Some m) =
    parseSchemata strs (Some (m @ [(k, map (asCacheCos cid val) v)]))"
proof -
  have "RemoveChar (CHR '' '') k = k" "CHR '':'' \<notin> set k" "k \<noteq> []"
    using assms(1) by (auto simp: clean_key_def RemoveChar_def filter_id_conv)
  moreover have "split_on (CHR '';'') (join '';'' (orderedCos cid val v)) =
      map (\<lambda>c. Itoa (uint (cid c)) @ ''='' @ val c) v"
    unfolding orderedCos_map [OF assms(2)] using assms(2,3) Itoa_no uint8_lt
    by (intro split_on_join) (auto simp: id_ordered_def)
  moreover have "map_of m k = None" using assms(4) by (simp add: map_of_eq_None_iff)
  moreover from this have "map_of (m @ [(k, [])]) k = Some []" by (simp add: map_add_def)
  ultimately show ?thesis
    using assms(4) parseCoses_texts [of cid val v "[]"]
    by (simp add: schemataLine_def splitN2_sep Let_def gm_get_def gm_items_def gm_put_def go_index_def
        al_put_fresh al_put_last del: parseCoses.simps map_of_append)
qed

lemma parseSchemata_lines:
  "clean_entries cid val es \<Longrightarrow> distinct (map fst (m @ map (\<lambda>(k, v). (k, map (asCacheCos cid val) v)) es)) \<Longrightarrow>
   parseSchemata (map (schemataLine cid val) es @ strs) (Some m) =
     parseSchemata strs (Some (m @ map (\<lambda>(k, v). (k, map (asCacheCos cid val) v)) es))"
proof (induction es arbitrary: m)
  case (Cons e es)
  obtain k v where e: "e = (k, v)" by fastforce
  have "parseSchemata (schemataLine cid val e # map (schemataLine cid val) es @ strs) (Some m) =
    parseSchemata (map (schemataLine cid val) es @ strs) (Some (m @ [(k, map (asCacheCos cid val) v)]))"
    using Cons.prems unfolding e by (intro parseSchemata_line) (auto simp: clean_entries_def)
  moreover have "clean_entries cid val es" using Cons.prems(1) by (auto simp: clean_entries_def)
  ultimately show ?case
    using Cons.IH [of "m @ [(k, map (asCacheCos cid val) v)]"] Cons.prems(2) by (simp add: e)
qed simp

lemma schemataLine_clean:
  assumes "clean_entries cid val m" "e \<in> set m"
  shows "CHR ''\<newline>'' \<notin> set (schemataLine cid val e)"
proof -
  obtain k v where e: "e = (k, v)" "clean_key k" "id_ordered cid v"
    "\<And>c. c \<in> set v \<Longrightarrow> CHR ''\<newline>'' \<notin> set (val c)"
    using assms by (fastforce simp: clean_entries_def)
  have "CHR ''\<newline>'' \<notin> set (join '';'' (orderedCos cid val v))"
    unfolding orderedCos_map [OF e(3)] using e(4) Itoa_no(4) uint8_lt(2)
    by (auto dest!: join_chars)
  with e show ?thesis by (auto simp: schemataLine_def clean_key_def)
qed

lemma split_on_append_clean:
  "split_on c (s @ t) = butlast (split_on c s) @ (last (split_on c s) @ hd (split_on c t)) # tl (split_on c t)"
proof (induction s)
  case Nil
  then show ?case by (cases "split_on c t") auto
next
  case (Cons x s)
  then show ?case by (cases "split_on c s") auto
qed

text \<open>The map that reading a written group gives: its cache entries, then its bandwidth entries.\<close>

definition readBack :: "(string \<times> CacheCos list) list \<Rightarrow> (string \<times> MbaCos list) list \<Rightarrow> (string \<times> CacheCos list) list" where
  "readBack cs ms = cs @ map (\<lambda>(k, v). (k, map (asCacheCos mbaID (\<lambda>c. Itoa (uint (Mba c)))) v)) ms"

lemma asCacheCos_id: "map (\<lambda>(k, v). (k, map (asCacheCos cacheID Mask) v)) cs = cs"
proof -
  have "asCacheCos cacheID Mask = id" by (auto simp: asCacheCos_def fun_eq_iff)
  then show ?thesis by (simp add: case_prod_unfold)
qed

lemma schemata_lines_text:
  assumes "cs \<noteq> []" "clean_entries cacheID Mask cs"
    "clean_entries mbaID (\<lambda>c. Itoa (uint (Mba c))) ms"
    "CacheSchemata r = Some cs" "gm_items (MbaSchemata r) = ms"
  shows "\<exists>tail. (ms = [] \<longrightarrow> tail = [[]]) \<and>
    (ms \<noteq> [] \<longrightarrow> tail = map (schemataLine mbaID (\<lambda>c. Itoa (uint (Mba c)))) ms) \<and>
    split_on (CHR ''\<newline>'') (schemataData r) = map (schemataLine cacheID Mask) cs @ tail"
proof -
  let ?C = "map (schemataLine cacheID Mask) cs" and ?M = "map (schemataLine mbaID (\<lambda>c. Itoa (uint (Mba c)))) ms"
  have C: "split_on (CHR ''\<newline>'') (join ''\<newline>'' ?C) = ?C"
    using assms(1) schemataLine_clean [OF assms(2)] by (intro split_on_join) auto
  have ne: "join ''\<newline>'' ?C \<noteq> []" using assms(1) by (cases cs rule: remdups_adj.cases) (auto simp: schemataLine_def)
  have d: "schemataData r = join ''\<newline>'' ?C @ CHR ''\<newline>'' # join ''\<newline>'' ?M"
    using ne assms(4,5) by (simp add: schemataData_def schemataLines_join gm_items_def Let_def)
  have "split_on (CHR ''\<newline>'') (schemataData r) = ?C @ split_on (CHR ''\<newline>'') (join ''\<newline>'' ?M)"
    unfolding d split_on_append_clean [of _ "join ''\<newline>'' ?C"] using assms(1) C
    by (simp add: append_butlast_last_id flip: append_assoc)
  moreover have "ms \<noteq> [] \<Longrightarrow> split_on (CHR ''\<newline>'') (join ''\<newline>'' ?M) = ?M"
    using schemataLine_clean [OF assms(3)] by (intro split_on_join) auto
  ultimately show ?thesis by (cases "ms = []") auto
qed

lemma parseField_written:
  assumes "cs \<noteq> []" "clean_entries cacheID Mask cs"
    "clean_entries mbaID (\<lambda>c. Itoa (uint (Mba c))) ms"
    "CacheSchemata r = Some cs" "gm_items (MbaSchemata r) = ms" "distinct (map fst (readBack cs ms))"
  shows "parseField res ''Schemata'' (schemataData r) = Ret (res\<lparr>CacheSchemata := Some (readBack cs ms)\<rparr>)"
proof -
  obtain tail where tail: "ms = [] \<Longrightarrow> tail = [[]]"
    "ms \<noteq> [] \<Longrightarrow> tail = map (schemataLine mbaID (\<lambda>c. Itoa (uint (Mba c)))) ms"
    "split_on (CHR ''\<newline>'') (schemataData r) = map (schemataLine cacheID Mask) cs @ tail"
    using schemata_lines_text [OF assms(1-5)] by auto
  have "parseSchemata (map (schemataLine cacheID Mask) cs @ tail) (Some []) = parseSchemata tail (Some cs)"
    using parseSchemata_lines [OF assms(2), of "[]" tail] assms(6) by (simp add: asCacheCos_id readBack_def)
  also have "\<dots> = Ret (Some (readBack cs ms))"
  proof (cases "ms = []")
    case True
    then show ?thesis by (simp add: tail(1) readBack_def splitN2_def RemoveChar_def)
  next
    case False
    then show ?thesis
      using parseSchemata_lines [OF assms(3), of cs "[]"] assms(6) by (simp add: tail(2) readBack_def)
  qed
  finally have p: "parseSchemata (map (schemataLine cacheID Mask) cs @ tail) (Some []) = Ret (Some (readBack cs ms))" .
  have "tail \<noteq> []" using tail(1,2) by (cases "ms = []") auto
  then have "1 < length (map (schemataLine cacheID Mask) cs @ tail)"
    using assms(1) by (cases cs; cases tail) auto
  with p tail(3) show ?thesis by (simp add: parseField_def)
qed
section \<open>The task flow\<close>

definition with_nl :: "string \<Rightarrow> string" where
  "with_nl data = (if suffix ''\<newline>'' data then data else data @ ''\<newline>'')"

lemma writeFile_history:
  "dir \<noteq> [] \<Longrightarrow> snd (writeFile os dir file data h) = h @ [WriteFile (pathJoin dir file) (with_nl data)]"
  by (simp add: writeFile_def with_nl_def extcall_def Let_def split: option.splits)

lemma writeFile_cases:
  "snd (writeFile os dir file data h) = h \<or>
   snd (writeFile os dir file data h) = h @ [WriteFile (pathJoin dir file) (with_nl data)]"
  by (cases "dir = []") (simp_all add: writeFile_history, simp add: writeFile_def)

text \<open>The operations a task flow on the directory \<open>path\<close> is entitled to.\<close>

definition own_op :: "string \<Rightarrow> string \<Rightarrow> fsop \<Rightarrow> bool" where
  "own_op sys path op =
     (case op of
        WriteFile p d \<Rightarrow> p \<in> {pathJoin path ''cpus'', pathJoin path ''tasks'', pathJoin path ''schemata'',
                              pathJoin sys ''tasks''}
      | MkdirAll p \<Rightarrow> p = path | Remove p \<Rightarrow> p = path | Stat p \<Rightarrow> p = path
      | RemoveAll p \<Rightarrow> False | Exec c \<Rightarrow> False)"

definition only_own :: "string \<Rightarrow> string \<Rightarrow> fsop list \<Rightarrow> fsop list \<Rightarrow> bool" where
  "only_own sys path h h' \<longleftrightarrow> (\<exists>new. h' = h @ new \<and> (\<forall>op \<in> set new. own_op sys path op))"

lemma only_own_refl [simp]: "only_own sys path h h"
  by (simp add: only_own_def)

lemma only_own_one: "own_op sys path op \<Longrightarrow> only_own sys path h (h @ [op])"
  by (simp add: only_own_def)

lemma only_own_trans: "only_own sys path h h' \<Longrightarrow> only_own sys path h' h'' \<Longrightarrow> only_own sys path h h''"
  by (auto simp: only_own_def)

lemma only_own_writeFile:
  "dir = path \<and> file \<in> {''cpus'', ''tasks'', ''schemata''} \<or> dir = sys \<and> file = ''tasks'' \<Longrightarrow>
   only_own sys path h (snd (writeFile os dir file data h))"
  using writeFile_cases [of os dir "file" "data" h] by (auto simp: own_op_def intro!: only_own_one)

lemma only_own_writeTasks: "only_own sys path h (snd (writeTasks os path vs h))"
proof (induction vs arbitrary: h)
  case (Cons v vs)
  then show ?case
    using only_own_writeFile [of path path "''tasks''" sys h os v]
    by (auto split: prod.splits option.splits intro: only_own_trans)
qed simp

lemma only_own_writeBack: "only_own sys path h (writeBack os path vs h)"
  by (induction vs arbitrary: h) (auto intro: only_own_trans only_own_writeFile)

lemma only_own_removeLoop: "only_own sys path h (snd (removeLoop os sys vs e h))"
proof (induction vs arbitrary: h e)
  case (Cons v vs)
  then show ?case
    using only_own_writeFile [of sys path "''tasks''" sys h os v]
    by (auto split: prod.splits intro: only_own_trans)
qed simp

lemma only_own_Run: "Path t = path \<Longrightarrow> only_own sys path h (snd (Run os t h))"
  by (cases "kind t")
    (auto simp: Run_defs extcall_def own_op_def intro!: only_own_one only_own_writeFile only_own_writeTasks)

lemma only_own_Rollback: "Path t = path \<Longrightarrow> only_own sys path h (snd (Rollback os sys t h))"
  by (cases "kind t")
    (auto simp: Rollback_defs RemoveTasks_def extcall_def own_op_def split: option.splits prod.splits
      intro!: only_own_one only_own_writeFile only_own_writeBack only_own_removeLoop)

interpretation flow: task_contract "Run os" "Rollback os sys" "\<lambda>t. Path t = path" "only_own sys path h"
  for os sys path h
  by unfold_locales (erule only_own_trans, erule only_own_Run only_own_Rollback)+

lemma taskFlowTasks_path: "t \<in> set (taskFlowTasks grp r rs path missing) \<Longrightarrow> Path t = path"
  by (auto simp: taskFlowTasks_def Let_def split: if_splits)

definition groupPath :: "string \<Rightarrow> string \<Rightarrow> string" where
  "groupPath sys grp = (if ToLower grp \<noteq> ''default'' \<and> grp \<noteq> ''.'' then pathJoin sys grp else sys)"

lemma taskFlow_Start:
  "taskFlow os sys grp r rs h =
     Start (Run os) (Rollback os sys)
       (taskFlowTasks grp r rs (groupPath sys grp) (os h (Stat (groupPath sys grp)) = Some ENOENT))
       (h @ [Stat (groupPath sys grp)])"
  by (simp add: taskFlow_def groupPath_def extcall_def Let_def)

lemma taskFlow_only_own: "only_own sys (groupPath sys grp) h (snd (taskFlow os sys grp r rs h))"
proof -
  have "only_own sys (groupPath sys grp) h (h @ [Stat (groupPath sys grp)])"
    by (simp add: only_own_def own_op_def)
  then show ?thesis
    unfolding taskFlow_Start by (intro flow.Start_keeps) (auto dest: taskFlowTasks_path)
qed

text \<open>The operations that bring a group about.\<close>

definition groupOps :: "string \<Rightarrow> string \<Rightarrow> ResAssociation \<Rightarrow> fsop list" where
  "groupOps path grp r =
     (if CPUs r \<noteq> [] then [WriteFile (pathJoin path ''cpus'') (with_nl (CPUs r))] else []) @
     (if grp \<noteq> ''.'' then map (\<lambda>v. WriteFile (pathJoin path ''tasks'') (with_nl v)) (Tasks r) else []) @
     [WriteFile (pathJoin path ''schemata'') (with_nl (schemataData r))]"

lemma writeTasks_ok:
  "path \<noteq> [] \<Longrightarrow> fst (writeTasks os path vs h) = None \<Longrightarrow>
   snd (writeTasks os path vs h) = h @ map (\<lambda>v. WriteFile (pathJoin path ''tasks'') (with_nl v)) vs"
proof (induction vs arbitrary: h)
  case (Cons v vs)
  then show ?case
    using writeFile_history [of path os "''tasks''" v h] by (auto split: prod.splits option.splits)
qed simp

lemma Start_None_runs: "fst (Start run rollback ts w) = None \<Longrightarrow> runs_ok run ts w"
proof (rule ccontr)
  assume a: "fst (Start run rollback ts w) = None" "\<not> runs_ok run ts w"
  then obtain us t vs e w' where "ts = us @ t # vs" "runs_ok run us w" "run t (run_all run us w) = (Some e, w')"
    using not_runs_ok_split by metis
  with a(1) show False by (simp add: Start_fail)
qed

lemma taskFlow_writes:
  assumes "groupPath sys grp \<noteq> []" "fst (taskFlow os sys grp r rs h) = None"
  shows "snd (taskFlow os sys grp r rs h) =
    h @ [Stat (groupPath sys grp)] @
    (if os h (Stat (groupPath sys grp)) = Some ENOENT then [MkdirAll (groupPath sys grp)] else []) @
    groupOps (groupPath sys grp) grp r"
proof -
  let ?p = "groupPath sys grp" and ?m = "os h (Stat (groupPath sys grp)) = Some ENOENT"
  let ?ts = "taskFlowTasks grp r rs ?p ?m" and ?h = "h @ [Stat ?p]"
  have ok: "runs_ok (Run os) ?ts ?h"
    using assms(2) unfolding taskFlow_Start by (rule Start_None_runs)
  then have "snd (taskFlow os sys grp r rs h) = run_all (Run os) ?ts ?h"
    unfolding taskFlow_Start by (simp add: Start_ok)
  also have "\<dots> = ?h @ (if ?m then [MkdirAll ?p] else []) @ groupOps ?p grp r"
    using ok assms(1) writeTasks_ok [OF assms(1)]
    by (auto simp: taskFlowTasks_def Let_def run_all_def Run_defs groupOps_def extcall_def
        writeFile_history split: if_splits)
  finally show ?thesis by simp
qed

lemma Rollback_idle: "kind t \<noteq> GroupTask \<Longrightarrow> \<not> Revert t \<Longrightarrow> snd (Rollback os sys t h) = h"
  by (cases "kind t") (auto simp: Rollback_defs)

lemma run_all_idle:
  "\<forall>t \<in> set ts. snd (f t w) = w \<Longrightarrow> run_all f ts w = w"
  by (induction ts) (auto simp: run_all_def)

lemma run_all_append: "run_all f (xs @ ys) w = run_all f ys (run_all f xs w)"
  by (simp add: run_all_def)

lemma taskFlow_cleans_up:
  assumes "os h (Stat (groupPath sys grp)) = Some ENOENT" "fst (taskFlow os sys grp r rs h) = Some e"
  shows "\<exists>h'. snd (taskFlow os sys grp r rs h) = h' @ [Remove (groupPath sys grp)] \<and>
     only_own sys (groupPath sys grp) (h @ [Stat (groupPath sys grp), MkdirAll (groupPath sys grp)]) h'"
proof -
  let ?p = "groupPath sys grp" and ?h = "h @ [Stat (groupPath sys grp)]"
  let ?ts = "taskFlowTasks grp r rs ?p True" and ?rb = "Rollback os sys"
  obtain g ts where gts: "?ts = g # ts" "kind g = GroupTask" "Path g = ?p"
    and idle: "\<forall>t \<in> set ts. kind t \<noteq> GroupTask \<and> \<not> Revert t \<and> Path t = ?p"
    by (auto simp: taskFlowTasks_def Let_def)
  have g: "snd (Run os g w) = w @ [MkdirAll ?p]" "snd (?rb g w) = w @ [Remove ?p]" for w
    using gts by (simp_all add: Run_defs Rollback_defs extcall_def)
  have flow: "taskFlow os sys grp r rs h = Start (Run os) ?rb (g # ts) ?h"
    unfolding taskFlow_Start using assms(1) gts(1) by simp
  have "\<not> runs_ok (Run os) (g # ts) ?h" using assms(2) flow by (auto simp: Start_ok)
  then obtain us t vs e' w' where sp: "g # ts = us @ t # vs" "runs_ok (Run os) us ?h"
    "Run os t (run_all (Run os) us ?h) = (Some e', w')"
    using not_runs_ok_split by metis
  have fin: "snd (taskFlow os sys grp r rs h) = run_all ?rb (t # rev us) w'"
    unfolding flow sp(1) using Start_fail [OF sp(2,3)] by simp
  show ?thesis
  proof (cases us)
    case Nil
    then have "t = g" "w' = ?h @ [MkdirAll ?p]" using sp(1,3) g(1) [of ?h] by (auto simp: run_all_def)
    with fin Nil g(2) show ?thesis by (auto simp: run_all_def intro!: exI [of _ "?h @ [MkdirAll ?p]"])
  next
    case (Cons g' us')
    then have us: "us = g # us'" "set (t # us') \<subseteq> set ts" using sp(1) by auto
    have "only_own sys ?p (?h @ [MkdirAll ?p]) (run_all (Run os) (us' @ [t]) (?h @ [MkdirAll ?p]))"
      using us(2) idle by (intro flow.run_all_keeps) auto
    moreover have "w' = run_all (Run os) (us' @ [t]) (?h @ [MkdirAll ?p])"
      using sp(3) us(1) g(1) by (simp add: run_all_def)
    moreover have "run_all ?rb (t # rev us') w' = w'"
      using us(2) idle by (intro run_all_idle) (auto intro!: Rollback_idle)
    then have "run_all ?rb (t # rev us) w' = w' @ [Remove ?p]"
      using us(1) run_all_append [of ?rb "t # rev us'" "[g]" w'] g(2) by (simp add: run_all_def)
    ultimately show ?thesis using fin by auto
  qed
qed

section \<open>Groups that are read\<close>

lemma walkRes_keys:
  "walkRes ignore rel n ps = Ret ps' \<Longrightarrow> \<forall>k \<in> fst ` set ps. P k \<Longrightarrow>
     (\<And>f ns. n = FDir f ns \<Longrightarrow> f \<notin> set ignore \<Longrightarrow> P rel) \<Longrightarrow> (\<And>rel f. f \<notin> set ignore \<Longrightarrow> P (relJoin rel f)) \<Longrightarrow>
     \<forall>k \<in> fst ` set ps'. P k"
  "walkResList ignore rel ns ps = Ret ps' \<Longrightarrow> \<forall>k \<in> fst ` set ps. P k \<Longrightarrow>
     (\<And>rel f. f \<notin> set ignore \<Longrightarrow> P (relJoin rel f)) \<Longrightarrow> \<forall>k \<in> fst ` set ps'. P k"
proof (induction ignore rel n ps and ignore rel ns ps arbitrary: ps' and ps' rule: walkRes_walkResList.induct)
  case (1 ignore rel f data ps)
  show ?case
  proof (cases "f \<in> set ignore")
    case False
    with 1(1) obtain pl pl' where "map_of ps rel = Some pl" "ps' = al_put rel pl' ps"
      by (auto simp: andThen_Ret_iff split: option.splits)
    with 1(2) show ?thesis unfolding \<open>ps' = _\<close> keys_al_put by (force dest: map_of_SomeD)
  qed (use 1 in auto)
next
  case (2 ignore rel f nodes ps)
  then show ?case
    by (cases "f \<in> set ignore") (auto simp: keys_al_put)
next
  case (4 ignore rel n ns ps)
  then obtain ps1 where w: "walkRes ignore (case n of FFile _ _ \<Rightarrow> rel | FDir f _ \<Rightarrow> relJoin rel f) n ps = Ret ps1"
    "walkResList ignore rel ns ps1 = Ret ps'"
    by (auto simp: andThen_Ret_iff)
  have "\<forall>k \<in> fst ` set ps1. P k"
    by (rule "4.IH"(1) [OF w(1) "4.prems"(2) _ "4.prems"(3)]) (auto intro: "4.prems"(3))
  from "4.IH"(2) [OF w(2) this "4.prems"(3)] show ?case .
qed auto

lemma GetResAssociation_ignores:
  assumes "GetResAssociation root available = Ret ress" "c \<in> set available" "CHR ''/'' \<notin> set c" "c \<noteq> ''.''"
  shows "map_of ress c = None"
proof -
  define P where "P k \<longleftrightarrow> k = ''.'' \<or> (\<exists>rel f. f \<notin> set available \<and> k = relJoin rel f)" for k
  have "\<forall>k \<in> fst ` set ress. P k"
  proof (cases root)
    case (Some n)
    have "P (relJoin rel f)" if "f \<notin> set available" for rel f unfolding P_def using that by blast
    moreover have "P ''.''" by (simp add: P_def)
    ultimately show ?thesis
      by - (rule walkRes_keys(1) [where P = P and ps = "[]"],
        use assms(1) Some in \<open>auto simp: GetResAssociation_def\<close>)
  qed (use assms(1) in \<open>simp add: GetResAssociation_def\<close>)
  moreover have "\<not> P c" using assms(2-4) by (auto simp: P_def relJoin_def split: if_splits)
  ultimately show ?thesis by (auto simp: map_of_eq_None_iff)
qed

section \<open>Number of classes\<close>

lemma GetNumOfCLOS_both:
  "readClosNum l3 = (a, None) \<Longrightarrow> readClosNum mba = (b, None) \<Longrightarrow>
   GetNumOfCLOS l3 mba True True = (min a b, None)"
  by (simp add: GetNumOfCLOS_def min_def)

lemma GetNumOfCLOS_only_mba:
  "readClosNum mba = (b, None) \<Longrightarrow> GetNumOfCLOS l3 mba False True = (min 0 b, None)"
  by (simp add: GetNumOfCLOS_def min_def)
end
