(* ===== verification/Pqos.thy ===== *)
theory Pqos
  imports Resctrl
begin

unbundle bit_operations_syntax

text \<open>
  Classes of service (\<^verbatim>\<open>utils/pqos/pqos.go\<close>): the pool of CLOS names handed out to workloads, and
  the calls into the PQoS library that program a class. The C library answers through
  \<open>extcall\<close>; a pointer \<^verbatim>\<open>&(x[0])\<close> into an empty slice panics as in Go.
\<close>

section \<open>The pool of classes\<close>

record clos_pool =
  availableCLOSes :: "string list"
  usedCLOSes :: "string list"
  reservedCLOSes :: "string list"
  sharedCLOS :: string

definition OSGroupCOS :: string where "OSGroupCOS = ''.''"

definition InfraGoupCOS :: string where "InfraGoupCOS = ''COS1''"

definition cosName :: "int \<Rightarrow> string" where
  "cosName i = ''COS'' @ Itoa i"

text \<open>The number of classes is read through \<open>resctrl.GetNumOfCLOS(true, true)\<close>.\<close>

definition InitCLOSPool :: "int with_err \<Rightarrow> clos_pool \<Rightarrow> (goerror option \<times> clos_pool) outcome" where
  "InitCLOSPool numOfClosRes p =
     (case numOfClosRes of
        (_, Some e) \<Rightarrow> Ret (Some (Errorf ''Error when fetching number of CLOSes: %v'' []), p)
      | (numOfClos, None) \<Rightarrow>
          if numOfClos - 2 < 0 then Panic MakeSliceLen
          else Ret (None, p\<lparr>reservedCLOSes := [OSGroupCOS, InfraGoupCOS],
                            availableCLOSes := map cosName [2..numOfClos - 1],
                            usedCLOSes := []\<rparr>))"

definition GetAvailableCLOSes :: "clos_pool \<Rightarrow> string list" where
  "GetAvailableCLOSes p = availableCLOSes p"

definition GetUsedCLOSes :: "clos_pool \<Rightarrow> string list" where
  "GetUsedCLOSes p = usedCLOSes p"

definition GetNumberOfFreeCLOSes :: "clos_pool \<Rightarrow> int" where
  "GetNumberOfFreeCLOSes p = int (length (availableCLOSes p))"

definition UseAvailableCLOS :: "clos_pool \<Rightarrow> string with_err \<times> clos_pool" where
  "UseAvailableCLOS p =
     (case availableCLOSes p of
        [] \<Rightarrow> (([], Some (Errorf ''No free CLOS available'' [])), p)
      | c # cs \<Rightarrow> ((c, None), p\<lparr>availableCLOSes := cs, usedCLOSes := usedCLOSes p @ [c]\<rparr>))"

text \<open>The \<^verbatim>\<open>switch\<close> on the index: first, last or a middle item.\<close>

definition removeIndex :: "'a list \<Rightarrow> nat \<Rightarrow> 'a list" where
  "removeIndex xs i =
     (if i = 0 then tl xs
      else if i = length xs - 1 then take (length xs - 1) xs
      else take i xs @ drop (i + 1) xs)"

definition ReturnClos :: "string \<Rightarrow> clos_pool \<Rightarrow> goerror option \<times> clos_pool" where
  "ReturnClos name p =
     (if name = [] \<or> \<not> HasPrefix name ''COS''
      then (Some (Errorf (''Invalid clos name given: '%v'' @ [CHR 0x27]) [name]), p)
      else if name = sharedCLOS p
      then (None, p\<lparr>sharedCLOS := [], availableCLOSes := availableCLOSes p @ [name]\<rparr>)
      else case findPos name (usedCLOSes p) of
             None \<Rightarrow> (Some (Errorf ''CLOS '%v' not found on list of used CLOSes'' [name]), p)
           | Some i \<Rightarrow> (None, p\<lparr>availableCLOSes := availableCLOSes p @ [name],
                                 usedCLOSes := removeIndex (usedCLOSes p) i\<rparr>))"

definition GetSharedCLOS :: "clos_pool \<Rightarrow> string with_err \<times> clos_pool" where
  "GetSharedCLOS p =
     (if sharedCLOS p = []
      then (case UseAvailableCLOS p of
              ((_, Some _), p') \<Rightarrow> (([], Some (Errorf ''No free CLOS left to create shared group'' [])), p')
            | ((c, None), p') \<Rightarrow> ((c, None), p'\<lparr>sharedCLOS := c\<rparr>))
      else ((sharedCLOS p, None), p))"

definition IsSharedCLOS :: "string \<Rightarrow> clos_pool \<Rightarrow> bool" where
  "IsSharedCLOS name p \<longleftrightarrow> name = sharedCLOS p"

definition MarkCLOSasUsed :: "string \<Rightarrow> clos_pool \<Rightarrow> goerror option \<times> clos_pool" where
  "MarkCLOSasUsed name p =
     (if \<not> HasPrefix name ''COS'' then (Some (Errorf ''Invalid CLOS name given '' []), p)
      else case findPos name (availableCLOSes p) of
             None \<Rightarrow> (Some (Errorf ''CLOS %v not found on available list'' [name]), p)
           | Some i \<Rightarrow> (None, p\<lparr>usedCLOSes := usedCLOSes p @ [name],
                                 availableCLOSes := removeIndex (availableCLOSes p) i\<rparr>))"

section \<open>Calls into the library\<close>

datatype pqos_call =
    PInit | PFinish | PCheckMba | PGetClosNum | PNumSockets | PNumCacheways
  | PReset int
  | PAllocRelease "32 word list" "32 word"
  | PAllocAssign "32 word list" "32 word"
  | PSetMba "32 word" int "32 word list" "32 word list" int
  | PAllocL3 "32 word" "32 word list" "32 word list" int
  | PAssocCore "32 word" "32 word list" int
  | PAssocPid "32 word" "32 word list" int

text \<open>The return code and the values the library stores through its out-parameters.\<close>

type_synonym pqos_env = "pqos_call list \<Rightarrow> pqos_call \<Rightarrow> int \<times> int list"

record pqos_state =
  numOfSockets :: int
  numOfCacheways :: int
  calls :: "pqos_call list"

record MbaStruct =
  mbaClassID :: int
  MbaMode :: int
  MbaMaxes :: "int list"
  mbaSockets :: "int list"

record L3CacheStruct =
  l3ClassID :: int
  WaysMask :: "64 word list"
  l3Sockets :: "int list"

definition pcall :: "pqos_env \<Rightarrow> pqos_call \<Rightarrow> pqos_state \<Rightarrow> (int \<times> int list) \<times> pqos_state" where
  "pcall env c st = (case extcall env c (calls st) of (r, h) \<Rightarrow> (r, st\<lparr>calls := h\<rparr>))"

text \<open>An out-parameter starts as 0.\<close>

definition out :: "nat \<Rightarrow> int list \<Rightarrow> int" where
  "out i os = (if i < length os then os ! i else 0)"

definition Cuint :: "int \<Rightarrow> 32 word" where "Cuint i = of_int i"

definition Cint :: "int \<Rightarrow> int" where "Cint i = sint (of_int i :: 32 word)"

definition Init :: "pqos_env \<Rightarrow> pqos_state \<Rightarrow> goerror option \<times> pqos_state" where
  "Init env st =
     (case pcall env PInit st of
        ((r0, _), st0) \<Rightarrow>
          if r0 \<noteq> 0 then (Some (Errorf ''Failed to initialize PQOS driver'' []), st0)
          else case pcall env PNumSockets st0 of
            ((r1, o1), st1) \<Rightarrow>
              if r1 \<noteq> 0 then (Some (Errorf ''Failed to get sockets amount for current machine'' []), st1)
              else case pcall env PNumCacheways (st1\<lparr>numOfSockets := out 0 o1\<rparr>) of
                ((r2, o2), st2) \<Rightarrow>
                  if r2 \<noteq> 0 then (Some (Errorf ''Failed to get cache ways amount for current machine'' []), st2)
                  else (None, st2\<lparr>numOfCacheways := out 0 o2\<rparr>))"

definition CheckMBA :: "pqos_env \<Rightarrow> pqos_state \<Rightarrow> int with_err \<times> pqos_state" where
  "CheckMBA env st =
     (case pcall env PCheckMba st of
        ((r, os), st') \<Rightarrow>
          ((out 0 os, if r \<noteq> 0 then Some (Errorf ''Failed to check MBA mode'' []) else None), st'))"

definition Finish :: "pqos_env \<Rightarrow> pqos_state \<Rightarrow> goerror option \<times> pqos_state" where
  "Finish env st =
     (case pcall env PFinish st of
        ((r, _), st') \<Rightarrow>
          (if r \<noteq> 0 then Some (Errorf ''Failed to shut down PQoS module'' []) else None, st'))"

text \<open>\<^verbatim>\<open>MBANone\<close>, \<^verbatim>\<open>MBAPercentage\<close>, \<^verbatim>\<open>MBAMbps\<close> are 0, 1, 2.\<close>

definition MBAMbps :: int where "MBAMbps = 2"

definition resetErr :: "int \<Rightarrow> goerror option" where
  "resetErr r = Some (Errorf ''Failed to reset PQoS library with error: %v'' [Itoa r])"

definition ResetAPI :: "pqos_env \<Rightarrow> int \<Rightarrow> pqos_state \<Rightarrow> goerror option \<times> pqos_state" where
  "ResetAPI env mode st =
     (case pcall env (PReset mode) st of
        ((r, _), st1) \<Rightarrow>
          if r = 0 then (None, st1)
          else if mode = MBAMbps
          then (case pcall env (PReset mode) (snd (Init env (snd (Finish env st1)))) of
                  ((r', _), st2) \<Rightarrow> (if r' \<noteq> 0 then resetErr r' else None, st2))
          else (resetErr r, st1))"

definition ReleaseAllocatedCores :: "pqos_env \<Rightarrow> int list \<Rightarrow> pqos_state \<Rightarrow> (goerror option \<times> pqos_state) outcome" where
  "ReleaseAllocatedCores env coreArray st =
     (if coreArray = [] then Panic IndexOutOfRange
      else case pcall env (PAllocRelease (map Cuint coreArray) (Cuint (int (length coreArray)))) st of
             ((r, _), st') \<Rightarrow>
               Ret (if r \<noteq> 0 then Some (Errorf ''Failed to reassign tasks in task_array to default COS#0'' [])
                    else None, st'))"

definition AllocAssign :: "pqos_env \<Rightarrow> int list \<Rightarrow> pqos_state \<Rightarrow> (int with_err \<times> pqos_state) outcome" where
  "AllocAssign env coreArray st =
     (if coreArray = [] then Panic IndexOutOfRange
      else case pcall env (PAllocAssign (map Cuint coreArray) (Cuint (int (length coreArray)))) st of
             ((r, os), st') \<Rightarrow>
               Ret ((out 0 os,
                     if r \<noteq> 0 then Some (Errorf ''Failed to assigns first available COS to specified cores'' [])
                     else None), st'))"

definition SetMbaForSingleCos :: "pqos_env \<Rightarrow> MbaStruct \<Rightarrow> pqos_state \<Rightarrow> (goerror option \<times> pqos_state) outcome" where
  "SetMbaForSingleCos env m st =
     (if length (MbaMaxes m) \<noteq> length (mbaSockets m)
      then Ret (Some (Errorf ''Amount of elements in MbaMaxes must be equal amount of sockets'' []), st)
      else if mbaSockets m = [] then Panic IndexOutOfRange
      else case pcall env (PSetMba (Cuint (mbaClassID m)) (Cint (MbaMode m)) (map Cuint (MbaMaxes m))
                             (map Cuint (mbaSockets m)) (Cint (int (length (mbaSockets m))))) st of
             ((r, _), st') \<Rightarrow>
               Ret (if r \<noteq> 0 then Some (Errorf ''Failed to set MBA for common COS'' []) else None, st'))"

definition AllocL3Cache :: "pqos_env \<Rightarrow> L3CacheStruct \<Rightarrow> pqos_state \<Rightarrow> (goerror option \<times> pqos_state) outcome" where
  "AllocL3Cache env l st =
     (if length (WaysMask l) \<noteq> length (l3Sockets l)
      then Ret (Some (Errorf ''Amount of elements in WaysMask must be equal amount of sockets'' []), st)
      else if l3Sockets l = [] then Panic IndexOutOfRange
      else case pcall env (PAllocL3 (Cuint (l3ClassID l)) (map ucast (WaysMask l))
                             (map Cuint (l3Sockets l)) (Cint (int (length (l3Sockets l))))) st of
             ((r, _), st') \<Rightarrow>
               Ret (if r \<noteq> 0 then Some (Errorf ''Failed to set L3 for common COS'' []) else None, st'))"

definition AssocCore :: "pqos_env \<Rightarrow> int \<Rightarrow> int list \<Rightarrow> pqos_state \<Rightarrow> (goerror option \<times> pqos_state) outcome" where
  "AssocCore env classID cores st =
     (if cores = [] then Panic IndexOutOfRange
      else case pcall env (PAssocCore (Cuint classID) (map Cuint cores) (Cint (int (length cores)))) st of
             ((r, _), st') \<Rightarrow>
               Ret (if r \<noteq> 0 then Some (Errorf ''Failed to associate specified cores with given class IDs'' [])
                    else None, st'))"

definition AssocTask :: "pqos_env \<Rightarrow> int \<Rightarrow> int list \<Rightarrow> pqos_state \<Rightarrow> (goerror option \<times> pqos_state) outcome" where
  "AssocTask env classID tasks st =
     (if tasks = [] then Panic IndexOutOfRange
      else case pcall env (PAssocPid (Cuint classID) (map Cuint tasks) (Cint (int (length tasks)))) st of
             ((r, _), st') \<Rightarrow>
               Ret (if r \<noteq> 0 then Some (Errorf ''Failed to associate specified cores with given class IDs'' [])
                    else None, st'))"

definition GetNumOfCLOSes :: "pqos_env \<Rightarrow> bool \<Rightarrow> bool \<Rightarrow> pqos_state \<Rightarrow> int with_err \<times> pqos_state" where
  "GetNumOfCLOSes env cache mba st =
     (if \<not> cache \<and> \<not> mba
      then ((0, Some (Errorf ''Invalid selection of capabilities for fetching number of CLOSes'' [])), st)
      else case pcall env PGetClosNum st of
             ((r, os), st') \<Rightarrow>
               if r \<noteq> 0
               then ((0, Some (Errorf ''Error when checking number of CLOSes in platform as user: %v'' [])), st')
               else if cache \<and> \<not> mba then ((out 0 os, None), st')
               else if \<not> cache \<and> mba then ((out 1 os, None), st')
               else if out 0 os < out 1 os then ((out 0 os, None), st')
               else ((out 1 os, None), st'))"

section \<open>Core masks\<close>

text \<open>The inner loop: the low bit is tested and the value shifted \<^verbatim>\<open>uintLen\<close> times.\<close>

fun coreBits :: "nat \<Rightarrow> int \<Rightarrow> nat \<Rightarrow> int \<Rightarrow> int list" where
  "coreBits 0 shiftNum v base = []"
| "coreBits (Suc k) shiftNum v base =
     (if odd v then [shiftNum + base] else []) @ coreBits k (shiftNum + 1) (v div 2) base"

fun coreLoop :: "nat \<Rightarrow> string list \<Rightarrow> int \<Rightarrow> int list \<Rightarrow> int list with_err" where
  "coreLoop uintLen [] base acc = (acc, None)"
| "coreLoop uintLen (p # ps) base acc =
     (case ParseUint p 16 uintLen of
        (_, Some e) \<Rightarrow> ([], Some (Errorf ''String parsing error: %v'' [p]))
      | (v, None) \<Rightarrow> coreLoop uintLen ps (base + int uintLen) (acc @ coreBits uintLen 0 v base))"

definition CoreMaskToSlice :: "string \<Rightarrow> int list with_err" where
  "CoreMaskToSlice msk =
     (if msk = [] then ([], Some (Errorf ''Empty mask'' []))
      else
        let maskParts = split_on (CHR '','') msk;
            uintLen = (if 8 < length (last maskParts) then 64 else 32)
        in coreLoop uintLen (rev maskParts) 0 [])"

section \<open>Programming a class\<close>

definition sockets :: "pqos_state \<Rightarrow> int list" where
  "sockets st = [0..numOfSockets st - 1]"

definition defaultPercentageMBAValue :: int where "defaultPercentageMBAValue = 100"

definition defaultMBpsMBAValue :: int where "defaultMBpsMBAValue = 2 ^ 32 - 1 - 6"

definition resetMBAToDefaults :: "pqos_env \<Rightarrow> int \<Rightarrow> pqos_state \<Rightarrow> (goerror option \<times> pqos_state) outcome" where
  "resetMBAToDefaults env cos st =
     (case CheckMBA env st of
        ((_, Some e), st1) \<Rightarrow> Ret (Some e, st1)
      | ((mode, None), st1) \<Rightarrow>
          let v = (if mode \<noteq> 0 then defaultMBpsMBAValue else defaultPercentageMBAValue)
          in andThen (SetMbaForSingleCos env
                        \<lparr>mbaClassID = cos, MbaMode = mode, MbaMaxes = map (\<lambda>_. v) (sockets st1),
                         mbaSockets = sockets st1\<rparr> st1) (\<lambda>(_, st2). Ret (None, st2)))"

definition defaultWaysMask :: "int \<Rightarrow> 64 word" where
  "defaultWaysMask ways = go_shl 1 ways - 1"

definition resetL3CacheToDefaults :: "pqos_env \<Rightarrow> int \<Rightarrow> pqos_state \<Rightarrow> (goerror option \<times> pqos_state) outcome" where
  "resetL3CacheToDefaults env cos st =
     (if numOfCacheways st < 0 then Panic NegativeShift
      else AllocL3Cache env
             \<lparr>l3ClassID = cos, WaysMask = map (\<lambda>_. defaultWaysMask (numOfCacheways st)) (sockets st),
              l3Sockets = sockets st\<rparr> st)"

text \<open>\<^verbatim>\<open>strings.SplitAfter(cosName, "COS")[1]\<close>.\<close>

definition afterCOS :: "string \<Rightarrow> string outcome" where
  "afterCOS name =
     (case indexOf ''COS'' name of
        None \<Rightarrow> Panic IndexOutOfRange
      | Some i \<Rightarrow>
          (let rest = drop (i + 3) name
           in Ret (case indexOf ''COS'' rest of None \<Rightarrow> rest | Some j \<Rightarrow> take (j + 3) rest)))"

definition ResetCOSParamsToDefaults :: "pqos_env \<Rightarrow> string \<Rightarrow> pqos_state \<Rightarrow> (goerror option \<times> pqos_state) outcome" where
  "ResetCOSParamsToDefaults env name st =
     andThen (afterCOS name) (\<lambda>num.
       case Atoi num of
         (_, Some e) \<Rightarrow> Ret (num_err (Some e) num, st)
       | (cos, None) \<Rightarrow>
           andThen (resetL3CacheToDefaults env cos st) (\<lambda>(err, st1).
             case err of Some _ \<Rightarrow> Ret (err, st1) | None \<Rightarrow> resetMBAToDefaults env cos st1))"

definition closNumber :: "string \<Rightarrow> int option" where
  "closNumber name =
     (if HasPrefix name ''COS'' \<and> 3 < length name
      then (case Atoi (drop 3 name) of
              (i, None) \<Rightarrow> if i < 0 then None else Some i
            | (_, Some _) \<Rightarrow> None)
      else if name = OSGroupCOS then Some 0 else None)"

text \<open>The way masks of the sockets \<open>0, 1, ...\<close>; an unreadable mask counts as what \<open>ParseUint\<close> returns.\<close>

fun wayMasks :: "CacheCos list \<Rightarrow> int list \<Rightarrow> 64 word list outcome" where
  "wayMasks v [] = Ret []"
| "wayMasks v (i # is) =
     andThen (go_index v i) (\<lambda>c.
       andThen (wayMasks v is) (\<lambda>ms. Ret (of_nat (fst (ParseUint (Mask c) 16 64)) # ms)))"

fun atoiAll :: "string list \<Rightarrow> int list option" where
  "atoiAll [] = Some []"
| "atoiAll (s # ss) =
     (case Atoi s of (_, Some _) \<Rightarrow> None | (i, None) \<Rightarrow> map_option (\<lambda>is. i # is) (atoiAll ss))"

text \<open>The workaround that undoes a bandwidth limit when the library is in Mbps mode.\<close>

definition mbaWorkaround :: "pqos_env \<Rightarrow> int \<Rightarrow> pqos_state \<Rightarrow> pqos_state outcome" where
  "mbaWorkaround env clos st =
     (case CheckMBA env st of
        ((mode, err), st1) \<Rightarrow>
          if err \<noteq> None \<or> mode \<noteq> 1 then Ret st1
          else andThen (resetMBAToDefaults env clos st1) (\<lambda>(_, st2). Ret st2))"

text \<open>Tasks, or cores when there are no tasks; \<open>None\<close> when the association failed and the caller returns.\<close>

definition associate :: "pqos_env \<Rightarrow> ResAssociation \<Rightarrow> int \<Rightarrow> pqos_state \<Rightarrow> (bool \<times> pqos_state) outcome" where
  "associate env res clos st =
     (if 0 < length (Tasks res)
      then (case atoiAll (Tasks res) of
              None \<Rightarrow> Ret (False, st)
            | Some tasksAsInts \<Rightarrow>
                andThen (AssocTask env clos tasksAsInts st) (\<lambda>(err, st1). Ret (err = None, st1)))
      else (case CoreMaskToSlice (CPUs res) of
              (_, Some _) \<Rightarrow> Ret (False, st)
            | (cores, None) \<Rightarrow>
                andThen (AssocCore env clos cores st) (\<lambda>(err, st1). Ret (err = None, st1))))"

definition applyMba :: "pqos_env \<Rightarrow> ResAssociation \<Rightarrow> int \<Rightarrow> pqos_state \<Rightarrow> pqos_state outcome" where
  "applyMba env res clos st =
     (let mb = (case gm_get (MbaSchemata res) ''MB'' of None \<Rightarrow> [] | Some v \<Rightarrow> v)
      in if 0 < length mb
         then (case CheckMBA env st of
                 ((_, Some _), st1) \<Rightarrow> Ret st1
               | ((mode, None), st1) \<Rightarrow>
                   andThen (SetMbaForSingleCos env
                              \<lparr>mbaClassID = clos, MbaMode = mode,
                               MbaMaxes = map (\<lambda>e. uint (Mba e)) mb,
                               mbaSockets = map (\<lambda>e. uint (mbaID e)) mb\<rparr> st1) (\<lambda>(_, st2). Ret st2))
         else mbaWorkaround env clos st)"

definition AllocateCLOS :: "pqos_env \<Rightarrow> ResAssociation \<Rightarrow> string \<Rightarrow> pqos_state \<Rightarrow> pqos_state outcome" where
  "AllocateCLOS env res name st =
     (case closNumber name of
        None \<Rightarrow> Ret st
      | Some clos \<Rightarrow>
          andThen (wayMasks (case gm_get (CacheSchemata res) ''L3'' of None \<Rightarrow> [] | Some v \<Rightarrow> v) (sockets st))
            (\<lambda>masks. andThen (AllocL3Cache env
                                \<lparr>l3ClassID = clos, WaysMask = masks, l3Sockets = sockets st\<rparr> st) (\<lambda>(err, st1).
               if err \<noteq> None then Ret st1
               else if clos = 0 then mbaWorkaround env 0 st1
               else andThen (associate env res clos st1) (\<lambda>(ok, st2).
                      if ok then applyMba env res clos st2 else Ret st2))))"

definition deallocIds :: "string list \<Rightarrow> 32 word list" where
  "deallocIds ids = map (\<lambda>s. Cuint (fst (Atoi s))) ids"

definition DeallocateTasks :: "pqos_env \<Rightarrow> string list \<Rightarrow> pqos_state \<Rightarrow> goerror option \<times> pqos_state" where
  "DeallocateTasks env tasks st =
     (if tasks = [] then (Some (Errorf ''Empty task list given to DeallocateTasks'' []), st)
      else case pcall env (PAssocPid (Cuint 0) (deallocIds tasks) (Cint (int (length tasks)))) st of
             ((r, _), st') \<Rightarrow>
               (if r \<noteq> 0 then Some (Errorf ''Failed to re-associate given tasks to CLOS 0'' []) else None, st'))"

definition DeallocateCores :: "pqos_env \<Rightarrow> string list \<Rightarrow> pqos_state \<Rightarrow> goerror option \<times> pqos_state" where
  "DeallocateCores env cores st =
     (if cores = [] then (Some (Errorf ''Empty task list given to DeallocateCores'' []), st)
      else case pcall env (PAssocCore (Cuint 0) (deallocIds cores) (Cint (int (length cores)))) st of
             ((r, _), st') \<Rightarrow>
               (if r \<noteq> 0 then Some (Errorf ''Failed to re-associate given cores to CLOS 0'' []) else None, st'))"

end
