(* ===== verification/Pqos_Laws.thy ===== *)
theory Pqos_Laws
  imports Pqos Bitmap_Hex
begin

text \<open>
  What the class pool and the library calls promise. In every state a client can reach, the classes
  that are available and the classes that are held are disjoint and together the platform's classes,
  so no class is handed out twice. A core mask printed from a bit map is turned into exactly the cores
  of the bit map. Programming a class names no other class and stops at the first failure.
\<close>

section \<open>The pool\<close>

lemma removeIndex_remove1: "findPos x xs = Some i \<Longrightarrow> removeIndex xs i = remove1 x xs"
proof -
  assume a: "findPos x xs = Some i"
  note p = findPos_Some [OF a]
  have "removeIndex xs i = take i xs @ drop (Suc i) xs"
    using p by (cases "i = length xs - 1"; cases xs) (auto simp: removeIndex_def drop_Suc)
  with p show ?thesis by simp
qed

text \<open>
  The pool seen from its clients: \<open>held\<close> are the classes handed out and not yet given back.
  A step is one call of a client that keeps the protocol: it takes a class, asks for the shared one,
  claims a named one at start-up, or gives back one that it holds.
\<close>

record pool_view =
  pool :: clos_pool
  held :: "string list"

inductive pool_step :: "pool_view \<Rightarrow> pool_view \<Rightarrow> bool" where
  take_step: "UseAvailableCLOS p = ((c, None), p') \<Longrightarrow>
     pool_step \<lparr>pool = p, held = hs\<rparr> \<lparr>pool = p', held = c # hs\<rparr>"
| share_new: "sharedCLOS p = [] \<Longrightarrow> GetSharedCLOS p = ((c, None), p') \<Longrightarrow>
     pool_step \<lparr>pool = p, held = hs\<rparr> \<lparr>pool = p', held = c # hs\<rparr>"
| share_again: "sharedCLOS p \<noteq> [] \<Longrightarrow> GetSharedCLOS p = ((c, None), p') \<Longrightarrow>
     pool_step \<lparr>pool = p, held = hs\<rparr> \<lparr>pool = p', held = hs\<rparr>"
| claim: "MarkCLOSasUsed c p = (None, p') \<Longrightarrow>
     pool_step \<lparr>pool = p, held = hs\<rparr> \<lparr>pool = p', held = c # hs\<rparr>"
| give_back: "c \<in> set hs \<Longrightarrow> ReturnClos c p = (None, p') \<Longrightarrow>
     pool_step \<lparr>pool = p, held = hs\<rparr> \<lparr>pool = p', held = remove1 c hs\<rparr>"

inductive_cases pool_stepE: "pool_step v v'"

definition names :: "int \<Rightarrow> string list" where
  "names n = map cosName [2..n - 1]"

definition initPool :: "int \<Rightarrow> clos_pool" where
  "initPool n = \<lparr>availableCLOSes = names n, usedCLOSes = [], reservedCLOSes = [OSGroupCOS, InfraGoupCOS],
     sharedCLOS = []\<rparr>"

inductive reachable :: "int \<Rightarrow> pool_view \<Rightarrow> bool" for n where
  start: "reachable n \<lparr>pool = initPool n, held = []\<rparr>"
| more: "reachable n v \<Longrightarrow> pool_step v v' \<Longrightarrow> reachable n v'"

text \<open>Conservation: what is available and what is held are together the classes of the platform.\<close>

definition conserved :: "int \<Rightarrow> pool_view \<Rightarrow> bool" where
  "conserved n v \<longleftrightarrow>
     mset (availableCLOSes (pool v)) + mset (held v) = mset (names n) \<and>
     mset (held v) \<subseteq># mset (usedCLOSes (pool v)) \<and>
     (sharedCLOS (pool v) \<noteq> [] \<longrightarrow> sharedCLOS (pool v) \<in> set (held v))"

lemma conserved_init: "conserved n \<lparr>pool = initPool n, held = []\<rparr>"
  by (simp add: conserved_def initPool_def)

lemma conserved_step:
  assumes "pool_step v v'" "conserved n v"
  shows "conserved n v'"
  using assms
proof (cases rule: pool_step.cases)
  case (take_step p c p' hs)
  with assms(2) show ?thesis
    by (auto simp: conserved_def UseAvailableCLOS_def split: list.splits)
next
  case (share_new p c p' hs)
  with assms(2) show ?thesis
    by (auto simp: conserved_def GetSharedCLOS_def UseAvailableCLOS_def split: list.splits prod.splits option.splits)
next
  case (share_again p c p' hs)
  with assms(2) show ?thesis by (auto simp: conserved_def GetSharedCLOS_def)
next
  case (claim c p p' hs)
  then obtain i where "findPos c (availableCLOSes p) = Some i"
    "p' = p\<lparr>usedCLOSes := usedCLOSes p @ [c], availableCLOSes := remove1 c (availableCLOSes p)\<rparr>"
    by (auto simp: MarkCLOSasUsed_def removeIndex_remove1 split: if_splits option.splits)
  moreover from this have "c \<in> set (availableCLOSes p)" by (metis findPos_None option.distinct(1))
  moreover from this have "c \<in># mset (names n)"
    using claim assms(2) unfolding conserved_def by (metis pool_view.simps(1) set_mset_mset union_iff)
  ultimately show ?thesis using claim assms(2) by (auto simp: conserved_def)
next
  case (give_back c hs p p')
  then have cn: "c \<in># mset (names n)"
    using assms(2) unfolding conserved_def by (metis pool_view.simps(2) set_mset_mset union_iff)
  show ?thesis
  proof (cases "c = sharedCLOS p")
    case True
    then have "p' = p\<lparr>sharedCLOS := [], availableCLOSes := availableCLOSes p @ [c]\<rparr>"
      using give_back(4) by (auto simp: ReturnClos_def split: if_splits)
    with give_back cn assms(2) show ?thesis
      by (auto simp: conserved_def intro: subset_mset.trans [OF diff_subset_eq_self])
  next
    case False
    then obtain i where i: "findPos c (usedCLOSes p) = Some i"
      "p' = p\<lparr>availableCLOSes := availableCLOSes p @ [c], usedCLOSes := remove1 c (usedCLOSes p)\<rparr>"
      using give_back(4) by (auto simp: ReturnClos_def removeIndex_remove1 split: if_splits option.splits)
    moreover have "mset hs - {#c#} \<subseteq># mset (usedCLOSes p) - {#c#}"
      using give_back assms(2) by (auto simp: conserved_def subseteq_mset_def intro: diff_le_mono)
    ultimately show ?thesis using give_back cn assms(2) False
      by (auto simp: conserved_def in_set_remove1)
  qed
qed

lemma reachable_conserved: "reachable n v \<Longrightarrow> conserved n v"
  by (induction rule: reachable.induct) (auto intro: conserved_init conserved_step)

lemma cosName_inj: "inj_on cosName {0..<2 ^ 63}"
proof (rule inj_onI)
  fix x y :: int assume a: "x \<in> {0..<2 ^ 63}" "y \<in> {0..<2 ^ 63}" "cosName x = cosName y"
  then have "Atoi (Itoa x) = Atoi (Itoa y)" by (simp add: cosName_def)
  with a show "x = y" by (simp add: Atoi_Itoa)
qed

lemma distinct_names: "n \<le> 2 ^ 63 \<Longrightarrow> distinct (names n)"
  unfolding names_def distinct_map
  by (auto intro!: inj_on_subset [OF cosName_inj])

lemma reachable_exclusive:
  assumes "reachable n v" "n \<le> 2 ^ 63"
  shows "distinct (availableCLOSes (pool v))" "distinct (held v)"
    "set (availableCLOSes (pool v)) \<inter> set (held v) = {}"
    "set (availableCLOSes (pool v)) \<union> set (held v) = set (names n)"
proof -
  have e: "mset (availableCLOSes (pool v) @ held v) = mset (names n)"
    using reachable_conserved [OF assms(1)] by (simp add: conserved_def)
  then have "distinct (availableCLOSes (pool v) @ held v)"
    using distinct_names [OF assms(2)] by (metis mset_eq_imp_distinct_iff)
  then show "distinct (availableCLOSes (pool v))" "distinct (held v)"
    "set (availableCLOSes (pool v)) \<inter> set (held v) = {}" by auto
  show "set (availableCLOSes (pool v)) \<union> set (held v) = set (names n)"
    using mset_eq_setD [OF e] by simp
qed

text \<open>As long as the shared class is not given back, the list of used classes is exact.\<close>

lemma InitCLOSPool_ok:
  "2 \<le> n \<Longrightarrow> sharedCLOS p = [] \<Longrightarrow> InitCLOSPool (n, None) p = Ret (None, initPool n)"
  by (simp add: InitCLOSPool_def initPool_def names_def)

section \<open>Core masks of bit maps\<close>

lemma coreBits_bits:
  "coreBits k s v base = map (\<lambda>i. s + int i + base) (filter (\<lambda>i. bit v i) [0..<k])"
proof (induction k arbitrary: s v)
  case (Suc k)
  have "filter (\<lambda>i. bit v i) [0..<Suc k] =
      (if odd v then [0] else []) @ map Suc (filter (\<lambda>i. bit (v div 2) i) [0..<k])"
    by (simp add: upt_Suc_shift bit_0 filter_map o_def bit_Suc del: upt_Suc)
  with Suc show ?case by (simp add: o_def algebra_simps del: upt_Suc)
qed simp

lemma filter_shift:
  "filter (\<lambda>p. p \<in> bits_set (w # ws)) [0..<32 + n] =
     filter (\<lambda>p. bit w p) [0..<32] @ map (\<lambda>p. 32 + p) (filter (\<lambda>p. p \<in> bits_set ws) [0..<n])"
proof -
  have "[0..<32 + n] = [0..<32] @ map (\<lambda>p. 32 + p) [0..<n]"
    using upt_add_eq_append [of 0 32 n] map_add_upt [of 32 n] by (simp add: add.commute)
  moreover have "filter (\<lambda>p. p \<in> bits_set (w # ws)) [0..<32] = filter (\<lambda>p. bit w p) [0..<32]"
    by (rule filter_cong) (auto simp: bits_set_Cons)
  ultimately show ?thesis by (simp add: filter_map o_def bits_set_Cons del: upt_rec_numeral)
qed

lemma coreLoop_chunks:
  "list_all2 (\<lambda>p w. ParseUint p 16 32 = (unat w, None)) ps ws \<Longrightarrow>
   coreLoop 32 ps (int base) acc =
     (acc @ map (\<lambda>p. int (base + p)) (filter (\<lambda>p. p \<in> bits_set ws) [0..<32 * length ws]), None)"
proof (induction ps ws arbitrary: base acc rule: list_all2_induct)
  case (Cons p ps w ws)
  have "coreBits 32 0 (unat w) (int base) = map (\<lambda>p. int (base + p)) (filter (\<lambda>p. bit w p) [0..<32])"
    by (simp add: coreBits_bits bit_unsigned_iff add.commute del: upt_rec_numeral)
  moreover have "map (\<lambda>p. int (base + p)) (filter (\<lambda>p. p \<in> bits_set (w # ws)) [0..<32 + 32 * length ws]) =
      map (\<lambda>p. int (base + p)) (filter (\<lambda>p. bit w p) [0..<32]) @
      map (\<lambda>p. int (base + 32 + p)) (filter (\<lambda>p. p \<in> bits_set ws) [0..<32 * length ws])"
    unfolding filter_shift by (simp add: o_def add.assoc del: upt_rec_numeral)
  moreover have "coreLoop 32 (p # ps) (int base) acc =
      coreLoop 32 ps (int (base + 32)) (acc @ coreBits 32 0 (unat w) (int base))"
    using Cons.hyps(1) by simp
  ultimately show ?case by (simp add: Cons.IH del: upt_rec_numeral of_nat_add coreLoop.simps)
qed simp


lemma hex_parts_list_all2:
  assumes "ws \<noteq> []" "\<forall>w \<in> set ws. chunk_ok w"
  shows "list_all2 (\<lambda>p w. ParseUint p 16 32 = (unat w, None)) (rev (hex_parts ws)) ws"
proof -
  have "ws = butlast ws @ [last ws]" using assms(1) by simp
  moreover have "list_all2 (\<lambda>p w. ParseUint p 16 32 = (unat w, None)) (map (chunk_hex 8) (butlast ws)) (butlast ws)"
    using assms(2) by (auto simp: list_all2_conv_all_nth chunk_hex_parses(1) nth_butlast)
  moreover have "ParseUint (chunk_hex 0 (last ws)) 16 32 = (unat (last ws), None)"
    using assms chunk_hex_parses(1) [of "last ws" 0] by simp
  ultimately have "list_all2 (\<lambda>p w. ParseUint p 16 32 = (unat w, None))
      (map (chunk_hex 8) (butlast ws) @ [chunk_hex 0 (last ws)]) (butlast ws @ [last ws])"
    by (intro list_all2_appendI) auto
  with assms(1) show ?thesis by (simp add: hex_parts_def)
qed

lemma CoreMaskToSlice_ToString:
  assumes "bm_wf b" "0 < Len b"
  shows "CoreMaskToSlice (ToString b) = (map int (filter (\<lambda>p. p \<in> bm_set b) [0..<nat (Len b)]), None)"
proof -
  have ws: "Bits b \<noteq> []" "\<forall>w \<in> set (Bits b). chunk_ok w" and len: "length (Bits b) = chunks_for (Len b)"
    using assms by (auto simp: bm_wf_def chunks_for_def)
  let ?ps = "hex_parts (Bits b)"
  have s: "ToString b = join '','' ?ps"
    using toStringLoop_parts [OF ws, of _ 0 "[]"] by (simp add: ToString_def)
  note p = hex_parts_props [OF ws]
  have split: "split_on (CHR '','') (ToString b) = ?ps"
    unfolding s using hex_parts_no_comma [OF ws] by (intro split_on_join) (auto simp: hex_parts_def)
  have "ToString b \<noteq> []" using s p(2) by (cases ?ps rule: remdups_adj.cases) (auto simp: hex_parts_def)
  moreover have "\<not> 8 < length (last ?ps)"
  proof -
    have "last ?ps \<in> set ?ps" by (rule last_in_set) (simp add: hex_parts_def)
    from p(1) [OF this] show ?thesis by simp
  qed
  ultimately have "CoreMaskToSlice (ToString b) = coreLoop 32 (rev ?ps) (int 0) []"
    by (simp add: CoreMaskToSlice_def split)
  also have "\<dots> = (map int (filter (\<lambda>p. p \<in> bm_set b) [0..<32 * length (Bits b)]), None)"
    using coreLoop_chunks [OF hex_parts_list_all2 [OF ws], of 0 "[]"] by (simp add: bm_set_def)
  also have "filter (\<lambda>p. p \<in> bm_set b) [0..<32 * length (Bits b)] = filter (\<lambda>p. p \<in> bm_set b) [0..<nat (Len b)]"
  proof -
    have "nat (Len b) \<le> 32 * length (Bits b)" using assms(2) unfolding len chunks_for_def by linarith
    then have "[0..<32 * length (Bits b)] = [0..<nat (Len b)] @ [nat (Len b)..<32 * length (Bits b)]"
      by (metis le_add_diff_inverse upt_add_eq_append zero_le)
    moreover have "filter (\<lambda>p. p \<in> bm_set b) [nat (Len b)..<32 * length (Bits b)] = []"
      using bm_wfD(4) [OF assms(1)] by (auto simp: filter_empty_conv)
    ultimately show ?thesis by simp
  qed
  finally show ?thesis .
qed

section \<open>Programming a class\<close>

fun call_class :: "pqos_call \<Rightarrow> 32 word option" where
  "call_class (PSetMba c m xs ss n) = Some c"
| "call_class (PAllocL3 c ms ss n) = Some c"
| "call_class (PAssocCore c cs n) = Some c"
| "call_class (PAssocPid c ts n) = Some c"
| "call_class _ = None"

text \<open>The calls that were added concern the class \<open>c\<close> or no class at all.\<close>

definition extends_for :: "32 word \<Rightarrow> pqos_state \<Rightarrow> pqos_state \<Rightarrow> bool" where
  "extends_for c st st' \<longleftrightarrow>
     (\<exists>new. calls st' = calls st @ new \<and> (\<forall>x \<in> set new. call_class x \<in> {None, Some c}))"

lemma extends_refl [simp]: "extends_for c st st"
  by (simp add: extends_for_def)

lemma extends_trans: "extends_for c st st' \<Longrightarrow> extends_for c st' st'' \<Longrightarrow> extends_for c st st''"
  by (auto simp: extends_for_def)

lemma pcall_extends:
  "pcall env x st = (r, st') \<Longrightarrow> call_class x \<in> {None, Some c} \<Longrightarrow> extends_for c st st'"
  by (auto simp: pcall_def extcall_def extends_for_def)

lemma CheckMBA_extends: "CheckMBA env st = (r, st') \<Longrightarrow> extends_for c st st'"
  by (auto simp: CheckMBA_def split: prod.splits dest!: pcall_extends [where c = c])

lemma lib_extends:
  "AllocL3Cache env l st = Ret (e, st') \<Longrightarrow> extends_for (Cuint (l3ClassID l)) st st'"
  "SetMbaForSingleCos env m st = Ret (e, st') \<Longrightarrow> extends_for (Cuint (mbaClassID m)) st st'"
  "AssocTask env k ts st = Ret (e, st') \<Longrightarrow> extends_for (Cuint k) st st'"
  "AssocCore env k ts st = Ret (e, st') \<Longrightarrow> extends_for (Cuint k) st st'"
  by (auto simp: AllocL3Cache_def SetMbaForSingleCos_def AssocTask_def AssocCore_def
      split: if_splits prod.splits dest!: pcall_extends)

lemma resetMBA_extends: "resetMBAToDefaults env k st = Ret (e, st') \<Longrightarrow> extends_for (Cuint k) st st'"
  by (auto simp: resetMBAToDefaults_def Let_def andThen_Ret_iff split: prod.splits option.splits
      dest!: CheckMBA_extends [where c = "Cuint k"] lib_extends(2) intro: extends_trans)

lemma workaround_extends: "mbaWorkaround env k st = Ret st' \<Longrightarrow> extends_for (Cuint k) st st'"
  by (auto simp: mbaWorkaround_def andThen_Ret_iff split: prod.splits if_splits
      dest!: CheckMBA_extends [where c = "Cuint k"] resetMBA_extends intro: extends_trans)

lemma associate_extends: "associate env res k st = Ret (ok, st') \<Longrightarrow> extends_for (Cuint k) st st'"
  by (auto simp: associate_def andThen_Ret_iff split: if_splits option.splits prod.splits
      dest!: lib_extends(3,4))

lemma applyMba_extends: "applyMba env res k st = Ret st' \<Longrightarrow> extends_for (Cuint k) st st'"
  by (auto simp: applyMba_def Let_def andThen_Ret_iff split: if_splits option.splits prod.splits
      dest!: CheckMBA_extends [where c = "Cuint k"] lib_extends(2) workaround_extends intro: extends_trans)

lemma AllocateCLOS_one_class:
  assumes "AllocateCLOS env res name st = Ret st'" "closNumber name = Some clos"
  shows "extends_for (Cuint clos) st st'"
  using assms
  by (auto simp: AllocateCLOS_def andThen_Ret_iff split: if_splits prod.splits
      dest!: lib_extends(1) workaround_extends associate_extends applyMba_extends intro: extends_trans)

lemma AllocateCLOS_bad_name: "closNumber name = None \<Longrightarrow> AllocateCLOS env res name st = Ret st"
  by (simp add: AllocateCLOS_def)
lemma wayMasks_Ret:
  "\<forall>i \<in> set is. 0 \<le> i \<and> i < int (length v) \<Longrightarrow>
   wayMasks v is = Ret (map (\<lambda>i. of_nat (fst (ParseUint (Mask (v ! nat i)) 16 64))) is)"
  by (induction "is") (auto simp: go_index_def)

text \<open>The L3 call that \<open>AllocateCLOS\<close> makes first.\<close>

definition l3Call :: "int \<Rightarrow> CacheCos list \<Rightarrow> pqos_state \<Rightarrow> pqos_call" where
  "l3Call clos v st =
     PAllocL3 (Cuint clos) (map (\<lambda>i. ucast (of_nat (fst (ParseUint (Mask (v ! nat i)) 16 64)) :: 64 word)) (sockets st))
       (map Cuint (sockets st)) (Cint (int (length (sockets st))))"

lemma AllocL3Cache_sockets:
  assumes "0 < numOfSockets st"
  shows "AllocL3Cache env \<lparr>l3ClassID = clos, WaysMask = map f (sockets st), l3Sockets = sockets st\<rparr> st =
     (let c = PAllocL3 (Cuint clos) (map (\<lambda>i. ucast (f i)) (sockets st)) (map Cuint (sockets st))
                (Cint (int (length (sockets st))));
          r = fst (env (calls st) c)
      in Ret (if r \<noteq> 0 then Some (Errorf ''Failed to set L3 for common COS'' []) else None,
              st\<lparr>calls := calls st @ [c]\<rparr>))"
  using assms by (simp add: AllocL3Cache_def pcall_def extcall_def sockets_def o_def Let_def split: prod.splits)

lemma AllocateCLOS_L3:
  assumes "closNumber name = Some clos" "0 < numOfSockets st"
    "gm_get (CacheSchemata res) ''L3'' = Some v" "numOfSockets st \<le> int (length v)"
  shows "AllocateCLOS env res name st =
    (let c = l3Call clos v st; st1 = st\<lparr>calls := calls st @ [c]\<rparr>
     in if fst (env (calls st) c) \<noteq> 0 then Ret st1
        else if clos = 0 then mbaWorkaround env 0 st1
        else andThen (associate env res clos st1) (\<lambda>(ok, st2).
               if ok then applyMba env res clos st2 else Ret st2))"
proof -
  have "wayMasks v (sockets st) = Ret (map (\<lambda>i. of_nat (fst (ParseUint (Mask (v ! nat i)) 16 64))) (sockets st))"
    using assms(4) by (intro wayMasks_Ret) (auto simp: sockets_def)
  then show ?thesis
    using assms by (simp add: AllocateCLOS_def AllocL3Cache_sockets l3Call_def Let_def)
qed

lemma AllocateCLOS_L3_failure:
  assumes "closNumber name = Some clos" "0 < numOfSockets st"
    "gm_get (CacheSchemata res) ''L3'' = Some v" "numOfSockets st \<le> int (length v)"
    "fst (env (calls st) (l3Call clos v st)) \<noteq> 0"
  shows "AllocateCLOS env res name st = Ret (st\<lparr>calls := calls st @ [l3Call clos v st]\<rparr>)"
  using AllocateCLOS_L3 [OF assms(1-4)] assms(5) by (simp add: Let_def)

lemma atoiAll_length: "atoiAll ss = Some is \<Longrightarrow> length is = length ss"
  by (induction ss arbitrary: "is") (auto split: prod.splits option.splits)

lemma AllocateCLOS_success:
  assumes "closNumber name = Some clos" "clos \<noteq> 0" "0 < numOfSockets st"
    "gm_get (CacheSchemata res) ''L3'' = Some v" "numOfSockets st \<le> int (length v)"
    "Tasks res \<noteq> []" "atoiAll (Tasks res) = Some ts" "gm_get (MbaSchemata res) ''MB'' = Some mb" "mb \<noteq> []"
    "\<And>h c. fst (env h c) = 0"
  shows "\<exists>st' mode. AllocateCLOS env res name st = Ret st' \<and>
    calls st' = calls st @
      [l3Call clos v st, PAssocPid (Cuint clos) (map Cuint ts) (Cint (int (length ts))), PCheckMba,
       PSetMba (Cuint clos) mode (map (\<lambda>e. Cuint (uint (Mba e))) mb)
         (map (\<lambda>e. Cuint (uint (mbaID e))) mb) (Cint (int (length mb)))]"
proof -
  have "ts \<noteq> []" using assms(6,7) atoiAll_length by fastforce
  have z: "env h c = (0, snd (env h c))" for h c using assms(10) [of h c] by (cases "env h c") simp
  show ?thesis
    unfolding AllocateCLOS_L3 [OF assms(1,3,4,5)]
    using assms(2,6-9) \<open>ts \<noteq> []\<close> assms(10)
    by (auto simp: Let_def associate_def AssocTask_def applyMba_def CheckMBA_def SetMbaForSingleCos_def pcall_def extcall_def o_def
        split: prod.splits) (metis fst_conv)+
qed

section \<open>The contract of a class pool\<close>

text \<open>
  What the enforcement of workloads needs of the pool: a class that is acquired is not held by anybody
  else, a failed acquisition changes nothing, and a class given back is no longer held.
\<close>

locale class_pool =
  fixes inv :: "'s \<Rightarrow> string set \<Rightarrow> bool"
    and acquire :: "'s \<Rightarrow> string with_err \<times> 's"
    and release :: "string \<Rightarrow> 's \<Rightarrow> goerror option \<times> 's"
  assumes acquire_fresh: "inv s H \<Longrightarrow> acquire s = ((c, None), s') \<Longrightarrow> c \<notin> H \<and> inv s' (insert c H)"
    and acquire_fail: "acquire s = ((c, Some e), s') \<Longrightarrow> s' = s"
    and release_ok: "inv s H \<Longrightarrow> c \<in> H \<Longrightarrow> release c s = (None, s') \<Longrightarrow> inv s' (H - {c})"
begin

fun acquire_n :: "nat \<Rightarrow> 's \<Rightarrow> string list \<times> 's" where
  "acquire_n 0 s = ([], s)"
| "acquire_n (Suc k) s =
     (case acquire s of
        ((c, None), s') \<Rightarrow> (case acquire_n k s' of (cs, s'') \<Rightarrow> (c # cs, s''))
      | ((c, Some e), s') \<Rightarrow> ([], s'))"

lemma acquire_n_distinct:
  "inv s H \<Longrightarrow> acquire_n k s = (cs, s') \<Longrightarrow> distinct cs \<and> set cs \<inter> H = {} \<and> inv s' (set cs \<union> H)"
proof (induction k arbitrary: s H cs)
  case (Suc k)
  obtain c e s1 where a: "acquire s = ((c, e), s1)" by (cases "acquire s") auto
  show ?case
  proof (cases e)
    case None
    with a acquire_fresh [OF Suc.prems(1)] have c: "c \<notin> H" "inv s1 (insert c H)" by auto
    from a None Suc.prems(2) obtain ds where "acquire_n k s1 = (ds, s')" "cs = c # ds"
      by (auto split: prod.splits)
    with Suc.IH [OF c(2)] c(1) show ?thesis by (auto simp: insert_commute)
  next
    case (Some x)
    with a acquire_fail have "s1 = s" by simp
    with a Some Suc.prems show ?thesis by auto
  qed
qed auto

end

definition pool_inv :: "int \<Rightarrow> clos_pool \<Rightarrow> string set \<Rightarrow> bool" where
  "pool_inv n p H \<longleftrightarrow> n \<le> 2 ^ 63 \<and> (\<exists>hs. conserved n \<lparr>pool = p, held = hs\<rparr> \<and> set hs = H)"

lemma conserved_exclusive:
  assumes "conserved n v" "n \<le> 2 ^ 63"
  shows "distinct (availableCLOSes (pool v) @ held v)"
proof -
  have "mset (availableCLOSes (pool v) @ held v) = mset (names n)"
    using assms(1) by (simp add: conserved_def)
  then show ?thesis using distinct_names [OF assms(2)] by (metis mset_eq_imp_distinct_iff)
qed

interpretation clos: class_pool "pool_inv n" UseAvailableCLOS ReturnClos for n
proof unfold_locales
  fix s H c s' assume a: "pool_inv n s H" "UseAvailableCLOS s = ((c, None), s')"
  then obtain hs where hs: "n \<le> 2 ^ 63" "conserved n \<lparr>pool = s, held = hs\<rparr>" "set hs = H"
    by (auto simp: pool_inv_def)
  have step: "conserved n \<lparr>pool = s', held = c # hs\<rparr>"
    using conserved_step [OF pool_step.take_step [OF a(2)] hs(2)] .
  have "c \<notin> set hs" using conserved_exclusive [OF step hs(1)] by auto
  with step show "c \<notin> H \<and> pool_inv n s' (insert c H)"
    using hs by (auto simp: pool_inv_def intro!: exI [of _ "c # hs"])
next
  fix s c e s' assume "UseAvailableCLOS s = ((c, Some e), s')"
  then show "s' = s" by (auto simp: UseAvailableCLOS_def split: list.splits)
next
  fix s H c s' assume a: "pool_inv n s H" "c \<in> H" "ReturnClos c s = (None, s')"
  then obtain hs where hs: "n \<le> 2 ^ 63" "conserved n \<lparr>pool = s, held = hs\<rparr>" "set hs = H"
    by (auto simp: pool_inv_def)
  have "conserved n \<lparr>pool = s', held = remove1 c hs\<rparr>"
    using conserved_step [OF pool_step.give_back [OF _ a(3)] hs(2)] a(2) hs(3) by simp
  moreover have "distinct hs" using conserved_exclusive [OF hs(2,1)] by simp
  ultimately show "pool_inv n s' (H - {c})"
    using hs by (auto simp: pool_inv_def intro!: exI [of _ "remove1 c hs"])
qed
end
