(* ===== verification/Types.thy ===== *)
theory Types
  imports Complex_Main Resctrl Bitmap
begin

text \<open>
  Application errors (\<^verbatim>\<open>internal/error/error.go\<close>) and the workload types
  (\<^verbatim>\<open>modules/workload/types/types.go\<close>). A pointer that tells an absent value from a zero is an
  \<open>option\<close>. Floating-point values of plugin parameters are rationals.
\<close>

section \<open>Application errors\<close>

definition errBadRequest :: int where "errBadRequest = 0"

definition errInternalServer :: int where "errInternalServer = 1"

definition errNotFound :: int where "errNotFound = 2"

definition StatusBadRequest :: int where "StatusBadRequest = 400"

definition StatusInternalServerError :: int where "StatusInternalServerError = 500"

definition StatusNotFound :: int where "StatusNotFound = 404"

definition StatusOK :: int where "StatusOK = 200"

definition StatusCreated :: int where "StatusCreated = 201"

datatype err_arg = EInt int | EStr string | EErr goerror | EUnknown

fun setErrArg :: "int \<times> string \<times> goerror option \<Rightarrow> err_arg \<Rightarrow> int \<times> string \<times> goerror option" where
  "setErrArg (c, m, e) (EInt v) = (v, m, e)"
| "setErrArg (c, m, e) (EStr v) = (c, v, e)"
| "setErrArg (c, m, e) (EErr v) = (c, m, Some v)"
| "setErrArg (c, m, e) EUnknown = (c, ''Unknown AppError type!'', e)"

definition NewAppError :: "err_arg list \<Rightarrow> goerror" where
  "NewAppError value =
     (case foldl setErrArg (0, [], None) (take 3 value) of
        (c, m, e) \<Rightarrow> AppErrorPtr (if c = 0 then errInternalServer else c) m e)"

definition AppErrorf :: "int \<Rightarrow> string \<Rightarrow> goerror" where
  "AppErrorf code msg = AppErrorPtr code msg None"

text \<open>
  A type assertion \<^verbatim>\<open>err.(rmderror.AppError)\<close> to the struct type: every \<^verbatim>\<open>AppError\<close> the program
  makes is a pointer, so the assertion fails for all of them.
\<close>

fun assertAppError :: "goerror \<Rightarrow> (int \<times> string \<times> goerror option) option" where
  "assertAppError (AppErrorPtr c m e) = None"
| "assertAppError _ = None"

text \<open>
  What a REST handler writes: an entity, or a status with the text of an error. After a failed
  assertion the handlers print the zero \<^verbatim>\<open>AppError\<close>, whose text is empty.
\<close>

datatype 'a response = Entity int 'a | ErrorStatus int goerror | NoContent

definition appErrorResponse :: "goerror \<Rightarrow> int \<Rightarrow> 'a response" where
  "appErrorResponse e code =
     (case assertAppError e of
        Some (c, m, er) \<Rightarrow> ErrorStatus c (AppErrorPtr c m er)
      | None \<Rightarrow> ErrorStatus code (AppErrorPtr 0 [] None))"

section \<open>Workloads\<close>

type_synonym pval = "rat gval"

type_synonym params = "(string, pval) gomap"

record RDTWorkLoad =
  ID :: string
  CoreIDs :: "string list"
  TaskIDs :: "string list"
  Policy :: string
  Status :: string
  CosName :: string
  cacheMax :: "32 word option"
  cacheMin :: "32 word option"
  mbaPercentage :: "32 word option"
  mbaMbps :: "32 word option"
  Plugins :: "(string, params) gomap"
  UUID :: string
  Origin :: string
  BackendPluginInfo :: "(string, string) gomap"

definition zeroWorkLoad :: RDTWorkLoad where
  "zeroWorkLoad =
     \<lparr>ID = [], CoreIDs = [], TaskIDs = [], Policy = [], Status = [], CosName = [], cacheMax = None,
      cacheMin = None, mbaPercentage = None, mbaMbps = None, Plugins = None, UUID = [], Origin = [],
      BackendPluginInfo = None\<rparr>"

definition Successful :: string where "Successful = ''Successful''"

definition FailedStatus :: string where "FailedStatus = ''Failed''"

definition NoneStatus :: string where "NoneStatus = ''None''"

record EnforceRequest =
  MaxWays :: "32 word"
  MinWays :: "32 word"
  UseCache :: bool
  SocketIDs :: "32 word list"
  UseMba :: bool
  Consume :: bool
  reqType :: string

definition zeroEnforceRequest :: EnforceRequest where
  "zeroEnforceRequest =
     \<lparr>MaxWays = 0, MinWays = 0, UseCache = False, SocketIDs = [], UseMba = False, Consume = False,
      reqType = []\<rparr>"

end
