(* ===== verification/Db.thy ===== *)
theory Db
  imports Types
begin

text \<open>
  The workload data base (\<^verbatim>\<open>internal/db\<close>). The key-value store bbolt is a parameter: a record of its
  operations on an abstract state; so is the JSON codec. \<open>CreateWorkload\<close> and its companions run
  their body in a transaction that keeps the old state when the body fails.
\<close>

section \<open>The store and the codec\<close>

record 'b bolt =
  b_has :: "'b \<Rightarrow> string \<Rightarrow> bool"
  b_create :: "'b \<Rightarrow> string \<Rightarrow> 'b + goerror"
  b_get :: "'b \<Rightarrow> string \<Rightarrow> string \<Rightarrow> string option"
  b_put :: "'b \<Rightarrow> string \<Rightarrow> string \<Rightarrow> string \<Rightarrow> 'b + goerror"
  b_delete :: "'b \<Rightarrow> string \<Rightarrow> string \<Rightarrow> 'b + goerror"
  b_next :: "'b \<Rightarrow> string \<Rightarrow> (nat \<times> 'b) + goerror"
  b_items :: "'b \<Rightarrow> string \<Rightarrow> (string \<times> string) list"

record codec =
  marshal :: "RDTWorkLoad \<Rightarrow> string + goerror"
  unmarshal :: "string \<Rightarrow> RDTWorkLoad + goerror"

definition WorkloadTableName :: string where "WorkloadTableName = ''workload''"

definition MappingTableName :: string where "MappingTableName = ''mapping''"

text \<open>\<^verbatim>\<open>session.Update\<close>: the state changes only when the function returns no error.\<close>

definition txUpdate :: "'b \<Rightarrow> 'b + goerror \<Rightarrow> goerror option \<times> 'b" where
  "txUpdate s r = (case r of Inl s' \<Rightarrow> (None, s') | Inr e \<Rightarrow> (Some e, s))"

section \<open>Bolt back end\<close>

definition Initialize :: "'b bolt \<Rightarrow> 'b \<Rightarrow> goerror option \<times> 'b" where
  "Initialize bo s =
     txUpdate s (case b_create bo s WorkloadTableName of
                   Inr e \<Rightarrow> Inr e
                 | Inl s1 \<Rightarrow> b_create bo s1 MappingTableName)"

text \<open>
  The identifier is written into the caller's workload even when the transaction fails later. A
  missing mapping bucket is a nil pointer the code calls a method on.
\<close>

definition nextID :: "'b bolt \<Rightarrow> RDTWorkLoad \<Rightarrow> 'b \<Rightarrow> (RDTWorkLoad \<times> 'b) + goerror" where
  "nextID bo w s =
     (if ID w = []
      then (case b_next bo s WorkloadTableName of
              Inr e \<Rightarrow> Inr e
            | Inl (n, s1) \<Rightarrow> Inl (w\<lparr>ID := Itoa (int n)\<rparr>, s1))
      else Inl (w, s))"

definition putMapping :: "'b bolt \<Rightarrow> RDTWorkLoad \<Rightarrow> 'b \<Rightarrow> ('b + goerror) outcome" where
  "putMapping bo w s =
     (if 0 < length (UUID w)
      then (if \<not> b_has bo s MappingTableName then Panic NilDereference
            else Ret (case b_put bo s MappingTableName (UUID w) (ID w) of
                        Inr e \<Rightarrow> Inr (Errorf ''Failed to add workload mapping'' [])
                      | Inl s2 \<Rightarrow> Inl s2))
      else Ret (Inl s))"

definition CreateWorkload :: "codec \<Rightarrow> 'b bolt \<Rightarrow> RDTWorkLoad \<Rightarrow> 'b
    \<Rightarrow> (goerror option \<times> RDTWorkLoad \<times> 'b) outcome" where
  "CreateWorkload js bo w s =
     (if \<not> b_has bo s WorkloadTableName then Ret (Some (Errorf ''Bucket fetching failed'' []), w, s)
      else case nextID bo w s of
             Inr e \<Rightarrow> Ret (Some e, w, s)
           | Inl (w1, s1) \<Rightarrow>
               (case marshal js w1 of
                  Inr e \<Rightarrow> Ret (Some e, w1, s)
                | Inl buf \<Rightarrow>
                    andThen (putMapping bo w1 s1) (\<lambda>r.
                      case txUpdate s
                             (case r of Inr e \<Rightarrow> Inr e
                              | Inl s2 \<Rightarrow> b_put bo s2 WorkloadTableName (ID w1) buf) of
                        (e, s') \<Rightarrow> Ret (e, w1, s'))))"

definition DeleteWorkload :: "'b bolt \<Rightarrow> RDTWorkLoad \<Rightarrow> 'b \<Rightarrow> goerror option \<times> 'b" where
  "DeleteWorkload bo w s =
     txUpdate s
       (if \<not> b_has bo s WorkloadTableName then Inr (Errorf ''Bucket 'bucket' creation failed'' [])
        else case (if 0 < length (UUID w)
                   then (if \<not> b_has bo s MappingTableName
                         then Inr (Errorf ''Bucket 'mba' mcreation failed'' [])
                         else case b_delete bo s MappingTableName (UUID w) of
                                Inr e \<Rightarrow> Inr (Errorf ''Failed to delete mapping for given UUID'' [])
                              | Inl s1 \<Rightarrow> Inl s1)
                   else Inl s) of
               Inr e \<Rightarrow> Inr e
             | Inl s1 \<Rightarrow> b_delete bo s1 WorkloadTableName (ID w))"

definition UpdateWorkload :: "codec \<Rightarrow> 'b bolt \<Rightarrow> RDTWorkLoad \<Rightarrow> 'b \<Rightarrow> goerror option \<times> 'b" where
  "UpdateWorkload js bo w s =
     (if length (ID w) = 0 then (Some (Errorf ''Cannot update worload without ID'' []), s)
      else txUpdate s
             (if \<not> b_has bo s WorkloadTableName then Inr (Errorf ''Bucket fetching failed'' [])
              else case marshal js w of
                     Inr e \<Rightarrow> Inr e
                   | Inl buf \<Rightarrow> b_put bo s WorkloadTableName (ID w) buf))"

fun readAll :: "codec \<Rightarrow> (string \<times> string) list \<Rightarrow> RDTWorkLoad list with_err" where
  "readAll js [] = ([], None)"
| "readAll js ((k, v) # kvs) =
     (case unmarshal js v of
        Inr e \<Rightarrow> ([], Some e)
      | Inl w \<Rightarrow> (case readAll js kvs of (ws, e) \<Rightarrow> (w # ws, e)))"

definition GetAllWorkload :: "codec \<Rightarrow> 'b bolt \<Rightarrow> 'b \<Rightarrow> RDTWorkLoad list with_err" where
  "GetAllWorkload js bo s =
     (if \<not> b_has bo s WorkloadTableName then ([], Some (Errorf ''Bucket fetching failed'' []))
      else readAll js (b_items bo s WorkloadTableName))"

definition decode :: "codec \<Rightarrow> string \<Rightarrow> RDTWorkLoad with_err" where
  "decode js v = (case unmarshal js v of Inr e \<Rightarrow> (zeroWorkLoad, Some e) | Inl w \<Rightarrow> (w, None))"

definition GetWorkloadByID :: "codec \<Rightarrow> 'b bolt \<Rightarrow> string \<Rightarrow> 'b \<Rightarrow> RDTWorkLoad with_err" where
  "GetWorkloadByID js bo i s =
     (if \<not> b_has bo s WorkloadTableName then (zeroWorkLoad, Some (Errorf ''Bucket fetching failed'' []))
      else case b_get bo s WorkloadTableName i of
             None \<Rightarrow> (zeroWorkLoad, Some (Errorf ''No workload found for given ID'' []))
           | Some v \<Rightarrow> decode js v)"

definition GetWorkloadByUUID :: "codec \<Rightarrow> 'b bolt \<Rightarrow> string \<Rightarrow> 'b \<Rightarrow> RDTWorkLoad with_err" where
  "GetWorkloadByUUID js bo i s =
     (if \<not> b_has bo s WorkloadTableName then (zeroWorkLoad, Some (Errorf ''Bucket fetching failed'' []))
      else if \<not> b_has bo s MappingTableName then (zeroWorkLoad, Some (Errorf ''Bucket fetching failed'' []))
      else case b_get bo s MappingTableName i of
             None \<Rightarrow> (zeroWorkLoad, Some (Errorf ''No workload found for given UUID'' []))
           | Some mapentry \<Rightarrow>
               (case b_get bo s WorkloadTableName mapentry of
                  None \<Rightarrow> (zeroWorkLoad, Some (Errorf ''No workload found for given ID'' []))
                | Some v \<Rightarrow> decode js v))"

section \<open>Queries\<close>

text \<open>
  A field compared by \<^verbatim>\<open>reflect.DeepEqual\<close>, which tells a nil slice from an empty one; what comes out
  of the store has nil for an absent list.
\<close>

datatype fieldval = FStr string | FStrs "string list option" | FOther

definition fieldValue :: "RDTWorkLoad \<Rightarrow> string \<Rightarrow> fieldval option" where
  "fieldValue w k =
     (let strs = (\<lambda>xs. FStrs (if xs = [] then None else Some xs))
      in if k = ''ID'' then Some (FStr (ID w))
         else if k = ''CoreIDs'' then Some (strs (CoreIDs w))
         else if k = ''TaskIDs'' then Some (strs (TaskIDs w))
         else if k = ''Policy'' then Some (FStr (Policy w))
         else if k = ''Status'' then Some (FStr (Status w))
         else if k = ''CosName'' then Some (FStr (CosName w))
         else if k = ''UUID'' then Some (FStr (UUID w))
         else if k = ''Origin'' then Some (FStr (Origin w))
         else if k \<in> {''Rdt'', ''Plugins'', ''BackendPluginInfo''} then Some FOther
         else None)"

fun matches :: "(string \<times> fieldval) list \<Rightarrow> RDTWorkLoad \<Rightarrow> bool" where
  "matches [] w = True"
| "matches ((k, v) # q) w =
     (case fieldValue w k of
        Some f \<Rightarrow> if f \<noteq> v then False else matches q w
      | None \<Rightarrow> False)"

definition QueryWorkload :: "codec \<Rightarrow> 'b bolt \<Rightarrow> (string \<times> fieldval) list \<Rightarrow> 'b \<Rightarrow> RDTWorkLoad list with_err" where
  "QueryWorkload js bo query s =
     (case GetAllWorkload js bo s of
        (_, Some e) \<Rightarrow> ([], Some e)
      | (ws, None) \<Rightarrow> (filter (matches query) ws, None))"

section \<open>Validation\<close>

fun sameTask :: "string list \<Rightarrow> RDTWorkLoad list \<Rightarrow> (string \<times> string) option" where
  "sameTask [] ws = None"
| "sameTask (t # ts) ws =
     (case find (\<lambda>wi. HasElem (TaskIDs wi) t) ws of
        Some wi \<Rightarrow> Some (t, ID wi)
      | None \<Rightarrow> sameTask ts ws)"

fun sumCores :: "RDTWorkLoad list \<Rightarrow> bitmap \<Rightarrow> bitmap with_err outcome" where
  "sumCores [] bmsum = Ret (bmsum, None)"
| "sumCores (c # cs) bmsum =
     (if 0 < length (CoreIDs c)
      then andThen (NewBitmap [ArgStrings (CoreIDs c)]) (\<lambda>(tmpbm, err).
             case err of
               Some _ \<Rightarrow> Ret (bmsum, err)
             | None \<Rightarrow> andThen (bm_Or bmsum tmpbm) (\<lambda>s. sumCores cs s))
      else sumCores cs bmsum)"

text \<open>The cores named in the message: the low \<open>Len\<close> bits of the first chunk.\<close>

fun firstCores :: "nat \<Rightarrow> nat \<Rightarrow> nat \<Rightarrow> string list" where
  "firstCores 0 b coreBits = []"
| "firstCores (Suc k) b coreBits =
     (if coreBits mod 2 = 1 then [Itoa (int b)] else []) @ firstCores k (Suc b) (coreBits div 2)"

definition validateWorkload :: "RDTWorkLoad \<Rightarrow> RDTWorkLoad list \<Rightarrow> goerror option outcome" where
  "validateWorkload w ws =
     (if length (ID w) = 0 \<and> length (TaskIDs w) = 0 \<and> length (CoreIDs w) = 0
      then Ret (Some (Errorf ''Incomplete Workload definition'' []))
      else if ID w \<noteq> [] \<and> find (\<lambda>i. ID w = ID i) ws \<noteq> None
      then Ret (Some (Errorf ''Workload with id %s already exists'' [ID w]))
      else case (if UUID w \<noteq> [] then find (\<lambda>i. UUID w = UUID i) ws else None) of
        Some i \<Rightarrow> Ret (Some (Errorf ''UUID %s already exists in workload %s'' [UUID w, ID i]))
      | None \<Rightarrow>
          (case sameTask (TaskIDs w) ws of
             Some (t, wi) \<Rightarrow> Ret (Some (Errorf ''TaskID %s already exists in workload %s'' [t, wi]))
           | None \<Rightarrow>
               if length (CoreIDs w) = 0 then Ret None
               else andThen (NewBitmap [ArgStrings (CoreIDs w)]) (\<lambda>(bm, err).
                 case err of
                   Some _ \<Rightarrow> Ret err
                 | None \<Rightarrow>
                     andThen (NewBitmap [ArgString []]) (\<lambda>(bm0, err0).
                       case err0 of
                         Some _ \<Rightarrow> Ret err0
                       | None \<Rightarrow>
                           andThen (sumCores ws bm0) (\<lambda>(bmsum, err1).
                             case err1 of
                               Some _ \<Rightarrow> Ret err1
                             | None \<Rightarrow>
                                 andThen (bm_And bm bmsum) (\<lambda>bminter.
                                   andThen (if 0 < Len bminter then go_index (Bits bminter) 0 else Ret 0) (\<lambda>b0.
                                     if IsEmpty bminter then Ret None
                                     else Ret (Some (Errorf ''CPU list %s has been assigned''
                                            (firstCores (nat (Len bminter)) 0
                                               (unat (ucast b0 :: 32 word))))))))))))"

definition ValidateWorkload :: "codec \<Rightarrow> 'b bolt \<Rightarrow> RDTWorkLoad \<Rightarrow> 'b \<Rightarrow> goerror option outcome" where
  "ValidateWorkload js bo w s =
     (case GetAllWorkload js bo s of
        (_, Some e) \<Rightarrow> Ret (Some e)
      | (ws, None) \<Rightarrow> validateWorkload w ws)"

definition NewDB :: "string \<Rightarrow> goerror option" where
  "NewDB backend =
     (if backend = ''bolt'' then None
      else if backend = ''mgo''
      then Some (Errorf ''Mongo DB is not currently supported in RMD: Select bolt backend db'' [])
      else Some (Errorf ''Unsupported DB backend %s'' [backend]))"

end
