(* ===== verification/Db_Laws.thy ===== *)
theory Db_Laws
  imports Db Bitmap_Parse
begin

text \<open>
  What the data base promises. \<open>bolt_contract\<close> states the documented laws of the key-value store
  (buckets, get after put and delete, cursor, sequence); under them the operations of \<open>Db\<close>
  provide \<open>workload_store\<close>, the interface the workload module uses. \<open>memBolt\<close> is an
  in-memory store that satisfies the contract. The last part shows what \<open>validateWorkload\<close>
  accepts.
\<close>

section \<open>The key-value store\<close>

locale bolt_contract =
  fixes bo :: "'b bolt"
  assumes create_has: "b_create bo s t = Inl s' \<Longrightarrow> b_has bo s' t' \<longleftrightarrow> t' = t \<or> b_has bo s t'"
    and create_get: "b_create bo s t = Inl s' \<Longrightarrow> b_get bo s' = b_get bo s"
    and put_has: "b_put bo s t k v = Inl s' \<Longrightarrow> b_has bo s' = b_has bo s"
    and put_get: "b_put bo s t k v = Inl s' \<Longrightarrow>
      b_get bo s' t' k' = (if t' = t \<and> k' = k then Some v else b_get bo s t' k')"
    and delete_has: "b_delete bo s t k = Inl s' \<Longrightarrow> b_has bo s' = b_has bo s"
    and delete_get: "b_delete bo s t k = Inl s' \<Longrightarrow>
      b_get bo s' t' k' = (if t' = t \<and> k' = k then None else b_get bo s t' k')"
    and next_has: "b_next bo s t = Inl (n, s') \<Longrightarrow> b_has bo s' = b_has bo s"
    and next_get: "b_next bo s t = Inl (n, s') \<Longrightarrow> b_get bo s' = b_get bo s"
    and items_get: "b_has bo s t \<Longrightarrow> (k, v) \<in> set (b_items bo s t) \<longleftrightarrow> b_get bo s t k = Some v"

text \<open>The JSON codec on the workloads of this module: what was written is read back.\<close>

definition codec_roundtrip :: "codec \<Rightarrow> bool" where
  "codec_roundtrip js \<longleftrightarrow> (\<forall>w buf. marshal js w = Inl buf \<longrightarrow> unmarshal js buf = Inl w)"

definition hasTables :: "'b bolt \<Rightarrow> 'b \<Rightarrow> bool" where
  "hasTables bo s \<longleftrightarrow> b_has bo s WorkloadTableName \<and> b_has bo s MappingTableName"

lemma tables_differ [simp]: "WorkloadTableName \<noteq> MappingTableName" "MappingTableName \<noteq> WorkloadTableName"
  by (simp_all add: WorkloadTableName_def MappingTableName_def)

lemma txUpdate_None: "txUpdate s r = (None, s') \<longleftrightarrow> r = Inl s'"
  by (auto simp: txUpdate_def split: sum.splits)

lemma txUpdate_Some: "txUpdate s r = (Some e, s') \<Longrightarrow> s' = s"
  by (auto simp: txUpdate_def split: sum.splits)

section \<open>The interface of the workload module\<close>

locale workload_store =
  fixes ready :: "'b \<Rightarrow> bool"
    and create :: "RDTWorkLoad \<Rightarrow> 'b \<Rightarrow> (goerror option \<times> RDTWorkLoad \<times> 'b) outcome"
    and remove :: "RDTWorkLoad \<Rightarrow> 'b \<Rightarrow> goerror option \<times> 'b"
    and update :: "RDTWorkLoad \<Rightarrow> 'b \<Rightarrow> goerror option \<times> 'b"
    and byID :: "string \<Rightarrow> 'b \<Rightarrow> RDTWorkLoad with_err"
    and byUUID :: "string \<Rightarrow> 'b \<Rightarrow> RDTWorkLoad with_err"
  assumes create_returns: "ready s \<Longrightarrow> \<exists>e w' s'. create w s = Ret (e, w', s')"
    and create_ok: "ready s \<Longrightarrow> create w s = Ret (None, w', s') \<Longrightarrow>
      ready s' \<and> (\<exists>i. w' = w\<lparr>ID := i\<rparr> \<and> (ID w \<noteq> [] \<longrightarrow> i = ID w)) \<and> byID (ID w') s' = (w', None) \<and>
      (UUID w \<noteq> [] \<longrightarrow> byUUID (UUID w) s' = (w', None))"
    and create_frame: "ready s \<Longrightarrow> create w s = Ret (None, w', s') \<Longrightarrow> i \<noteq> ID w' \<Longrightarrow> byID i s' = byID i s"
    and create_fail: "ready s \<Longrightarrow> create w s = Ret (Some e, w', s') \<Longrightarrow> s' = s"
    and remove_ok: "ready s \<Longrightarrow> remove w s = (None, s') \<Longrightarrow>
      ready s' \<and> snd (byID (ID w) s') \<noteq> None \<and> (UUID w \<noteq> [] \<longrightarrow> snd (byUUID (UUID w) s') \<noteq> None)"
    and remove_frame: "ready s \<Longrightarrow> remove w s = (None, s') \<Longrightarrow> i \<noteq> ID w \<Longrightarrow> byID i s' = byID i s"
    and remove_fail: "ready s \<Longrightarrow> remove w s = (Some e, s') \<Longrightarrow> s' = s"
    and update_ok: "ready s \<Longrightarrow> update w s = (None, s') \<Longrightarrow>
      ready s' \<and> ID w \<noteq> [] \<and> byID (ID w) s' = (w, None) \<and> (\<forall>i. i \<noteq> ID w \<longrightarrow> byID i s' = byID i s)"
    and update_fail: "ready s \<Longrightarrow> update w s = (Some e, s') \<Longrightarrow> s' = s"
begin

text \<open>Creating workloads with distinct names one after the other: all of them can be read.\<close>

fun create_all :: "RDTWorkLoad list \<Rightarrow> 'b \<Rightarrow> 'b option" where
  "create_all [] s = Some s"
| "create_all (w # ws) s =
     (case create w s of Ret (None, _, s') \<Rightarrow> create_all ws s' | _ \<Rightarrow> None)"

lemma create_all_frame:
  "ready s \<Longrightarrow> create_all ws s = Some s' \<Longrightarrow> \<forall>w \<in> set ws. ID w \<noteq> [] \<and> ID w \<noteq> i \<Longrightarrow>
   ready s' \<and> byID i s' = byID i s"
proof (induction ws arbitrary: s)
  case (Cons w ws)
  then obtain w' t where t: "create w s = Ret (None, w', t)" "create_all ws t = Some s'"
    by (auto split: outcome.splits option.splits prod.splits)
  have "ready t" "ID w' = ID w" using create_ok [OF Cons.prems(1) t(1)] Cons.prems(3) by auto
  then show ?case using Cons.IH [OF _ t(2)] create_frame [OF Cons.prems(1) t(1)] Cons.prems(3) by auto
qed simp

lemma create_all_readable:
  "ready s \<Longrightarrow> create_all ws s = Some s' \<Longrightarrow> distinct (map ID ws) \<Longrightarrow> \<forall>w \<in> set ws. ID w \<noteq> [] \<Longrightarrow>
   \<forall>w \<in> set ws. byID (ID w) s' = (w, None)"
proof (induction ws arbitrary: s)
  case (Cons w ws)
  then obtain w' t where t: "create w s = Ret (None, w', t)" "create_all ws t = Some s'"
    by (auto split: outcome.splits option.splits prod.splits)
  have w: "ready t" "w' = w" "byID (ID w) t = (w, None)"
    using create_ok [OF Cons.prems(1) t(1)] Cons.prems(4) by auto
  have "byID (ID w) s' = byID (ID w) t"
    using create_all_frame [OF w(1) t(2), of "ID w"] Cons.prems(3,4) by (force simp: image_iff)
  then show ?case using Cons.IH [OF w(1) t(2)] Cons.prems w(3) by auto
qed simp

text \<open>Undoing a creation by the same workload leaves every other name as it was.\<close>

lemma create_remove:
  assumes "ready s" "create w s = Ret (None, w', s1)" "remove w' s1 = (None, s2)" "i \<noteq> ID w'"
  shows "byID i s2 = byID i s"
  using assms create_ok [OF assms(1,2)] create_frame [OF assms(1,2,4)] remove_frame [of s1 w' s2 i] by auto

end

section \<open>The code provides the interface\<close>

locale bolt_db = bolt_contract bo for bo :: "'b bolt" +
  fixes js :: codec
  assumes codec: "codec_roundtrip js"
begin

lemma nextID_ok:
  "nextID bo w s = Inl (w1, s1) \<Longrightarrow> b_has bo s1 = b_has bo s \<and> b_get bo s1 = b_get bo s \<and>
     (\<exists>i. w1 = w\<lparr>ID := i\<rparr> \<and> (ID w \<noteq> [] \<longrightarrow> i = ID w))"
  by (auto simp: nextID_def next_has next_get split: if_splits sum.splits)

lemma putMapping_ok:
  assumes "putMapping bo w s = Ret (Inl s')"
  shows "b_has bo s' = b_has bo s"
    "b_get bo s' t k = (if t = MappingTableName \<and> k = UUID w \<and> UUID w \<noteq> [] then Some (ID w) else b_get bo s t k)"
  using assms put_has put_get by (auto simp: putMapping_def split: if_splits sum.splits)

lemma CreateWorkload_cases:
  assumes "hasTables bo s" "CreateWorkload js bo w s = Ret (None, w', s')"
  obtains i buf where "w' = w\<lparr>ID := i\<rparr>" "ID w \<noteq> [] \<longrightarrow> i = ID w" "marshal js w' = Inl buf"
    "b_has bo s' = b_has bo s"
    "\<forall>t k. b_get bo s' t k =
       (if t = WorkloadTableName \<and> k = ID w' then Some buf
        else if t = MappingTableName \<and> k = UUID w' \<and> UUID w' \<noteq> [] then Some (ID w')
        else b_get bo s t k)"
proof -
  from assms obtain w1 s1 where n1: "nextID bo w s = Inl (w1, s1)"
    by (cases "nextID bo w s") (auto simp: CreateWorkload_def hasTables_def)
  with assms obtain buf where b1: "marshal js w1 = Inl buf"
    by (cases "marshal js w1") (auto simp: CreateWorkload_def hasTables_def)
  with n1 assms obtain s2 where m1: "putMapping bo w1 s1 = Ret (Inl s2)"
    by (cases "putMapping bo w1 s1"; cases "case putMapping bo w1 s1 of Ret r \<Rightarrow> r")
      (auto simp: CreateWorkload_def hasTables_def txUpdate_def)
  with n1 b1 assms have p1: "b_put bo s2 WorkloadTableName (ID w1) buf = Inl s'" and w1: "w1 = w'"
    by (cases "b_put bo s2 WorkloadTableName (ID w1) buf"; auto simp: CreateWorkload_def hasTables_def txUpdate_def)+
  note n = n1 [unfolded w1] and b = b1 [unfolded w1] and m = m1 [unfolded w1] and p = p1 [unfolded w1]
  note f = nextID_ok [OF n] putMapping_ok [OF m] put_has [OF p] put_get [OF p]
  from f(1) obtain i where "w' = w\<lparr>ID := i\<rparr>" "ID w \<noteq> [] \<longrightarrow> i = ID w" by auto
  with b f show ?thesis by (intro that) auto
qed

lemma CreateWorkload_fail:
  assumes "hasTables bo s" "CreateWorkload js bo w s = Ret (Some e, w', s')"
  shows "s' = s"
proof (cases "nextID bo w s")
  case (Inl r)
  obtain w1 s1 where r: "r = (w1, s1)" by (cases r)
  show ?thesis
  proof (cases "marshal js w1")
    case (Inl buf)
    with \<open>nextID bo w s = Inl r\<close> r assms show ?thesis
      by (cases "putMapping bo w1 s1")
        (auto simp: CreateWorkload_def hasTables_def case_prod_beta txUpdate_def split: sum.split_asm)
  qed (use Inl r assms in \<open>auto simp: CreateWorkload_def hasTables_def\<close>)
qed (use assms in \<open>auto simp: CreateWorkload_def hasTables_def\<close>)

lemma CreateWorkload_returns:
  assumes "hasTables bo s"
  shows "\<exists>e w' s'. CreateWorkload js bo w s = Ret (e, w', s')"
proof (cases "nextID bo w s")
  case (Inl r)
  obtain w1 s1 where r: "r = (w1, s1)" by (cases r)
  with Inl have "b_has bo s1 = b_has bo s" using nextID_ok by blast
  then obtain m where "putMapping bo w1 s1 = Ret m"
    using assms by (cases "UUID w1 = []") (simp_all add: putMapping_def hasTables_def)
  with Inl r assms show ?thesis
    by (cases "marshal js w1") (auto simp: CreateWorkload_def hasTables_def split: prod.split)
qed (use assms in \<open>auto simp: CreateWorkload_def hasTables_def\<close>)

lemma decode_marshal: "marshal js w = Inl buf \<Longrightarrow> decode js buf = (w, None)"
  using codec by (simp add: codec_roundtrip_def decode_def)

end

sublocale bolt_db \<subseteq> ws: workload_store "hasTables bo" "CreateWorkload js bo" "DeleteWorkload bo"
  "UpdateWorkload js bo" "GetWorkloadByID js bo" "GetWorkloadByUUID js bo"
proof
  fix s w assume "hasTables bo s"
  then show "\<exists>e w' s'. CreateWorkload js bo w s = Ret (e, w', s')"
    by (rule CreateWorkload_returns)
next
  fix s w w' s' assume a: "hasTables bo s" "CreateWorkload js bo w s = Ret (None, w', s')"
  obtain i buf where w': "w' = w\<lparr>ID := i\<rparr>" "ID w \<noteq> [] \<longrightarrow> i = ID w" "marshal js w' = Inl buf"
    and h: "b_has bo s' = b_has bo s"
    and g: "\<forall>t k. b_get bo s' t k =
       (if t = WorkloadTableName \<and> k = ID w' then Some buf
        else if t = MappingTableName \<and> k = UUID w' \<and> UUID w' \<noteq> [] then Some (ID w')
        else b_get bo s t k)"
    by (rule CreateWorkload_cases [OF a]) blast
  have d: "decode js buf = (w', None)" by (rule decode_marshal [OF w'(3)])
  have u: "UUID w' = UUID w" by (simp add: w'(1))
  have "GetWorkloadByID js bo (ID w') s' = (w', None)"
    using a(1) by (simp add: hasTables_def GetWorkloadByID_def h g d)
  moreover have "UUID w \<noteq> [] \<longrightarrow> GetWorkloadByUUID js bo (UUID w) s' = (w', None)"
    using a(1) by (simp add: hasTables_def GetWorkloadByUUID_def h g d u)
  ultimately show "hasTables bo s' \<and> (\<exists>i. w' = w\<lparr>ID := i\<rparr> \<and> (ID w \<noteq> [] \<longrightarrow> i = ID w)) \<and>
      GetWorkloadByID js bo (ID w') s' = (w', None) \<and>
      (UUID w \<noteq> [] \<longrightarrow> GetWorkloadByUUID js bo (UUID w) s' = (w', None))"
    using a(1) w'(1,2) h by (simp only: hasTables_def) blast
  fix i assume "i \<noteq> ID w'"
  then show "GetWorkloadByID js bo i s' = GetWorkloadByID js bo i s"
    by (simp add: GetWorkloadByID_def h g)
next
  fix s w e w' s' assume "hasTables bo s" "CreateWorkload js bo w s = Ret (Some e, w', s')"
  then show "s' = s" by (rule CreateWorkload_fail)
next
  fix s w s' assume a: "hasTables bo s" "DeleteWorkload bo w s = (None, s')"
  then obtain s1 where s1: "b_delete bo s1 WorkloadTableName (ID w) = Inl s'"
    "if UUID w \<noteq> [] then b_delete bo s MappingTableName (UUID w) = Inl s1 else s1 = s"
    by (auto simp: DeleteWorkload_def hasTables_def txUpdate_None split: sum.splits if_splits)
  note d = delete_has [OF s1(1)] delete_get [OF s1(1)]
  have h: "b_has bo s1 = b_has bo s" using s1(2) delete_has by (auto split: if_splits)
  have g: "b_get bo s1 t k = (if t = MappingTableName \<and> k = UUID w \<and> UUID w \<noteq> [] then None else b_get bo s t k)" for t k
    using s1(2) delete_get [of s MappingTableName "UUID w" s1 t k] by (auto split: if_splits)
  show "hasTables bo s' \<and> snd (GetWorkloadByID js bo (ID w) s') \<noteq> None \<and>
      (UUID w \<noteq> [] \<longrightarrow> snd (GetWorkloadByUUID js bo (UUID w) s') \<noteq> None)"
    using a(1) d h g by (auto simp: hasTables_def GetWorkloadByID_def GetWorkloadByUUID_def)
  fix i assume "i \<noteq> ID w"
  then show "GetWorkloadByID js bo i s' = GetWorkloadByID js bo i s"
    using d h g by (auto simp: GetWorkloadByID_def)
next
  fix s w e s' assume "hasTables bo s" "DeleteWorkload bo w s = (Some e, s')"
  then show "s' = s" by (auto simp: DeleteWorkload_def dest: txUpdate_Some)
next
  fix s w s' assume a: "hasTables bo s" "UpdateWorkload js bo w s = (None, s')"
  then obtain buf where b: "ID w \<noteq> []" "marshal js w = Inl buf" "b_put bo s WorkloadTableName (ID w) buf = Inl s'"
    by (auto simp: UpdateWorkload_def hasTables_def txUpdate_None split: sum.splits if_splits)
  then show "hasTables bo s' \<and> ID w \<noteq> [] \<and> GetWorkloadByID js bo (ID w) s' = (w, None) \<and>
      (\<forall>i. i \<noteq> ID w \<longrightarrow> GetWorkloadByID js bo i s' = GetWorkloadByID js bo i s)"
    using a(1) put_has [OF b(3)] put_get [OF b(3)] by (auto simp: hasTables_def GetWorkloadByID_def decode_marshal)
next
  fix s w e s' assume "hasTables bo s" "UpdateWorkload js bo w s = (Some e, s')"
  then show "s' = s" by (auto simp: UpdateWorkload_def dest: txUpdate_Some split: if_splits)
qed

context bolt_db
begin

lemma store: "workload_store (hasTables bo) (CreateWorkload js bo) (DeleteWorkload bo) (UpdateWorkload js bo)
  (GetWorkloadByID js bo) (GetWorkloadByUUID js bo)"
  by (rule ws.workload_store_axioms)

end

section \<open>An in-memory store\<close>

record memdb =
  m_tables :: "string list"
  m_rows :: "((string \<times> string) \<times> string) list"
  m_seq :: nat

definition memBolt :: "memdb bolt" where
  "memBolt = \<lparr>
     b_has = (\<lambda>s t. t \<in> set (m_tables s)),
     b_create = (\<lambda>s t. Inl (s\<lparr>m_tables := List.insert t (m_tables s)\<rparr>)),
     b_get = (\<lambda>s t k. map_of (m_rows s) (t, k)),
     b_put = (\<lambda>s t k v. if k = [] then Inr (Errorf ''key required'' []) else Inl (s\<lparr>m_rows := al_put (t, k) v (m_rows s)\<rparr>)),
     b_delete = (\<lambda>s t k. Inl (s\<lparr>m_rows := filter (\<lambda>r. fst r \<noteq> (t, k)) (m_rows s)\<rparr>)),
     b_next = (\<lambda>s t. Inl (Suc (m_seq s), s\<lparr>m_seq := Suc (m_seq s)\<rparr>)),
     b_items = (\<lambda>s t. map (\<lambda>k. (snd k, the (map_of (m_rows s) k))) (filter (\<lambda>k. fst k = t) (remdups (map fst (m_rows s)))))\<rparr>"

lemma map_of_filter_key: "map_of (filter (\<lambda>r. fst r \<noteq> x) rs) k = (if k = x then None else map_of rs k)"
  by (induction rs) auto

interpretation mem: bolt_contract memBolt
proof
  fix s :: memdb and t k v
  show "(k, v) \<in> set (b_items memBolt s t) \<longleftrightarrow> b_get memBolt s t k = Some v"
  proof -
    have "(k, v) \<in> set (b_items memBolt s t) \<longleftrightarrow> (t, k) \<in> fst ` set (m_rows s) \<and> v = the (map_of (m_rows s) (t, k))"
      by (force simp: memBolt_def)
    also have "\<dots> \<longleftrightarrow> map_of (m_rows s) (t, k) = Some v"
      using map_of_eq_None_iff [of "m_rows s" "(t, k)"] by (cases "map_of (m_rows s) (t, k)") auto
    finally show ?thesis by (simp add: memBolt_def)
  qed
qed (auto simp: memBolt_def map_of_filter_key split: if_splits)

section \<open>What validation accepts\<close>

definition written :: "(RDTWorkLoad \<Rightarrow> item list list) \<Rightarrow> RDTWorkLoad \<Rightarrow> bool" where
  "written its w \<longleftrightarrow> CoreIDs w = map items_text (its w) \<and>
     (\<forall>is \<in> set (its w). is \<noteq> [] \<and> (\<forall>it \<in> set is. item_ok (2 ^ 63 - 1) it))"

definition cores :: "(RDTWorkLoad \<Rightarrow> item list list) \<Rightarrow> RDTWorkLoad \<Rightarrow> nat set" where
  "cores its w = foldl item_apply {} (concat (its w))"

lemma written_bitmap:
  assumes "written its w" "CoreIDs w \<noteq> []"
  shows "\<exists>b. NewBitmap [ArgStrings (CoreIDs w)] = Ret (b, None) \<and> bm_wf b \<and> bm_set b = cores its w"
  using assms NewBitmap_strings [of "its w"] by (auto simp: written_def cores_def)

lemma sumCores_union:
  "bm_wf b \<Longrightarrow> \<forall>w \<in> set ws. written its w \<Longrightarrow>
   \<exists>r. sumCores ws b = Ret (r, None) \<and> bm_wf r \<and> bm_set r = bm_set b \<union> (\<Union>w \<in> set ws. cores its w)"
proof (induction ws arbitrary: b)
  case (Cons w ws)
  show ?case
  proof (cases "CoreIDs w = []")
    case True
    then have "cores its w = {}" using Cons.prems(2) by (auto simp: cores_def written_def)
    with True Cons show ?thesis by simp
  next
    case False
    obtain t where t: "NewBitmap [ArgStrings (CoreIDs w)] = Ret (t, None)" "bm_wf t" "bm_set t = cores its w"
      using written_bitmap [of its w] False Cons.prems(2) by auto
    obtain u where u: "bm_Or b t = Ret u" "bm_wf u" "bm_set u = bm_set b \<union> cores its w"
      using bms.union_spec [OF Cons.prems(1) t(2)] t(3) by auto
    with t False Cons.IH [OF u(2)] Cons.prems(2) show ?thesis by auto
  qed
qed simp

lemma sameTask_None: "sameTask ts ws = None \<longleftrightarrow> (\<forall>v \<in> set ws. set ts \<inter> set (TaskIDs v) = {})"
proof (induction ts)
  case (Cons t ts)
  show ?case
  proof (cases "find (\<lambda>wi. HasElem (TaskIDs wi) t) ws")
    case (Some v)
    then have "v \<in> set ws" "t \<in> set (TaskIDs v)" by (auto simp: find_Some_iff)
    with Some show ?thesis by auto
  next
    case None
    then have "\<forall>v \<in> set ws. t \<notin> set (TaskIDs v)" by (auto simp: find_None_iff)
    with None Cons show ?thesis by auto
  qed
qed simp

lemma first_chunk: "bm_wf b \<Longrightarrow> \<exists>c. (if 0 < Len b then go_index (Bits b) 0 else Ret 0) = Ret c"
  by (auto simp: bm_wf_def chunks_for_def go_index_def)

lemma bm_wf_empty: "bm_wf \<lparr>Len = 0, Bits = []\<rparr>" "bm_set \<lparr>Len = 0, Bits = []\<rparr> = {}"
  by (simp_all add: bm_wf_def bm_set_def chunks_for_def)

definition overlaps :: "(RDTWorkLoad \<Rightarrow> item list list) \<Rightarrow> RDTWorkLoad \<Rightarrow> RDTWorkLoad \<Rightarrow> bool" where
  "overlaps its w v \<longleftrightarrow> (ID w \<noteq> [] \<and> ID v = ID w) \<or> (UUID w \<noteq> [] \<and> UUID v = UUID w) \<or>
     set (TaskIDs w) \<inter> set (TaskIDs v) \<noteq> {} \<or> cores its w \<inter> cores its v \<noteq> {}"

lemma validateWorkload_cores:
  assumes "written its w" "\<forall>v \<in> set ws. written its v" "CoreIDs w \<noteq> []"
    "\<not> (ID w \<noteq> [] \<and> find (\<lambda>i. ID w = ID i) ws \<noteq> None)"
    "(if UUID w \<noteq> [] then find (\<lambda>i. UUID w = UUID i) ws else None) = None" "sameTask (TaskIDs w) ws = None"
  shows "\<exists>r. validateWorkload w ws = Ret r \<and> (r = None \<longleftrightarrow> cores its w \<inter> (\<Union>v \<in> set ws. cores its v) = {})"
proof -
  obtain b where b: "NewBitmap [ArgStrings (CoreIDs w)] = Ret (b, None)" "bm_wf b" "bm_set b = cores its w"
    using written_bitmap assms by blast
  obtain r where r: "sumCores ws \<lparr>Len = 0, Bits = []\<rparr> = Ret (r, None)" "bm_wf r"
    "bm_set r = (\<Union>w \<in> set ws. cores its w)"
    using sumCores_union [OF bm_wf_empty(1) assms(2)] bm_wf_empty(2) by auto
  obtain i where i: "bm_And b r = Ret i" "bm_wf i" "bm_set i = cores its w \<inter> (\<Union>w \<in> set ws. cores its w)"
    using bms.inter_spec [OF b(2) r(2)] b(3) r(3) by auto
  obtain c where c: "(if 0 < Len i then go_index (Bits i) 0 else Ret 0) = Ret c"
    using first_chunk [OF i(2)] by auto
  have "validateWorkload w ws = Ret (if IsEmpty i then None else
      Some (Errorf ''CPU list %s has been assigned'' (firstCores (nat (Len i)) 0 (unat (ucast c :: 32 word)))))"
    unfolding validateWorkload_def using assms(3-6) b(1) r(1) i(1) c
    by (simp add: NewBitmap_empty_text del: find_None_iff)
  then show ?thesis using bms.is_empty_spec [OF i(2)] i(3) by auto
qed

lemma validateWorkload_spec:
  assumes "written its w" "\<forall>v \<in> set ws. written its v"
  shows "\<exists>r. validateWorkload w ws = Ret r \<and>
     (r = None \<longleftrightarrow> (ID w \<noteq> [] \<or> TaskIDs w \<noteq> [] \<or> CoreIDs w \<noteq> []) \<and> (\<forall>v \<in> set ws. \<not> overlaps its w v))"
    (is "\<exists>r. _ \<and> (_ \<longleftrightarrow> ?ok)")
proof -
  consider (inc) "ID w = [] \<and> TaskIDs w = [] \<and> CoreIDs w = []"
    | (id) "ID w \<noteq> []" "find (\<lambda>i. ID w = ID i) ws \<noteq> None"
    | (uuid) u where "UUID w \<noteq> []" "find (\<lambda>i. UUID w = UUID i) ws = Some u"
        "\<not> (ID w \<noteq> [] \<and> find (\<lambda>i. ID w = ID i) ws \<noteq> None)"
    | (ok) "\<not> (ID w = [] \<and> TaskIDs w = [] \<and> CoreIDs w = [])" "\<not> (ID w \<noteq> [] \<and> find (\<lambda>i. ID w = ID i) ws \<noteq> None)"
        "(if UUID w \<noteq> [] then find (\<lambda>i. UUID w = UUID i) ws else None) = None"
    by (cases "UUID w = []"; cases "find (\<lambda>i. UUID w = UUID i) ws") (simp_all, blast+)
  then show ?thesis
  proof cases
    case id
    then have "\<not> ?ok" by (auto simp: find_None_iff overlaps_def)
    with id show ?thesis by (auto simp: validateWorkload_def)
  next
    case uuid
    then have "\<not> ?ok" by (auto simp: find_Some_iff overlaps_def) (metis nth_mem)
    with uuid show ?thesis by (auto simp: validateWorkload_def)
  next
    case ok
    have ids: "\<forall>v \<in> set ws. \<not> (ID w \<noteq> [] \<and> ID v = ID w) \<and> \<not> (UUID w \<noteq> [] \<and> UUID v = UUID w)"
      using ok(2,3) by (auto simp: find_None_iff split: if_splits)
    show ?thesis
    proof (cases "sameTask (TaskIDs w) ws")
      case (Some p)
      then have "\<not> ?ok" using sameTask_None [of "TaskIDs w" ws] by (auto simp: overlaps_def)
      with Some ok show ?thesis by (cases p) (auto simp: validateWorkload_def)
    next
      case None
      have iff: "?ok \<longleftrightarrow> cores its w \<inter> (\<Union>v \<in> set ws. cores its v) = {}"
        using ids ok(1) None sameTask_None [of "TaskIDs w" ws] by (auto simp: overlaps_def)
      show ?thesis
      proof (cases "CoreIDs w = []")
        case True
        then have "cores its w = {}" using assms(1) by (auto simp: cores_def written_def)
        with True None ok iff show ?thesis by (auto simp: validateWorkload_def)
      next
        case False
        with validateWorkload_cores [OF assms False ok(2,3) None] iff show ?thesis by simp
      qed
    qed
  qed (auto simp: validateWorkload_def)
qed

end
