(* ===== verification/Host.thy ===== *)
theory Host
  imports Resctrl Bitmap
begin

unbundle bit_operations_syntax

text \<open>
  What the program learns about its host (\<^verbatim>\<open>utils/cpu\<close>, \<^verbatim>\<open>utils/proc\<close>). A file that
  can be read is \<open>Some\<close> content; a glob returns a list of paths. Files are read once by the code
  (\<^verbatim>\<open>sync.Once\<close>); the definitions give the value that is kept. The affinity system calls are
  parameters, the mask they exchange is explicit.
\<close>

section \<open>CPU topology (utils/cpu/cpu.go)\<close>

type_synonym readFile = "string \<Rightarrow> string option"

definition contents :: "readFile \<Rightarrow> string \<Rightarrow> string" where
  "contents fs path = (case fs path of Some d \<Rightarrow> d | None \<Rightarrow> [])"

definition HostCPUNum :: "readFile \<Rightarrow> int outcome" where
  "HostCPUNum fs =
     andThen (go_index (splitN2 (CHR ''-'') (TrimSpace (contents fs ''/sys/devices/system/cpu/possible''))) 1) (\<lambda>s.
       case Atoi s of
         (num, None) \<Rightarrow> Ret (num + 1)
       | (_, Some _) \<Rightarrow> Panic OsExit)"

definition cpuSignature :: "int \<Rightarrow> int \<Rightarrow> int" where
  "cpuSignature family model =
     (push_bit 20 (drop_bit 4 family) + push_bit 8 (family AND 0xf)) OR
     (push_bit 16 (drop_bit 4 model) + push_bit 4 (model AND 0xf))"

text \<open>The lines of \<^verbatim>\<open>/proc/cpuinfo\<close>; a last line without a newline ends the loop.\<close>

fun signatureLoop :: "string list \<Rightarrow> int \<Rightarrow> int \<Rightarrow> nat \<Rightarrow> (32 word) outcome" where
  "signatureLoop [] family model found = Ret 0"
| "signatureLoop (s # rest) family model found =
     andThen
       (if HasPrefix s ''cpu family''
        then andThen (go_index (split_on (CHR '':'') s) 1) (\<lambda>v.
               Ret (fst (Atoi (TrimSpace v)), model, found + 1))
        else if HasPrefix s ''model'' \<and> TrimSpace (hd (split_on (CHR '':'') s)) = ''model''
        then andThen (go_index (split_on (CHR '':'') s) 1) (\<lambda>v.
               Ret (family, fst (Atoi (TrimSpace v)), found + 1))
        else Ret (family, model, found)) (\<lambda>(family', model', found').
       if 2 \<le> found' then Ret (of_int (cpuSignature family' model'))
       else signatureLoop rest family' model' found')"

definition GetSignature :: "readFile \<Rightarrow> (32 word) outcome" where
  "GetSignature fs =
     (case fs ''/proc/cpuinfo'' of
        None \<Rightarrow> Ret 0
      | Some d \<Rightarrow> signatureLoop (butlast (split_on (CHR ''\<newline>'') d)) 0 0 0)"

definition IsolatedCPUs :: "readFile \<Rightarrow> string" where
  "IsolatedCPUs fs = TrimSpace (contents fs ''/sys/devices/system/cpu/isolated'')"

definition LocateOnSocket :: "readFile \<Rightarrow> string \<Rightarrow> string with_err" where
  "LocateOnSocket fs cpuid =
     (case fs (''/sys/devices/system/cpu/cpu'' @ cpuid @ ''/topology/physical_package_id'') of
        None \<Rightarrow> ([], Some (Errorf ''open'' []))
      | Some d \<Rightarrow> (TrimSpace d, None))"

text \<open>\<^verbatim>\<open>strings.Split\<close> with a separator of several bytes.\<close>

lemma indexOf_lt: "indexOf sub s = Some i \<Longrightarrow> sub \<noteq> [] \<Longrightarrow> i < length s"
  by (induction sub s arbitrary: i rule: indexOf.induct) (auto split: if_splits)

function splitStr :: "string \<Rightarrow> string \<Rightarrow> string list" where
  "splitStr sep s =
     (if sep = [] then map (\<lambda>c. [c]) s
      else case indexOf sep s of
             None \<Rightarrow> [s]
           | Some i \<Rightarrow> take i s # splitStr sep (drop (i + length sep) s))"
  by pat_completeness auto
termination
  by (relation "measure (\<lambda>(sep, s). length s)") (auto dest!: indexOf_lt intro!: diff_less)

definition baseName :: "string \<Rightarrow> string" where
  "baseName path = last (split_on (CHR ''/'') path)"

definition LocateOnNode :: "(string \<Rightarrow> string list) \<Rightarrow> string \<Rightarrow> string outcome" where
  "LocateOnNode glob cpuid =
     (case glob (''/sys/devices/system/cpu/cpu'' @ cpuid @ ''/node*'') of
        [] \<Rightarrow> Ret []
      | f # _ \<Rightarrow> go_index (splitStr ''node'' (baseName f)) 1)"

section \<open>Micro architectures (utils/cpu/microarch.go)\<close>

definition defaultCPUMap :: "(32 word \<times> string) list" where
  "defaultCPUMap =
     [(0x406e0, ''Skylake''), (0x506e0, ''Skylake''), (0x50650, ''Skylake''), (0x806e0, ''Kaby Lake''),
      (0x906e0, ''Kaby Lake''), (0x306d0, ''Broadwell''), (0x406f0, ''Broadwell'')]"

text \<open>The entries of the configuration file, unmarshalled.\<close>

record microArch =
  Family :: int
  Model :: int

definition archSignature :: "microArch \<Rightarrow> int" where
  "archSignature v =
     push_bit 20 (drop_bit 4 (Family v)) + push_bit 8 (Family v AND 0xf) +
     push_bit 16 (drop_bit 4 (Model v)) + push_bit 4 (Model v AND 0xf)"

definition NewCPUMap :: "(string \<times> microArch list) list \<Rightarrow> (32 word \<times> string) list" where
  "NewCPUMap maps =
     fold (\<lambda>(k, mv) m. fold (\<lambda>v m. al_put (of_int (archSignature v)) k m) mv m) maps defaultCPUMap"

definition GetMicroArch :: "(string \<times> microArch list) list \<Rightarrow> 32 word \<Rightarrow> string" where
  "GetMicroArch maps sig =
     (case map_of (NewCPUMap maps) (sig AND 0xFFFF0FF0) of Some v \<Rightarrow> v | None \<Rightarrow> [])"

section \<open>Features of the host (utils/proc/proc.go)\<close>

definition parseCPUInfoFile :: "readFile \<Rightarrow> string \<Rightarrow> bool with_err" where
  "parseCPUInfoFile fs flag =
     (case fs ''/proc/cpuinfo'' of
        None \<Rightarrow> (False, Some (Errorf ''open'' []))
      | Some d \<Rightarrow> (find (\<lambda>text. flag \<in> set (split_on (CHR '' '') text)) (scanLines d) \<noteq> None, None))"

definition IsRdtAvailable :: "readFile \<Rightarrow> bool with_err" where
  "IsRdtAvailable fs = parseCPUInfoFile fs ''rdt_a''"

definition IsCqmAvailable :: "readFile \<Rightarrow> bool with_err" where
  "IsCqmAvailable fs = parseCPUInfoFile fs ''cqm''"

definition IsCdpAvailable :: "readFile \<Rightarrow> bool with_err" where
  "IsCdpAvailable fs = parseCPUInfoFile fs ''cdp_l3''"

definition IsMbaAvailable :: "readFile \<Rightarrow> bool with_err" where
  "IsMbaAvailable fs = parseCPUInfoFile fs ''mba''"

definition IsL3CatAvailable :: "readFile \<Rightarrow> bool with_err" where
  "IsL3CatAvailable fs = parseCPUInfoFile fs ''cat_l3''"

text \<open>The first resctrl line of the mount table decides.\<close>

fun mountedLoop :: "string \<Rightarrow> string list \<Rightarrow> bool" where
  "mountedLoop flag [] = False"
| "mountedLoop flag (text # rest) =
     (let flags = split_on (CHR '' '') text
      in if 3 < length flags \<and> flags ! 2 = ''resctrl'' then flags ! 1 = flag else mountedLoop flag rest)"

definition IsResctrlMounted :: "readFile \<Rightarrow> string \<Rightarrow> bool" where
  "IsResctrlMounted fs flag =
     (case fs ''/proc/self/mounts'' of None \<Rightarrow> False | Some d \<Rightarrow> mountedLoop flag (scanLines d))"

definition findMountDir :: "readFile \<Rightarrow> string \<Rightarrow> string with_err" where
  "findMountDir fs mountdir =
     (case fs ''/proc/self/mountinfo'' of
        None \<Rightarrow> ([], Some (Errorf ''open'' []))
      | Some d \<Rightarrow>
          (case find (\<lambda>text. str_contains text mountdir) (scanLines d) of
             Some text \<Rightarrow> (text, None)
           | None \<Rightarrow> ([], Some (Errorf ''Can not found the mount entry: %s'' [mountdir]))))"

definition IsEnableRdt :: "readFile \<Rightarrow> string \<Rightarrow> bool" where
  "IsEnableRdt fs resctrlPath =
     (case findMountDir fs resctrlPath of (_, Some _) \<Rightarrow> False | (mount, None) \<Rightarrow> 0 < length mount)"

definition IsEnableCdp :: "readFile \<Rightarrow> string \<Rightarrow> bool" where
  "IsEnableCdp fs resctrlPath =
     (case findMountDir fs resctrlPath of (_, Some _) \<Rightarrow> False | (mount, None) \<Rightarrow> str_contains mount ''cdp'')"

definition IsEnableCat :: "readFile \<Rightarrow> string \<Rightarrow> bool" where
  "IsEnableCat fs resctrlPath =
     (case findMountDir fs resctrlPath of
        (_, Some _) \<Rightarrow> False
      | (mount, None) \<Rightarrow> \<not> str_contains mount ''cdp'' \<and> 0 < length mount)"

text \<open>\<open>statDir\<close>: what \<^verbatim>\<open>os.Stat\<close> says of the MBA directory.\<close>

definition IsEnableMba :: "readFile \<Rightarrow> (string \<Rightarrow> bool option) \<Rightarrow> string \<Rightarrow> string \<Rightarrow> bool with_err" where
  "IsEnableMba fs statDir resctrlPath mbaInfoPath =
     (case findMountDir fs resctrlPath of
        (_, Some e) \<Rightarrow> (False, Some e)
      | (_, None) \<Rightarrow> (case statDir mbaInfoPath of Some isDir \<Rightarrow> (isDir, None) | None \<Rightarrow> (False, None)))"

section \<open>Processes\<close>

record Process =
  Pid :: int
  CmdLine :: string

fun processLoop :: "readFile \<Rightarrow> string list \<Rightarrow> (string \<times> Process) list \<Rightarrow> (string \<times> Process) list outcome" where
  "processLoop fs [] ps = Ret ps"
| "processLoop fs (f # rest) ps =
     andThen (go_index (split_on (CHR ''/'') f) 2) (\<lambda>p.
       case Atoi p of
         (pid, None) \<Rightarrow>
           processLoop fs rest
             (al_put p \<lparr>Pid = pid, CmdLine = join '' '' (split_on (CHR 0x00) (contents fs f))\<rparr> ps)
       | (_, Some _) \<Rightarrow> processLoop fs rest ps)"

definition ListProcesses :: "readFile \<Rightarrow> (string \<Rightarrow> string list) \<Rightarrow> (string \<times> Process) list outcome" where
  "ListProcesses fs glob = processLoop fs (glob ''/proc/[0-9]*/cmdline'') []"

text \<open>\<open>sched\<close>: the errno and the sixteen words of the mask that the system call leaves.\<close>

definition affinityBits :: "64 word list \<Rightarrow> 64 word list" where
  "affinityBits m = concat (map (\<lambda>v. [drop_bit 32 (push_bit 32 v), drop_bit 32 v]) m)"

definition GetCPUAffinity :: "(int \<Rightarrow> int \<times> 64 word list) \<Rightarrow> string \<Rightarrow> bitmap option with_err" where
  "GetCPUAffinity sched pidText =
     (case Atoi pidText of
        (_, Some e) \<Rightarrow> (None, Some (NumError e pidText))
      | (pid, None) \<Rightarrow>
          (case sched pid of
             (ierr, m) \<Rightarrow>
               if ierr \<noteq> 0 then (None, Some (Errorf ''errno'' [Itoa ierr]))
               else (Some \<lparr>Len = 16 * 64, Bits = affinityBits m\<rparr>, None)))"

fun affinityMask :: "64 word list \<Rightarrow> nat \<Rightarrow> 64 word list \<Rightarrow> 64 word list outcome" where
  "affinityMask m idx [] = Ret m"
| "affinityMask m idx (b # bs) =
     (if idx div 2 < length m
      then affinityMask (m[idx div 2 := m ! (idx div 2) OR b]) (idx + 1) bs
      else Panic IndexOutOfRange)"

text \<open>The result is the mask handed to the kernel, if the call is made.\<close>

definition SetCPUAffinity :: "string \<Rightarrow> bitmap \<Rightarrow> (goerror + (int \<times> 64 word list)) outcome" where
  "SetCPUAffinity pidText cpus =
     (case Atoi pidText of
        (_, Some e) \<Rightarrow> Ret (Inl (NumError e pidText))
      | (pid, None) \<Rightarrow>
          andThen (affinityMask (replicate 16 0) 0 (Bits cpus)) (\<lambda>m. Ret (Inr (pid, m))))"

section \<open>Memory bandwidth allocation (modules/mba)\<close>

definition readInt :: "readFile \<Rightarrow> string \<Rightarrow> int with_err" where
  "readInt fs path =
     (case fs path of
        None \<Rightarrow> (0, Some (Errorf ''open'' []))
      | Some d \<Rightarrow> (case Atoi (TrimSpace d) of (i, e) \<Rightarrow> (i, num_err e (TrimSpace d))))"

definition GetMbaInfo :: "readFile \<Rightarrow> string \<Rightarrow> (int \<times> int) with_err" where
  "GetMbaInfo fs mbaInfoPath =
     (case readInt fs (mbaInfoPath @ ''/bandwidth_gran'') of
        (step, Some e) \<Rightarrow> ((step, 0), Some e)
      | (step, None) \<Rightarrow>
          (case readInt fs (mbaInfoPath @ ''/min_bandwidth'') of
             (mn, Some e) \<Rightarrow> ((step, mn), Some e)
           | (mn, None) \<Rightarrow> ((step, mn), None)))"

record MbaInfo =
  InfoMba :: bool
  MbaOn :: bool
  MbaStep :: int
  MbaMin :: int

definition MbaInfo_Get :: "readFile \<Rightarrow> (string \<Rightarrow> bool option) \<Rightarrow> string \<Rightarrow> MbaInfo \<Rightarrow> goerror option \<times> MbaInfo" where
  "MbaInfo_Get fs statDir resctrlPath c =
     (case IsMbaAvailable fs of
        (_, Some e) \<Rightarrow> (Some e, c)
      | (False, None) \<Rightarrow> (None, c\<lparr>InfoMba := False\<rparr>)
      | (True, None) \<Rightarrow>
          (case IsEnableMba fs statDir resctrlPath (resctrlPath @ ''/info/MB'') of
             (_, Some e) \<Rightarrow> (Some e, c\<lparr>InfoMba := True\<rparr>)
           | (False, None) \<Rightarrow> (None, c\<lparr>InfoMba := True, MbaOn := False\<rparr>)
           | (True, None) \<Rightarrow>
               (case GetMbaInfo fs (resctrlPath @ ''/info/MB'') of
                  (_, Some e) \<Rightarrow> (Some e, c\<lparr>InfoMba := True, MbaOn := True\<rparr>)
                | ((step, mn), None) \<Rightarrow>
                    (None, c\<lparr>InfoMba := True, MbaOn := True, MbaStep := step, MbaMin := mn\<rparr>))))"

section \<open>Configuration of the cache module (modules/cache/config)\<close>

record OSGroup =
  osCacheWays :: "64 word"
  osCPUSet :: string

record InfraGroup =
  infraCacheWays :: "64 word"
  infraCPUSet :: string
  infraTasks :: "string list"

record CachePool =
  MaxAllowedShared :: "64 word"
  cpGuarantee :: "64 word"
  cpBesteffort :: "64 word"
  cpShared :: "64 word"
  cpShrink :: bool

definition MBAModeToInt :: "string \<Rightarrow> int with_err" where
  "MBAModeToInt mode =
     (if mode = ''none'' then (- 1, None)
      else if mode = ''percentage'' then (0, None)
      else if mode = ''mbps'' then (1, None)
      else (- 2, Some (Errorf ''Unsupported MBA mode: [%v]'' [mode])))"

text \<open>The value under the key of the configuration file, if there is one (read by viper).\<close>

definition NewInfraConfig :: "InfraGroup option \<Rightarrow> InfraGroup option" where
  "NewInfraConfig cfg = cfg"

definition NewOSConfig :: "OSGroup option \<Rightarrow> OSGroup" where
  "NewOSConfig cfg = (case cfg of Some c \<Rightarrow> c | None \<Rightarrow> \<lparr>osCacheWays = 1, osCPUSet = ''0''\<rparr>)"

definition NewCachePoolConfig :: "CachePool option \<Rightarrow> CachePool" where
  "NewCachePoolConfig cfg =
     (case cfg of
        Some c \<Rightarrow> c
      | None \<Rightarrow> \<lparr>MaxAllowedShared = 10, cpGuarantee = 10, cpBesteffort = 7, cpShared = 2, cpShrink = False\<rparr>)"

section \<open>The host as the modules above see it\<close>

datatype fmode = Regular | Directory | OtherMode

text \<open>\<open>hlstat\<close> is \<^verbatim>\<open>os.Lstat\<close>, \<open>htree\<close> the tree below a path.\<close>

record host =
  hfs :: readFile
  hglob :: "string \<Rightarrow> string list"
  htree :: "string \<Rightarrow> fnode option"
  hlstat :: "string \<Rightarrow> fmode option"
  sysResctrl :: string
  hostInfra :: "InfraGroup option"
  hostOS :: "OSGroup option"
  hostPool :: "CachePool option"

definition IsRegularFile :: "host \<Rightarrow> string \<Rightarrow> bool with_err" where
  "IsRegularFile H path =
     (case hlstat H path of
        None \<Rightarrow> (False, Some (Errorf ''lstat'' [path]))
      | Some Directory \<Rightarrow> (False, None)
      | Some OtherMode \<Rightarrow> (False, None)
      | Some Regular \<Rightarrow> (True, None))"

end
