(* ===== verification/Host_Laws.thy ===== *)
theory Host_Laws
  imports Host Bitmap_Sets
begin

unbundle bit_operations_syntax

text \<open>
  The affinity mask of the kernel, 16 words of 64 bits, and the bit map of 32-bit chunks the program
  works with: reading the mask is exact; writing it loses the position of every odd chunk.
\<close>

definition mask_set :: "64 word list \<Rightarrow> nat set" where
  "mask_set m = {p. p div 64 < length m \<and> bit (m ! (p div 64)) (p mod 64)}"

lemma affinityBits_nth:
  "i < 2 * length m \<Longrightarrow>
   affinityBits m ! i = (if even i then drop_bit 32 (push_bit 32 (m ! (i div 2))) else drop_bit 32 (m ! (i div 2)))"
proof (induction m arbitrary: i)
  case (Cons v m)
  show ?case
  proof (cases "i < 2")
    case True
    then have "i = 0 \<or> i = 1" by auto
    then show ?thesis by (auto simp: affinityBits_def)
  next
    case False
    then obtain j where j: "i = Suc (Suc j)" by (metis Suc_leI add_2_eq_Suc le_Suc_ex not_less one_add_one plus_1_eq_Suc)
    have "affinityBits (v # m) ! i = affinityBits m ! j" by (simp add: affinityBits_def j)
    with Cons j show ?thesis by simp
  qed
qed simp

lemma length_affinityBits [simp]: "length (affinityBits m) = 2 * length m"
  by (induction m) (auto simp: affinityBits_def)

lemma affinity_bit:
  assumes "n < 32"
  shows "bit (drop_bit 32 (push_bit 32 (v :: 64 word))) n = bit v n" "bit (drop_bit 32 v) n = bit v (n + 32)"
  using assms by (auto simp: bit_drop_bit_eq bit_push_bit_iff add.commute)

lemma affinity_chunk_ok: "w \<in> set (affinityBits m) \<Longrightarrow> chunk_ok w"
proof -
  have "chunk_ok (drop_bit 32 (v :: 64 word))" for v
    by (auto simp: chunk_ok_def bit_drop_bit_eq dest: bit_imp_le_length)
  then show "w \<in> set (affinityBits m) \<Longrightarrow> chunk_ok w" by (auto simp: affinityBits_def)
qed

lemma affinityBits_set: "bits_set (affinityBits m) = mask_set m"
proof -
  have "p \<in> bits_set (affinityBits m) \<longleftrightarrow> p \<in> mask_set m" for p
  proof -
    have q: "p div 64 = p div 32 div 2" by (simp add: div_mult2_eq [symmetric])
    have r: "p mod 64 = p mod 32 + (if even (p div 32) then 0 else 32)"
    proof -
      have "p mod (32 * 2) = 32 * (p div 32 mod 2) + p mod 32" by (rule mod_mult2_eq)
      then show ?thesis by (cases "even (p div 32)") (simp_all only: even_iff_mod_2_eq_zero odd_iff_mod_2_eq_one, simp_all)
    qed
    have l: "p div 32 < 2 * length m \<longleftrightarrow> p div 64 < length m" by linarith
    show ?thesis
    proof (cases "p div 32 < 2 * length m")
      case True
      then show ?thesis
        using l affinity_bit [of "p mod 32" "m ! (p div 64)"]
        by (auto simp: bits_set_def mask_set_def affinityBits_nth q r)
    qed (use l in \<open>auto simp: bits_set_def mask_set_def\<close>)
  qed
  then show ?thesis by blast
qed

lemma GetCPUAffinity_exact:
  assumes "Atoi pidText = (pid, None)" "sched pid = (0, m)" "length m = 16"
  shows "\<exists>b. GetCPUAffinity sched pidText = (Some b, None) \<and> bm_wf b \<and> Len b = 1024 \<and> bm_set b = mask_set m"
proof -
  let ?b = "\<lparr>Len = 1024, Bits = affinityBits m\<rparr>"
  have "p < 1024" if "p \<in> mask_set m" for p using that assms(3) by (auto simp: mask_set_def)
  then have "bm_wf ?b"
    using assms(3) affinity_chunk_ok by (auto simp: bm_wf_def chunks_for_def bm_set_def affinityBits_set)
  with assms show ?thesis by (auto simp: GetCPUAffinity_def bm_set_def affinityBits_set)
qed

text \<open>Writing an affinity mask puts both chunks of a pair into the low half of the word.\<close>

lemma SetCPUAffinity_pair:
  assumes "Atoi pidText = (pid, None)" "Bits b = [lo, hi]"
  shows "SetCPUAffinity pidText b = Ret (Inr (pid, (lo OR hi) # replicate 15 0))"
proof -
  have r: "replicate 16 (0 :: 64 word) = 0 # replicate 15 0" by (simp add: numeral_eq_Suc)
  show ?thesis using assms unfolding SetCPUAffinity_def by (simp add: r)
qed

end
