(* ===== verification/Policy.thy ===== *)
theory Policy
  imports Host Types
begin

text \<open>
  Policies (\<^verbatim>\<open>modules/policy/policy.go\<close>): named groups of default parameters for the micro
  architecture of the host. Reading the configuration text into nested maps is viper's work and a
  parameter. Every call loads the file again.
\<close>

type_synonym Param = "(string \<times> pval) list"

type_synonym Module = "(string \<times> Param) list"

type_synonym policies = "(string \<times> Module) list"

type_synonym CPUArchitecture = "(string \<times> policies) list"

text \<open>\<open>policyPath\<close> comes from the configuration; \<open>readConfig\<close> and \<open>unmarshal\<close> are viper.\<close>

record policyEnv =
  policyPath :: string
  readConfig :: "string \<Rightarrow> string \<Rightarrow> goerror option"
  unmarshalPolicy :: "string \<Rightarrow> string \<Rightarrow> CPUArchitecture with_err"
  cpuMaps :: "(string \<times> microArch list) list"

text \<open>\<^verbatim>\<open>filepath.Ext\<close>: from the last dot of the last path element on.\<close>

definition fileExt :: "string \<Rightarrow> string" where
  "fileExt path =
     (let b = baseName path
      in if CHR ''.'' \<in> set b then CHR ''.'' # last (split_on (CHR ''.'') b) else [])"

definition supportedConfigType :: "string list" where
  "supportedConfigType = [''yaml'', ''toml'']"

definition loadPolicy :: "host \<Rightarrow> policyEnv \<Rightarrow> CPUArchitecture with_err" where
  "loadPolicy H pe =
     (let configFileExt = fileExt (policyPath pe); configType = TrimPrefix configFileExt ''.''
      in if \<not> HasPrefix configFileExt ''.''
         then ([], Some (Errorf ''Unknown policy file type extension %s'' [configFileExt]))
         else if configType \<notin> set supportedConfigType
         then ([], Some (Errorf ''Unsupported policy file type extension %s'' [configType]))
         else if fst (IsRegularFile H (policyPath pe)) = False \<or> snd (IsRegularFile H (policyPath pe)) \<noteq> None
         then ([], Some (Errorf ''Invalid policy file path %s'' [policyPath pe]))
         else case hfs H (policyPath pe) of
           None \<Rightarrow> ([], Some (Errorf ''Error during config file reading: %s'' []))
         | Some text \<Rightarrow>
             (case readConfig pe configType text of
                Some e \<Rightarrow> ([], Some (Errorf ''Fatal error config file: %s'' []))
              | None \<Rightarrow> unmarshalPolicy pe configType text))"

definition LoadPolicyInfo :: "host \<Rightarrow> policyEnv \<Rightarrow> policies with_err outcome" where
  "LoadPolicyInfo H pe =
     (case loadPolicy H pe of
        (_, Some e) \<Rightarrow> Ret ([], Some (Errorf ''Failed to load policies. Reason: %s'' []))
      | (rmdpolicy, None) \<Rightarrow>
          andThen (GetSignature (hfs H)) (\<lambda>sig.
            let cpu = ToLower (GetMicroArch (cpuMaps pe) sig)
            in if cpu = []
               then Ret ([], Some (Errorf ''Unknown platform, please update the cpu_map.toml conf file'' []))
               else case map_of rmdpolicy cpu of
                      None \<Rightarrow> Ret ([], Some (Errorf ''Error while get platform policy: %s'' [cpu]))
                    | Some platform \<Rightarrow> Ret (platform, None)))"

definition GetDefaultPlatformPolicy :: "host \<Rightarrow> policyEnv \<Rightarrow> policies with_err outcome" where
  "GetDefaultPlatformPolicy H pe =
     andThen (LoadPolicyInfo H pe) (\<lambda>(platform, err).
       case err of
         Some _ \<Rightarrow> Ret ([], Some (Errorf ''Failed to load policy'' []))
       | None \<Rightarrow> Ret (platform, None))"

definition GetDefaultPolicy :: "host \<Rightarrow> policyEnv \<Rightarrow> string \<Rightarrow> Module with_err outcome" where
  "GetDefaultPolicy H pe policyName =
     andThen (LoadPolicyInfo H pe) (\<lambda>(platform, err).
       case err of
         Some e \<Rightarrow> Ret ([], Some e)
       | None \<Rightarrow>
           (case map_of platform policyName of
              None \<Rightarrow> Ret ([], Some (Errorf ''Can not find specified policy %s'' [policyName]))
            | Some m \<Rightarrow> Ret (m, None)))"

text \<open>\<^verbatim>\<open>tier["cache"]["max"]\<close>: reading a missing module gives the nil map.\<close>

definition moduleParam :: "Module \<Rightarrow> string \<Rightarrow> string \<Rightarrow> pval option" where
  "moduleParam m name key =
     (case map_of m name of None \<Rightarrow> None | Some p \<Rightarrow> map_of p key)"

end
