(* ===== verification/Proxy.thy ===== *)
theory Proxy
  imports Pqos
begin

text \<open>
  The privileged process (\<^verbatim>\<open>internal/proxy\<close>): the client functions call the server's methods over
  \<^verbatim>\<open>net/rpc\<close>. \<open>up\<close> says whether the connection works; a method that panics takes the server
  down. What a server method returns as its error is what the client gets.
\<close>

definition rpcCall :: "bool \<Rightarrow> ('s \<Rightarrow> (goerror option \<times> 's) outcome) \<Rightarrow> 's \<Rightarrow> (goerror option \<times> 's) outcome" where
  "rpcCall up serve st =
     (if up then serve st else Ret (Some (Errorf ''connection is shut down'' []), st))"

section \<open>Server methods (internal/proxy/server/resctrl.go)\<close>

definition Proxy_Commit :: "pqos_env \<Rightarrow> ResAssociation \<Rightarrow> string \<Rightarrow> pqos_state \<Rightarrow> (goerror option \<times> pqos_state) outcome" where
  "Proxy_Commit env r name st = andThen (AllocateCLOS env r name st) (\<lambda>st'. Ret (None, st'))"

definition Proxy_RemoveTasks :: "pqos_env \<Rightarrow> string list \<Rightarrow> pqos_state \<Rightarrow> (goerror option \<times> pqos_state) outcome" where
  "Proxy_RemoveTasks env tasks st = Ret (DeallocateTasks env tasks st)"

definition Proxy_RemoveCores :: "pqos_env \<Rightarrow> string list \<Rightarrow> pqos_state \<Rightarrow> (goerror option \<times> pqos_state) outcome" where
  "Proxy_RemoveCores env cores st = Ret (DeallocateCores env cores st)"

definition Proxy_ResetCOSParamsToDefaults :: "pqos_env \<Rightarrow> string \<Rightarrow> pqos_state \<Rightarrow> (goerror option \<times> pqos_state) outcome" where
  "Proxy_ResetCOSParamsToDefaults env cos st = ResetCOSParamsToDefaults env cos st"

definition Proxy_DestroyResAssociation :: "os \<Rightarrow> string \<Rightarrow> string \<Rightarrow> fsop list \<Rightarrow> goerror option \<times> fsop list" where
  "Proxy_DestroyResAssociation os sys grpName h = DestroyResAssociation os sys grpName h"

definition Proxy_EnableCat :: "os \<Rightarrow> fsop list \<Rightarrow> (bool \<times> goerror option) \<times> fsop list" where
  "Proxy_EnableCat os h = (case EnableCat os h of (r, h') \<Rightarrow> ((r, None), h'))"

section \<open>Client functions (internal/proxy/client/resctrl.go)\<close>

definition Commit :: "bool \<Rightarrow> pqos_env \<Rightarrow> ResAssociation \<Rightarrow> string \<Rightarrow> pqos_state \<Rightarrow> (goerror option \<times> pqos_state) outcome" where
  "Commit up env r name = rpcCall up (Proxy_Commit env r name)"

definition client_RemoveTasks :: "bool \<Rightarrow> pqos_env \<Rightarrow> string list \<Rightarrow> pqos_state \<Rightarrow> (goerror option \<times> pqos_state) outcome" where
  "client_RemoveTasks up env tasks = rpcCall up (Proxy_RemoveTasks env tasks)"

definition client_RemoveCores :: "bool \<Rightarrow> pqos_env \<Rightarrow> string list \<Rightarrow> pqos_state \<Rightarrow> (goerror option \<times> pqos_state) outcome" where
  "client_RemoveCores up env cores = rpcCall up (Proxy_RemoveCores env cores)"

definition client_ResetCOSParamsToDefaults :: "bool \<Rightarrow> pqos_env \<Rightarrow> string \<Rightarrow> pqos_state \<Rightarrow> (goerror option \<times> pqos_state) outcome" where
  "client_ResetCOSParamsToDefaults up env cos = rpcCall up (Proxy_ResetCOSParamsToDefaults env cos)"

definition client_EnableCat :: "bool \<Rightarrow> os \<Rightarrow> fsop list \<Rightarrow> goerror option \<times> fsop list" where
  "client_EnableCat up os h =
     (if \<not> up then (Some (Errorf ''connection is shut down'' []), h)
      else case Proxy_EnableCat os h of
             ((_, Some e), h') \<Rightarrow> (Some e, h')
           | ((True, None), h') \<Rightarrow> (None, h')
           | ((False, None), h') \<Rightarrow> (Some (Errorf ''Can not enable cat'' []), h'))"

end
