(* ===== verification/Cache.thy ===== *)
theory Cache
  imports Policy Proxy "HOL-Library.List_Lexorder" "HOL-Library.Char_ord"
begin

unbundle bit_operations_syntax

text \<open>
  The cache module (\<^verbatim>\<open>modules/cache\<close>): what the host says about its last level cache, the layout
  of the pools (OS, infra, guarantee, best effort, shared), the ways and the CPUs that are still
  available, and the two groups written at start-up. Bit maps are pointers in the code: \<open>None\<close> is
  nil, and calling a method on it panics. A Go map is the list of its entries in the order they are
  visited.
\<close>

section \<open>System caches\<close>

record SysCache =
  CoherencyLineSize :: string
  cacheNo :: string
  Level :: string
  NumberOfSets :: string
  PhysicalLinePartition :: string
  SharedCPUList :: string
  SharedCPUMap :: string
  Size :: string
  scType :: string
  WaysOfAssociativity :: string

definition zeroSysCache :: SysCache where
  "zeroSysCache = \<lparr>CoherencyLineSize = [], cacheNo = [], Level = [], NumberOfSets = [],
     PhysicalLinePartition = [], SharedCPUList = [], SharedCPUMap = [], Size = [], scType = [],
     WaysOfAssociativity = []\<rparr>"

definition SizeMap :: "string \<Rightarrow> 32 word" where
  "SizeMap unit = (if unit = ''K'' then 1024 else if unit = ''M'' then 1024 * 1024 else 0)"

definition convertCacheSize :: "string \<Rightarrow> (32 word) outcome" where
  "convertCacheSize sz =
     andThen (go_slice sz (int (length sz) - 1) (int (length sz))) (\<lambda>unit.
       case Atoi (TrimRight sz unit) of
         (isize, None) \<Rightarrow> Ret (of_int isize * SizeMap unit)
       | (_, Some _) \<Rightarrow> Ret 0)"

text \<open>\<^verbatim>\<open>SetField\<close> on a \<^verbatim>\<open>SysCache\<close> with a string value.\<close>

definition setSysField :: "SysCache \<Rightarrow> string \<Rightarrow> string \<Rightarrow> SysCache with_err" where
  "setSysField c name v =
     (if name = ''CoherencyLineSize'' then (c\<lparr>CoherencyLineSize := v\<rparr>, None)
      else if name = ''ID'' then (c\<lparr>cacheNo := v\<rparr>, None)
      else if name = ''Level'' then (c\<lparr>Level := v\<rparr>, None)
      else if name = ''NumberOfSets'' then (c\<lparr>NumberOfSets := v\<rparr>, None)
      else if name = ''PhysicalLinePartition'' then (c\<lparr>PhysicalLinePartition := v\<rparr>, None)
      else if name = ''SharedCPUList'' then (c\<lparr>SharedCPUList := v\<rparr>, None)
      else if name = ''SharedCPUMap'' then (c\<lparr>SharedCPUMap := v\<rparr>, None)
      else if name = ''Size'' then (c\<lparr>Size := v\<rparr>, None)
      else if name = ''Type'' then (c\<lparr>scType := v\<rparr>, None)
      else if name = ''WaysOfAssociativity'' then (c\<lparr>WaysOfAssociativity := v\<rparr>, None)
      else (c, Some (Errorf ''No such field: %s in obj'' [name])))"

fun replaceCpu :: "string \<Rightarrow> string" where
  "replaceCpu [] = []"
| "replaceCpu (c # cs) =
     (if prefix ''Cpu'' (c # cs) then ''CPU'' @ replaceCpu (drop 2 cs) else c # replaceCpu cs)"

definition sysFieldName :: "string \<Rightarrow> string" where
  "sysFieldName f =
     (let name = fieldName f
      in if str_contains name ''Cpu'' then replaceCpu name else if name = ''Id'' then ''ID'' else name)"

fun getSysCache :: "string list \<Rightarrow> fnode \<Rightarrow> SysCache \<Rightarrow> SysCache with_err"
  and getSysCaches :: "string list \<Rightarrow> fnode list \<Rightarrow> SysCache \<Rightarrow> SysCache with_err" where
  "getSysCache ignore (FFile f data) c =
     (if f \<in> set ignore then (c, None) else setSysField c (sysFieldName f) (TrimSpace data))"
| "getSysCache ignore (FDir f nodes) c =
     (if f \<in> set ignore then (c, None) else getSysCaches ignore nodes c)"
| "getSysCaches ignore [] c = (c, None)"
| "getSysCaches ignore (n # ns) c =
     (case getSysCache ignore n c of
        (c', Some e) \<Rightarrow> (c', Some e)
      | (c', None) \<Rightarrow> getSysCaches ignore ns c')"

fun sysCacheLoop :: "host \<Rightarrow> string list \<Rightarrow> (string \<times> SysCache) list \<Rightarrow> ((string \<times> SysCache) list) with_err" where
  "sysCacheLoop H [] caches = (caches, None)"
| "sysCacheLoop H (f # fs) caches =
     (case (case htree H f of
              None \<Rightarrow> (zeroSysCache, None)
            | Some n \<Rightarrow> getSysCache [''uevent'', ''power''] n zeroSysCache) of
        (_, Some e) \<Rightarrow> (caches, Some e)
      | (c, None) \<Rightarrow>
          sysCacheLoop H fs (if map_of caches (cacheNo c) = None then al_put (cacheNo c) c caches else caches))"

definition GetSysCaches :: "host \<Rightarrow> int \<Rightarrow> ((string \<times> SysCache) list) with_err" where
  "GetSysCaches H level =
     sysCacheLoop H (hglob H (''/sys/devices/system/cpu/cpu*/cache/index'' @ Itoa level)) []"

fun levelLoop :: "host \<Rightarrow> string list \<Rightarrow> string list \<Rightarrow> (string list) with_err" where
  "levelLoop H [] levels = (levels, None)"
| "levelLoop H (f # fs) levels =
     (case hfs H f of
        None \<Rightarrow> (levels, Some (Errorf ''open'' [f]))
      | Some dat \<Rightarrow>
          (let sdat = TrimRight dat ''\<newline>''
           in levelLoop H fs (if sdat \<noteq> ''1'' then levels @ [sdat] else levels)))"

definition AvailableCacheLevel :: "host \<Rightarrow> (string list) with_err" where
  "AvailableCacheLevel H = levelLoop H (hglob H ''/sys/devices/system/cpu/cpu0/cache/index*/level'') []"

definition GetLLC :: "host \<Rightarrow> (32 word) outcome" where
  "GetLLC H =
     (case AvailableCacheLevel H of
        (_, Some _) \<Rightarrow> Ret 0
      | (avl, None) \<Rightarrow>
          andThen (go_index (rev (sort avl)) 0) (\<lambda>s.
            case Atoi s of (l, None) \<Rightarrow> Ret (of_int l) | (_, Some _) \<Rightarrow> Ret 0))"

record CosInfo =
  CbmMaskLen :: int
  cosMinCbmBits :: int
  cosNumClosids :: int
  cosCbmMask :: string

definition GetCosInfo :: "host \<Rightarrow> CosInfo outcome" where
  "GetCosInfo H =
     andThen (GetRdtCosInfo (htree H (sysResctrl H @ ''/info'')) None) (\<lambda>(rcinfo, _).
       andThen (GetLLC H) (\<lambda>level.
         case map_of rcinfo (''l'' @ Itoa (uint level)) of
           Some v \<Rightarrow> Ret \<lparr>CbmMaskLen = CbmLen (CbmMask v), cosMinCbmBits = MinCbmBits v,
                          cosNumClosids = NumClosids v, cosCbmMask = CbmMask v\<rparr>
         | None \<Rightarrow> Ret \<lparr>CbmMaskLen = 0, cosMinCbmBits = 0, cosNumClosids = 0, cosCbmMask = []\<rparr>))"

section \<open>Bit maps of CPUs and of cache ways\<close>

definition sized :: "int \<Rightarrow> string \<Rightarrow> bm_arg \<Rightarrow> bitmap option with_err outcome" where
  "sized n msg arg =
     (if n = 0 then Ret (None, Some (Errorf msg []))
      else andThen (NewBitmap [ArgInt n, arg]) (\<lambda>(b, e). Ret (Some b, e)))"

definition BitmapsCPUWrapper :: "host \<Rightarrow> bm_arg \<Rightarrow> bitmap option with_err outcome" where
  "BitmapsCPUWrapper H cpuids =
     andThen (HostCPUNum (hfs H)) (\<lambda>cpunum. sized cpunum ''Unable to get Total CPU numbers on Host'' cpuids)"

definition BitmapsCacheWrapper :: "host \<Rightarrow> bm_arg \<Rightarrow> bitmap option with_err outcome" where
  "BitmapsCacheWrapper H bitmask =
     andThen (GetCosInfo H) (\<lambda>ci. sized (CbmMaskLen ci) ''Unable to get Total cache ways on Host'' bitmask)"

text \<open>A method call on a pointer.\<close>

definition deref :: "'a option \<Rightarrow> 'a outcome" where
  "deref p = (case p of None \<Rightarrow> Panic NilDereference | Some x \<Rightarrow> Ret x)"

definition deref2 :: "('a \<Rightarrow> 'a \<Rightarrow> 'b outcome) \<Rightarrow> 'a option \<Rightarrow> 'a option \<Rightarrow> 'b outcome" where
  "deref2 f p q = andThen (deref p) (\<lambda>x. andThen (deref q) (\<lambda>y. f x y))"

section \<open>Reserved resources\<close>

record Reserved =
  AllCPUs :: "bitmap option"
  SchemaNum :: int
  resName :: string
  Schemata :: "(string \<times> bitmap option) list"
  CPUsPerNode :: "(string \<times> bitmap option) list"
  Quota :: "64 word"
  Shrink :: bool

definition zeroReserved :: Reserved where
  "zeroReserved = \<lparr>AllCPUs = None, SchemaNum = 0, resName = [], Schemata = [], CPUsPerNode = [], Quota = 0,
     Shrink = False\<rparr>"

text \<open>\<^verbatim>\<open>strconv.FormatUint(v, 16)\<close>, and \<^verbatim>\<open>1<<n - 1\<close> on a 64-bit word.\<close>

definition hex64 :: "64 word \<Rightarrow> string" where
  "hex64 v = format_nat 16 (unat v)"

definition lowWays :: "64 word \<Rightarrow> 64 word" where
  "lowWays n = push_bit (unat n) 1 - 1"

text \<open>The CPUs of a reserved set that share the cache \<open>sc\<close>.\<close>

definition cpusOn :: "host \<Rightarrow> bitmap option \<Rightarrow> SysCache \<Rightarrow> bitmap outcome" where
  "cpusOn H cpubm sc =
     andThen (BitmapsCPUWrapper H (ArgStrings [SharedCPUList sc])) (\<lambda>(bm, _). deref2 bm_And cpubm bm)"

fun reserveLoop :: "host \<Rightarrow> 64 word \<Rightarrow> 64 word \<Rightarrow> 64 word \<Rightarrow> bitmap option \<Rightarrow> (string \<times> SysCache) list
    \<Rightarrow> (string \<times> bitmap option) list \<Rightarrow> ((string \<times> bitmap option) list) with_err outcome" where
  "reserveLoop H wayCandidate wayOffset osWays osCPUbm [] schemata = Ret (schemata, None)"
| "reserveLoop H wayCandidate wayOffset osWays osCPUbm ((k, sc) # sysc) schemata =
     andThen (cpusOn H osCPUbm sc) (\<lambda>osCPUs.
       let wc = push_bit (unat wayOffset) (if IsEmpty osCPUs then wayCandidate else push_bit (unat osWays) wayCandidate)
       in andThen (BitmapsCacheWrapper H (ArgString (hex64 wc))) (\<lambda>(b, err).
            case err of
              Some _ \<Rightarrow> Ret (al_put (cacheNo sc) b schemata, err)
            | None \<Rightarrow> reserveLoop H wayCandidate wayOffset osWays osCPUbm sysc (al_put (cacheNo sc) b schemata)))"

definition getReservedCache :: "host \<Rightarrow> 64 word \<Rightarrow> 64 word \<Rightarrow> 64 word \<Rightarrow> bitmap option \<Rightarrow> (string \<times> SysCache) list
    \<Rightarrow> Reserved with_err outcome" where
  "getReservedCache H wayCandidate wayOffset osWays osCPUbm sysc =
     andThen (reserveLoop H wayCandidate wayOffset osWays osCPUbm sysc []) (\<lambda>(schemata, err).
       case err of
         Some _ \<Rightarrow> Ret (zeroReserved, err)
       | None \<Rightarrow> Ret (zeroReserved\<lparr>Schemata := schemata\<rparr>, None))"

section \<open>Names of the pools\<close>

definition OS :: string where "OS = ''os''"

definition Infra :: string where "Infra = ''infra''"

definition Guarantee :: string where "Guarantee = ''guarantee''"

definition Besteffort :: string where "Besteffort = ''besteffort''"

definition Shared :: string where "Shared = ''shared''"

definition GetCachePoolName :: "32 word \<Rightarrow> 32 word \<Rightarrow> string with_err" where
  "GetCachePoolName maxWays minWays =
     (if maxWays = 0 then (Shared, None)
      else if minWays < maxWays \<and> minWays \<noteq> 0 then (Besteffort, None)
      else if maxWays = minWays then (Guarantee, None)
      else ([], Some (Errorf ''max_cache=%d, min_cache=%d, doesn't support'' [Itoa (uint maxWays), Itoa (uint minWays)])))"

section \<open>The layout of the pools (cachepool.go)\<close>

text \<open>One pool: its ways start at \<open>offset\<close> above the ways of the operating system.\<close>

definition layoutPool :: "host \<Rightarrow> 64 word \<Rightarrow> 64 word \<Rightarrow> 64 word \<Rightarrow> bitmap option \<Rightarrow> (string \<times> SysCache) list
    \<Rightarrow> string \<Rightarrow> (Reserved \<Rightarrow> Reserved) \<Rightarrow> (string \<times> Reserved) list \<Rightarrow> ((string \<times> Reserved) list) with_err outcome" where
  "layoutPool H ways offset osWays osCPUbm syscaches name adjust pools =
     (if 0 < ways
      then andThen (getReservedCache H (lowWays ways) offset osWays osCPUbm syscaches) (\<lambda>(resev, err).
             case err of
               Some _ \<Rightarrow> Ret (pools, err)
             | None \<Rightarrow> Ret (al_put name (adjust resev) pools, None))
      else Ret (pools, None))"

definition GetCachePoolLayout :: "host \<Rightarrow> ((string \<times> Reserved) list) with_err outcome" where
  "GetCachePoolLayout H =
     (let pc = NewCachePoolConfig (hostPool H); osc = NewOSConfig (hostOS H)
      in andThen (GetCosInfo H) (\<lambda>ci.
        if of_int (CbmMaskLen ci) < osCacheWays osc + cpGuarantee pc + cpBesteffort pc + cpShared pc
        then Ret ([], Some (Errorf ''Error config: Guarantee + Besteffort + Shared + OS reserved ways should be less or equal to %d'' []))
        else andThen (GetLLC H) (\<lambda>level.
          let syscaches = fst (GetSysCaches H (uint level))
          in andThen (BitmapsCPUWrapper H (ArgStrings [osCPUSet osc])) (\<lambda>(osCPUbm, err).
            case err of
              Some _ \<Rightarrow> Ret ([], err)
            | None \<Rightarrow>
                andThen (layoutPool H (cpGuarantee pc) 0 (osCacheWays osc) osCPUbm syscaches Guarantee id []) (\<lambda>(p1, e1).
                  case e1 of Some _ \<Rightarrow> Ret (p1, e1) | None \<Rightarrow>
                andThen (layoutPool H (cpBesteffort pc) (cpGuarantee pc) (osCacheWays osc) osCPUbm syscaches Besteffort
                           (\<lambda>r. r\<lparr>Shrink := cpShrink pc\<rparr>) p1) (\<lambda>(p2, e2).
                  case e2 of Some _ \<Rightarrow> Ret (p2, e2) | None \<Rightarrow>
                layoutPool H (cpShared pc) (cpGuarantee pc + cpBesteffort pc) (osCacheWays osc) osCPUbm syscaches Shared
                  (\<lambda>r. r\<lparr>resName := Shared, Quota := MaxAllowedShared pc\<rparr>) p2))))))"

section \<open>Operating system and infra groups (osgroup.go, infragroup.go)\<close>

fun groupLoop :: "host \<Rightarrow> bitmap option \<Rightarrow> 64 word \<Rightarrow> (string \<times> SysCache) list
    \<Rightarrow> (string \<times> bitmap option) list \<Rightarrow> (string \<times> bitmap option) list
    \<Rightarrow> ((string \<times> bitmap option) list \<times> (string \<times> bitmap option) list) with_err outcome" where
  "groupLoop H cpubm wm [] cpus schemata = Ret ((cpus, schemata), None)"
| "groupLoop H cpubm wm ((k, sc) # sysc) cpus schemata =
     andThen (cpusOn H cpubm sc) (\<lambda>c.
       andThen (BitmapsCacheWrapper H (ArgString (if IsEmpty c then ''0'' else hex64 wm))) (\<lambda>(b, err).
         case err of
           Some _ \<Rightarrow> Ret ((al_put (cacheNo sc) (Some c) cpus, al_put (cacheNo sc) b schemata), err)
         | None \<Rightarrow> groupLoop H cpubm wm sysc (al_put (cacheNo sc) (Some c) cpus) (al_put (cacheNo sc) b schemata)))"

text \<open>\<^verbatim>\<open>syscaches["0"].WaysOfAssociativity\<close>; a missing entry is the zero value.\<close>

definition waysOfFirst :: "(string \<times> SysCache) list \<Rightarrow> int" where
  "waysOfFirst syscaches =
     fst (Atoi (WaysOfAssociativity (case map_of syscaches ''0'' of Some c \<Rightarrow> c | None \<Rightarrow> zeroSysCache)))"

definition reserveGroup :: "host \<Rightarrow> string \<Rightarrow> 64 word \<Rightarrow> (CosInfo \<Rightarrow> 64 word) \<Rightarrow> string \<Rightarrow> Reserved with_err outcome" where
  "reserveGroup H cpuSet cacheWays wm msg =
     andThen (BitmapsCPUWrapper H (ArgStrings [cpuSet])) (\<lambda>(cpubm, err).
       case err of
         Some _ \<Rightarrow> Ret (zeroReserved, err)
       | None \<Rightarrow>
           andThen (GetLLC H) (\<lambda>level.
             case GetSysCaches H (uint level) of
               (_, Some e) \<Rightarrow> Ret (zeroReserved\<lparr>AllCPUs := cpubm\<rparr>, Some e)
             | (syscaches, None) \<Rightarrow>
                 if of_int (waysOfFirst syscaches) < cacheWays
                 then Ret (zeroReserved\<lparr>AllCPUs := cpubm\<rparr>, Some (Errorf msg []))
                 else andThen (GetCosInfo H) (\<lambda>ci.
                   andThen (groupLoop H cpubm (wm ci) syscaches [] []) (\<lambda>((cpus, schemata), e).
                     case e of
                       Some _ \<Rightarrow> Ret (zeroReserved\<lparr>AllCPUs := cpubm\<rparr>, e)
                     | None \<Rightarrow> Ret (zeroReserved\<lparr>AllCPUs := cpubm, CPUsPerNode := cpus, Schemata := schemata\<rparr>, None)))))"

text \<open>The operating system gets the lowest ways, the infra group the highest.\<close>

definition osGroupReserve :: "host \<Rightarrow> Reserved with_err outcome" where
  "osGroupReserve H =
     (let conf = NewOSConfig (hostOS H)
      in reserveGroup H (osCPUSet conf) (osCacheWays conf) (\<lambda>ci. lowWays (osCacheWays conf))
           ''The request OSGroup cache ways %d is larger than available %d'')"

definition infraGroupReserve :: "host \<Rightarrow> Reserved with_err outcome" where
  "infraGroupReserve H =
     (case NewInfraConfig (hostInfra H) of
        None \<Rightarrow> Ret (zeroReserved, None)
      | Some conf \<Rightarrow>
          if infraCacheWays conf = 0 then Ret (zeroReserved, None)
          else reserveGroup H (infraCPUSet conf) (infraCacheWays conf)
                 (\<lambda>ci. push_bit (unat (of_int (CbmMaskLen ci) - infraCacheWays conf)) (lowWays (infraCacheWays conf)))
                 ''The request InfraGroup cache ways %d is larger than available %d'')"

section \<open>Values computed once\<close>

text \<open>
  \<^verbatim>\<open>sync.Once\<close>: the first call computes and reports its error; later calls return the kept value
  and no error.
\<close>

record cache_state =
  osOnce :: "Reserved option"
  infraOnce :: "Reserved option"
  poolOnce :: "((string \<times> Reserved) list) option"
  revinfoOnce :: "((string \<times> Reserved) list) option"
  mbaMbpsMode :: bool

definition once :: "'a option \<Rightarrow> 'a with_err outcome \<Rightarrow> 'a with_err outcome" where
  "once kept compute = (case kept of Some v \<Rightarrow> Ret (v, None) | None \<Rightarrow> compute)"

definition GetOSGroupReserve :: "host \<Rightarrow> cache_state \<Rightarrow> (Reserved with_err \<times> cache_state) outcome" where
  "GetOSGroupReserve H st =
     andThen (once (osOnce st) (osGroupReserve H)) (\<lambda>(r, e). Ret ((r, e), st\<lparr>osOnce := Some r\<rparr>))"

definition GetInfraGroupReserve :: "host \<Rightarrow> cache_state \<Rightarrow> (Reserved with_err \<times> cache_state) outcome" where
  "GetInfraGroupReserve H st =
     andThen (once (infraOnce st) (infraGroupReserve H)) (\<lambda>(r, e). Ret ((r, e), st\<lparr>infraOnce := Some r\<rparr>))"

definition GetCachePoolLayoutOnce :: "host \<Rightarrow> cache_state \<Rightarrow> ((string \<times> Reserved) list with_err \<times> cache_state) outcome" where
  "GetCachePoolLayoutOnce H st =
     andThen (once (poolOnce st) (GetCachePoolLayout H)) (\<lambda>(r, e). Ret ((r, e), st\<lparr>poolOnce := Some r\<rparr>))"

definition GetReservedInfo :: "host \<Rightarrow> cache_state \<Rightarrow> ((string \<times> Reserved) list \<times> cache_state) outcome" where
  "GetReservedInfo H st =
     (case revinfoOnce st of
        Some info \<Rightarrow> Ret (info, st)
      | None \<Rightarrow>
          andThen (GetOSGroupReserve H st) (\<lambda>((r, e1), st1).
            let info1 = (if e1 = None then [(OS, r)] else [])
            in andThen (GetInfraGroupReserve H st1) (\<lambda>((fr, e2), st2).
              let info2 = (if e2 = None then al_put Infra fr info1 else info1)
              in andThen (GetCachePoolLayoutOnce H st2) (\<lambda>((poolinfo, e3), st3).
                let info3 = (if e3 = None then fold (\<lambda>(k, v) m. al_put k v m) poolinfo info2 else info2)
                in Ret (info3, st3\<lparr>revinfoOnce := Some info3\<rparr>)))))"

section \<open>Available ways (rdtpool.go)\<close>

text \<open>The ways of one group are taken out of the map of each cache.\<close>

fun takeWays :: "host \<Rightarrow> CacheCos list \<Rightarrow> (string \<times> bitmap option) list \<Rightarrow> (string \<times> bitmap option) list outcome" where
  "takeWays H [] schemata = Ret schemata"
| "takeWays H (cv # sv) schemata =
     (let k = Itoa (uint (cacheID cv))
      in andThen (BitmapsCacheWrapper H (ArgString (Mask cv))) (\<lambda>(bm, _).
           andThen (GetCosInfo H) (\<lambda>ci.
             if Mask cv = cosCbmMask ci then takeWays H sv schemata
             else andThen (deref2 bm_Axor (case map_of schemata k of Some b \<Rightarrow> b | None \<Rightarrow> None) bm) (\<lambda>b.
                    takeWays H sv (al_put k (Some b) schemata)))))"

fun takeGroups :: "host \<Rightarrow> string list \<Rightarrow> string \<Rightarrow> (string \<times> ResAssociation) list
    \<Rightarrow> (string \<times> bitmap option) list \<Rightarrow> (string \<times> bitmap option) list outcome" where
  "takeGroups H ignoreGroups cacheLevel [] schemata = Ret schemata"
| "takeGroups H ignoreGroups cacheLevel ((k, v) # allres) schemata =
     (if HasElem ignoreGroups k then takeGroups H ignoreGroups cacheLevel allres schemata
      else case gm_get (CacheSchemata v) cacheLevel of
             None \<Rightarrow> takeGroups H ignoreGroups cacheLevel allres schemata
           | Some sv \<Rightarrow>
               if length schemata \<le> 0 then takeGroups H ignoreGroups cacheLevel allres schemata
               else andThen (takeWays H sv schemata) (\<lambda>s. takeGroups H ignoreGroups cacheLevel allres s))"

definition startSchemata :: "host \<Rightarrow> CosInfo \<Rightarrow> (string \<times> Reserved) list \<Rightarrow> string
    \<Rightarrow> ((string \<times> bitmap option) list) with_err outcome" where
  "startSchemata H ci info pool =
     (if pool = ''none''
      then andThen (deref (map_of info OS)) (\<lambda>r.
             andThen (foldO (\<lambda>s (k, _). andThen (BitmapsCacheWrapper H (ArgString (cosCbmMask ci))) (\<lambda>(b, _).
                        Ret (al_put k b s))) [] (Schemata r)) (\<lambda>s. Ret (s, None)))
      else case map_of info pool of
             None \<Rightarrow> Ret ([], Some (Errorf ''error doesn't support pool %s'' [pool]))
           | Some resv \<Rightarrow> Ret (fold (\<lambda>(k, v) m. al_put k v m) (Schemata resv) [], None))"

definition GetAvailableCacheSchemata :: "host \<Rightarrow> (string \<times> ResAssociation) list \<Rightarrow> string list \<Rightarrow> string \<Rightarrow> string
    \<Rightarrow> cache_state \<Rightarrow> (((string \<times> bitmap option) list) with_err \<times> cache_state) outcome" where
  "GetAvailableCacheSchemata H allres ignoreGroups pool cacheLevel st =
     andThen (GetReservedInfo H st) (\<lambda>(info, st').
       andThen (GetCosInfo H) (\<lambda>ci.
         if cosNumClosids ci \<le> int (length allres)
         then Ret (([], Some (Errorf ''error, not enough CLOS on host, %d used'' [Itoa (int (length allres))])), st')
         else andThen (startSchemata H ci info pool) (\<lambda>(schemata, err).
           case err of
             Some _ \<Rightarrow> Ret (([], err), st')
           | None \<Rightarrow> andThen (takeGroups H ignoreGroups cacheLevel allres schemata) (\<lambda>s. Ret ((s, None), st')))))"

section \<open>CPUs that workloads may use (cpupool.go)\<close>

text \<open>The text \<open>"Ox0"\<close> is not a hexadecimal number; the error is ignored and the map is empty.\<close>

definition optionalCPUs :: "host \<Rightarrow> string \<Rightarrow> bitmap option with_err outcome" where
  "optionalCPUs H cpuSet =
     (if cpuSet \<noteq> [] then BitmapsCPUWrapper H (ArgStrings [cpuSet])
      else andThen (BitmapsCPUWrapper H (ArgString ''Ox0'')) (\<lambda>(b, _). Ret (b, None)))"

fun cpuPoolLoop :: "host \<Rightarrow> bitmap option \<Rightarrow> bitmap option \<Rightarrow> bitmap option \<Rightarrow> (string \<times> SysCache) list
    \<Rightarrow> (string \<times> bitmap) list \<Rightarrow> (string \<times> bitmap) list \<Rightarrow> ((string \<times> bitmap) list \<times> (string \<times> bitmap) list) outcome" where
  "cpuPoolLoop H osb infrab isob [] every isolated = Ret (every, isolated)"
| "cpuPoolLoop H osb infrab isob ((k, sc) # sysc) every isolated =
     andThen (BitmapsCPUWrapper H (ArgStrings [SharedCPUList sc])) (\<lambda>(bm, _).
       andThen (deref2 bm_Axor bm osb) (\<lambda>b1.
         andThen (deref2 bm_Axor (Some b1) infrab) (\<lambda>b2.
           andThen (deref2 bm_And (Some b2) isob) (\<lambda>b3.
             cpuPoolLoop H osb infrab isob sysc (al_put (cacheNo sc) b2 every) (al_put (cacheNo sc) b3 isolated)))))"

definition GetCPUPools :: "host \<Rightarrow> ((string \<times> bitmap) list \<times> (string \<times> bitmap) list) with_err outcome" where
  "GetCPUPools H =
     andThen (BitmapsCPUWrapper H (ArgStrings [osCPUSet (NewOSConfig (hostOS H))])) (\<lambda>(osb, e0).
       case e0 of Some _ \<Rightarrow> Ret (([], []), e0) | None \<Rightarrow>
       andThen (optionalCPUs H (case NewInfraConfig (hostInfra H) of None \<Rightarrow> [] | Some c \<Rightarrow> infraCPUSet c)) (\<lambda>(infrab, e1).
         case e1 of Some _ \<Rightarrow> Ret (([], []), e1) | None \<Rightarrow>
         andThen (GetLLC H) (\<lambda>level.
           case GetSysCaches H (uint level) of
             (_, Some e) \<Rightarrow> Ret (([], []), Some e)
           | (syscaches, None) \<Rightarrow>
               andThen (optionalCPUs H (IsolatedCPUs (hfs H))) (\<lambda>(isob, _).
                 andThen (cpuPoolLoop H osb infrab isob syscaches [] []) (\<lambda>pools. Ret (pools, None))))))"

section \<open>Writing the start-up groups\<close>

text \<open>\<^verbatim>\<open>"L" + strconv.FormatUint(uint64(level), 10)\<close>.\<close>

definition levelKey :: "32 word \<Rightarrow> string" where
  "levelKey level = ''L'' @ Itoa (uint level)"

text \<open>A Go string comparison \<^verbatim>\<open>v.Mask > "100"\<close> is lexicographic.\<close>

definition mbpsMode :: "CacheCos list \<Rightarrow> bool \<Rightarrow> bool" where
  "mbpsMode mb old = fold (\<lambda>v _. Itoa 100 < Mask v) mb old"

fun osWaysLoop :: "host \<Rightarrow> (string \<times> bitmap option) list \<Rightarrow> CacheCos list \<Rightarrow> CacheCos list outcome" where
  "osWaysLoop H schemata [] = Ret []"
| "osWaysLoop H schemata (v # vs) =
     andThen (BitmapsCacheWrapper H (ArgString (hex64 (lowWays (osCacheWays (NewOSConfig (hostOS H))))))) (\<lambda>(request, _).
       andThen (deref2 bm_Or (case map_of schemata (Itoa (uint (cacheID v))) of Some b \<Rightarrow> b | None \<Rightarrow> None) request) (\<lambda>availableWays.
         andThen (ToBinStrings availableWays) (\<lambda>ss.
           andThen (go_index ss 0) (\<lambda>expectWays.
             andThen (osWaysLoop H schemata vs) (\<lambda>rest.
               Ret (v\<lparr>Mask := hex64 (lowWays (of_nat (length expectWays)))\<rparr> # rest))))))"

definition dropKey :: "string \<Rightarrow> (string, 'v) gomap \<Rightarrow> (string, 'v) gomap" where
  "dropKey k m = map_option (filter (\<lambda>e. fst e \<noteq> k)) m"

text \<open>The group that \<open>SetOSGroup\<close> commits, or the error it returns before that.\<close>

definition osGroupUpdate :: "host \<Rightarrow> clos_pool \<Rightarrow> cache_state \<Rightarrow> ((ResAssociation + goerror) \<times> cache_state) outcome" where
  "osGroupUpdate H pool st =
     andThen (GetOSGroupReserve H st) (\<lambda>((reserve, e0), st0).
       case e0 of Some e \<Rightarrow> Ret (Inr e, st0) | None \<Rightarrow>
       andThen (GetResAssociation (htree H (sysResctrl H)) (GetAvailableCLOSes pool)) (\<lambda>allres.
         case map_of allres OSGroupCOS of
           None \<Rightarrow> Ret (Inr (Errorf ''OSGroup not found'' []), st0)
         | Some osGroup \<Rightarrow>
             let st1 = st0\<lparr>mbaMbpsMode := (case gm_get (CacheSchemata osGroup) ''MB'' of
                                             None \<Rightarrow> False | Some mb \<Rightarrow> mbpsMode mb (mbaMbpsMode st0))\<rparr>;
                 os1 = osGroup\<lparr>CacheSchemata := dropKey ''MB'' (CacheSchemata osGroup)\<rparr>
             in andThen (BitmapsCPUWrapper H (ArgString (CPUs osGroup))) (\<lambda>(originBM, e1).
               case e1 of Some e \<Rightarrow> Ret (Inr e, st1) | None \<Rightarrow>
               andThen (deref2 bm_Or originBM (AllCPUs reserve)) (\<lambda>newBM.
                 let os2 = os1\<lparr>CPUs := ToString newBM\<rparr>
                 in andThen (GetLLC H) (\<lambda>level.
                   andThen (GetAvailableCacheSchemata H (al_put OSGroupCOS os2 allres) [InfraGoupCOS, OSGroupCOS] ''none''
                              (levelKey level) st1) (\<lambda>((schemata, e2), st2).
                     case e2 of Some e \<Rightarrow> Ret (Inr e, st2) | None \<Rightarrow>
                     (case gm_get (CacheSchemata os2) (levelKey level) of
                        None \<Rightarrow> Ret (Inl os2, st2)
                      | Some v \<Rightarrow>
                          andThen (osWaysLoop H schemata v) (\<lambda>v'.
                            andThen (gm_put (CacheSchemata os2) (levelKey level) v') (\<lambda>m.
                              Ret (Inl (os2\<lparr>CacheSchemata := m\<rparr>), st2)))))))))) "

definition SetOSGroup :: "host \<Rightarrow> clos_pool \<Rightarrow> bool \<Rightarrow> pqos_env \<Rightarrow> cache_state \<times> pqos_state
    \<Rightarrow> (goerror option \<times> cache_state \<times> pqos_state) outcome" where
  "SetOSGroup H pool up env = (\<lambda>(st, pq).
     andThen (osGroupUpdate H pool st) (\<lambda>(r, st').
       case r of
         Inr e \<Rightarrow> Ret (Some e, st', pq)
       | Inl osGroup \<Rightarrow> andThen (Commit up env osGroup OSGroupCOS pq) (\<lambda>(e, pq'). Ret (e, st', pq'))))"

text \<open>\<^verbatim>\<open>glob.MustCompile\<close> of the glob library: \<open>None\<close> for a pattern it rejects.\<close>

type_synonym globlib = "string \<Rightarrow> (string \<Rightarrow> bool) option"

fun getGlobTasks :: "globlib \<Rightarrow> string list \<Rightarrow> (string \<Rightarrow> bool) list outcome" where
  "getGlobTasks gl [] = Ret []"
| "getGlobTasks gl (v # vs) =
     (case gl v of
        None \<Rightarrow> Panic LibraryPanic
      | Some g \<Rightarrow> andThen (getGlobTasks gl vs) (\<lambda>gs. Ret (g # gs)))"

text \<open>The masks of the infra group, each stored at the index of its cache.\<close>

fun infraLoop :: "int \<Rightarrow> (string \<times> bitmap option) list \<Rightarrow> (string \<times> bitmap option) list \<Rightarrow> CacheCos list
    \<Rightarrow> CacheCos list outcome" where
  "infraLoop ways cpusPerNode [] cs = Ret cs"
| "infraLoop ways cpusPerNode ((k, v) # schemata) cs =
     (let i = fst (Atoi k)
      in andThen (deref (case map_of cpusPerNode k of Some b \<Rightarrow> b | None \<Rightarrow> None)) (\<lambda>cpus.
           andThen (if \<not> IsEmpty cpus then andThen (deref v) (\<lambda>b. Ret (ToString b))
                    else Ret (hex64 (lowWays (of_int ways)))) (\<lambda>m.
             if 0 \<le> i \<and> i < int (length cs)
             then infraLoop ways cpusPerNode schemata (cs[nat i := \<lparr>cacheID = of_int i, Mask = m\<rparr>])
             else Panic IndexOutOfRange)))"

definition zeroCos :: CacheCos where
  "zeroCos = \<lparr>cacheID = 0, Mask = []\<rparr>"

definition infraGroupUpdate :: "host \<Rightarrow> globlib \<Rightarrow> clos_pool \<Rightarrow> InfraGroup \<Rightarrow> cache_state
    \<Rightarrow> ((ResAssociation + goerror) \<times> cache_state) outcome" where
  "infraGroupUpdate H gl pool conf st =
     andThen (GetInfraGroupReserve H st) (\<lambda>((reserve, e0), st0).
       case e0 of Some e \<Rightarrow> Ret (Inr e, st0) | None \<Rightarrow>
       andThen (GetLLC H) (\<lambda>level.
       andThen (GetCosInfo H) (\<lambda>ci.
       andThen (GetResAssociation (htree H (sysResctrl H)) (GetAvailableCLOSes pool)) (\<lambda>allres.
         let key = levelKey level;
             g0 = (case map_of allres InfraGoupCOS of
                     Some g \<Rightarrow> g
                   | None \<Rightarrow> zeroResAssociation\<lparr>
                       CacheSchemata := Some [(key, replicate (length (Schemata reserve)) zeroCos)],
                       MbaSchemata := Some []\<rparr>);
             g1 = g0\<lparr>CacheSchemata := dropKey ''MB'' (CacheSchemata g0)\<rparr>
         in andThen (deref (AllCPUs reserve)) (\<lambda>allCpus.
            andThen (infraLoop (CbmMaskLen ci) (CPUsPerNode reserve) (Schemata reserve)
                       (case gm_get (CacheSchemata g1) key of Some cs \<Rightarrow> cs | None \<Rightarrow> [])) (\<lambda>cs.
            andThen (if Schemata reserve = [] then Ret (CacheSchemata g1)
                     else gm_put (CacheSchemata g1) key cs) (\<lambda>m.
            andThen (getGlobTasks gl (infraTasks conf)) (\<lambda>gt.
            andThen (ListProcesses (hfs H) (hglob H)) (\<lambda>ps.
              Ret (Inl (g1\<lparr>CPUs := ToString allCpus, CacheSchemata := m,
                           Tasks := Tasks g1 @ concat (map (\<lambda>(k, v). concat (map (\<lambda>g. if g (CmdLine v) then [k] else []) gt)) ps)\<rparr>),
                   st0))))))))))"

definition SetInfraGroup :: "host \<Rightarrow> globlib \<Rightarrow> clos_pool \<Rightarrow> bool \<Rightarrow> pqos_env \<Rightarrow> cache_state \<times> pqos_state
    \<Rightarrow> (goerror option \<times> cache_state \<times> pqos_state) outcome" where
  "SetInfraGroup H gl pool up env = (\<lambda>(st, pq).
     case NewInfraConfig (hostInfra H) of
       None \<Rightarrow> Ret (None, st, pq)
     | Some conf \<Rightarrow>
         if infraCacheWays conf = 0 then Ret (None, st, pq)
         else andThen (infraGroupUpdate H gl pool conf st) (\<lambda>(r, st').
                case r of
                  Inr e \<Rightarrow> Ret (Some e, st', pq)
                | Inl g \<Rightarrow> andThen (Commit up env g InfraGoupCOS pq) (\<lambda>(e, pq'). Ret (e, st', pq'))))"

section \<open>Counting what a policy can still get\<close>

fun countRuns :: "int \<Rightarrow> string list \<Rightarrow> 32 word \<Rightarrow> (32 word) outcome" where
  "countRuns ways [] n = Ret n"
| "countRuns ways (val # ss) n =
     andThen (go_index val 0) (\<lambda>c.
       if c = CHR ''1''
       then if ways = 0 then Panic IntegerDivideByZero
            else countRuns ways ss (n + of_int (go_div (int (length val)) ways))
       else countRuns ways ss n)"

definition getAvailablePolicyCount :: "host \<Rightarrow> int \<Rightarrow> int \<Rightarrow> (string \<times> ResAssociation) list \<Rightarrow> string \<Rightarrow> string \<Rightarrow> string
    \<Rightarrow> (string \<times> 32 word) list \<Rightarrow> cache_state \<Rightarrow> (goerror option \<times> (string \<times> 32 word) list \<times> cache_state) outcome" where
  "getAvailablePolicyCount H iMax iMin allres tier cacheLevel cID ap st =
     andThen (GetReservedInfo H st) (\<lambda>(reserved, st1).
       let pool = fst (GetCachePoolName (of_int iMax) (of_int iMin))
       in if pool = Shared
          then Ret (None, al_put tier (case map_of reserved Shared of None \<Rightarrow> 0 | Some r \<Rightarrow> ucast (Quota r)) ap, st1)
          else let ways = (if pool = Guarantee then iMax else if pool = Besteffort then iMin else 0)
               in andThen (GetAvailableCacheSchemata H allres [''infra'', ''.''] pool cacheLevel st1) (\<lambda>((pav, err), st2).
                    if err \<noteq> None \<and> (case err of Some (Errorf f _) \<Rightarrow> \<not> prefix ''error doesn't support pool'' f | _ \<Rightarrow> True)
                    then Ret (err, al_put tier 0 ap, st2)
                    else if length pav = 0 then Ret (None, al_put tier 0 ap, st2)
                    else andThen (deref (case map_of pav cID of Some b \<Rightarrow> b | None \<Rightarrow> None)) (\<lambda>b.
                      andThen (ToBinStrings b) (\<lambda>ss.
                        andThen (countRuns ways ss 0) (\<lambda>n. Ret (None, al_put tier n ap, st2))))))"

end
