(* ===== verification/Cache_Laws.thy ===== *)
theory Cache_Laws
  imports Cache Bitmap_Hex Bitmap_Parse
begin

unbundle bit_operations_syntax

text \<open>
  What the cache module promises on a working host (\<open>platform\<close>): the pools of the configuration
  are adjacent blocks of ways above those of the operating system, so they never overlap and never
  exceed the mask; the ways reported as available in a pool are those of the pool that no group holds.
\<close>

section \<open>Texts of masks and of CPU lists\<close>

definition good_mask :: "int \<Rightarrow> string \<Rightarrow> bool" where
  "good_mask L m \<longleftrightarrow> (\<exists>b. NewBitmap [ArgInt L, ArgString m] = Ret (b, None) \<and> bm_wf b \<and> Len b = L)"

definition maskSet :: "int \<Rightarrow> string \<Rightarrow> nat set" where
  "maskSet L m = (case NewBitmap [ArgInt L, ArgString m] of Ret (b, _) \<Rightarrow> bm_set b | Panic _ \<Rightarrow> {})"

definition good_cpus :: "int \<Rightarrow> string \<Rightarrow> bool" where
  "good_cpus n s \<longleftrightarrow> (\<exists>b. NewBitmap [ArgInt n, ArgStrings [s]] = Ret (b, None) \<and> bm_wf b \<and> Len b = n)"

definition cpuSet :: "int \<Rightarrow> string \<Rightarrow> nat set" where
  "cpuSet n s = (case NewBitmap [ArgInt n, ArgStrings [s]] of Ret (b, _) \<Rightarrow> bm_set b | Panic _ \<Rightarrow> {})"

lemma good_maskE:
  assumes "good_mask L m"
  obtains b where "NewBitmap [ArgInt L, ArgString m] = Ret (b, None)" "bm_wf b" "Len b = L" "bm_set b = maskSet L m"
  using assms by (auto simp: good_mask_def maskSet_def)

lemma good_cpusE:
  assumes "good_cpus n s"
  obtains b where "NewBitmap [ArgInt n, ArgStrings [s]] = Ret (b, None)" "bm_wf b" "Len b = n" "bm_set b = cpuSet n s"
  using assms by (auto simp: good_cpus_def cpuSet_def)

lemma good_mask_ToString:
  "bm_wf b \<Longrightarrow> 0 < Len b \<Longrightarrow> good_mask (Len b) (ToString b) \<and> maskSet (Len b) (ToString b) = bm_set b"
  using ToString_parses_back [of b] by (auto simp: good_mask_def maskSet_def)

lemma good_cpus_items:
  assumes "0 < n" "n \<le> 2 ^ 63" "its \<noteq> []" "\<forall>it \<in> set its. item_ok n it"
  shows "good_cpus n (items_text its) \<and> cpuSet n (items_text its) = foldl item_apply {} its"
  using NewBitmap_items [of n "[its]"] assms by (auto simp: good_cpus_def cpuSet_def)

lemma good_mask_hex64:
  assumes "0 < l" "l \<le> 32" "take_bit (nat l) v = v"
  shows "good_mask l (hex64 v)" "maskSet l (hex64 v) = {n. bit v n}"
proof -
  let ?b = "\<lparr>Len = l, Bits = [v]\<rparr>"
  note wf = bm_wf_one [OF assms]
  then have "chunk_ok v" using bm_wfD(3) [OF wf(1), of v] by simp
  then have "ToString ?b = hex64 v"
    by (simp add: ToString_def Sprintf_x_chunk chunk_hex_def hex64_def zero_pad_def)
  then show "good_mask l (hex64 v)" "maskSet l (hex64 v) = {n. bit v n}"
    using good_mask_ToString [OF wf(1)] assms(1) wf(2) by auto
qed

section \<open>Blocks of ways\<close>

lemma bit_lowWays: "unat n < 64 \<Longrightarrow> bit (lowWays n) i \<longleftrightarrow> i < unat n"
proof -
  assume "unat n < 64"
  moreover have "lowWays n = mask (unat n)" by (simp add: lowWays_def mask_eq_exp_minus_1)
  ultimately show ?thesis by (auto simp: bit_mask_iff)
qed

lemma bit_block: "unat n + off < 64 \<Longrightarrow> bit (push_bit off (lowWays n)) i \<longleftrightarrow> off \<le> i \<and> i < off + unat n"
  by (auto simp: bit_push_bit_iff bit_lowWays)

lemma good_mask_block:
  assumes "0 < l" "l \<le> 32" "off + unat n \<le> nat l"
  shows "good_mask l (hex64 (push_bit off (lowWays n)))"
    "maskSet l (hex64 (push_bit off (lowWays n))) = {off..<off + unat n}"
proof -
  define k where "k = unat n"
  have "nat l \<le> 32" using assms(2) by simp
  then have "k + off < 64" using assms(3) by (simp add: k_def)
  then have b: "bit (push_bit off (lowWays n)) i \<longleftrightarrow> off \<le> i \<and> i < off + k" for i
    unfolding k_def by (rule bit_block)
  have "take_bit (nat l) (push_bit off (lowWays n)) = push_bit off (lowWays n)"
  proof (rule bit_eqI)
    fix i show "bit (take_bit (nat l) (push_bit off (lowWays n))) i = bit (push_bit off (lowWays n)) i"
      unfolding bit_take_bit_iff b using assms(3) unfolding k_def [symmetric] by linarith
  qed
  note g = good_mask_hex64 [OF assms(1,2) this]
  have s: "{i. off \<le> i \<and> i < off + k} = {off..<off + k}" by auto
  show "good_mask l (hex64 (push_bit off (lowWays n)))" by (rule g(1))
  show "maskSet l (hex64 (push_bit off (lowWays n))) = {off..<off + unat n}"
    using g(2) unfolding b s [unfolded k_def] k_def .
qed


section \<open>The layout of the pools\<close>

text \<open>What the layout code reads of the host, as it is on a working machine.\<close>

definition platform :: "host \<Rightarrow> int \<Rightarrow> CosInfo \<Rightarrow> 32 word \<Rightarrow> (string \<times> SysCache) list \<Rightarrow> bool" where
  "platform H n ci level scs \<longleftrightarrow> HostCPUNum (hfs H) = Ret n \<and> 0 < n \<and> GetCosInfo H = Ret ci \<and>
     0 < CbmMaskLen ci \<and> CbmMaskLen ci \<le> 32 \<and> GetLLC H = Ret level \<and> GetSysCaches H (uint level) = (scs, None) \<and>
     distinct (map fst scs) \<and> (\<forall>(k, sc) \<in> set scs. cacheNo sc = k \<and> good_cpus n (SharedCPUList sc))"

lemma platformD:
  assumes "platform H n ci level scs"
  shows "BitmapsCPUWrapper H a = andThen (NewBitmap [ArgInt n, a]) (\<lambda>(b, e). Ret (Some b, e))"
    "BitmapsCacheWrapper H a = andThen (NewBitmap [ArgInt (CbmMaskLen ci), a]) (\<lambda>(b, e). Ret (Some b, e))"
    "GetCosInfo H = Ret ci" "GetLLC H = Ret level" "GetSysCaches H (uint level) = (scs, None)"
  using assms by (auto simp: platform_def BitmapsCPUWrapper_def BitmapsCacheWrapper_def sized_def)

lemma cpusOn_spec:
  assumes "platform H n ci level scs" "(k, sc) \<in> set scs" "bm_wf ob" "Len ob = n"
  shows "\<exists>c. cpusOn H (Some ob) sc = Ret c \<and> (IsEmpty c \<longleftrightarrow> bm_set ob \<inter> cpuSet n (SharedCPUList sc) = {})"
proof -
  have "good_cpus n (SharedCPUList sc)" using assms(1,2) by (auto simp: platform_def)
  then obtain b where b: "NewBitmap [ArgInt n, ArgStrings [SharedCPUList sc]] = Ret (b, None)" "bm_wf b"
    "bm_set b = cpuSet n (SharedCPUList sc)" by (rule good_cpusE)
  obtain c where "bm_And ob b = Ret c" "bm_wf c" "bm_set c = bm_set ob \<inter> bm_set b"
    using bms.inter_spec [OF assms(3) b(2)] by auto
  with b show ?thesis
    using bms.is_empty_spec [of c] by (auto simp: cpusOn_def platformD(1) [OF assms(1)] deref2_def deref_def)
qed

text \<open>The first way of the pools on a cache: above the operating system's ways where it has CPUs.\<close>

definition poolBase :: "int \<Rightarrow> string \<Rightarrow> 64 word \<Rightarrow> SysCache \<Rightarrow> nat" where
  "poolBase n osSet osWays sc = (if cpuSet n osSet \<inter> cpuSet n (SharedCPUList sc) = {} then 0 else unat osWays)"

definition has_ways :: "int \<Rightarrow> (string \<times> bitmap option) list \<Rightarrow> string \<Rightarrow> nat set \<Rightarrow> bool" where
  "has_ways L s k A \<longleftrightarrow> (\<exists>b. map_of s k = Some (Some b) \<and> bm_wf b \<and> Len b = L \<and> bm_set b = A)"

lemma reserveLoop_spec:
  assumes "platform H n ci level scs" "bm_wf ob" "Len ob = n" "bm_set ob = cpuSet n osSet"
    "unat osw + unat off + unat w \<le> nat (CbmMaskLen ci)" "set xs \<subseteq> set scs" "distinct (map fst s @ map fst xs)"
  shows "\<exists>s'. reserveLoop H (lowWays w) off osw (Some ob) xs s = Ret (s', None) \<and> map fst s' = map fst s @ map fst xs \<and>
    (\<forall>k \<in> fst ` set s. map_of s' k = map_of s k) \<and>
    (\<forall>(k, sc) \<in> set xs. has_ways (CbmMaskLen ci) s' k
       {poolBase n osSet osw sc + unat off..<poolBase n osSet osw sc + unat off + unat w})"
  using assms(6,7)
proof (induction xs arbitrary: s)
  case (Cons x xs)
  obtain k sc where x: "x = (k, sc)" by (cases x)
  have mem: "(k, sc) \<in> set scs" using Cons.prems(1) x by auto
  then have key: "cacheNo sc = k" using assms(1) by (auto simp: platform_def)
  obtain c where c: "cpusOn H (Some ob) sc = Ret c" "IsEmpty c \<longleftrightarrow> cpuSet n osSet \<inter> cpuSet n (SharedCPUList sc) = {}"
    using cpusOn_spec [OF assms(1) mem assms(2,3)] assms(4) by auto
  let ?base = "poolBase n osSet osw sc"
  define wc where "wc = push_bit (unat off) (if IsEmpty c then lowWays w else push_bit (unat osw) (lowWays w))"
  have wc: "wc = push_bit (?base + unat off) (lowWays w)"
    by (auto simp: wc_def poolBase_def c(2) add.commute)
  have L: "0 < CbmMaskLen ci" "CbmMaskLen ci \<le> 32" using assms(1) by (auto simp: platform_def)
  have "?base + unat off + unat w \<le> nat (CbmMaskLen ci)" using assms(5) by (auto simp: poolBase_def)
  note g = good_mask_block [OF L this]
  obtain b where b: "NewBitmap [ArgInt (CbmMaskLen ci), ArgString (hex64 wc)] = Ret (b, None)" "bm_wf b"
    "Len b = CbmMaskLen ci" "bm_set b = {?base + unat off..<?base + unat off + unat w}"
    using g unfolding wc by (elim good_maskE) auto
  have fresh: "k \<notin> fst ` set s" using Cons.prems(2) x by auto
  then have put: "al_put k (Some b) s = s @ [(k, Some b)]" by (rule al_put_fresh)
  have step: "reserveLoop H (lowWays w) off osw (Some ob) (x # xs) s =
      reserveLoop H (lowWays w) off osw (Some ob) xs (s @ [(k, Some b)])"
    using b(1) by (simp add: x c(1) Let_def platformD(2) [OF assms(1)] key put flip: wc_def)
  have "distinct (map fst (s @ [(k, Some b)]) @ map fst xs)" using Cons.prems(2) x by simp
  then obtain s' where s': "reserveLoop H (lowWays w) off osw (Some ob) xs (s @ [(k, Some b)]) = Ret (s', None)"
    "map fst s' = map fst (s @ [(k, Some b)]) @ map fst xs"
    "\<forall>k' \<in> fst ` set (s @ [(k, Some b)]). map_of s' k' = map_of (s @ [(k, Some b)]) k'"
    "\<forall>(k, sc) \<in> set xs. has_ways (CbmMaskLen ci) s' k
       {poolBase n osSet osw sc + unat off..<poolBase n osSet osw sc + unat off + unat w}"
    using Cons.IH [of "s @ [(k, Some b)]"] Cons.prems(1) by auto
  have old: "map_of (s @ [(k, Some b)]) k' = map_of s k'" if "k' \<in> fst ` set s" for k'
    using that fresh by (auto simp: map_add_def map_of_eq_None_iff split: option.splits)
  have new: "map_of (s @ [(k, Some b)]) k = Some (Some b)"
    using fresh by (simp add: map_add_def map_of_eq_None_iff [symmetric] split: option.splits)
  have "has_ways (CbmMaskLen ci) s' k {?base + unat off..<?base + unat off + unat w}"
    unfolding has_ways_def using s'(3) new b by auto
  then show ?case
    using s' step old x by auto
qed simp


lemma layoutPool_spec:
  assumes "platform H n ci level scs" "bm_wf ob" "Len ob = n" "bm_set ob = cpuSet n osSet"
    "unat osw + unat off + unat w \<le> nat (CbmMaskLen ci)"
  shows "\<exists>s. layoutPool H w off osw (Some ob) scs name adj pools =
      Ret (if w = 0 then pools else al_put name (adj (zeroReserved\<lparr>Schemata := s\<rparr>)) pools, None) \<and>
    (\<forall>(k, sc) \<in> set scs. has_ways (CbmMaskLen ci) s k
       {poolBase n osSet osw sc + unat off..<poolBase n osSet osw sc + unat off + unat w})"
proof -
  have "distinct (map fst scs)" using assms(1) by (simp add: platform_def)
  then obtain s where "reserveLoop H (lowWays w) off osw (Some ob) scs [] = Ret (s, None)"
    "\<forall>(k, sc) \<in> set scs. has_ways (CbmMaskLen ci) s k
       {poolBase n osSet osw sc + unat off..<poolBase n osSet osw sc + unat off + unat w}"
    using reserveLoop_spec [OF assms, of scs "[]"] by auto
  then show ?thesis by (intro exI [of _ s]) (auto simp: layoutPool_def getReservedCache_def word_gt_0)
qed

definition poolAt :: "int \<Rightarrow> (string \<times> Reserved) list \<Rightarrow> string \<Rightarrow> string \<Rightarrow> nat set \<Rightarrow> bool" where
  "poolAt L pools name k A \<longleftrightarrow> (\<exists>r. map_of pools name = Some r \<and> has_ways L (Schemata r) k A)"

lemma unat_sum4:
  assumes "unat a + unat b + unat c + unat d \<le> m" "m \<le> 32"
  shows "unat (a + b + c + d :: 64 word) = unat a + unat b + unat c + unat d"
    "unat (b + c) = unat b + unat c"
proof -
  have 1: "unat (x + y) = unat x + unat y" if "unat x + unat y \<le> 32" for x y :: "64 word"
    by (rule unat_add_lem [THEN iffD1]) (use that in simp)
  show bc: "unat (b + c) = unat b + unat c" by (rule 1) (use assms in linarith)
  have "unat (a + b) = unat a + unat b" by (rule 1) (use assms in linarith)
  moreover from this have "unat (a + b + c) = unat a + unat b + unat c" by (subst 1) (use assms in linarith)+
  ultimately show "unat (a + b + c + d) = unat a + unat b + unat c + unat d" by (subst 1) (use assms in linarith)+
qed

lemma pool_names [simp]: "Guarantee \<noteq> Besteffort" "Besteffort \<noteq> Guarantee" "Guarantee \<noteq> Shared" "Shared \<noteq> Guarantee"
  "Besteffort \<noteq> Shared" "Shared \<noteq> Besteffort"
  by (simp_all add: Guarantee_def Besteffort_def Shared_def)

lemma GetCachePoolLayout_spec:
  fixes H :: host
  defines "pc \<equiv> NewCachePoolConfig (hostPool H)" and "osc \<equiv> NewOSConfig (hostOS H)"
  assumes pf: "platform H n ci level scs" and os: "good_cpus n (osCPUSet osc)"
    and fits: "unat (osCacheWays osc) + unat (cpGuarantee pc) + unat (cpBesteffort pc) + unat (cpShared pc) \<le> nat (CbmMaskLen ci)"
  shows "\<exists>pools. GetCachePoolLayout H = Ret (pools, None) \<and> (\<forall>(k, sc) \<in> set scs.
    (let base = poolBase n (osCPUSet osc) (osCacheWays osc) sc;
         g = base + unat (cpGuarantee pc); b = g + unat (cpBesteffort pc); s = b + unat (cpShared pc)
     in (cpGuarantee pc \<noteq> 0 \<longrightarrow> poolAt (CbmMaskLen ci) pools Guarantee k {base..<g}) \<and>
        (cpBesteffort pc \<noteq> 0 \<longrightarrow> poolAt (CbmMaskLen ci) pools Besteffort k {g..<b}) \<and>
        (cpShared pc \<noteq> 0 \<longrightarrow> poolAt (CbmMaskLen ci) pools Shared k {b..<s})))"
proof -
  have L: "0 < CbmMaskLen ci" "CbmMaskLen ci \<le> 32" using pf by (auto simp: platform_def)
  then have nL: "nat (CbmMaskLen ci) \<le> 32" by simp
  note sum = unat_sum4 [OF fits nL]
  have "unat (of_int (CbmMaskLen ci) :: 64 word) = nat (CbmMaskLen ci)"
    using L by (simp add: unsigned_of_int take_bit_int_eq_self)
  then have ok: "\<not> of_int (CbmMaskLen ci) < osCacheWays osc + cpGuarantee pc + cpBesteffort pc + cpShared pc"
    using sum(1) fits by (simp add: word_less_nat_alt)
  obtain ob where ob: "NewBitmap [ArgInt n, ArgStrings [osCPUSet osc]] = Ret (ob, None)" "bm_wf ob" "Len ob = n"
    "bm_set ob = cpuSet n (osCPUSet osc)" using os by (rule good_cpusE)
  note lp = layoutPool_spec [OF pf ob(2,3,4), where osw = "osCacheWays osc"]
  obtain s1 where s1: "layoutPool H (cpGuarantee pc) 0 (osCacheWays osc) (Some ob) scs Guarantee id [] =
      Ret (if cpGuarantee pc = 0 then [] else al_put Guarantee (id (zeroReserved\<lparr>Schemata := s1\<rparr>)) [], None)"
    "\<forall>(k, sc) \<in> set scs. has_ways (CbmMaskLen ci) s1 k {poolBase n (osCPUSet osc) (osCacheWays osc) sc + unat (0 :: 64 word)..<
       poolBase n (osCPUSet osc) (osCacheWays osc) sc + unat (0 :: 64 word) + unat (cpGuarantee pc)}"
    using lp [of 0 "cpGuarantee pc" Guarantee id "[]"] fits by auto
  define p1 where "p1 = (if cpGuarantee pc = 0 then [] else al_put Guarantee (id (zeroReserved\<lparr>Schemata := s1\<rparr>)) [])"
  let ?adj2 = "\<lambda>r. r\<lparr>Shrink := cpShrink pc\<rparr>"
  obtain s2 where s2: "layoutPool H (cpBesteffort pc) (cpGuarantee pc) (osCacheWays osc) (Some ob) scs Besteffort ?adj2 p1 =
      Ret (if cpBesteffort pc = 0 then p1 else al_put Besteffort (?adj2 (zeroReserved\<lparr>Schemata := s2\<rparr>)) p1, None)"
    "\<forall>(k, sc) \<in> set scs. has_ways (CbmMaskLen ci) s2 k {poolBase n (osCPUSet osc) (osCacheWays osc) sc + unat (cpGuarantee pc)..<
       poolBase n (osCPUSet osc) (osCacheWays osc) sc + unat (cpGuarantee pc) + unat (cpBesteffort pc)}"
    using lp [of "cpGuarantee pc" "cpBesteffort pc" Besteffort ?adj2 p1] fits by auto
  define p2 where "p2 = (if cpBesteffort pc = 0 then p1 else al_put Besteffort (?adj2 (zeroReserved\<lparr>Schemata := s2\<rparr>)) p1)"
  let ?adj3 = "\<lambda>r. r\<lparr>resName := Shared, Quota := MaxAllowedShared pc\<rparr>"
  obtain s3 where s3: "layoutPool H (cpShared pc) (cpGuarantee pc + cpBesteffort pc) (osCacheWays osc) (Some ob) scs Shared ?adj3 p2 =
      Ret (if cpShared pc = 0 then p2 else al_put Shared (?adj3 (zeroReserved\<lparr>Schemata := s3\<rparr>)) p2, None)"
    "\<forall>(k, sc) \<in> set scs. has_ways (CbmMaskLen ci) s3 k {poolBase n (osCPUSet osc) (osCacheWays osc) sc + unat (cpGuarantee pc + cpBesteffort pc)..<
       poolBase n (osCPUSet osc) (osCacheWays osc) sc + unat (cpGuarantee pc + cpBesteffort pc) + unat (cpShared pc)}"
    using lp [of "cpGuarantee pc + cpBesteffort pc" "cpShared pc" Shared ?adj3 p2] fits sum(2) by auto
  define p3 where "p3 = (if cpShared pc = 0 then p2 else al_put Shared (?adj3 (zeroReserved\<lparr>Schemata := s3\<rparr>)) p2)"
  have lay: "GetCachePoolLayout H = Ret (p3, None)"
    unfolding GetCachePoolLayout_def Let_def pc_def [symmetric] osc_def [symmetric]
    using ok ob(1) s1(1) s2(1) s3(1)
    by (simp add: platformD [OF pf] p1_def [symmetric] p2_def [symmetric] p3_def [symmetric])
  have maps: "map_of p3 Guarantee = (if cpGuarantee pc = 0 then None else Some (zeroReserved\<lparr>Schemata := s1\<rparr>))"
    "map_of p3 Besteffort = (if cpBesteffort pc = 0 then None else Some (?adj2 (zeroReserved\<lparr>Schemata := s2\<rparr>)))"
    "map_of p3 Shared = (if cpShared pc = 0 then None else Some (?adj3 (zeroReserved\<lparr>Schemata := s3\<rparr>)))"
    by (simp_all add: p3_def p2_def p1_def)
  show ?thesis
  proof (intro exI conjI ballI, rule lay)
    fix x assume x: "x \<in> set scs"
    obtain k sc where k: "x = (k, sc)" by (cases x)
    note w = bspec [OF s1(2) x, unfolded k prod.case] bspec [OF s2(2) x, unfolded k prod.case]
      bspec [OF s3(2) x, unfolded k prod.case]
    show "case x of (k, sc) \<Rightarrow> (let base = poolBase n (osCPUSet osc) (osCacheWays osc) sc;
         g = base + unat (cpGuarantee pc); b = g + unat (cpBesteffort pc); s = b + unat (cpShared pc)
     in (cpGuarantee pc \<noteq> 0 \<longrightarrow> poolAt (CbmMaskLen ci) p3 Guarantee k {base..<g}) \<and>
        (cpBesteffort pc \<noteq> 0 \<longrightarrow> poolAt (CbmMaskLen ci) p3 Besteffort k {g..<b}) \<and>
        (cpShared pc \<noteq> 0 \<longrightarrow> poolAt (CbmMaskLen ci) p3 Shared k {b..<s}))"
      using w by (simp add: k Let_def poolAt_def maps sum(2) add.assoc)
  qed
qed


lemma unat_sum4_wide:
  fixes a b c d :: "64 word"
  assumes "unat a + unat b + unat c + unat d < 2 ^ 64"
  shows "unat (a + b + c + d) = unat a + unat b + unat c + unat d"
proof -
  have "unat (x + y) = unat x + unat y" if "unat x + unat y < 2 ^ 64" for x y :: "64 word"
    by (rule unat_add_lem [THEN iffD1]) (use that in simp)
  note 1 = this
  have "unat (a + b) = unat a + unat b" by (rule 1) (use assms in linarith)
  moreover from this have "unat (a + b + c) = unat a + unat b + unat c" by (subst 1) (use assms in linarith)+
  ultimately show ?thesis by (subst 1) (use assms in linarith)+
qed

lemma GetCachePoolLayout_refused:
  fixes H :: host
  defines "pc \<equiv> NewCachePoolConfig (hostPool H)" and "osc \<equiv> NewOSConfig (hostOS H)"
  assumes "platform H n ci level scs"
    "unat (osCacheWays osc) + unat (cpGuarantee pc) + unat (cpBesteffort pc) + unat (cpShared pc) < 2 ^ 64"
    "nat (CbmMaskLen ci) < unat (osCacheWays osc) + unat (cpGuarantee pc) + unat (cpBesteffort pc) + unat (cpShared pc)"
  shows "\<exists>e. GetCachePoolLayout H = Ret ([], Some e)"
proof -
  have "0 < CbmMaskLen ci" "CbmMaskLen ci \<le> 32" "GetCosInfo H = Ret ci" using assms(3) by (auto simp: platform_def)
  moreover from this have "unat (of_int (CbmMaskLen ci) :: 64 word) = nat (CbmMaskLen ci)"
    by (simp add: unsigned_of_int take_bit_int_eq_self)
  then have "of_int (CbmMaskLen ci) < osCacheWays osc + cpGuarantee pc + cpBesteffort pc + cpShared pc"
    using unat_sum4_wide [OF assms(4)] assms(5) by (simp add: word_less_nat_alt)
  ultimately show ?thesis by (simp add: GetCachePoolLayout_def Let_def pc_def osc_def)
qed

section \<open>Available ways\<close>

definition usedWays :: "CosInfo \<Rightarrow> CacheCos list \<Rightarrow> string \<Rightarrow> nat set" where
  "usedWays ci sv k = (\<Union>cv \<in> {cv \<in> set sv. Itoa (uint (cacheID cv)) = k \<and> Mask cv \<noteq> cosCbmMask ci}.
     maskSet (CbmMaskLen ci) (Mask cv))"

definition groupWays :: "CosInfo \<Rightarrow> string list \<Rightarrow> string \<Rightarrow> (string \<times> ResAssociation) list \<Rightarrow> string \<Rightarrow> nat set" where
  "groupWays ci ignore lev allres k = (\<Union>(g, v) \<in> {(g, v) \<in> set allres. g \<notin> set ignore}.
     case gm_get (CacheSchemata v) lev of None \<Rightarrow> {} | Some sv \<Rightarrow> usedWays ci sv k)"

definition group_ok :: "CosInfo \<Rightarrow> string set \<Rightarrow> string \<Rightarrow> ResAssociation \<Rightarrow> bool" where
  "group_ok ci ids lev v \<longleftrightarrow> (\<forall>sv. gm_get (CacheSchemata v) lev = Some sv \<longrightarrow>
     (\<forall>cv \<in> set sv. Itoa (uint (cacheID cv)) \<in> ids \<and> good_mask (CbmMaskLen ci) (Mask cv)))"

lemma takeWays_spec:
  assumes "GetCosInfo H = Ret ci" "CbmMaskLen ci \<noteq> 0"
  shows "\<forall>cv \<in> set sv. Itoa (uint (cacheID cv)) \<in> fst ` set s \<and> good_mask (CbmMaskLen ci) (Mask cv) \<Longrightarrow>
    \<forall>k \<in> fst ` set s. has_ways (CbmMaskLen ci) s k (A k) \<Longrightarrow>
    \<exists>s'. takeWays H sv s = Ret s' \<and> fst ` set s' = fst ` set s \<and>
      (\<forall>k \<in> fst ` set s. has_ways (CbmMaskLen ci) s' k (A k - usedWays ci sv k))"
proof (induction sv arbitrary: s A)
  case (Cons cv sv)
  let ?k = "Itoa (uint (cacheID cv))" and ?L = "CbmMaskLen ci"
  obtain m where m: "NewBitmap [ArgInt ?L, ArgString (Mask cv)] = Ret (m, None)" "bm_wf m"
    "bm_set m = maskSet ?L (Mask cv)" using Cons.prems(1) by (auto elim: good_maskE)
  have w: "BitmapsCacheWrapper H (ArgString (Mask cv)) = Ret (Some m, None)"
    using assms m(1) by (simp add: BitmapsCacheWrapper_def sized_def)
  show ?case
  proof (cases "Mask cv = cosCbmMask ci")
    case True
    then have "usedWays ci (cv # sv) k = usedWays ci sv k" for k by (auto simp: usedWays_def)
    moreover have "takeWays H (cv # sv) s = takeWays H sv s" using True w assms(1) by (simp add: Let_def)
    ultimately show ?thesis using Cons.IH [of s A] Cons.prems by simp
  next
    case False
    obtain b where b: "map_of s ?k = Some (Some b)" "bm_wf b" "Len b = ?L" "bm_set b = A ?k"
      using Cons.prems by (auto simp: has_ways_def)
    obtain d where d: "bm_Axor b m = Ret d" "bm_wf d" "Len d = ?L" "bm_set d = A ?k - maskSet ?L (Mask cv)"
      using bms.diff_spec [OF b(2) m(2)] b(3,4) m(3) by auto
    let ?s = "al_put ?k (Some d) s" and ?A = "\<lambda>k. if k = ?k then A k - maskSet ?L (Mask cv) else A k"
    have keys: "fst ` set ?s = fst ` set s" using Cons.prems(1) by (auto simp: keys_al_put)
    have "takeWays H (cv # sv) s = takeWays H sv ?s"
      using False w assms(1) b(1) d(1) by (simp add: Let_def deref2_def deref_def)
    moreover have "\<forall>k \<in> fst ` set ?s. has_ways ?L ?s k (?A k)"
      using Cons.prems(2) d unfolding keys by (auto simp: has_ways_def)
    moreover have "?A k - usedWays ci sv k = A k - usedWays ci (cv # sv) k" for k
      using False by (auto simp: usedWays_def)
    ultimately show ?thesis using Cons.IH [of ?s ?A] Cons.prems(1) unfolding keys by auto
  qed
qed (simp add: usedWays_def)

lemma takeGroups_spec:
  assumes "GetCosInfo H = Ret ci" "CbmMaskLen ci \<noteq> 0"
  shows "\<forall>(g, v) \<in> set allres. g \<notin> set ignore \<longrightarrow> group_ok ci (fst ` set s) lev v \<Longrightarrow>
    \<forall>k \<in> fst ` set s. has_ways (CbmMaskLen ci) s k (A k) \<Longrightarrow>
    \<exists>s'. takeGroups H ignore lev allres s = Ret s' \<and> fst ` set s' = fst ` set s \<and>
      (\<forall>k \<in> fst ` set s. has_ways (CbmMaskLen ci) s' k (A k - groupWays ci ignore lev allres k))"
proof (induction allres arbitrary: s A)
  case (Cons gv allres)
  obtain g v where gv: "gv = (g, v)" by (cases gv)
  note IH = Cons.IH and P = Cons.prems
  show ?case
  proof (cases "g \<in> set ignore \<or> gm_get (CacheSchemata v) lev = None")
    case True
    then have "groupWays ci ignore lev (gv # allres) k = groupWays ci ignore lev allres k" for k
      by (auto simp: groupWays_def gv)
    moreover have "takeGroups H ignore lev (gv # allres) s = takeGroups H ignore lev allres s"
      using True by (auto simp: gv)
    ultimately show ?thesis using IH [of s A] P by simp
  next
    case False
    then obtain sv where sv: "g \<notin> set ignore" "gm_get (CacheSchemata v) lev = Some sv" by auto
    have un: "groupWays ci ignore lev (gv # allres) k = usedWays ci sv k \<union> groupWays ci ignore lev allres k" for k
      using sv by (auto simp: groupWays_def gv)
    show ?thesis
    proof (cases "s = []")
      case True
      then show ?thesis using IH [of s A] P sv by (simp add: gv)
    next
      case ne: False
      have "\<forall>cv \<in> set sv. Itoa (uint (cacheID cv)) \<in> fst ` set s \<and> good_mask (CbmMaskLen ci) (Mask cv)"
        using P(1) sv gv by (auto simp: group_ok_def)
      from takeWays_spec [OF assms this P(2)] obtain s1 where s1: "takeWays H sv s = Ret s1"
        "fst ` set s1 = fst ` set s" "\<forall>k \<in> fst ` set s. has_ways (CbmMaskLen ci) s1 k (A k - usedWays ci sv k)" by auto
      have "takeGroups H ignore lev (gv # allres) s = takeGroups H ignore lev allres s1"
        using sv s1(1) ne by (simp add: gv)
      then show ?thesis
        using IH [of s1 "\<lambda>k. A k - usedWays ci sv k"] P(1) s1(2,3) un by (auto simp: Diff_eq Int_assoc Compl_Un)
    qed
  qed
qed (simp add: groupWays_def)

lemma fold_al_put_keys: "fst ` set (fold (\<lambda>(k, v) m. al_put k v m) xs m) = fst ` set xs \<union> fst ` set m"
proof (induction xs arbitrary: m)
  case (Cons x xs)
  then show ?case by (cases x) (simp add: keys_al_put)
qed simp

lemma fold_al_put_map: "distinct (map fst xs) \<Longrightarrow>
  map_of (fold (\<lambda>(k, v) m. al_put k v m) xs m) k = (case map_of xs k of Some v \<Rightarrow> Some v | None \<Rightarrow> map_of m k)"
proof (induction xs arbitrary: m)
  case (Cons x xs)
  obtain a b where x: "x = (a, b)" by (cases x)
  show ?case
  proof (cases "k = a")
    case True
    then have "map_of xs k = None" using Cons.prems x by (simp add: map_of_eq_None_iff)
    with Cons True x show ?thesis by simp
  qed (use Cons x in \<open>simp split: option.split\<close>)
qed simp

lemma GetAvailableCacheSchemata_spec:
  assumes "GetReservedInfo H st = Ret (info, st')" "GetCosInfo H = Ret ci" "CbmMaskLen ci \<noteq> 0"
    "int (length allres) < cosNumClosids ci" "pool \<noteq> ''none''" "map_of info pool = Some resv"
    "distinct (map fst (Schemata resv))"
    "\<forall>k \<in> fst ` set (Schemata resv). has_ways (CbmMaskLen ci) (Schemata resv) k (A k)"
    "\<forall>(g, v) \<in> set allres. g \<notin> set ignore \<longrightarrow> group_ok ci (fst ` set (Schemata resv)) lev v"
  shows "\<exists>s. GetAvailableCacheSchemata H allres ignore pool lev st = Ret ((s, None), st') \<and>
    fst ` set s = fst ` set (Schemata resv) \<and>
    (\<forall>k \<in> fst ` set s. has_ways (CbmMaskLen ci) s k (A k - groupWays ci ignore lev allres k))"
proof -
  let ?s = "fold (\<lambda>(k, v) m. al_put k v m) (Schemata resv) []"
  have keys: "fst ` set ?s = fst ` set (Schemata resv)" by (simp add: fold_al_put_keys)
  have "\<forall>k \<in> fst ` set ?s. has_ways (CbmMaskLen ci) ?s k (A k)"
    using assms(8) unfolding keys by (fastforce simp: has_ways_def fold_al_put_map [OF assms(7)])
  from takeGroups_spec [OF assms(2,3) assms(9) [folded keys] this] obtain s where s:
    "takeGroups H ignore lev allres ?s = Ret s" "fst ` set s = fst ` set ?s"
    "\<forall>k \<in> fst ` set ?s. has_ways (CbmMaskLen ci) s k (A k - groupWays ci ignore lev allres k)" by blast
  moreover from s(1) have "GetAvailableCacheSchemata H allres ignore pool lev st = Ret ((s, None), st')"
    using assms(1,2,4-6) by (simp add: GetAvailableCacheSchemata_def startSchemata_def)
  ultimately show ?thesis using keys by (intro exI [of _ s]) simp
qed

end
