(* ===== verification/Hospitality.thy ===== *)
theory Hospitality
  imports Cache Db
begin

text \<open>
  Hospitality scores (\<^verbatim>\<open>modules/hospitality/hospitality.go\<close>): how well the host can take a workload
  that asks for a number of cache ways, per cache.
\<close>

record hRequest =
  MaxCache :: "32 word"
  MinCache :: "32 word"
  reqPolicy :: string
  reqCacheID :: "32 word option"

text \<open>\<open>SC\<close>: the scores per cache of each level.\<close>

type_synonym CacheScore = "(string \<times> 32 word) list"

record hospitality =
  SC :: "(string \<times> CacheScore) list"

definition unsupportedPool :: "goerror \<Rightarrow> bool" where
  "unsupportedPool e = (case e of Errorf f _ \<Rightarrow> prefix ''error doesn't support pool'' f | _ \<Rightarrow> False)"

definition retrimCache :: "string \<Rightarrow> 32 word option \<Rightarrow> CacheScore \<Rightarrow> CacheScore" where
  "retrimCache cid cacheIDuint cacheS =
     (case cacheIDuint of
        None \<Rightarrow> cacheS
      | Some c \<Rightarrow> if c \<noteq> of_int (fst (Atoi cid)) then filter (\<lambda>e. fst e \<noteq> cid) cacheS else cacheS)"

text \<open>The longest run of free ways that holds the minimum.\<close>

fun bestRun :: "32 word \<Rightarrow> string list \<Rightarrow> 32 word \<Rightarrow> (32 word) outcome" where
  "bestRun mn [] best = Ret best"
| "bestRun mn (val # fbs) best =
     andThen (go_index val 0) (\<lambda>c.
       if c = CHR ''1''
       then if mn = 0 then Panic IntegerDivideByZero
            else bestRun mn fbs
              (if 0 < go_div (int (length val)) (uint mn) \<and> best < of_nat (length val)
               then of_nat (length val) else best)
       else bestRun mn fbs best)"

definition runScore :: "32 word \<Rightarrow> 32 word \<Rightarrow> (32 word) outcome" where
  "runScore mx best =
     (if 0 < best
      then if mx = 0 then Panic IntegerDivideByZero
           else let s = best * 100 div mx in Ret (if 100 < s then 100 else s)
      else Ret 0)"

fun scoreLoop :: "32 word \<Rightarrow> 32 word \<Rightarrow> 32 word option \<Rightarrow> (string \<times> bitmap option) list \<Rightarrow> CacheScore \<Rightarrow> CacheScore outcome" where
  "scoreLoop mx mn cacheIDuint [] cacheS = Ret cacheS"
| "scoreLoop mx mn cacheIDuint ((k, v) # av) cacheS =
     andThen (deref v) (\<lambda>b.
       andThen (ToBinStrings b) (\<lambda>fbs.
         andThen (bestRun mn fbs 0) (\<lambda>best.
           andThen (runScore mx best) (\<lambda>s.
             scoreLoop mx mn cacheIDuint av (retrimCache k cacheIDuint (al_put k s cacheS))))))"

fun sharedLoop :: "bool \<Rightarrow> 32 word option \<Rightarrow> (string \<times> bitmap option) list \<Rightarrow> CacheScore \<Rightarrow> CacheScore" where
  "sharedLoop free cacheIDuint [] cacheS = cacheS"
| "sharedLoop free cacheIDuint ((k, v) # av) cacheS =
     sharedLoop free cacheIDuint av (retrimCache k cacheIDuint (al_put k (if free then 100 else 0) cacheS))"

definition requestType :: "32 word \<Rightarrow> 32 word \<Rightarrow> string option" where
  "requestType mx mn =
     (if mx = 0 \<and> mn = 0 then Some Shared
      else if mn < mx \<and> mn \<noteq> 0 then Some Besteffort
      else if mx = mn then Some Guarantee
      else None)"

definition GetByRequestMaxMin :: "host \<Rightarrow> codec \<Rightarrow> 'b bolt \<Rightarrow> 'b \<Rightarrow> 32 word \<Rightarrow> 32 word \<Rightarrow> 32 word option \<Rightarrow> string
    \<Rightarrow> hospitality \<Rightarrow> cache_state \<Rightarrow> (goerror option \<times> hospitality \<times> cache_state) outcome" where
  "GetByRequestMaxMin H js bo db mx mn cacheIDuint targetLev h st =
     (case requestType mx mn of
        None \<Rightarrow> Ret (Some (AppErrorf StatusBadRequest ''Bad request, max_cache=%d, min_cache=%d''), h, st)
      | Some rt \<Rightarrow>
          andThen (GetResAssociation (htree H (sysResctrl H)) []) (\<lambda>resaall.
            andThen (GetAvailableCacheSchemata H resaall [''infra'', ''.''] rt (''L'' @ targetLev) st) (\<lambda>((av, err), st1).
              if (case err of Some e \<Rightarrow> \<not> unsupportedPool e | None \<Rightarrow> False)
              then Ret (Some (AppErrorf StatusInternalServerError ''Unable to read cache schemata; %s''), h, st1)
              else andThen (GetReservedInfo H st1) (\<lambda>(reserved, st2).
                if rt = Shared
                then andThen (deref (map_of reserved Shared)) (\<lambda>r.
                       case QueryWorkload js bo [(''CosName'', FStr (resName r)), (''Status'', FStr ''Successful'')] db of
                         (_, Some e) \<Rightarrow> Ret (Some e, h\<lparr>SC := [(''l'' @ targetLev, [])]\<rparr>, st2)
                       | (ws, None) \<Rightarrow>
                           Ret (None, h\<lparr>SC := [(''l'' @ targetLev,
                                  sharedLoop (of_nat (length ws) < Quota r) cacheIDuint av [])]\<rparr>, st2))
                else andThen (scoreLoop mx mn cacheIDuint av []) (\<lambda>cacheS.
                       Ret (None, h\<lparr>SC := [(''l'' @ targetLev, cacheS)]\<rparr>, st2))))))"

text \<open>A policy value must have the Go type \<^verbatim>\<open>int\<close>.\<close>

definition asInt :: "pval option \<Rightarrow> int option" where
  "asInt v = (case v of Some (VInt i) \<Rightarrow> Some i | _ \<Rightarrow> None)"

definition GetByRequest :: "host \<Rightarrow> policyEnv \<Rightarrow> codec \<Rightarrow> 'b bolt \<Rightarrow> 'b \<Rightarrow> hRequest \<Rightarrow> hospitality \<Rightarrow> cache_state
    \<Rightarrow> (goerror option \<times> hospitality \<times> cache_state) outcome" where
  "GetByRequest H pe js bo db req h st =
     andThen (GetLLC H) (\<lambda>level.
       let targetLev = Itoa (uint level); h0 = h\<lparr>SC := [(''l'' @ targetLev, [])]\<rparr>
       in if reqPolicy req \<noteq> []
          then andThen (GetDefaultPolicy H pe (reqPolicy req)) (\<lambda>(tier, err).
                 case err of
                   Some e \<Rightarrow> Ret (Some (NewAppError [EInt StatusInternalServerError, EStr ''Can not find Policy'', EErr e]), h0, st)
                 | None \<Rightarrow>
                     (case asInt (moduleParam tier ''cache'' ''max'') of
                        None \<Rightarrow> Ret (Some (NewAppError [EInt StatusInternalServerError, EStr ''Error to get max cache'', EUnknown]), h0, st)
                      | Some m \<Rightarrow>
                          (case asInt (moduleParam tier ''cache'' ''min'') of
                             None \<Rightarrow> Ret (Some (NewAppError [EInt StatusInternalServerError, EStr ''Error to get min cache'', EUnknown]), h0, st)
                           | Some n \<Rightarrow> GetByRequestMaxMin H js bo db (of_int m) (of_int n) (reqCacheID req) targetLev h0 st)))
          else GetByRequestMaxMin H js bo db (MaxCache req) (MinCache req) (reqCacheID req) targetLev h0 st)"

end
