(* ===== verification/Hospitality_Laws.thy ===== *)
theory Hospitality_Laws
  imports Hospitality Bitmap_Runs
begin

text \<open>
  The score of a cache is a function of its longest run of free ways: zero when the run does not hold the
  minimum, and otherwise the percentage of the maximum it covers, capped at one hundred.
\<close>

section \<open>The longest run\<close>

lemma go_div_pos: "0 < (k :: nat) \<Longrightarrow> 0 < go_div (int l) (int k) \<longleftrightarrow> k \<le> l"
  by (auto simp: go_div_def zdiv_int [symmetric] div_greater_zero_iff)

lemma word_of_nat_less32:
  "a < 2 ^ 32 \<Longrightarrow> b < 2 ^ 32 \<Longrightarrow> (of_nat a :: 32 word) < of_nat b \<longleftrightarrow> a < b"
  by (simp add: word_less_nat_alt unsigned_of_nat take_bit_nat_eq_self)

lemma bestRun_longest:
  assumes "\<forall>r \<in> set rs. is_run r" "successively (\<lambda>r r'. hd r \<noteq> hd r') rs" "mn \<noteq> 0"
    "length (concat rs) < 2 ^ 32" "best < 2 ^ 32"
  shows "\<exists>k s. bestRun mn rs (of_nat best) = Ret (of_nat (if unat mn \<le> k \<and> best < k then k else best)) \<and>
    k \<le> length (concat rs) \<and>
    window (ones pos (concat rs)) s k \<and> (\<forall>s' w. window (ones pos (concat rs)) s' w \<longrightarrow> w \<le> k)"
  using assms
proof (induction rs arbitrary: pos best)
  case Nil
  then show ?case by (intro exI [of _ 0]) (auto simp: window_def)
next
  case (Cons r rs)
  have r: "is_run r" "r \<noteq> []" "r = replicate (length r) (hd r)" using Cons.prems(1) by auto
  let ?l = "length r" and ?ys = "concat rs"
  define upd where "upd = (hd r = CHR ''1'' \<and> unat mn \<le> ?l \<and> best < ?l)"
  define best1 where "best1 = (if upd then ?l else best)"
  have l: "?l < 2 ^ 32" "length ?ys < 2 ^ 32" using Cons.prems(4) by auto
  have m: "0 < unat mn" using Cons.prems(3) by (simp add: unat_gt_0)
  have "go_index r 0 = Ret (hd r)" using r(2) by (simp add: go_index_def hd_conv_nth)
  then have step: "bestRun mn (r # rs) (of_nat best) = bestRun mn rs (of_nat best1)"
    using Cons.prems(3) go_div_pos [OF m, of ?l] word_of_nat_less32 [OF Cons.prems(5) l(1)]
    by (simp add: upd_def best1_def)
  have "successively (\<lambda>r r'. hd r \<noteq> hd r') rs" using Cons.prems(2) by (cases rs) auto
  moreover have "best1 < 2 ^ 32" using Cons.prems(5) l by (simp add: best1_def)
  ultimately obtain k s where IH: "bestRun mn rs (of_nat best1) =
      Ret (of_nat (if unat mn \<le> k \<and> best1 < k then k else best1))" "k \<le> length ?ys"
    "window (ones (pos + ?l) ?ys) s k" "\<And>s' w. window (ones (pos + ?l) ?ys) s' w \<Longrightarrow> w \<le> k"
    using Cons.IH [of best1 "pos + ?l"] Cons.prems(1,3) l(2) by auto
  have next_run: "?ys = [] \<or> hd ?ys \<noteq> hd r"
    using Cons.prems(1,2) concat_hd [of rs] by (cases rs) (auto simp: successively_Cons)
  have le: "w \<le> (if hd r = CHR ''1'' then max ?l k else k)" if "window (ones pos (r @ ?ys)) s' w" for s' w
    using window_ones_run [OF r(1) that _ _ next_run] window_later [OF that] IH(4) [of s' w]
    by (cases "w = 0"; cases "s' < pos + ?l") (auto simp: not_less le_max_iff_disj)
  have "window (ones pos (r @ ?ys)) s k" using IH(3) by (auto simp: window_def ones_append)
  moreover have "window (ones pos (r @ ?ys)) pos ?l" if "hd r = CHR ''1''"
    using ones_replicate [of pos ?l "hd r"] r(3) that by (auto simp: window_def ones_append)
  moreover have "bestRun mn (r # rs) (of_nat best) = Ret (of_nat
     (let k' = if hd r = CHR ''1'' then max ?l k else k in if unat mn \<le> k' \<and> best < k' then k' else best))"
    unfolding step IH(1) by (auto simp: Let_def upd_def best1_def max_def)
  ultimately show ?case
    using IH(2) le
    by (intro exI [of _ "if hd r = CHR ''1'' then max ?l k else k"]
         exI [of _ "if hd r = CHR ''1'' \<and> k \<le> ?l then pos else s"])
      (auto simp: Let_def max_def)
qed

text \<open>The score of one cache, as a function of the longest run of its free ways.\<close>

definition longest :: "nat set \<Rightarrow> nat \<Rightarrow> bool" where
  "longest A k \<longleftrightarrow> (\<exists>s. window A s k) \<and> (\<forall>s w. window A s w \<longrightarrow> w \<le> k)"

lemma bestRun_free:
  assumes "bm_wf b" "0 < Len b" "Len b < 2 ^ 32" "mn \<noteq> 0"
  obtains k fbs where "longest (bm_set b) k" "k \<le> nat (Len b)" "ToBinStrings b = Ret fbs"
    "bestRun mn fbs 0 = Ret (of_nat (if unat mn \<le> k then k else 0))"
proof -
  let ?rs = "runs (lowText b)"
  have rs: "\<forall>r \<in> set ?rs. is_run r" using runs_are_runs by blast
  have c: "concat ?rs = lowText b" by (rule concat_runs)
  have l: "length (concat ?rs) = nat (Len b)" unfolding c by (simp add: lowText_def)
  have "nat (Len b) < 2 ^ 32" using assms(3) by (simp add: nat_less_iff)
  then obtain k s where "bestRun mn ?rs (of_nat 0) = Ret (of_nat (if unat mn \<le> k \<and> 0 < k then k else 0))"
    "k \<le> nat (Len b)" "window (bm_set b) s k" "\<forall>s' w. window (bm_set b) s' w \<longrightarrow> w \<le> k"
    using bestRun_longest [OF rs runs_adjacent assms(4), of 0 0] ones_lowText [OF assms(1)] l
    unfolding c by auto
  moreover have "(if unat mn \<le> k \<and> 0 < k then k else 0) = (if unat mn \<le> k then k else 0)" by auto
  ultimately show thesis using ToBinStrings_runs [OF assms(1,2)] that [of k ?rs]
    by (auto simp: longest_def)
qed

definition scoreOf :: "nat \<Rightarrow> nat \<Rightarrow> nat \<Rightarrow> nat" where
  "scoreOf mx mn k = (if k < mn then 0 else min 100 (k * 100 div mx))"

lemma runScore_of:
  assumes "k < 2 ^ 24" "mn \<noteq> 0" "mx \<noteq> 0"
  shows "runScore mx (of_nat (if unat mn \<le> k then k else 0)) = Ret (of_nat (scoreOf (unat mx) (unat mn) k))"
proof (cases "unat mn \<le> k")
  case True
  define m where "m = unat mx"
  have k: "0 < k" using True assms(2) by (simp add: unat_gt_0 [symmetric])
  have m: "m < 2 ^ 32" "mx = of_nat m" unfolding m_def using unsigned_less [of mx, where 'a = nat] by simp_all
  have d: "of_nat k * 100 div mx = (of_nat (k * 100 div m) :: 32 word)"
  proof -
    have w: "(of_nat k * 100 :: 32 word) = of_nat (k * 100)" by simp
    have "k * 100 < 2 ^ 32" using assms(1) by simp
    then have "unat (of_nat (k * 100) :: 32 word) = k * 100"
      by (subst unsigned_of_nat) (simp add: take_bit_nat_eq_self)
    then show ?thesis unfolding word_arith_nat_div w m_def by simp
  qed
  have "k * 100 div m \<le> k * 100" by simp
  moreover have "k * 100 < 2 ^ 32" using assms(1) by simp
  ultimately have lt: "k * 100 div m < 2 ^ 32" by (rule le_less_trans)
  have "(100 :: 32 word) < of_nat (k * 100 div m) \<longleftrightarrow> 100 < k * 100 div m"
    using word_of_nat_less32 [of 100 "k * 100 div m"] lt by simp
  moreover have "(0 :: 32 word) < of_nat k" using word_of_nat_less32 [of 0 k] k assms(1) by simp
  ultimately show ?thesis using True assms(3) d unfolding m_def [symmetric]
    by (auto simp: runScore_def scoreOf_def Let_def min_def)
qed (simp add: runScore_def scoreOf_def)

definition longestRun :: "nat set \<Rightarrow> nat" where
  "longestRun A = (GREATEST k. \<exists>s. window A s k)"

lemma longestRun_eq: "longest A k \<Longrightarrow> longestRun A = k"
  unfolding longestRun_def longest_def by (rule Greatest_equality) blast+

lemma longest_interval: "longest {a..<b} (b - a)"
proof -
  have "w \<le> b - a" if "window {a..<b} s w" for s w
    using card_mono [of "{a..<b}" "{s..<s + w}"] that by (simp add: window_def)
  moreover have "window {a..<b} a (b - a)" by (auto simp: window_def)
  ultimately show ?thesis by (auto simp: longest_def)
qed

definition wanted :: "32 word option \<Rightarrow> string \<Rightarrow> bool" where
  "wanted cid k = (case cid of None \<Rightarrow> True | Some c \<Rightarrow> c = of_int (fst (Atoi k)))"

lemma retrimCache_put:
  "k \<notin> fst ` set acc \<Longrightarrow>
   retrimCache k cid (al_put k s acc) = (if wanted cid k then acc @ [(k, s)] else acc)"
  by (auto simp: retrimCache_def wanted_def al_put_fresh filter_id_conv split: option.splits)

lemma scoreLoop_spec:
  assumes "mn \<noteq> 0" "mx \<noteq> 0" "distinct (map fst acc @ map fst av)"
    "\<And>k v. (k, v) \<in> set av \<Longrightarrow> \<exists>b. v = Some b \<and> bm_wf b \<and> 0 < Len b \<and> Len b < 2 ^ 24"
  shows "scoreLoop mx mn cid av acc = Ret (acc @
    map (\<lambda>(k, v). (k, of_nat (scoreOf (unat mx) (unat mn) (longestRun (bm_set (the v))))))
      (filter (\<lambda>(k, v). wanted cid k) av))"
  using assms(3,4)
proof (induction av arbitrary: acc)
  case (Cons e av)
  obtain k v where e: "e = (k, v)" by fastforce
  obtain b where b: "v = Some b" "bm_wf b" "0 < Len b" "Len b < 2 ^ 24" using Cons.prems(2) e by auto
  then have "Len b < 2 ^ 32" by simp
  from bestRun_free [OF b(2,3) this assms(1)] obtain n fbs where
    n: "longest (bm_set b) n" "n \<le> nat (Len b)" "ToBinStrings b = Ret fbs"
    "bestRun mn fbs 0 = Ret (of_nat (if unat mn \<le> n then n else 0))" by blast
  let ?s = "of_nat (scoreOf (unat mx) (unat mn) n) :: 32 word"
  let ?acc = "if wanted cid k then acc @ [(k, ?s)] else acc"
  have "nat (Len b) < 2 ^ 24" using b(4) by (simp add: nat_less_iff)
  then have "n < 2 ^ 24" using n(2) by linarith
  then have "scoreLoop mx mn cid (e # av) acc = scoreLoop mx mn cid av (retrimCache k cid (al_put k ?s acc))"
    using n(3,4) runScore_of [OF _ assms(1,2), of n] b(1) e by (simp add: deref_def)
  also have "\<dots> = scoreLoop mx mn cid av ?acc"
    using Cons.prems(1) e by (subst retrimCache_put) auto
  also have "\<dots> = Ret (?acc @
    map (\<lambda>(k, v). (k, of_nat (scoreOf (unat mx) (unat mn) (longestRun (bm_set (the v))))))
      (filter (\<lambda>(k, v). wanted cid k) av))"
    using Cons.prems e by (intro Cons.IH) auto
  finally show ?case using e b(1) longestRun_eq [OF n(1)] by simp
qed simp

end
