(* ===== verification/CacheInfo.thy ===== *)
theory CacheInfo
  imports Hospitality
begin

text \<open>
  What the REST interface says about the caches (\<^verbatim>\<open>modules/cache/cache.go\<close>,
  \<^verbatim>\<open>modules/cache/caches_api.go\<close>): a summary of all levels and the details of the last level cache,
  which the workload module also uses to find the sockets of a workload.
\<close>

section \<open>Summary\<close>

record Summary =
  sumNum :: int
  IDs :: "string list"

record CachesSummary =
  csRdt :: bool
  Cqm :: bool
  Cdp :: bool
  CdpOn :: bool
  Cat :: bool
  CatOn :: bool
  csCaches :: "(string \<times> Summary) list"

fun getCaches :: "host \<Rightarrow> string list \<Rightarrow> (string \<times> Summary) list \<Rightarrow> goerror option \<times> (string \<times> Summary) list" where
  "getCaches H [] cs = (None, cs)"
| "getCaches H (l # levs) cs =
     (case Atoi l of
        (_, Some e) \<Rightarrow> (num_err (Some e) l, cs)
      | (il, None) \<Rightarrow>
          (case GetSysCaches H il of
             (_, Some e) \<Rightarrow> (Some e, cs)
           | (caches, None) \<Rightarrow>
               getCaches H levs
                 (al_put (''l'' @ l) \<lparr>sumNum = int (length caches), IDs = map (\<lambda>(_, v). cacheNo v) caches\<rparr> cs)))"

text \<open>Every error ends the work but is not reported.\<close>

definition CachesSummary_Get :: "host \<Rightarrow> CachesSummary \<Rightarrow> goerror option \<times> CachesSummary" where
  "CachesSummary_Get H c =
     (case IsRdtAvailable (hfs H) of
        (_, Some _) \<Rightarrow> (None, c)
      | (rdt, None) \<Rightarrow>
          (let c1 = c\<lparr>csRdt := rdt, Cat := rdt\<rparr>
           in case IsCqmAvailable (hfs H) of
                (_, Some _) \<Rightarrow> (None, c1)
              | (cqm, None) \<Rightarrow>
                  (let c2 = c1\<lparr>Cqm := cqm\<rparr>
                   in case IsCdpAvailable (hfs H) of
                        (_, Some _) \<Rightarrow> (None, c2)
                      | (cdp, None) \<Rightarrow>
                          (let c3 = c2\<lparr>Cdp := cdp, CatOn := IsEnableCat (hfs H) (sysResctrl H),
                                       CdpOn := IsEnableCdp (hfs H) (sysResctrl H)\<rparr>
                           in case AvailableCacheLevel H of
                                (_, Some _) \<Rightarrow> (None, c3)
                              | (levs, None) \<Rightarrow> (None, c3\<lparr>csCaches := snd (getCaches H levs [])\<rparr>)))))"

section \<open>Details of the last level cache\<close>

record Info =
  infoID :: "32 word"
  NumWays :: "32 word"
  NumSets :: "32 word"
  LineSize :: "32 word"
  TotalSize :: "32 word"
  WaySize :: "32 word"
  CacheLevel :: "32 word"
  Location :: string
  Node :: string
  ShareCPUList :: string
  AvailableWays :: string
  AvailableCPUs :: string
  AvailableIsoCPUs :: string
  AvailablePolicy :: "(string \<times> 32 word) list"
  AvailableWaysPool :: "(string \<times> string) list"

record Infos =
  infosNum :: "32 word"
  Caches :: "(32 word \<times> Info) list"

definition zeroInfos :: Infos where
  "zeroInfos = \<lparr>infosNum = 0, Caches = []\<rparr>"

definition word_arg :: "string \<Rightarrow> 32 word" where
  "word_arg s = of_int (fst (Atoi s))"

text \<open>A pool the configuration does not have is a nil map; another error is reported.\<close>

definition poolMap :: "host \<Rightarrow> (string \<times> ResAssociation) list \<Rightarrow> string \<Rightarrow> string \<Rightarrow> cache_state
    \<Rightarrow> ((goerror option \<times> (string \<times> bitmap option) list option) \<times> cache_state) outcome" where
  "poolMap H allres pool cacheLevel st =
     andThen (GetAvailableCacheSchemata H allres [''infra'', ''.''] pool cacheLevel st) (\<lambda>((av, err), st').
       Ret (case err of
              None \<Rightarrow> ((None, Some av), st')
            | Some e \<Rightarrow> ((Some e, None), st')))"

fun poolMaps :: "host \<Rightarrow> (string \<times> ResAssociation) list \<Rightarrow> string \<Rightarrow> string list \<Rightarrow> cache_state
    \<Rightarrow> ((goerror + (string \<times> bitmap option) list option list) \<times> cache_state) outcome" where
  "poolMaps H allres cacheLevel [] st = Ret (Inr [], st)"
| "poolMaps H allres cacheLevel (p # ps) st =
     andThen (poolMap H allres p cacheLevel st) (\<lambda>((err, av), st1).
       if (case err of Some e \<Rightarrow> \<not> unsupportedPool e | None \<Rightarrow> False)
       then Ret (Inl (AppErrorf StatusInternalServerError ''Unable to read cache schemata; %s''), st1)
       else andThen (poolMaps H allres cacheLevel ps st1) (\<lambda>(r, st2).
              Ret (case r of Inl e \<Rightarrow> (Inl e, st2) | Inr avs \<Rightarrow> (Inr (av # avs), st2))))"

text \<open>The text of one pool for one cache; only the \<^verbatim>\<open>os\<close> pool is read without asking for the key.\<close>

definition poolText :: "string \<Rightarrow> string \<Rightarrow> (string \<times> bitmap option) list option \<Rightarrow> (string \<times> string) list
    \<Rightarrow> (string \<times> string) list outcome" where
  "poolText cid key av acc =
     (case av of
        None \<Rightarrow> Ret acc
      | Some m \<Rightarrow>
          (case map_of m cid of
             None \<Rightarrow> if key = ''os'' then Panic NilDereference else Ret acc
           | Some p \<Rightarrow> andThen (deref p) (\<lambda>b. andThen (ToHumanString b) (\<lambda>t. Ret (al_put key t acc)))))"

fun poolTexts :: "string \<Rightarrow> (string \<times> (string \<times> bitmap option) list option) list \<Rightarrow> (string \<times> string) list
    \<Rightarrow> (string \<times> string) list outcome" where
  "poolTexts cid [] acc = Ret acc"
| "poolTexts cid ((key, av) # avs) acc = andThen (poolText cid key av acc) (\<lambda>acc'. poolTexts cid avs acc')"

text \<open>CPUs of a pool that are still in the default group.\<close>

definition freeCPUs :: "bitmap option \<Rightarrow> (string \<times> bitmap) list \<Rightarrow> string \<Rightarrow> string outcome" where
  "freeCPUs defaultCpus pool cid =
     (case map_of pool cid of
        None \<Rightarrow> Ret []
      | Some item \<Rightarrow> andThen (deref2 bm_And (Some item) defaultCpus) ToHumanString)"

text \<open>A policy value of Go type \<^verbatim>\<open>int64\<close>; the YAML and TOML readers give it in TOML files.\<close>

definition asInt64 :: "pval option \<Rightarrow> int option" where
  "asInt64 v = (case v of Some (VInt64 i) \<Rightarrow> Some i | _ \<Rightarrow> None)"

definition errArg :: "goerror option \<Rightarrow> err_arg" where
  "errArg e = (case e of None \<Rightarrow> EUnknown | Some e' \<Rightarrow> EErr e')"

definition cacheParam :: "Module \<Rightarrow> string \<Rightarrow> string \<Rightarrow> goerror option \<Rightarrow> goerror + int" where
  "cacheParam m key name err =
     (case moduleParam m ''cache'' key of
        None \<Rightarrow> Inl (NewAppError [EInt StatusInternalServerError, EStr (name @ '' cache doesn't exist in policy''), errArg err])
      | Some v \<Rightarrow>
          (case asInt64 (Some v) of
             None \<Rightarrow> Inl (NewAppError [EInt StatusInternalServerError, EStr (''Failed to convert type for '' @ key @ '' cache''), errArg err])
           | Some i \<Rightarrow> Inr i))"

fun policyLoop :: "host \<Rightarrow> policies \<Rightarrow> (string \<times> ResAssociation) list \<Rightarrow> string \<Rightarrow> string \<Rightarrow> goerror option
    \<Rightarrow> (string \<times> 32 word) list \<Rightarrow> cache_state \<Rightarrow> ((goerror + (string \<times> 32 word) list) \<times> cache_state) outcome" where
  "policyLoop H [] allres cacheLevel cid err ap st = Ret (Inr ap, st)"
| "policyLoop H ((policyName, modules) # ps) allres cacheLevel cid err ap st =
     (case cacheParam modules ''max'' ''Max'' err of
        Inl e \<Rightarrow> Ret (Inl e, st)
      | Inr iMax \<Rightarrow>
          (case cacheParam modules ''min'' ''Min'' err of
             Inl e \<Rightarrow> Ret (Inl e, st)
           | Inr iMin \<Rightarrow>
               andThen (getAvailablePolicyCount H iMax iMin allres policyName cacheLevel cid ap st) (\<lambda>(e, ap', st').
                 case e of
                   Some _ \<Rightarrow> Ret (Inl (AppErrorf StatusInternalServerError
                               ''Failed to get available policy count. Reason: %s''), st')
                 | None \<Rightarrow> policyLoop H ps allres cacheLevel cid None ap' st')))"

text \<open>One cache: the record, or the error that ends the request.\<close>

definition cacheInfo :: "host \<Rightarrow> policyEnv \<Rightarrow> 32 word \<Rightarrow> (string \<times> ResAssociation) list
    \<Rightarrow> (string \<times> bitmap option) list \<Rightarrow> (string \<times> (string \<times> bitmap option) list option) list
    \<Rightarrow> goerror option \<Rightarrow> SysCache \<Rightarrow> cache_state \<Rightarrow> ((goerror + Info) \<times> cache_state) outcome" where
  "cacheInfo H pe level allres av pools err sc st =
     andThen (go_index (splitN2 (CHR ''-'') (SharedCPUList sc)) 0) (\<lambda>cpuid.
     andThen (convertCacheSize (Size sc)) (\<lambda>total_size.
     andThen (LocateOnNode (hglob H) cpuid) (\<lambda>node.
     andThen (deref (case map_of av (cacheNo sc) of Some b \<Rightarrow> b | None \<Rightarrow> None)) (\<lambda>ways.
     andThen (poolTexts (cacheNo sc) pools []) (\<lambda>texts.
     andThen (GetCPUPools H) (\<lambda>((every, isolated), _).
     andThen (GetResAssociation (htree H (sysResctrl H)) []) (\<lambda>res.
     andThen (case map_of res ''.'' of
                None \<Rightarrow> Ret None
              | Some r \<Rightarrow> andThen (BitmapsCPUWrapper H (ArgString (CPUs r))) (\<lambda>(b, _). Ret b)) (\<lambda>defaultCpus.
     andThen (freeCPUs defaultCpus every (cacheNo sc)) (\<lambda>cpus.
     andThen (freeCPUs defaultCpus isolated (cacheNo sc)) (\<lambda>isoCpus.
     andThen (GetDefaultPlatformPolicy H pe) (\<lambda>(defPolicy, _).
     andThen (policyLoop H defPolicy allres (levelKey level) (cacheNo sc) err [] st) (\<lambda>(r, st').
       Ret (case r of
              Inl e \<Rightarrow> (Inl e, st')
            | Inr ap \<Rightarrow>
                (Inr \<lparr>infoID = word_arg (cacheNo sc), NumWays = word_arg (WaysOfAssociativity sc),
                      NumSets = word_arg (NumberOfSets sc), LineSize = word_arg (CoherencyLineSize sc),
                      TotalSize = total_size,
                      WaySize = word_arg (CoherencyLineSize sc) * word_arg (NumberOfSets sc),
                      CacheLevel = level, Location = fst (LocateOnSocket (hfs H) cpuid), Node = node,
                      ShareCPUList = SharedCPUList sc, AvailableWays = ToString ways,
                      AvailableCPUs = cpus, AvailableIsoCPUs = isoCpus, AvailablePolicy = ap,
                      AvailableWaysPool = texts\<rparr>, st'))))))))))))))"

fun infoLoop :: "host \<Rightarrow> policyEnv \<Rightarrow> 32 word \<Rightarrow> (string \<times> ResAssociation) list
    \<Rightarrow> (string \<times> bitmap option) list \<Rightarrow> (string \<times> (string \<times> bitmap option) list option) list
    \<Rightarrow> goerror option \<Rightarrow> (string \<times> SysCache) list \<Rightarrow> Infos \<Rightarrow> cache_state
    \<Rightarrow> (goerror option \<times> Infos \<times> cache_state) outcome" where
  "infoLoop H pe level allres av pools err [] c st = Ret (None, c, st)"
| "infoLoop H pe level allres av pools err ((_, sc) # sysc) c st =
     (if map_of (Caches c) (word_arg (cacheNo sc)) \<noteq> None
      then infoLoop H pe level allres av pools err sysc c st
      else andThen (cacheInfo H pe level allres av pools err sc st) (\<lambda>(r, st').
          case r of
            Inl e \<Rightarrow> Ret (Some e, c, st')
          | Inr i \<Rightarrow> infoLoop H pe level allres av pools None sysc
                       (c\<lparr>Caches := al_put (word_arg (cacheNo sc)) i (Caches c), infosNum := infosNum c + 1\<rparr>) st'))"

text \<open>The pools in the order they are read, with the names they are shown under.\<close>

definition poolKeys :: "(string \<times> string) list" where
  "poolKeys = [(''guarantee'', ''guaranteed''), (''besteffort'', ''besteffort''), (''shared'', ''shared''),
     (''infra'', ''infra''), (''os'', ''os'')]"

text \<open>The error that the last of the calls returned and that later messages carry along.\<close>

definition lastErr :: "(string \<times> bitmap option) list option list \<Rightarrow> goerror option" where
  "lastErr avs = (if last avs = None then Some (Errorf ''error doesn't support pool %s'' [''os'']) else None)"

definition GetByLevel :: "host \<Rightarrow> policyEnv \<Rightarrow> 32 word \<Rightarrow> Infos \<Rightarrow> cache_state
    \<Rightarrow> (goerror option \<times> Infos \<times> cache_state) outcome" where
  "GetByLevel H pe level c st =
     andThen (GetLLC H) (\<lambda>llc.
       if llc \<noteq> level
       then Ret (Some (NewAppError [EInt StatusBadRequest, EStr ''Error to get available cache'',
                   EErr (Errorf ''Don't support cache level %d, Only expose last level cache %d'' [])]), c, st)
       else case AvailableCacheLevel H of
         (_, Some e) \<Rightarrow> Ret (Some e, c, st)
       | (_, None) \<Rightarrow>
           (case GetSysCaches H (uint level) of
              (_, Some e) \<Rightarrow> Ret (Some (NewAppError [EInt StatusInternalServerError,
                                EStr ''Error to get available cache'', EErr e]), c, st)
            | (syscaches, None) \<Rightarrow>
                andThen (GetResAssociation (htree H (sysResctrl H)) []) (\<lambda>allres.
                andThen (GetAvailableCacheSchemata H allres [''infra''] ''none'' (levelKey level) st) (\<lambda>((av, err), st1).
                  case err of
                    Some e \<Rightarrow> Ret (Some (AppErrorf StatusInternalServerError ''Unable to read cache schemata; %s''), c, st1)
                  | None \<Rightarrow>
                      andThen (poolMaps H allres (levelKey level) (map fst poolKeys) st1) (\<lambda>(r, st2).
                        case r of
                          Inl e \<Rightarrow> Ret (Some e, c, st2)
                        | Inr avs \<Rightarrow>
                            infoLoop H pe level allres av (zip (map snd poolKeys) avs) (lastErr avs)
                              syscaches (c\<lparr>Caches := []\<rparr>) st2)))))"

section \<open>The REST handlers (caches_api.go)\<close>

definition getCacheLevelFromURL :: "host \<Rightarrow> string \<Rightarrow> (32 word) outcome" where
  "getCacheLevelFromURL H pathLevel =
     (let slev = TrimLeft pathLevel ''l''
      in if slev = ''c'' then GetLLC H else Ret (word_arg slev))"

definition cache_Get :: "host \<Rightarrow> CachesSummary response" where
  "cache_Get H =
     (case CachesSummary_Get H \<lparr>csRdt = False, Cqm = False, Cdp = False, CdpOn = False, Cat = False,
             CatOn = False, csCaches = []\<rparr> of
        (Some e, _) \<Rightarrow> ErrorStatus StatusInternalServerError e
      | (None, c) \<Rightarrow> Entity StatusOK c)"

definition LevelGet :: "host \<Rightarrow> policyEnv \<Rightarrow> string \<Rightarrow> cache_state \<Rightarrow> (Infos response \<times> cache_state) outcome" where
  "LevelGet H pe pathLevel st =
     andThen (getCacheLevelFromURL H pathLevel) (\<lambda>ilev.
       andThen (GetByLevel H pe ilev zeroInfos st) (\<lambda>(err, c, st').
         Ret (case err of
                None \<Rightarrow> (Entity StatusOK c, st')
              | Some e \<Rightarrow> (appErrorResponse e StatusBadRequest, st'))))"

definition GetSpecifiedCache :: "host \<Rightarrow> policyEnv \<Rightarrow> string \<Rightarrow> string \<Rightarrow> cache_state
    \<Rightarrow> (Info response \<times> cache_state) outcome" where
  "GetSpecifiedCache H pe pathLevel pathId st =
     andThen (getCacheLevelFromURL H pathLevel) (\<lambda>ilev.
       case Atoi pathId of
         (_, Some _) \<Rightarrow> Ret (ErrorStatus StatusBadRequest (Errorf ''Please input the correct id, it should be digital'' []), st)
       | (i, None) \<Rightarrow>
           andThen (GetByLevel H pe ilev zeroInfos st) (\<lambda>(err, c, st').
             Ret (case err of
                    Some e \<Rightarrow> (appErrorResponse e StatusInternalServerError, st')
                  | None \<Rightarrow>
                      (case map_of (Caches c) (of_int i) of
                         None \<Rightarrow> (ErrorStatus StatusNotFound (Errorf ''Cache id %d for level %d is not found'' []), st')
                       | Some ci \<Rightarrow> (Entity StatusOK ci, st')))))"

end
