(* ===== verification/Plugins.thy ===== *)
theory Plugins
  imports Types Util
begin

text \<open>
  Loadable modules (\<^verbatim>\<open>internal/plugins\<close>) and the generic calls to them through the privileged
  process (\<^verbatim>\<open>internal/proxy/client/generic.go\<close>, \<^verbatim>\<open>internal/proxy/server/generic.go\<close>). The
  modules themselves are shared objects and parameters: what one answers may depend on the calls made
  before.
\<close>

type_synonym plist = "(string \<times> pval) list"

datatype plugCall = PlugEnforce string plist | PlugRelease string plist

text \<open>
  \<open>Interfaces\<close> has an entry for every registered name, \<open>False\<close> for a nil pointer.
\<close>

record pluginEnv =
  Interfaces :: "(string \<times> bool) list"
  mValidate :: "string \<Rightarrow> plist \<Rightarrow> goerror option"
  mEnforce :: "plugCall list \<Rightarrow> string \<Rightarrow> plist \<Rightarrow> string with_err"
  mRelease :: "plugCall list \<Rightarrow> string \<Rightarrow> plist \<Rightarrow> goerror option"

definition notLoaded :: "string \<Rightarrow> goerror" where
  "notLoaded m = Errorf ''Plugin '%v' is not loaded'' [m]"

definition nilPlugin :: goerror where
  "nilPlugin = Errorf ''Internal error: nil pointer to plugin'' []"

definition plugins_Enforce :: "pluginEnv \<Rightarrow> string \<Rightarrow> plist \<Rightarrow> plugCall list \<Rightarrow> string with_err \<times> plugCall list" where
  "plugins_Enforce pe m params h =
     (case map_of (Interfaces pe) m of
        None \<Rightarrow> (([], Some (notLoaded m)), h)
      | Some False \<Rightarrow> (([], Some nilPlugin), h)
      | Some True \<Rightarrow> (mEnforce pe h m params, h @ [PlugEnforce m params]))"

definition plugins_Release :: "pluginEnv \<Rightarrow> string \<Rightarrow> plist \<Rightarrow> plugCall list \<Rightarrow> goerror option \<times> plugCall list" where
  "plugins_Release pe m params h =
     (case map_of (Interfaces pe) m of
        None \<Rightarrow> (Some (notLoaded m), h)
      | Some False \<Rightarrow> (Some nilPlugin, h)
      | Some True \<Rightarrow> (mRelease pe h m params, h @ [PlugRelease m params]))"

definition plugins_Validate :: "pluginEnv \<Rightarrow> string \<Rightarrow> plist \<Rightarrow> goerror option" where
  "plugins_Validate pe m params =
     (case map_of (Interfaces pe) m of
        None \<Rightarrow> Some (notLoaded m)
      | Some False \<Rightarrow> Some nilPlugin
      | Some True \<Rightarrow> mValidate pe m params)"

text \<open>\<open>iface\<close>: whether the pointer handed over is not nil.\<close>

definition plugins_Store :: "string \<Rightarrow> bool \<Rightarrow> pluginEnv \<Rightarrow> goerror option \<times> pluginEnv" where
  "plugins_Store name iface pe =
     (if name = [] \<or> \<not> iface then (Some (Errorf ''Invalid parameter'' []), pe)
      else if map_of (Interfaces pe) name \<noteq> None
      then (Some (Errorf ''Module already registered under this name'' []), pe)
      else (None, pe\<lparr>Interfaces := al_put name iface (Interfaces pe)\<rparr>))"

section \<open>Through the privileged process\<close>

text \<open>The server takes the module name back out of the parameters.\<close>

definition moduleOf :: "plist \<Rightarrow> goerror + (string \<times> plist)" where
  "moduleOf params =
     (case map_of params ''RMDMODULE'' of
        None \<Rightarrow> Inl (Errorf ''No RMD module specified'' [])
      | Some (VString m) \<Rightarrow> Inr (m, filter (\<lambda>e. fst e \<noteq> ''RMDMODULE'') params)
      | Some _ \<Rightarrow> Inl (Errorf ''Failed to convert type for RMDMODULE'' []))"

definition Proxy_Enforce :: "pluginEnv \<Rightarrow> plist \<Rightarrow> plugCall list \<Rightarrow> string with_err \<times> plugCall list" where
  "Proxy_Enforce pe params h =
     (case moduleOf params of
        Inl e \<Rightarrow> (([], Some e), h)
      | Inr (m, ps) \<Rightarrow> plugins_Enforce pe m ps h)"

definition Proxy_Release :: "pluginEnv \<Rightarrow> plist \<Rightarrow> plugCall list \<Rightarrow> goerror option \<times> plugCall list" where
  "Proxy_Release pe params h =
     (case moduleOf params of
        Inl e \<Rightarrow> (Some e, h)
      | Inr (m, ps) \<Rightarrow> plugins_Release pe m ps h)"

definition client_Enforce :: "bool \<Rightarrow> pluginEnv \<Rightarrow> string \<Rightarrow> plist \<Rightarrow> plugCall list \<Rightarrow> string with_err \<times> plugCall list" where
  "client_Enforce up pe m params h =
     (if \<not> up then (([], Some (Errorf ''connection is shut down'' [])), h)
      else case Proxy_Enforce pe (al_put ''RMDMODULE'' (VString m) params) h of
             ((_, Some e), h') \<Rightarrow> (([], Some e), h')
           | ((r, None), h') \<Rightarrow> ((r, None), h'))"

definition client_Release :: "bool \<Rightarrow> pluginEnv \<Rightarrow> string \<Rightarrow> plist \<Rightarrow> plugCall list \<Rightarrow> goerror option \<times> plugCall list" where
  "client_Release up pe m params h =
     (if \<not> up then (Some (Errorf ''connection is shut down'' []), h)
      else Proxy_Release pe (al_put ''RMDMODULE'' (VString m) params) h)"

section \<open>What a plugin receives\<close>

lemma moduleOf_put:
  "moduleOf (al_put ''RMDMODULE'' (VString m) params) = Inr (m, filter (\<lambda>e. fst e \<noteq> ''RMDMODULE'') params)"
proof -
  have "filter (\<lambda>e. fst e \<noteq> k) (al_put k v params) = filter (\<lambda>e. fst e \<noteq> k) params" for k and v :: pval
    by (induction params) auto
  then show ?thesis by (simp add: moduleOf_def)
qed

text \<open>
  The parameters reach the plugin unchanged when none of them is called \<^verbatim>\<open>RMDMODULE\<close>.
\<close>

lemma client_Enforce_delivers:
  assumes "''RMDMODULE'' \<notin> fst ` set params" "map_of (Interfaces pe) m = Some True"
  shows "snd (client_Enforce True pe m params h) = h @ [PlugEnforce m params]"
    "fst (client_Enforce True pe m params h) =
       (case mEnforce pe h m params of (_, Some e) \<Rightarrow> ([], Some e) | (r, None) \<Rightarrow> (r, None))"
proof -
  have f: "filter (\<lambda>e. fst e \<noteq> ''RMDMODULE'') params = params"
    using assms(1) by (force simp: filter_id_conv)
  show "snd (client_Enforce True pe m params h) = h @ [PlugEnforce m params]"
    "fst (client_Enforce True pe m params h) =
       (case mEnforce pe h m params of (_, Some e) \<Rightarrow> ([], Some e) | (r, None) \<Rightarrow> (r, None))"
    using assms(2)
    by (auto simp: client_Enforce_def Proxy_Enforce_def moduleOf_put f plugins_Enforce_def
        split: prod.splits option.splits)
qed

end
