(* ===== verification/Workload.thy ===== *)
theory Workload
  imports CacheInfo Plugins
begin

text \<open>
  Workloads (\<^verbatim>\<open>modules/workload/workload.go\<close>): checking a request, choosing cache ways and memory
  bandwidth for it, programming a class of service, and giving it back. The state is everything the
  package and the packages below it keep; the environment is what they ask: the host, the resctrl tree
  the kernel shows after the calls made so far, the PQoS library, the plugins, the store. The handlers
  run under one lock, so an operation is one step of the state.
\<close>

section \<open>State and environment\<close>

record 'b rmd_env =
  ehost :: host
  eres :: "pqos_call list \<Rightarrow> fsop list \<Rightarrow> fnode option"
  epqos :: pqos_env
  eup :: bool
  eos :: os
  ecodec :: codec
  ebolt :: "'b bolt"
  epolicy :: policyEnv
  esched :: "int \<Rightarrow> int \<times> 64 word list"
  eplugins :: pluginEnv
  eParseFloat :: "string \<Rightarrow> rat option"
  eWiden :: "rat \<Rightarrow> rat"
  estat :: "string \<Rightarrow> bool option"

record 'b rmd =
  cst :: cache_state
  cpool :: clos_pool
  pqs :: pqos_state
  fsops :: "fsop list"
  plugCalls :: "plugCall list"
  store :: 'b
  dbOpen :: bool
  isMbaSupported :: bool
  isL3CATSupported :: bool
  isMbaMbpsAvailable :: bool
  mbaMaxValue :: "32 word"
  mbaValue :: "32 word"

definition hostAt :: "'b rmd_env \<Rightarrow> 'b rmd \<Rightarrow> host" where
  "hostAt E s = (ehost E)\<lparr>htree := (\<lambda>p. if p = sysResctrl (ehost E) then eres E (calls (pqs s)) (fsops s)
                                          else htree (ehost E) p)\<rparr>"

text \<open>\<^verbatim>\<open>proxyclient.GetResAssociation(pqos.GetAvailableCLOSes())\<close>.\<close>

definition resNow :: "'b rmd_env \<Rightarrow> 'b rmd \<Rightarrow> (string \<times> ResAssociation) list outcome" where
  "resNow E s = GetResAssociation (htree (hostAt E s) (sysResctrl (ehost E))) (GetAvailableCLOSes (cpool s))"

definition commitRes :: "'b rmd_env \<Rightarrow> ResAssociation \<Rightarrow> string \<Rightarrow> 'b rmd \<Rightarrow> (goerror option \<times> 'b rmd) outcome" where
  "commitRes E r name s =
     andThen (Commit (eup E) (epqos E) r name (pqs s)) (\<lambda>(e, pq). Ret (e, s\<lparr>pqs := pq\<rparr>))"

definition destroyRes :: "'b rmd_env \<Rightarrow> string \<Rightarrow> 'b rmd \<Rightarrow> 'b rmd" where
  "destroyRes E name s =
     (if eup E
      then s\<lparr>fsops := snd (Proxy_DestroyResAssociation (eos E) (sysResctrl (ehost E)) name (fsops s))\<rparr>
      else s)"

definition setOS :: "'b rmd_env \<Rightarrow> 'b rmd \<Rightarrow> (goerror option \<times> 'b rmd) outcome" where
  "setOS E s =
     andThen (SetOSGroup (hostAt E s) (cpool s) (eup E) (epqos E) (cst s, pqs s)) (\<lambda>(e, c, pq).
       Ret (e, s\<lparr>cst := c, pqs := pq\<rparr>))"

section \<open>Policies\<close>

fun pluginParams :: "Module \<Rightarrow> (string, params) gomap \<Rightarrow> (string, params) gomap" where
  "pluginParams [] ps = ps"
| "pluginParams ((m, data) # ms) ps =
     pluginParams ms (if m = ''cache'' \<or> m = ''mba'' then ps else Some (al_put m (Some data) (gm_items ps)))"

definition fillWorkloadByPolicy :: "'b rmd_env \<Rightarrow> RDTWorkLoad \<Rightarrow> (goerror option \<times> RDTWorkLoad) outcome" where
  "fillWorkloadByPolicy E w =
     (if length (Policy w) = 0 then Ret (Some (Errorf ''No policy in provided workload object'' []), w)
      else andThen (GetDefaultPolicy (ehost E) (epolicy E) (Policy w)) (\<lambda>(pol, err).
        case err of
          Some e \<Rightarrow> Ret (Some (Errorf ''Could not find the Policy. %v'' []), w)
        | None \<Rightarrow>
            let w1 = (case (asInt64 (moduleParam pol ''cache'' ''max''), asInt64 (moduleParam pol ''cache'' ''min'')) of
                        (Some mx, Some mn) \<Rightarrow> w\<lparr>cacheMax := Some (of_int mx), cacheMin := Some (of_int mn)\<rparr>
                      | _ \<Rightarrow> w)
            in if (cacheMax w1 = None) \<noteq> (cacheMin w1 = None)
               then Ret (Some (Errorf ''Invalid policy - exactly one *Cache param defined'' []), w1)
               else let w2 = (case asInt (moduleParam pol ''mba'' ''percentage'') of
                                Some v \<Rightarrow> w1\<lparr>mbaPercentage := Some (of_int v)\<rparr> | None \<Rightarrow> w1)
                    in Ret (None, w2\<lparr>Plugins := pluginParams pol (Plugins w2)\<rparr>)))"

section \<open>Core and task identifiers\<close>

fun prepareCoreIDs :: "string list \<Rightarrow> int list \<Rightarrow> (int list) with_err" where
  "prepareCoreIDs [] coreids = (coreids, None)"
| "prepareCoreIDs (value # w) coreids =
     (case indexOf ''-'' value of
        Some dashPosition \<Rightarrow>
          (let beforeDashStr = TrimSpace (take dashPosition value);
               afterDashStr = TrimSpace (drop (dashPosition + 1) value)
           in case Atoi beforeDashStr of
                (_, Some e) \<Rightarrow> (coreids, num_err (Some e) beforeDashStr)
              | (beforeDash, None) \<Rightarrow>
                  (case Atoi afterDashStr of
                     (_, Some e) \<Rightarrow> (coreids, num_err (Some e) afterDashStr)
                   | (afterDash, None) \<Rightarrow>
                       if beforeDash > afterDash then (coreids, Some (Errorf ''Wrong syntax for coreIDs'' []))
                       else prepareCoreIDs w (coreids @ [beforeDash..afterDash])))
      | None \<Rightarrow>
          (case Atoi (TrimSpace value) of
             (_, Some _) \<Rightarrow> (coreids, Some (Errorf ''Invalid core id in array: %s'' [value]))
           | (intid, None) \<Rightarrow> prepareCoreIDs w (coreids @ [intid])))"

definition withIds :: "int list \<Rightarrow> int list \<Rightarrow> plist \<Rightarrow> plist" where
  "withIds cpus tasks ps = al_put ''TASKS'' (VInts tasks) (al_put ''CPUS'' (VInts cpus) ps)"

definition unify :: "'b rmd_env \<Rightarrow> params \<Rightarrow> plist with_err" where
  "unify E ps = UnifyMapParamsTypes (eParseFloat E) (eWiden E) (gm_items ps)"

section \<open>Validation of a request\<close>

definition loadedPlugin :: "'b rmd_env \<Rightarrow> string \<Rightarrow> goerror option" where
  "loadedPlugin E m =
     (case map_of (Interfaces (eplugins E)) m of
        None \<Rightarrow> Some (NewAppError [EInt StatusBadRequest, EStr ''Trying to use module that is not loaded''])
      | Some False \<Rightarrow> Some (NewAppError [EInt StatusInternalServerError, EStr ''Error when processing loaded modules''])
      | Some True \<Rightarrow> None)"

fun validatePlugins :: "'b rmd_env \<Rightarrow> RDTWorkLoad \<Rightarrow> (string \<times> params) list \<Rightarrow> goerror option" where
  "validatePlugins E w [] = None"
| "validatePlugins E w ((m, ps) # rest) =
     (case loadedPlugin E m of
        Some e \<Rightarrow> Some e
      | None \<Rightarrow>
          (case unify E ps of
             (_, Some e) \<Rightarrow> Some e
           | (paramsMap, None) \<Rightarrow>
               (case prepareCoreIDs (CoreIDs w) [] of
                  (_, Some _) \<Rightarrow> Some (NewAppError [EInt StatusBadRequest, EStr ''Invalid params (core ids) received''])
                | (cpus, None) \<Rightarrow>
                    (case prepareCoreIDs (TaskIDs w) [] of
                       (_, Some _) \<Rightarrow> Some (NewAppError [EInt StatusBadRequest, EStr ''Invalid params (task ids) received''])
                     | (tasks, None) \<Rightarrow>
                         (case mValidate (eplugins E) m (withIds cpus tasks paramsMap) of
                            Some e \<Rightarrow> Some (NewAppError [EInt StatusBadRequest, EStr ''Invalid params received'', EErr e])
                          | None \<Rightarrow> validatePlugins E w rest)))))"

text \<open>The bandwidth value of the request goes to the package variable.\<close>

definition requestMba :: "RDTWorkLoad \<Rightarrow> 'b rmd \<Rightarrow> goerror + 'b rmd" where
  "requestMba w s =
     (if isMbaSupported s
      then if isMbaMbpsAvailable s
           then if mbaPercentage w \<noteq> None then Inl (Errorf ''Please provide MBA in Mbps'' [])
                else Inr (case mbaMbps w of Some v \<Rightarrow> s\<lparr>mbaValue := v\<rparr> | None \<Rightarrow> s)
           else if mbaMbps w \<noteq> None then Inl (Errorf ''Please provide MBA in Percentage'' [])
                else Inr (case mbaPercentage w of Some v \<Rightarrow> s\<lparr>mbaValue := v\<rparr> | None \<Rightarrow> s)
      else Inr s)"

definition checkMba :: "RDTWorkLoad \<Rightarrow> 'b rmd \<Rightarrow> goerror option" where
  "checkMba w s =
     (if mbaMbps w \<noteq> None \<or> mbaPercentage w \<noteq> None
      then if (case (cacheMax w, cacheMin w) of
                 (Some mx, Some mn) \<Rightarrow> (mx \<noteq> mn \<and> mbaValue s \<noteq> mbaMaxValue s) \<or>
                                      (mn = 0 \<and> mx = 0 \<and> mbaValue s \<noteq> mbaMaxValue s)
               | _ \<Rightarrow> False)
           then Some (Errorf ''MBA only supported for Guaranteed Request and not for BestEffort and Shared'' [])
           else if mbaValue s > mbaMaxValue s \<or> mbaValue s \<le> 0
           then Some (Errorf ''MBA values in should range from 1 to %d'' [Itoa (uint (mbaMaxValue s))])
           else None
      else None)"

definition checkSupport :: "RDTWorkLoad \<Rightarrow> 'b rmd \<Rightarrow> goerror option" where
  "checkSupport w s =
     (if isL3CATSupported s \<and> isMbaSupported s
      then if cacheMax w = None \<and> cacheMin w = None \<and> (mbaPercentage w \<noteq> None \<or> mbaMbps w \<noteq> None)
           then Some (Errorf ''Need to provide both cache and mba for better performance'' []) else None
      else if isL3CATSupported s
      then if mbaPercentage w \<noteq> None \<or> mbaMbps w \<noteq> None
           then Some (Errorf ''This machine supports only cache and not MBA'' []) else None
      else if cacheMax w \<noteq> None \<and> cacheMin w \<noteq> None
           then Some (Errorf ''This machine supports only MBA and not cache'' []) else None)"

definition validate :: "'b rmd_env \<Rightarrow> RDTWorkLoad \<Rightarrow> 'b rmd \<Rightarrow> (goerror option \<times> RDTWorkLoad \<times> 'b rmd) outcome" where
  "validate E w s =
     (if TaskIDs w = [] \<and> CoreIDs w = [] then Ret (Some (Errorf ''No task or core id specified'' []), w, s)
      else andThen (ListProcesses (hfs (ehost E)) (hglob (ehost E))) (\<lambda>ps.
        case find (\<lambda>task. map_of ps task = None) (TaskIDs w) of
          Some task \<Rightarrow> Ret (Some (Errorf ''The task: %s does not exist'' [task]), w, s)
        | None \<Rightarrow>
            if Policy w \<noteq> []
            then andThen (fillWorkloadByPolicy E w) (\<lambda>(e, w'). Ret (e, w', s))
            else if (cacheMax w = None) \<noteq> (cacheMin w = None)
            then Ret (Some (Errorf ''Need to provide both cache.* or none of them'' []), w, s)
            else case requestMba w s of
              Inl e \<Rightarrow> Ret (Some e, w, s)
            | Inr s1 \<Rightarrow>
                Ret (case checkMba w s1 of
                       Some e \<Rightarrow> (Some e, w, s1)
                     | None \<Rightarrow>
                         (case checkSupport w s1 of
                            Some e \<Rightarrow> (Some e, w, s1)
                          | None \<Rightarrow>
                              (case validatePlugins E w (gm_items (Plugins w)) of
                                 Some e \<Rightarrow> (Some e, w, s1)
                               | None \<Rightarrow>
                                   if (cacheMax w \<noteq> None \<and> cacheMin w \<noteq> None) \<or> mbaPercentage w \<noteq> None \<or>
                                      0 < length (gm_items (Plugins w))
                                   then (None, w, s1)
                                   else (Some (Errorf ''No RDT/Plugins params in workload'' []), w, s1))))))"

section \<open>The request that is enforced\<close>

definition inCacheList :: "32 word \<Rightarrow> 32 word list \<Rightarrow> bool" where
  "inCacheList socket socketList = (if length socketList = 0 then True else socket \<in> set socketList)"

text \<open>The CPUs a workload may run on: its cores and the affinity of its tasks.\<close>

fun affinityOr :: "(int \<Rightarrow> int \<times> 64 word list) \<Rightarrow> int \<Rightarrow> string list \<Rightarrow> bitmap \<Rightarrow> bitmap outcome" where
  "affinityOr sched cpunum [] cpubm = Ret cpubm"
| "affinityOr sched cpunum (t # taskids) cpubm =
     andThen (case GetCPUAffinity sched t of
                (Some b, None) \<Rightarrow> Ret b
              | (None, None) \<Rightarrow> Panic NilDereference
              | (_, Some _) \<Rightarrow> NewBitmapIgn [ArgInt cpunum, ArgString (replicate 100 (CHR ''f''))]) (\<lambda>af.
       andThen (bm_Or cpubm af) (\<lambda>b. affinityOr sched cpunum taskids b))"

fun socketLoop :: "int \<Rightarrow> bitmap \<Rightarrow> Info list \<Rightarrow> 32 word list outcome" where
  "socketLoop cpunum cpubm [] = Ret []"
| "socketLoop cpunum cpubm (c # cs) =
     andThen (NewBitmapIgn [ArgInt cpunum, ArgStrings (split_on (CHR ''\<newline>'') (ShareCPUList c))]) (\<lambda>bm.
       andThen (bm_And cpubm bm) (\<lambda>b.
         andThen (socketLoop cpunum cpubm cs) (\<lambda>ids.
           Ret (if IsEmpty b then ids else infoID c # ids))))"

definition getSocketIDs :: "(int \<Rightarrow> int \<times> 64 word list) \<Rightarrow> string list \<Rightarrow> string \<Rightarrow> Infos \<Rightarrow> int \<Rightarrow> 32 word list outcome" where
  "getSocketIDs sched taskids cpubitmap cacheinfos cpunum =
     andThen (NewBitmapIgn [ArgInt cpunum, ArgString cpubitmap]) (\<lambda>cpubm0.
       andThen (affinityOr sched cpunum taskids cpubm0) (\<lambda>cpubm.
         socketLoop cpunum cpubm (map snd (Caches cacheinfos))))"

text \<open>The values of the request itself, when no policy is named.\<close>

definition mbaAllowed :: "RDTWorkLoad \<Rightarrow> 'b rmd \<Rightarrow> bool" where
  "mbaAllowed w s =
     (case (cacheMax w, cacheMin w) of
        (None, None) \<Rightarrow> True
      | (Some mx, Some mn) \<Rightarrow>
          (mx = mn \<and> mx > 0) \<or> (mx \<noteq> mn \<and> mbaValue s = mbaMaxValue s) \<or>
          (mx = 0 \<and> mn = 0 \<and> mbaValue s = mbaMaxValue s)
      | _ \<Rightarrow> False)"

definition mbaEnabled :: "'b rmd_env \<Rightarrow> bool" where
  "mbaEnabled E =
     fst (IsEnableMba (hfs (ehost E)) (estat E) (sysResctrl (ehost E)) (sysResctrl (ehost E) @ ''/info/MB''))"

definition requestByParams :: "'b rmd_env \<Rightarrow> RDTWorkLoad \<Rightarrow> EnforceRequest \<Rightarrow> 'b rmd \<Rightarrow> goerror option \<times> EnforceRequest" where
  "requestByParams E w req s =
     (let req1 = (case cacheMin w of Some v \<Rightarrow> req\<lparr>MinWays := v\<rparr> | None \<Rightarrow> req);
          req2 = (case cacheMax w of Some v \<Rightarrow> req1\<lparr>MaxWays := v\<rparr> | None \<Rightarrow> req1);
          req3 = (if cacheMin w \<noteq> None \<and> cacheMax w \<noteq> None then req2\<lparr>UseCache := True\<rparr> else req2)
      in if mbaPercentage w \<noteq> None \<or> mbaMbps w \<noteq> None
         then if \<not> isMbaSupported s
              then (Some (NewAppError [EInt StatusInternalServerError, EStr ''MBA is not supported in this machine'']), req3)
              else if \<not> mbaEnabled E
              then (Some (NewAppError [EInt StatusInternalServerError, EStr ''Please enable MBA in resctrl fs'']), req3)
              else if mbaAllowed w s then (None, req3\<lparr>UseMba := True\<rparr>)
              else (Some (NewAppError [EInt StatusInternalServerError,
                      EStr ''MBA is only supported for Guarantee Cache Request'']), req3)
         else (None, req3))"

definition requestByPolicy :: "'b rmd_env \<Rightarrow> RDTWorkLoad \<Rightarrow> EnforceRequest \<Rightarrow> (goerror option \<times> EnforceRequest) outcome" where
  "requestByPolicy E w req =
     andThen (GetDefaultPolicy (ehost E) (epolicy E) (Policy w)) (\<lambda>(pol, err).
       case err of
         Some e \<Rightarrow> Ret (Some (NewAppError [EInt StatusInternalServerError, EStr ''Could not find the Policy.'', EErr e]), req)
       | None \<Rightarrow>
           let mx = asInt64 (moduleParam pol ''cache'' ''max''); mn = asInt64 (moduleParam pol ''cache'' ''min'');
               req1 = (case mx of Some v \<Rightarrow> req\<lparr>MaxWays := of_int v\<rparr> | None \<Rightarrow> req);
               req2 = (case mn of Some v \<Rightarrow> req1\<lparr>MinWays := of_int v\<rparr> | None \<Rightarrow> req1)
           in Ret (None, if mx \<noteq> None \<and> mn \<noteq> None then req2\<lparr>UseCache := True\<rparr> else req2))"

definition requestPool :: "EnforceRequest \<Rightarrow> goerror option \<times> EnforceRequest" where
  "requestPool req =
     (if MinWays req > MaxWays req
      then (Some (NewAppError [EInt StatusInternalServerError,
              EStr ''Min cache value cannot be greater than max cache value'']), req)
      else if UseCache req
      then (case GetCachePoolName (MaxWays req) (MinWays req) of
              (t, Some e) \<Rightarrow> (Some (NewAppError [EInt StatusBadRequest, EStr ''Bad cache ways request'', EErr e]),
                              req\<lparr>reqType := t\<rparr>)
            | (t, None) \<Rightarrow> (None, req\<lparr>reqType := t\<rparr>))
      else (None, req))"

definition populateEnforceRequest :: "'b rmd_env \<Rightarrow> RDTWorkLoad \<Rightarrow> 'b rmd
    \<Rightarrow> (goerror option \<times> EnforceRequest \<times> RDTWorkLoad \<times> 'b rmd) outcome" where
  "populateEnforceRequest E w0 s =
     (let w = w0\<lparr>Status := NoneStatus\<rparr>; H = hostAt E s
      in andThen (BitmapsCPUWrapper H (ArgStrings (CoreIDs w))) (\<lambda>(bm, err).
        case err of
          Some e \<Rightarrow> Ret (Some (NewAppError [EInt StatusBadRequest, EStr ''Failed to Parse workload coreIDs.'', EErr e]),
                         zeroEnforceRequest, w, s)
        | None \<Rightarrow>
            andThen (deref bm) (\<lambda>b.
            andThen (GetLLC H) (\<lambda>llc.
            andThen (GetByLevel H (epolicy E) llc zeroInfos (cst s)) (\<lambda>(_, cacheinfo, c).
            andThen (HostCPUNum (hfs H)) (\<lambda>cpunum.
              let s1 = s\<lparr>cst := c\<rparr>
              in if cpunum = 0
                 then Ret (Some (AppErrorf StatusInternalServerError ''Unable to get Total CPU numbers on Host''),
                           zeroEnforceRequest, w, s1)
                 else andThen (getSocketIDs (esched E) (TaskIDs w) (ToString b) cacheinfo cpunum) (\<lambda>ids.
                   let req0 = zeroEnforceRequest\<lparr>SocketIDs := ids\<rparr>
                   in andThen (if length (Policy w) = 0 then Ret (requestByParams E w req0 s1)
                               else requestByPolicy E w req0) (\<lambda>(e1, req1).
                        case e1 of
                          Some _ \<Rightarrow> Ret (e1, req1, w, s1)
                        | None \<Rightarrow> (case requestPool req1 of (e2, req2) \<Rightarrow> Ret (e2, req2, w, s1))))))))))"

section \<open>Cache ways of a request\<close>

record RDTEnforce =
  Resall :: "(string \<times> ResAssociation) list"
  TargetLev :: string
  TargetMba :: string
  CandidateCache :: "(string \<times> bitmap option) list"
  CandidateMba :: "(string \<times> 32 word) list"
  ChangedRes :: "(string \<times> ResAssociation) list"
  rdtReserved :: "(string \<times> Reserved) list"
  AvailableSchemata :: "(string \<times> bitmap option) list"

definition zeroRDTEnforce :: RDTEnforce where
  "zeroRDTEnforce = \<lparr>Resall = [], TargetLev = [], TargetMba = [], CandidateCache = [], CandidateMba = [],
     ChangedRes = [], rdtReserved = [], AvailableSchemata = []\<rparr>"

text \<open>\<^verbatim>\<open>v.CacheSchemata["L"+targetLev][cacheID].Mask\<close>.\<close>

definition maskOf :: "ResAssociation \<Rightarrow> string \<Rightarrow> int \<Rightarrow> string outcome" where
  "maskOf v lev i =
     andThen (go_index (case gm_get (CacheSchemata v) lev of None \<Rightarrow> [] | Some cs \<Rightarrow> cs) i) (\<lambda>c. Ret (Mask c))"

definition bestEffortGroup :: "string \<Rightarrow> bool" where
  "bestEffortGroup name = suffix (''-'' @ Besteffort) name"

text \<open>First loop: what remains of the pool when every best-effort group keeps its minimum.\<close>

fun shrinkAvail :: "'b rmd_env \<Rightarrow> 'b rmd \<Rightarrow> string \<Rightarrow> int \<Rightarrow> (string \<times> ResAssociation) list \<Rightarrow> bitmap
    \<Rightarrow> (goerror + bitmap) outcome" where
  "shrinkAvail E s lev i [] available = Ret (Inr available)"
| "shrinkAvail E s lev i ((name, v) # rest) available =
     (if \<not> bestEffortGroup name then shrinkAvail E s lev i rest available
      else case fst (QueryWorkload (ecodec E) (ebolt E) [(''CosName'', FStr name)] (store s)) of
        [] \<Rightarrow> Ret (Inl (Errorf ''Internal error, can not find exsting workload for resource group name %s'' [name]))
      | w # _ \<Rightarrow>
          andThen (maskOf v lev i) (\<lambda>m.
          andThen (BitmapsCacheWrapper (hostAt E s) (ArgString m)) (\<lambda>(b, _).
          andThen (deref b) (\<lambda>cosSchemata.
          andThen (deref (cacheMin w)) (\<lambda>mn.
          andThen (GetConnectiveBits cosSchemata mn 0 False) (\<lambda>minSchemata.
          andThen (bm_Axor available minSchemata) (\<lambda>av.
            shrinkAvail E s lev i rest av)))))))"

text \<open>Second loop: the groups that lose ways, with their new masks.\<close>

fun shrinkChange :: "'b rmd_env \<Rightarrow> 'b rmd \<Rightarrow> string \<Rightarrow> int \<Rightarrow> bitmap \<Rightarrow> (string \<times> ResAssociation) list
    \<Rightarrow> ((string \<times> ResAssociation) list \<times> string list) outcome" where
  "shrinkChange E s lev i cand [] = Ret ([], [])"
| "shrinkChange E s lev i cand ((name, v) # rest) =
     andThen (shrinkChange E s lev i cand rest) (\<lambda>(rest', changed).
       if \<not> bestEffortGroup name then Ret ((name, v) # rest', changed)
       else andThen (maskOf v lev i) (\<lambda>m.
            andThen (BitmapsCacheWrapper (hostAt E s) (ArgString m)) (\<lambda>(b, _).
            andThen (deref b) (\<lambda>cosSchemata.
            andThen (bm_Axor cosSchemata cand) (\<lambda>d.
              if ToString d = ToString cosSchemata then Ret ((name, v) # rest', changed)
              else let cs = (case gm_get (CacheSchemata v) lev of None \<Rightarrow> [] | Some cs \<Rightarrow> cs);
                       v' = v\<lparr>CacheSchemata := map_option
                              (al_put lev (cs[nat i := (cs ! nat i)\<lparr>Mask := ToString d\<rparr>])) (CacheSchemata v)\<rparr>
                   in Ret ((name, v') # rest', name # changed))))))"

definition shrinkBEPool :: "'b rmd_env \<Rightarrow> 'b rmd \<Rightarrow> (string \<times> ResAssociation) list \<Rightarrow> bitmap option \<Rightarrow> int \<Rightarrow> 32 word
    \<Rightarrow> (goerror + bitmap \<times> string list \<times> (string \<times> ResAssociation) list) outcome" where
  "shrinkBEPool E s resaall reservedSchemata i reqways =
     andThen (deref reservedSchemata) (\<lambda>available.
     andThen (GetLLC (hostAt E s)) (\<lambda>llc.
     andThen (shrinkAvail E s (levelKey llc) i resaall available) (\<lambda>r.
       case r of
         Inl e \<Rightarrow> Ret (Inl e)
       | Inr av \<Rightarrow>
           andThen (GetConnectiveBits av reqways 0 True) (\<lambda>cand.
           andThen (shrinkChange E s (levelKey llc) i cand resaall) (\<lambda>(resaall', changed).
             Ret (Inr (cand, changed, resaall')))))))"

text \<open>The candidate of one cache; \<open>changed\<close> collects the names of shrunk groups.\<close>

definition notEnough :: "string \<Rightarrow> goerror" where
  "notEnough k = AppErrorf StatusBadRequest ''Not enough cache left on cache_id %s''"

definition bestEffortWays :: "'b rmd_env \<Rightarrow> 'b rmd \<Rightarrow> EnforceRequest \<Rightarrow> (string \<times> Reserved) list \<Rightarrow> string \<Rightarrow> bitmap
    \<Rightarrow> (string \<times> ResAssociation) list \<Rightarrow> string list
    \<Rightarrow> (goerror + bitmap option \<times> (string \<times> ResAssociation) list \<times> string list) outcome" where
  "bestEffortWays E s er reserved k v resaall changed =
     andThen (ToBinStrings v) (\<lambda>freeBitmaps.
     andThen (bestRun (MinWays er) freeBitmaps 0) (\<lambda>maxWays.
       if maxWays \<le> 0
       then andThen (deref (map_of reserved Besteffort)) (\<lambda>r.
              if \<not> Shrink r then Ret (Inl (notEnough k))
              else andThen (shrinkBEPool E s resaall (case map_of (Schemata r) k of Some b \<Rightarrow> b | None \<Rightarrow> None)
                              (fst (Atoi k)) (MinWays er)) (\<lambda>q.
                     case q of
                       Inl _ \<Rightarrow> Ret (Inl (AppErrorf StatusInternalServerError
                                  ''Errors while try to shrink cache ways on cache_id %s''))
                     | Inr (cand, ch, resaall') \<Rightarrow>
                         Ret (Inr (Some cand, resaall', changed @ filter (\<lambda>n. n \<notin> set changed) ch))))
       else andThen (GetConnectiveBits v (if maxWays > MaxWays er then MaxWays er else maxWays) 0 False) (\<lambda>b.
              Ret (Inr (Some b, resaall, changed)))))"

definition candidateOf :: "'b rmd_env \<Rightarrow> 'b rmd \<Rightarrow> EnforceRequest \<Rightarrow> (string \<times> Reserved) list \<Rightarrow> string \<Rightarrow> bitmap option
    \<Rightarrow> (string \<times> ResAssociation) list \<Rightarrow> string list
    \<Rightarrow> (goerror + bitmap option \<times> (string \<times> ResAssociation) list \<times> string list) outcome" where
  "candidateOf E s er reserved k v resaall changed =
     (if reqType er = Guarantee
      then andThen (deref v) (\<lambda>b. andThen (GetConnectiveBits b (MaxWays er) 0 False) (\<lambda>c.
             Ret (Inr (Some c, resaall, changed))))
      else if reqType er = Besteffort
      then andThen (deref v) (\<lambda>b. bestEffortWays E s er reserved k b resaall changed)
      else if reqType er = Shared
      then andThen (deref (map_of reserved Shared)) (\<lambda>r.
             Ret (Inr (case map_of (Schemata r) k of Some b \<Rightarrow> b | None \<Rightarrow> None, resaall, changed)))
      else Ret (Inr (None, resaall, changed)))"

fun candidateLoop :: "'b rmd_env \<Rightarrow> 'b rmd \<Rightarrow> EnforceRequest \<Rightarrow> (string \<times> Reserved) list
    \<Rightarrow> (string \<times> bitmap option) list \<Rightarrow> (string \<times> ResAssociation) list \<Rightarrow> string list \<Rightarrow> (string \<times> bitmap option) list
    \<Rightarrow> (goerror + (string \<times> bitmap option) list \<times> (string \<times> ResAssociation) list \<times> string list) outcome" where
  "candidateLoop E s er reserved [] resaall changed candidate = Ret (Inr (candidate, resaall, changed))"
| "candidateLoop E s er reserved ((k, v) # av) resaall changed candidate =
     (if \<not> inCacheList (of_int (fst (Atoi k))) (SocketIDs er) \<and> reqType er \<noteq> Shared
      then andThen (GetCosInfo (hostAt E s)) (\<lambda>ci.
             andThen (NewBitmapIgn [ArgInt (CbmMaskLen ci), ArgString (cosCbmMask ci)]) (\<lambda>b.
               candidateLoop E s er reserved av resaall changed (al_put k (Some b) candidate)))
      else andThen (candidateOf E s er reserved k v resaall changed) (\<lambda>r.
             case r of
               Inl e \<Rightarrow> Ret (Inl e)
             | Inr (c, resaall', changed') \<Rightarrow>
                 andThen (deref c) (\<lambda>b.
                   if IsEmpty b then Ret (Inl (notEnough k))
                   else candidateLoop E s er reserved av resaall' changed' (al_put k c candidate))))"

definition enforceCache :: "'b rmd_env \<Rightarrow> EnforceRequest \<Rightarrow> RDTEnforce \<Rightarrow> 'b rmd
    \<Rightarrow> (goerror option \<times> RDTEnforce \<times> 'b rmd) outcome" where
  "enforceCache E er rdtenforce s =
     andThen (resNow E s) (\<lambda>resaall.
     andThen (GetLLC (hostAt E s)) (\<lambda>llc.
     andThen (GetAvailableCacheSchemata (hostAt E s) resaall [InfraGoupCOS, OSGroupCOS] (reqType er) (levelKey llc) (cst s))
       (\<lambda>((av, err), c1).
         case err of
           Some e \<Rightarrow> Ret (Some (AppErrorf StatusInternalServerError ''Unable to read cache schemata; %s''),
                          rdtenforce, s\<lparr>cst := c1\<rparr>)
         | None \<Rightarrow>
             andThen (GetReservedInfo (hostAt E s) c1) (\<lambda>(reserved, c2).
             andThen (candidateLoop E s er reserved av resaall [] []) (\<lambda>r.
               let s' = s\<lparr>cst := c2\<rparr>
               in Ret (case r of
                         Inl e \<Rightarrow> (Some e, rdtenforce, s')
                       | Inr (candidate, resaall', changed) \<Rightarrow>
                           (None, rdtenforce\<lparr>Resall := resaall', TargetLev := Itoa (uint llc),
                              CandidateCache := candidate,
                              ChangedRes := filter (\<lambda>(n, _). n \<in> set changed) resaall',
                              rdtReserved := reserved, AvailableSchemata := av\<rparr>, s')))))))"

section \<open>Memory bandwidth of a request\<close>

fun mbaLoop :: "32 word \<Rightarrow> 32 word \<Rightarrow> 32 word list \<Rightarrow> string list \<Rightarrow> (string \<times> 32 word) list
    \<Rightarrow> goerror option \<times> (string \<times> 32 word) list" where
  "mbaLoop value dflt socketIDs [] cand = (None, cand)"
| "mbaLoop value dflt socketIDs (k # ks) cand =
     (case Atoi k of
        (_, Some e) \<Rightarrow> (num_err (Some e) k, cand)
      | (socketID, None) \<Rightarrow>
          mbaLoop value dflt socketIDs ks
            (al_put k (if inCacheList (of_int socketID) socketIDs then value else dflt) cand))"

definition enforceMba :: "'b rmd_env \<Rightarrow> EnforceRequest \<Rightarrow> RDTEnforce \<Rightarrow> 'b rmd
    \<Rightarrow> (goerror option \<times> RDTEnforce \<times> 'b rmd) outcome" where
  "enforceMba E er rdtenforce s =
     andThen (if UseCache er then Ret ((AvailableSchemata rdtenforce, None), cst s)
              else andThen (resNow E s) (\<lambda>resaall.
                   andThen (GetLLC (hostAt E s)) (\<lambda>llc.
                     GetAvailableCacheSchemata (hostAt E s) resaall [InfraGoupCOS, OSGroupCOS] ''none''
                       (levelKey llc) (cst s)))) (\<lambda>((av, err), c).
       let s' = s\<lparr>cst := c\<rparr>
       in case err of
            Some e \<Rightarrow> Ret (Some (AppErrorf StatusInternalServerError ''Unable to read cache schemata; %s''), rdtenforce, s')
          | None \<Rightarrow>
              (case mbaLoop (mbaValue s) (mbaMaxValue s) (SocketIDs er) (map fst av) [] of
                 (e, cand) \<Rightarrow> Ret (e, rdtenforce\<lparr>TargetMba := ''MB'', CandidateMba := cand\<rparr>, s')))"

section \<open>Programming the class\<close>

fun newCoses :: "(string \<times> bitmap option) list \<Rightarrow> CacheCos list outcome" where
  "newCoses [] = Ret []"
| "newCoses ((k, v) # r) =
     andThen (deref v) (\<lambda>b. andThen (newCoses r) (\<lambda>cs.
       Ret (\<lparr>cacheID = of_int (fst (Atoi k)), Mask = ToString b\<rparr> # cs)))"

definition newResAss :: "(string \<times> bitmap option) list \<Rightarrow> string \<Rightarrow> ResAssociation outcome" where
  "newResAss r level =
     andThen (newCoses r) (\<lambda>cs.
       Ret \<lparr>Tasks = [], CPUs = [], CacheSchemata = Some (if cs = [] then [] else [(''L'' @ level, cs)]),
            MbaSchemata = None\<rparr>)"

definition newResAssForMba :: "ResAssociation option \<Rightarrow> (string \<times> 32 word) list \<Rightarrow> string \<Rightarrow> ResAssociation" where
  "newResAssForMba resAss candidate targetMba =
     (let r = (case resAss of None \<Rightarrow> zeroResAssociation | Some r \<Rightarrow> r);
          cs = map (\<lambda>(k, v). \<lparr>mbaID = of_int (fst (Atoi k)), Mba = v\<rparr>) candidate
      in r\<lparr>MbaSchemata := Some (if cs = [] then [] else [(targetMba, cs)])\<rparr>)"

text \<open>The class of the request: the shared one, or a fresh one that is given back on failure.\<close>

definition takeClos :: "EnforceRequest \<Rightarrow> 'b rmd \<Rightarrow> string with_err \<times> 'b rmd" where
  "takeClos er s =
     (case (if reqType er = Shared then GetSharedCLOS (cpool s) else UseAvailableCLOS (cpool s)) of
        (r, p) \<Rightarrow> (r, s\<lparr>cpool := p\<rparr>))"

text \<open>The deferred function of \<open>enforceRDT\<close>.\<close>

definition giveBack :: "bool \<Rightarrow> RDTWorkLoad \<Rightarrow> 'b rmd \<Rightarrow> RDTWorkLoad \<times> 'b rmd" where
  "giveBack shouldReturnCLOS w s =
     (if shouldReturnCLOS
      then (w\<lparr>CosName := []\<rparr>, s\<lparr>cpool := snd (ReturnClos (CosName w) (cpool s))\<rparr>)
      else (w, s))"

text \<open>The association that is committed.\<close>

definition buildRes :: "EnforceRequest \<Rightarrow> RDTEnforce \<Rightarrow> string \<Rightarrow> (goerror + ResAssociation option) outcome" where
  "buildRes er rd grpName =
     andThen (if UseCache er
              then (case (if reqType er = Shared then map_of (Resall rd) grpName else None) of
                      Some res \<Rightarrow> Ret (Some res)
                    | None \<Rightarrow> andThen (newResAss (CandidateCache rd) (TargetLev rd)) (\<lambda>r. Ret (Some r)))
              else Ret None) (\<lambda>resAss.
       if UseMba er
       then if reqType er = Shared then Ret (Inl (Errorf ''MBA forbidden for shared group'' []))
            else Ret (Inr (Some (newResAssForMba resAss (CandidateMba rd) (TargetMba rd))))
       else Ret (Inr resAss))"

definition addMembers :: "host \<Rightarrow> RDTWorkLoad \<Rightarrow> ResAssociation \<Rightarrow> ResAssociation outcome" where
  "addMembers H w res =
     andThen (BitmapsCPUWrapper H (ArgStrings (CoreIDs w))) (\<lambda>(bm, _).
     andThen (BitmapsCPUWrapper H (ArgString (CPUs res))) (\<lambda>(oldbm, _).
     andThen (deref2 bm_Or bm oldbm) (\<lambda>b.
       Ret (res\<lparr>CPUs := ToString b, Tasks := Tasks res @ TaskIDs w\<rparr>))))"

fun commitChanged :: "'b rmd_env \<Rightarrow> (string \<times> ResAssociation) list \<Rightarrow> 'b rmd \<Rightarrow> (goerror option \<times> 'b rmd) outcome" where
  "commitChanged E [] s = Ret (None, s)"
| "commitChanged E ((name, res) # rest) s =
     andThen (commitRes E res name s) (\<lambda>(e, s1).
       case e of Some _ \<Rightarrow> Ret (e, s1) | None \<Rightarrow> commitChanged E rest s1)"

definition commitAll :: "'b rmd_env \<Rightarrow> RDTEnforce \<Rightarrow> string \<Rightarrow> ResAssociation \<Rightarrow> 'b rmd \<Rightarrow> (goerror option \<times> 'b rmd) outcome" where
  "commitAll E rd grpName res s =
     andThen (commitRes E res grpName s) (\<lambda>(e1, s1).
       case e1 of
         Some e \<Rightarrow> Ret (Some (NewAppError [EInt StatusInternalServerError,
                     EStr ''Error to commit resource group for workload.'', EErr e]), s1)
       | None \<Rightarrow>
           andThen (commitChanged E (ChangedRes rd) s1) (\<lambda>(e2, s2).
             case e2 of
               Some e \<Rightarrow> Ret (Some (NewAppError [EInt StatusInternalServerError,
                           EStr ''Error to shrink resource group'', EErr e]), destroyRes E grpName s2)
             | None \<Rightarrow>
                 andThen (setOS E s2) (\<lambda>(e3, s3).
                   case e3 of
                     Some e \<Rightarrow> Ret (Some (NewAppError [EInt StatusInternalServerError,
                                 EStr ''Error while try to commit resource group for default group.'', EErr e]),
                                 destroyRes E grpName s3)
                   | None \<Rightarrow> Ret (None, s3))))"

definition enforceRDT :: "'b rmd_env \<Rightarrow> RDTWorkLoad \<Rightarrow> EnforceRequest \<Rightarrow> RDTEnforce \<Rightarrow> 'b rmd
    \<Rightarrow> (goerror option \<times> RDTWorkLoad \<times> 'b rmd) outcome" where
  "enforceRDT E w er rd s =
     (case takeClos er s of
        ((_, Some e), s1) \<Rightarrow> Ret (Some e, w, s1)
      | ((grpName, None), s1) \<Rightarrow>
          (let failed = (\<lambda>e s'. case giveBack (reqType er \<noteq> Shared) w s' of (w', s'') \<Rightarrow> Ret (Some e, w', s''))
           in andThen (buildRes er rd grpName) (\<lambda>r.
                case r of
                  Inl e \<Rightarrow> failed e s1
                | Inr resAss \<Rightarrow>
                    andThen (deref resAss) (\<lambda>res0.
                    andThen (addMembers (ehost E) w res0) (\<lambda>res.
                    andThen (commitAll E rd grpName res s1) (\<lambda>(e, s2).
                      case e of
                        Some e' \<Rightarrow> failed e' s2
                      | None \<Rightarrow> Ret (None, w\<lparr>CosName := grpName\<rparr>, s2)))))))"

section \<open>Enforcing and releasing\<close>

fun enforcePlugins :: "'b rmd_env \<Rightarrow> (string \<times> params) list \<Rightarrow> RDTWorkLoad \<Rightarrow> 'b rmd
    \<Rightarrow> goerror option \<times> RDTWorkLoad \<times> 'b rmd" where
  "enforcePlugins E [] w s = (None, w, s)"
| "enforcePlugins E ((m, ps) # rest) w s =
     (case unify E ps of
        (_, Some e) \<Rightarrow> (Some e, w, s)
      | (paramsMap, None) \<Rightarrow>
          (case client_Enforce (eup E) (eplugins E) m
                  (withIds (fst (prepareCoreIDs (CoreIDs w) [])) (fst (prepareCoreIDs (TaskIDs w) [])) paramsMap)
                  (plugCalls s) of
             ((_, Some e), h) \<Rightarrow> (Some e, w, s\<lparr>plugCalls := h\<rparr>)
           | ((result, None), h) \<Rightarrow>
               enforcePlugins E rest
                 (w\<lparr>BackendPluginInfo := Some (al_put m result (gm_items (BackendPluginInfo w)))\<rparr>)
                 (s\<lparr>plugCalls := h\<rparr>)))"

definition Enforce :: "'b rmd_env \<Rightarrow> RDTWorkLoad \<Rightarrow> 'b rmd \<Rightarrow> (goerror option \<times> RDTWorkLoad \<times> 'b rmd) outcome" where
  "Enforce E w0 s =
     andThen (populateEnforceRequest E (w0\<lparr>Status := FailedStatus\<rparr>) s) (\<lambda>(e0, er, w, s0).
       case e0 of Some _ \<Rightarrow> Ret (e0, w, s0) | None \<Rightarrow>
       andThen (if UseCache er then enforceCache E er zeroRDTEnforce s0 else Ret (None, zeroRDTEnforce, s0)) (\<lambda>(e1, rd1, s1).
         case e1 of Some _ \<Rightarrow> Ret (e1, w, s1) | None \<Rightarrow>
         andThen (if UseMba er then enforceMba E er rd1 s1 else Ret (None, rd1, s1)) (\<lambda>(e2, rd2, s2).
           case e2 of Some _ \<Rightarrow> Ret (e2, w, s2) | None \<Rightarrow>
           andThen (if UseMba er \<or> UseCache er then enforceRDT E w er rd2 s2 else Ret (None, w, s2)) (\<lambda>(e3, w3, s3).
             case e3 of Some _ \<Rightarrow> Ret (e3, w3, s3) | None \<Rightarrow>
             (case enforcePlugins E (gm_items (Plugins w3)) w3 s3 of
                (Some e, w4, s4) \<Rightarrow> Ret (Some e, w4, s4)
              | (None, w4, s4) \<Rightarrow> Ret (None, w4\<lparr>Status := Successful\<rparr>, s4))))))"

fun releasePlugins :: "'b rmd_env \<Rightarrow> RDTWorkLoad \<Rightarrow> (string \<times> params) list \<Rightarrow> 'b rmd \<Rightarrow> goerror option \<times> 'b rmd" where
  "releasePlugins E w [] s = (None, s)"
| "releasePlugins E w ((m, ps) # rest) s =
     (case unify E ps of
        (_, Some e) \<Rightarrow> (Some e, s)
      | (paramsMap, None) \<Rightarrow>
          (case prepareCoreIDs (CoreIDs w) [] of
             (_, Some _) \<Rightarrow> (Some (Errorf ''Invalid params (core ids) received'' []), s)
           | (cpus, None) \<Rightarrow>
               (case prepareCoreIDs (TaskIDs w) [] of
                  (_, Some _) \<Rightarrow> (Some (Errorf ''Invalid params (task ids) received'' []), s)
                | (tasks, None) \<Rightarrow>
                    let p1 = (if BackendPluginInfo w = None then paramsMap
                              else al_put ''ENFORCEID'' (VString (case gm_get (BackendPluginInfo w) m of Some x \<Rightarrow> x | None \<Rightarrow> [])) paramsMap)
                    in case client_Release (eup E) (eplugins E) m (withIds cpus tasks p1) (plugCalls s) of
                         (Some e, h) \<Rightarrow> (Some e, s\<lparr>plugCalls := h\<rparr>)
                       | (None, h) \<Rightarrow> releasePlugins E w rest (s\<lparr>plugCalls := h\<rparr>))))"

text \<open>Whether the shared class still has members once those of \<open>w\<close> are gone; \<open>None\<close>: it is not there.\<close>

definition sharedInUse :: "'b rmd_env \<Rightarrow> RDTWorkLoad \<Rightarrow> 'b rmd \<Rightarrow> bool option outcome" where
  "sharedInUse E w s =
     andThen (resNow E s) (\<lambda>resaall.
       case map_of resaall (CosName w) of
         None \<Rightarrow> Ret None
       | Some r \<Rightarrow>
           andThen (BitmapsCPUWrapper (ehost E) (ArgString (CPUs r))) (\<lambda>(cpubm0, _).
           andThen (if 0 < length (CoreIDs w)
                    then andThen (BitmapsCPUWrapper (ehost E) (ArgStrings (CoreIDs w))) (\<lambda>(wcpubm, _).
                           deref2 bm_Axor cpubm0 wcpubm)
                    else deref cpubm0) (\<lambda>cpubm.
             Ret (Some (0 < length (fst (SubtractStringSlice (Tasks r) (TaskIDs w))) \<or> \<not> IsEmpty cpubm)))))"

definition releaseClos :: "'b rmd_env \<Rightarrow> RDTWorkLoad \<Rightarrow> 'b rmd \<Rightarrow> (goerror option \<times> 'b rmd) outcome" where
  "releaseClos E w s =
     andThen (client_ResetCOSParamsToDefaults (eup E) (epqos E) (CosName w) (pqs s)) (\<lambda>(e, pq).
       let s1 = s\<lparr>pqs := pq\<rparr>
       in case e of
            Some _ \<Rightarrow> Ret (None, s1)
          | None \<Rightarrow> setOS E (s1\<lparr>cpool := snd (ReturnClos (CosName w) (cpool s1))\<rparr>))"

definition Release :: "'b rmd_env \<Rightarrow> RDTWorkLoad \<Rightarrow> 'b rmd \<Rightarrow> (goerror option \<times> 'b rmd) outcome" where
  "Release E w s =
     (case releasePlugins E w (gm_items (Plugins w)) s of
        (Some e, s0) \<Rightarrow> Ret (Some e, s0)
      | (None, s0) \<Rightarrow>
          if CosName w = [] then Ret (None, s0)
          else andThen (if 0 < length (TaskIDs w) then client_RemoveTasks (eup E) (epqos E) (TaskIDs w) (pqs s0)
                        else Ret (None, pqs s0)) (\<lambda>(e1, pq1).
            let s1 = s0\<lparr>pqs := pq1\<rparr>
            in if e1 \<noteq> None then Ret (None, s1)
               else andThen (if 0 < length (CoreIDs w) then client_RemoveCores (eup E) (epqos E) (CoreIDs w) (pqs s1)
                             else Ret (None, pqs s1)) (\<lambda>(e2, pq2).
                 let s2 = s1\<lparr>pqs := pq2\<rparr>
                 in if e2 \<noteq> None then Ret (None, s2)
                    else if IsSharedCLOS (CosName w) (cpool s2)
                    then andThen (sharedInUse E w s2) (\<lambda>u.
                           case u of
                             None \<Rightarrow> Ret (None, s2\<lparr>cpool := snd (ReturnClos (CosName w) (cpool s2))\<rparr>)
                           | Some True \<Rightarrow> setOS E s2
                           | Some False \<Rightarrow> releaseClos E w s2)
                    else releaseClos E w s2)))"

end
