(* ===== verification/WorkloadOps.thy ===== *)
theory WorkloadOps
  imports Workload
begin

text \<open>
  The operations on stored workloads (\<^verbatim>\<open>modules/workload/workload.go\<close>, second half) and the REST
  handlers (\<^verbatim>\<open>modules/workload/workload_api.go\<close>): validation against the data base, patching,
  start-up and the clean-up of workloads whose tasks are gone. Lists of cores and tasks that are absent
  and lists that are empty are the same value here.
\<close>

section \<open>Data base wrappers\<close>

definition dbClosed :: goerror where
  "dbClosed = NewAppError [EInt StatusInternalServerError, EStr ''Service database not initialized'']"

definition GetByUUID :: "'b rmd_env \<Rightarrow> string \<Rightarrow> 'b rmd \<Rightarrow> RDTWorkLoad with_err" where
  "GetByUUID E uuid s =
     (if \<not> dbOpen s then (zeroWorkLoad, Some dbClosed)
      else case GetWorkloadByUUID (ecodec E) (ebolt E) uuid (store s) of
             (r, Some e) \<Rightarrow> (r, Some (NewAppError [EInt errNotFound, EStr ''Failed to get workload by UUID from database'', EErr e]))
           | (r, None) \<Rightarrow> (r, None))"

definition Delete :: "'b rmd_env \<Rightarrow> RDTWorkLoad \<Rightarrow> 'b rmd \<Rightarrow> goerror option \<times> 'b rmd" where
  "Delete E wl s =
     (if \<not> dbOpen s then (Some dbClosed, s)
      else case DeleteWorkload (ebolt E) wl (store s) of
             (Some e, b) \<Rightarrow> (Some (NewAppError [EInt errInternalServer, EStr ''Failed to remove workload from database'', EErr e]), s\<lparr>store := b\<rparr>)
           | (None, b) \<Rightarrow> (None, s\<lparr>store := b\<rparr>))"

definition Create :: "'b rmd_env \<Rightarrow> RDTWorkLoad \<Rightarrow> 'b rmd \<Rightarrow> (goerror option \<times> RDTWorkLoad \<times> 'b rmd) outcome" where
  "Create E wl s =
     (if \<not> dbOpen s then Ret (Some dbClosed, wl, s)
      else andThen (CreateWorkload (ecodec E) (ebolt E) wl (store s)) (\<lambda>(e, wl', b).
        Ret (map_option (\<lambda>e'. NewAppError [EInt errInternalServer, EStr ''Failed to create workload in database'', EErr e']) e,
             wl', s\<lparr>store := b\<rparr>)))"

text \<open>The message of the error is the text of the error of the store.\<close>

definition GetAll :: "'b rmd_env \<Rightarrow> 'b rmd \<Rightarrow> RDTWorkLoad list with_err" where
  "GetAll E s =
     (if \<not> dbOpen s then ([], Some dbClosed)
      else case GetAllWorkload (ecodec E) (ebolt E) (store s) of
             (ws, Some e) \<Rightarrow> (ws, Some (AppErrorPtr StatusInternalServerError [] (Some e)))
           | (ws, None) \<Rightarrow> (ws, None))"

definition workload_GetWorkloadByID :: "'b rmd_env \<Rightarrow> string \<Rightarrow> 'b rmd \<Rightarrow> RDTWorkLoad with_err" where
  "workload_GetWorkloadByID E i s =
     (if \<not> dbOpen s then (zeroWorkLoad, Some dbClosed)
      else case GetWorkloadByID (ecodec E) (ebolt E) i (store s) of
             (r, Some e) \<Rightarrow> (r, Some (NewAppError [EInt errNotFound, EStr ''Failed to get workload by ID from database'', EErr e]))
           | (r, None) \<Rightarrow> (r, None))"

definition validateInDB :: "'b rmd_env \<Rightarrow> RDTWorkLoad \<Rightarrow> 'b rmd \<Rightarrow> goerror option outcome" where
  "validateInDB E wl s =
     (if \<not> dbOpen s then Ret (Some dbClosed)
      else andThen (ValidateWorkload (ecodec E) (ebolt E) wl (store s)) (\<lambda>e.
        Ret (map_option (\<lambda>e'. NewAppError [EInt errInternalServer, EStr ''Workload validation in database failed'', EErr e']) e)))"

definition updateInDB :: "'b rmd_env \<Rightarrow> RDTWorkLoad \<Rightarrow> 'b rmd \<Rightarrow> goerror option \<times> 'b rmd" where
  "updateInDB E w s =
     (if \<not> dbOpen s then (Some dbClosed, s)
      else case UpdateWorkload (ecodec E) (ebolt E) w (store s) of
             (Some e, b) \<Rightarrow> (Some (NewAppError [EInt errInternalServer, EStr ''Failed to update workload in database'', EErr e]), s\<lparr>store := b\<rparr>)
           | (None, b) \<Rightarrow> (None, s\<lparr>store := b\<rparr>))"

definition Validate :: "'b rmd_env \<Rightarrow> RDTWorkLoad \<Rightarrow> 'b rmd \<Rightarrow> (goerror option \<times> RDTWorkLoad \<times> 'b rmd) outcome" where
  "Validate E w s =
     andThen (validate E w s) (\<lambda>(e, w', s').
       case e of
         Some _ \<Rightarrow> Ret (e, w', s')
       | None \<Rightarrow> andThen (validateInDB E w' s') (\<lambda>e'. Ret (e', w', s')))"

section \<open>Workloads whose tasks are gone\<close>

definition shouldRemoveWorkload :: "'b rmd_env \<Rightarrow> RDTWorkLoad \<Rightarrow> bool" where
  "shouldRemoveWorkload E w \<longleftrightarrow> find (\<lambda>task. estat E (''/proc/'' @ task) = Some True) (TaskIDs w) = None"

fun removeStale :: "'b rmd_env \<Rightarrow> RDTWorkLoad list \<Rightarrow> 'b rmd \<Rightarrow> 'b rmd" where
  "removeStale E [] s = s"
| "removeStale E (w # ws) s =
     removeStale E ws
       (if length (TaskIDs w) \<noteq> 0 \<and> shouldRemoveWorkload E w then snd (Delete E w s) else s)"

definition dbContentValidation :: "'b rmd_env \<Rightarrow> 'b rmd \<Rightarrow> 'b rmd" where
  "dbContentValidation E s =
     (case GetAll E s of (_, Some _) \<Rightarrow> s | (ws, None) \<Rightarrow> removeStale E ws s)"

section \<open>Patching a workload\<close>

definition MaxMBAPercentage :: "32 word" where "MaxMBAPercentage = 100"

definition MaxMBAMbps :: "32 word" where "MaxMBAMbps = 4294967290"

text \<open>The new cache values; each that differs asks for a new enforcement.\<close>

definition patchCache :: "RDTWorkLoad \<Rightarrow> RDTWorkLoad \<Rightarrow> RDTWorkLoad \<times> bool" where
  "patchCache patched w =
     (let (w1, r1) = (case cacheMax patched of
                        None \<Rightarrow> (w, False)
                      | Some v \<Rightarrow> (w\<lparr>Policy := [], cacheMax := Some v\<rparr>, cacheMax w \<noteq> Some v))
      in case cacheMin patched of
           None \<Rightarrow> (w1, r1)
         | Some v \<Rightarrow> (w1\<lparr>Policy := [], cacheMin := Some v\<rparr>, r1 \<or> cacheMin w1 \<noteq> Some v))"

definition patchMode :: "RDTWorkLoad \<Rightarrow> 'b rmd \<Rightarrow> goerror option" where
  "patchMode patched s =
     (if isMbaSupported s \<and> isMbaMbpsAvailable s \<and> mbaPercentage patched \<noteq> None
      then Some (NewAppError [EInt StatusBadRequest, EStr ''Please provide MBA in Mbps''])
      else if isMbaSupported s \<and> \<not> isMbaMbpsAvailable s \<and> mbaMbps patched \<noteq> None
      then Some (NewAppError [EInt StatusBadRequest, EStr ''Please provide MBA in Percentage''])
      else None)"

definition patchPercentage :: "RDTWorkLoad \<Rightarrow> RDTWorkLoad \<Rightarrow> bool \<Rightarrow> 'b rmd \<Rightarrow> goerror option \<times> RDTWorkLoad \<times> bool \<times> 'b rmd" where
  "patchPercentage patched w r s =
     (case mbaPercentage patched of
        None \<Rightarrow> (None, w, r, s)
      | Some v \<Rightarrow>
          if v > 0 \<and> v \<le> MaxMBAPercentage
          then if mbaPercentage w \<noteq> Some v
               then (None, w\<lparr>Policy := [], mbaPercentage := Some v\<rparr>, True, s\<lparr>mbaValue := v\<rparr>)
               else (None, w\<lparr>Policy := []\<rparr>, r, s)
          else (Some (NewAppError [EInt StatusBadRequest, EStr ''MBA values range only from 1 to 100'']), w, r, s))"

definition patchMbps :: "RDTWorkLoad \<Rightarrow> RDTWorkLoad \<Rightarrow> bool \<Rightarrow> 'b rmd \<Rightarrow> goerror option \<times> RDTWorkLoad \<times> bool \<times> 'b rmd" where
  "patchMbps patched w r s =
     (case mbaMbps patched of
        None \<Rightarrow> (None, w, r, s)
      | Some v \<Rightarrow>
          if v > 0 \<and> v \<le> MaxMBAMbps
          then if mbaMbps w \<noteq> Some v
               then (None, w\<lparr>Policy := [], mbaMbps := Some v\<rparr>, True, s\<lparr>mbaValue := v\<rparr>)
               else (None, w\<lparr>Policy := []\<rparr>, r, s)
          else (Some (NewAppError [EInt StatusBadRequest, EStr ''MBA values range only from 1 to 4294967290'']), w, r, s))"

text \<open>\<^verbatim>\<open>reflect.DeepEqual\<close> of two maps; a missing module reads as the nil map.\<close>

definition sameParams :: "params option \<Rightarrow> params \<Rightarrow> bool" where
  "sameParams old new =
     (case (case old of None \<Rightarrow> None | Some p \<Rightarrow> p, new) of
        (None, None) \<Rightarrow> True
      | (Some xs, Some ys) \<Rightarrow> list_all (\<lambda>k. map_of xs k = map_of ys k) (map fst xs @ map fst ys)
      | _ \<Rightarrow> False)"

fun patchPlugins :: "'b rmd_env \<Rightarrow> RDTWorkLoad \<Rightarrow> (string \<times> params) list \<Rightarrow> bool \<Rightarrow> goerror option \<times> bool" where
  "patchPlugins E w [] r = (None, r)"
| "patchPlugins E w ((m, ps) # rest) r =
     (if m = ''cache'' \<or> sameParams (gm_get (Plugins w) m) ps then patchPlugins E w rest r
      else case unify E ps of
        (_, Some e) \<Rightarrow> (Some e, r)
      | (paramsMap, None) \<Rightarrow>
          (case prepareCoreIDs (CoreIDs w) [] of
             (_, Some _) \<Rightarrow> (Some (Errorf ''Invalid params (core ids) received'' []), r)
           | (cpus, None) \<Rightarrow>
               (case prepareCoreIDs (TaskIDs w) [] of
                  (_, Some _) \<Rightarrow> (Some (Errorf ''Invalid params (task ids) received'' []), r)
                | (tasks, None) \<Rightarrow>
                    (case loadedPlugin E m of
                       Some e \<Rightarrow> (Some e, True)
                     | None \<Rightarrow>
                         (case mValidate (eplugins E) m (withIds cpus tasks paramsMap) of
                            Some e \<Rightarrow> (Some (NewAppError [EInt StatusBadRequest, EStr ''Invalid params received'', EErr e]), True)
                          | None \<Rightarrow> patchPlugins E w rest True)))))"

text \<open>The patch of a workload by single values: the error, the patched workload, whether to enforce again.\<close>

definition patchParams :: "'b rmd_env \<Rightarrow> RDTWorkLoad \<Rightarrow> RDTWorkLoad \<Rightarrow> 'b rmd
    \<Rightarrow> (goerror option \<times> RDTWorkLoad \<times> bool \<times> 'b rmd) outcome" where
  "patchParams E patched w0 s =
     andThen (if 0 < length (Policy w0) then andThen (fillWorkloadByPolicy E w0) (\<lambda>(_, w'). Ret w') else Ret w0) (\<lambda>w1.
       case patchCache patched w1 of
         (w2, r2) \<Rightarrow>
           Ret (case patchMode patched s of
                  Some e \<Rightarrow> (Some e, w2, r2, s)
                | None \<Rightarrow>
                    (case patchPercentage patched w2 r2 s of
                       (Some e, w3, r3, s3) \<Rightarrow> (Some e, w3, r3, s3)
                     | (None, w3, r3, s3) \<Rightarrow>
                         (case patchMbps patched w3 r3 s3 of
                            (Some e, w4, r4, s4) \<Rightarrow> (Some e, w4, r4, s4)
                          | (None, w4, r4, s4) \<Rightarrow>
                              (case patchPlugins E w4 (gm_items (Plugins patched)) r4 of
                                 (e, r5) \<Rightarrow> (e, w4, r5, s4))))))"

definition patchPolicy :: "'b rmd_env \<Rightarrow> RDTWorkLoad \<Rightarrow> RDTWorkLoad \<Rightarrow> (RDTWorkLoad \<times> bool) outcome" where
  "patchPolicy E patched w =
     (if Policy patched \<noteq> Policy w
      then andThen (fillWorkloadByPolicy E (w\<lparr>Policy := Policy patched\<rparr>)) (\<lambda>(_, w'). Ret (w', True))
      else Ret (w, False))"

definition reEnforce :: "'b rmd_env \<Rightarrow> RDTWorkLoad \<Rightarrow> RDTWorkLoad \<Rightarrow> 'b rmd
    \<Rightarrow> (goerror option \<times> RDTWorkLoad \<times> 'b rmd) outcome" where
  "reEnforce E patched w s =
     andThen (Release E w s) (\<lambda>(e, s1).
       case e of
         Some _ \<Rightarrow> Ret (Some (NewAppError [EInt StatusInternalServerError, EStr ''Failed to release workload'', EErr (Errorf [] [])]), w, s1)
       | None \<Rightarrow>
           Enforce E (w\<lparr>TaskIDs := (if 0 < length (TaskIDs patched) then TaskIDs patched else TaskIDs w),
                        CoreIDs := (if 0 < length (CoreIDs patched) then CoreIDs patched else CoreIDs w),
                        Plugins := Plugins patched\<rparr>) s1)"

text \<open>New cores or tasks only: they go to the group the workload has.\<close>

definition patchMembers :: "'b rmd_env \<Rightarrow> RDTWorkLoad \<Rightarrow> RDTWorkLoad \<Rightarrow> 'b rmd
    \<Rightarrow> (goerror option \<times> RDTWorkLoad \<times> 'b rmd) outcome" where
  "patchMembers E patched w s =
     andThen (resNow E s) (\<lambda>resaall.
       if CoreIDs patched = CoreIDs w \<and> TaskIDs patched = TaskIDs w then Ret (None, w, s)
       else andThen (Validate E patched s) (\<lambda>(e, p', s1).
         case e of
           Some e' \<Rightarrow> Ret (Some (NewAppError [EInt StatusBadRequest, EStr ''Failed to validate workload'', EErr e']), w, s1)
         | None \<Rightarrow>
             (case map_of resaall (CosName w) of
                None \<Rightarrow> Ret (Some (NewAppError [EInt StatusInternalServerError,
                          EStr ''Can not find resource group name'', EErr (Errorf [] [])]), w, s1)
              | Some target \<Rightarrow>
                  let (t1, w1) = (if 0 < length (TaskIDs p')
                                  then (target\<lparr>Tasks := Tasks target @ TaskIDs p'\<rparr>, w\<lparr>TaskIDs := TaskIDs p'\<rparr>)
                                  else (target, w))
                  in andThen (if 0 < length (CoreIDs p')
                              then BitmapsCPUWrapper (ehost E) (ArgStrings (CoreIDs p')) else Ret (None, None)) (\<lambda>(bm, e2).
                       case e2 of
                         Some e' \<Rightarrow> Ret (Some (NewAppError [EInt StatusBadRequest,
                                      EStr ''Failed to parse workload coreIDs.'', EErr e']), w1, s1)
                       | None \<Rightarrow>
                           andThen (if 0 < length (CoreIDs p')
                                    then andThen (deref bm) (\<lambda>b. Ret (t1\<lparr>CPUs := ToString b\<rparr>, w1\<lparr>CoreIDs := CoreIDs p'\<rparr>))
                                    else Ret (t1, w1)) (\<lambda>(t2, w2).
                             andThen (commitRes E t2 (CosName w2) s1) (\<lambda>(e3, s2).
                               Ret (map_option (\<lambda>e'. NewAppError [EInt StatusInternalServerError,
                                      EStr ''Error to commit resource group for workload.'', EErr e']) e3, w2, s2)))))))"

definition update :: "'b rmd_env \<Rightarrow> RDTWorkLoad \<Rightarrow> RDTWorkLoad \<Rightarrow> 'b rmd
    \<Rightarrow> (goerror option \<times> RDTWorkLoad \<times> 'b rmd) outcome" where
  "update E w patched s =
     andThen (if length (Policy patched) = 0 then patchParams E patched w s
              else andThen (patchPolicy E patched w) (\<lambda>(w', r). Ret (None, w', r, s))) (\<lambda>(e, w1, again, s1).
       case e of
         Some _ \<Rightarrow> Ret (e, w1, s1)
       | None \<Rightarrow> if again then reEnforce E patched w1 s1 else patchMembers E patched w1 s1)"

definition Update :: "'b rmd_env \<Rightarrow> RDTWorkLoad \<Rightarrow> RDTWorkLoad \<Rightarrow> 'b rmd
    \<Rightarrow> (goerror option \<times> RDTWorkLoad \<times> 'b rmd) outcome" where
  "Update E w patched s0 =
     andThen (update E w patched (dbContentValidation E s0)) (\<lambda>(e, w', s').
       case e of
         Some _ \<Rightarrow> Ret (e, w', s')
       | None \<Rightarrow> (case updateInDB E w' s' of (e', s'') \<Rightarrow> Ret (e', w', s'')))"

section \<open>Start-up\<close>

text \<open>
  \<open>mode\<close> is the configured MBA mode, \<open>force\<close> the flag \<^verbatim>\<open>--force-config\<close>. A workload of
  the other mode is deleted or ends the start-up; the class of every other one is marked as used.
\<close>

definition wrongMode :: "string \<Rightarrow> RDTWorkLoad \<Rightarrow> bool" where
  "wrongMode mode wl \<longleftrightarrow> mbaPercentage wl \<noteq> None \<and> mode \<noteq> ''percentage'' \<or> mbaMbps wl \<noteq> None \<and> mode \<noteq> ''mbps''"

fun initLoop :: "'b rmd_env \<Rightarrow> string \<Rightarrow> bool \<Rightarrow> RDTWorkLoad list \<Rightarrow> 'b rmd \<Rightarrow> goerror option \<times> 'b rmd" where
  "initLoop E mode force [] s = (None, s)"
| "initLoop E mode force (wl # ws) s =
     (if wrongMode mode wl
      then if force
           then initLoop E mode force ws (s\<lparr>store := snd (DeleteWorkload (ebolt E) wl (store s))\<rparr>)
           else (Some (Errorf ''Workload in database contains MBA setting (percentage) not compatible with current configuration (%v)'' [mode]), s)
      else if 0 < length (CosName wl)
      then (case MarkCLOSasUsed (CosName wl) (cpool s) of
              (Some _, p) \<Rightarrow> (Some (Errorf ''Problem with CLOS of workload from database: %v'' []), s\<lparr>cpool := p\<rparr>)
            | (None, p) \<Rightarrow> initLoop E mode force ws (s\<lparr>cpool := p\<rparr>))
      else initLoop E mode force ws s)"

definition setMbaMode :: "'b rmd \<Rightarrow> 'b rmd" where
  "setMbaMode s =
     (if isMbaSupported s
      then s\<lparr>isMbaMbpsAvailable := mbaMbpsMode (cst s),
             mbaMaxValue := (if mbaMbpsMode (cst s) then MaxMBAMbps else MaxMBAPercentage)\<rparr>
      else s)"

text \<open>
  \<open>backend\<close> names the data base; \<open>rdtMode\<close> is what viper reads; \<open>numClos\<close> is
  \<^verbatim>\<open>resctrl.GetNumOfCLOS(true, true)\<close>. Without a data base the code uses a nil interface.
\<close>

definition workload_Init :: "'b rmd_env \<Rightarrow> string \<Rightarrow> int with_err \<Rightarrow> string with_err \<Rightarrow> bool \<Rightarrow> 'b rmd
    \<Rightarrow> (goerror option \<times> 'b rmd) outcome" where
  "workload_Init E backend numClos rdtMode force s0 =
     (let s = (if NewDB backend = None then s0\<lparr>dbOpen := True\<rparr> else s0)
      in andThen (InitCLOSPool numClos (cpool s)) (\<lambda>(e, p).
        let s1 = s\<lparr>cpool := p\<rparr>
        in if e \<noteq> None then Ret (Some (Errorf ''CLOS pool initialization failure'' []), s1)
           else case IsMbaAvailable (hfs (ehost E)) of
             (f, Some e1) \<Rightarrow> Ret (Some e1, s1\<lparr>isMbaSupported := f\<rparr>)
           | (mba, None) \<Rightarrow>
               (case IsL3CatAvailable (hfs (ehost E)) of
                  (f, Some e2) \<Rightarrow> Ret (Some e2, s1\<lparr>isMbaSupported := mba, isL3CATSupported := f\<rparr>)
                | (cat, None) \<Rightarrow>
                    let s2 = s1\<lparr>isMbaSupported := mba, isL3CATSupported := cat\<rparr>
                    in if \<not> dbOpen s2 then Panic NilDereference
                       else case GetAllWorkload (ecodec E) (ebolt E) (store s2) of
                         (_, Some _) \<Rightarrow> Ret (Some (Errorf ''Failed to get data from DB during workload.Init(): %v'' []), s2)
                       | (ws, None) \<Rightarrow>
                           if ws = [] then Ret (None, setMbaMode s2)
                           else case rdtMode of
                             (_, Some _) \<Rightarrow> Ret (Some (Errorf ''Failed to check RDT config in rmd.toml'' []), s2)
                           | (mode, None) \<Rightarrow>
                               (case initLoop E mode force ws s2 of
                                  (Some e3, s3) \<Rightarrow> Ret (Some e3, s3)
                                | (None, s3) \<Rightarrow> Ret (None, setMbaMode s3)))))"

section \<open>REST handlers (workload_api.go)\<close>

record UserRDTWorkLoad =
  userID :: string
  userCoreIDs :: "string list"
  userTaskIDs :: "string list"
  userPolicy :: string
  userStatus :: string
  userCosName :: string
  userCacheMax :: "32 word option"
  userCacheMin :: "32 word option"
  userMbaPercentage :: "32 word option"
  userMbaMbps :: "32 word option"
  userPlugins :: "(string, params) gomap"
  userUUID :: string
  userOrigin :: string

definition toUser :: "RDTWorkLoad \<Rightarrow> UserRDTWorkLoad" where
  "toUser w = \<lparr>userID = ID w, userCoreIDs = CoreIDs w, userTaskIDs = TaskIDs w, userPolicy = Policy w,
     userStatus = Status w, userCosName = CosName w, userCacheMax = cacheMax w, userCacheMin = cacheMin w,
     userMbaPercentage = mbaPercentage w, userMbaMbps = mbaMbps w, userPlugins = Plugins w,
     userUUID = UUID w, userOrigin = Origin w\<rparr>"

definition ofUser :: "UserRDTWorkLoad \<Rightarrow> RDTWorkLoad" where
  "ofUser u = \<lparr>ID = userID u, CoreIDs = userCoreIDs u, TaskIDs = userTaskIDs u, Policy = userPolicy u,
     Status = userStatus u, CosName = userCosName u, cacheMax = userCacheMax u, cacheMin = userCacheMin u,
     mbaPercentage = userMbaPercentage u, mbaMbps = userMbaMbps u, Plugins = userPlugins u,
     UUID = userUUID u, Origin = userOrigin u, BackendPluginInfo = None\<rparr>"

definition notFound :: "'a response" where
  "notFound = ErrorStatus StatusNotFound (Errorf ''404: Could not found workload'' [])"

definition workload_Get :: "'b rmd_env \<Rightarrow> 'b rmd \<Rightarrow> UserRDTWorkLoad list response" where
  "workload_Get E s =
     (case GetAll E s of
        (_, Some e) \<Rightarrow> ErrorStatus StatusInternalServerError e
      | (ws, None) \<Rightarrow> Entity StatusOK (map toUser ws))"

definition workload_GetByID :: "'b rmd_env \<Rightarrow> string \<Rightarrow> 'b rmd \<Rightarrow> UserRDTWorkLoad response" where
  "workload_GetByID E i s =
     (case workload_GetWorkloadByID E i s of
        (wl, err) \<Rightarrow>
          if length (ID wl) = 0 then notFound
          else case err of
                 Some e \<Rightarrow> ErrorStatus StatusInternalServerError e
               | None \<Rightarrow> Entity StatusOK (toUser wl))"

text \<open>\<open>body\<close> is the decoded request, or the error of the decoder.\<close>

definition NewWorkload :: "'b rmd_env \<Rightarrow> UserRDTWorkLoad with_err \<Rightarrow> 'b rmd \<Rightarrow> (UserRDTWorkLoad response \<times> 'b rmd) outcome" where
  "NewWorkload E body s =
     (case body of
        (_, Some _) \<Rightarrow> Ret (ErrorStatus StatusInternalServerError
                        (Errorf ''Failed to read request correctly. Please check request syntax and data'' []), s)
      | (u0, None) \<Rightarrow>
          (let u = u0\<lparr>userOrigin := ''REST''\<rparr>
           in andThen (Validate E (ofUser u) s) (\<lambda>(e0, w0, s0).
                case e0 of
                  Some e \<Rightarrow> Ret (ErrorStatus StatusBadRequest (AppErrorPtr 0 ''Failed to validate workload. Reason: '' (Some e)), s0)
                | None \<Rightarrow>
                    andThen (Enforce E w0 s0) (\<lambda>(e1, w1, s1).
                      case e1 of
                        Some e \<Rightarrow>
                          Ret (case assertAppError e of
                                 Some (c, _, _) \<Rightarrow>
                                   if c = StatusBadRequest
                                   then (ErrorStatus StatusBadRequest e, snd (Delete E w1 s1))
                                   else (ErrorStatus StatusInternalServerError e, s1)
                               | None \<Rightarrow> (ErrorStatus StatusInternalServerError e, s1))
                      | None \<Rightarrow>
                          andThen (Create E w1 s1) (\<lambda>(e2, w2, s2).
                            Ret (case e2 of
                                   Some e \<Rightarrow> (ErrorStatus StatusInternalServerError e, s2)
                                 | None \<Rightarrow> (Entity StatusCreated
                                     (u\<lparr>userID := ID w2, userStatus := Status w2, userCosName := CosName w2,
                                        userUUID := UUID w2, userPolicy := Policy w2, userCacheMax := cacheMax w2,
                                        userCacheMin := cacheMin w2, userMbaPercentage := mbaPercentage w2,
                                        userMbaMbps := mbaMbps w2, userPlugins := Plugins w2\<rparr>), s2)))))))"

text \<open>A body that cannot be read leaves the new workload as the decoder left it.\<close>

definition Patch :: "'b rmd_env \<Rightarrow> string \<Rightarrow> RDTWorkLoad \<Rightarrow> 'b rmd \<Rightarrow> (UserRDTWorkLoad response \<times> 'b rmd) outcome" where
  "Patch E i body s =
     (case workload_GetWorkloadByID E i s of
        (wl, err) \<Rightarrow>
          if length (ID wl) = 0 \<or> err \<noteq> None then Ret (notFound, s)
          else if Origin wl = ''REST''
          then andThen (Update E wl (body\<lparr>ID := i\<rparr>) s) (\<lambda>(e, wl', s').
                 Ret (case e of
                        Some e' \<Rightarrow>
                          (ErrorStatus (case assertAppError e' of
                                          Some (c, _, _) \<Rightarrow> if c = errBadRequest then StatusBadRequest else StatusInternalServerError
                                        | None \<Rightarrow> StatusInternalServerError) e', s')
                      | None \<Rightarrow> (Entity StatusOK (toUser wl'), s')))
          else Ret (ErrorStatus StatusOK (Errorf ''200: You only have permission to modify REST origin workloads'' []), s))"

definition DeleteByID :: "'b rmd_env \<Rightarrow> string \<Rightarrow> 'b rmd \<Rightarrow> (unit response \<times> 'b rmd) outcome" where
  "DeleteByID E i s =
     (case workload_GetWorkloadByID E i s of
        (wl, err) \<Rightarrow>
          if length (ID wl) = 0 then Ret (notFound, s)
          else case err of
            Some e \<Rightarrow> Ret (ErrorStatus StatusInternalServerError e, s)
          | None \<Rightarrow>
              if Origin wl = ''REST''
              then andThen (Release E wl s) (\<lambda>(e1, s1).
                     Ret (case e1 of
                            Some e \<Rightarrow> (ErrorStatus StatusInternalServerError e, s1)
                          | None \<Rightarrow>
                              (case Delete E wl s1 of
                                 (Some e, s2) \<Rightarrow> (ErrorStatus StatusInternalServerError e, s2)
                               | (None, s2) \<Rightarrow> (NoContent, s2))))
              else Ret (ErrorStatus StatusOK (Errorf ''200: You only have permission to delete REST origin workloads'' []), s))"

section \<open>The other handlers\<close>

definition mba_Get :: "readFile \<Rightarrow> (string \<Rightarrow> bool option) \<Rightarrow> string \<Rightarrow> MbaInfo response" where
  "mba_Get fs statDir resctrlPath =
     (case MbaInfo_Get fs statDir resctrlPath \<lparr>InfoMba = False, MbaOn = False, MbaStep = 0, MbaMin = 0\<rparr> of
        (Some e, _) \<Rightarrow> ErrorStatus StatusInternalServerError e
      | (None, m) \<Rightarrow> Entity StatusOK m)"

definition policy_Get :: "host \<Rightarrow> policyEnv \<Rightarrow> policies response outcome" where
  "policy_Get H pe =
     andThen (GetDefaultPlatformPolicy H pe) (\<lambda>(r, err).
       Ret (case err of Some e \<Rightarrow> ErrorStatus StatusNotFound e | None \<Rightarrow> Entity StatusOK r))"

definition hospitality_GetByRequest :: "'b rmd_env \<Rightarrow> hRequest with_err \<Rightarrow> 'b rmd \<Rightarrow> (hospitality response \<times> 'b rmd) outcome" where
  "hospitality_GetByRequest E body s =
     (case body of
        (_, Some e) \<Rightarrow> Ret (ErrorStatus StatusInternalServerError e, s)
      | (hr, None) \<Rightarrow>
          andThen (GetByRequest (hostAt E s) (epolicy E) (ecodec E) (ebolt E) (store s) hr \<lparr>SC = []\<rparr> (cst s)) (\<lambda>(err, score, c).
            Ret (case err of
                   None \<Rightarrow> Entity StatusOK score
                 | Some e \<Rightarrow> (case assertAppError e of
                                Some (c, m, er) \<Rightarrow> ErrorStatus c (AppErrorPtr c m er)
                              | None \<Rightarrow> ErrorStatus StatusInternalServerError e), s\<lparr>cst := c\<rparr>)))"

end
