(* ===== verification/Workload_Laws.thy ===== *)
theory Workload_Laws
  imports WorkloadOps Db_Laws Pqos_Laws
begin

text \<open>
  What enforcing a workload changes: the hardware, the pool of classes and the record of the workload,
  never the store or the request. The lemmas here follow a class of service through \<open>enforceRDT\<close>
  and \<open>Enforce\<close> on success and on every failure.
\<close>

section \<open>What programming the hardware leaves alone\<close>

text \<open>Only the hardware, its file operations and the cache module's kept values may differ.\<close>

definition hw_only :: "'b rmd \<Rightarrow> 'b rmd \<Rightarrow> bool" where
  "hw_only s s' \<longleftrightarrow> s' = s\<lparr>cst := cst s', pqs := pqs s', fsops := fsops s'\<rparr>"

lemma hw_only_refl [simp]: "hw_only s s"
  by (simp add: hw_only_def)

lemma hw_only_upd [simp]:
  "hw_only s (s\<lparr>cst := c\<rparr>)" "hw_only s (s\<lparr>pqs := p\<rparr>)" "hw_only s (s\<lparr>fsops := f\<rparr>)"
  "hw_only s (s\<lparr>cst := c, pqs := p\<rparr>)"
  by (simp_all add: hw_only_def)

lemma hw_only_trans [trans]: "hw_only s t \<Longrightarrow> hw_only t u \<Longrightarrow> hw_only s u"
  by (cases s; cases t; cases u) (auto simp: hw_only_def)

lemma hw_onlyD:
  assumes "hw_only s s'"
  shows "cpool s' = cpool s" "store s' = store s" "plugCalls s' = plugCalls s" "dbOpen s' = dbOpen s"
    "mbaValue s' = mbaValue s" "mbaMaxValue s' = mbaMaxValue s"
  using assms by (cases s; cases s'; auto simp: hw_only_def)+

lemma commitRes_hw: "commitRes E r name s = Ret (e, s') \<Longrightarrow> hw_only s s'"
  by (auto simp: commitRes_def andThen_Ret_iff split: prod.splits)

lemma destroyRes_hw [simp]: "hw_only s (destroyRes E name s)"
  by (simp add: destroyRes_def)

lemma setOS_hw: "setOS E s = Ret (e, s') \<Longrightarrow> hw_only s s'"
  by (auto simp: setOS_def andThen_Ret_iff split: prod.splits)

lemma commitChanged_hw: "commitChanged E ch s = Ret (e, s') \<Longrightarrow> hw_only s s'"
proof (induction E ch s arbitrary: e s' rule: commitChanged.induct)
  case (2 E name res rest s)
  then obtain e1 s1 where c: "commitRes E res name s = Ret (e1, s1)"
    "(case e1 of Some _ \<Rightarrow> Ret (e1, s1) | None \<Rightarrow> commitChanged E rest s1) = Ret (e, s')"
    by (auto simp: andThen_Ret_iff)
  show ?case
  proof (cases e1)
    case None
    with c 2 show ?thesis using commitRes_hw hw_only_trans by fastforce
  next
    case (Some x)
    with c show ?thesis using commitRes_hw by auto
  qed
qed simp

lemma commitAll_hw: "commitAll E rd g res s = Ret (e, s') \<Longrightarrow> hw_only s s'"
proof -
  assume a: "commitAll E rd g res s = Ret (e, s')"
  then obtain e1 s1 where 1: "commitRes E res g s = Ret (e1, s1)" by (auto simp: commitAll_def andThen_Ret_iff)
  show ?thesis
  proof (cases e1)
    case Some
    with a 1 show ?thesis using commitRes_hw by (auto simp: commitAll_def)
  next
    case None
    with a 1 obtain e2 s2 where 2: "commitChanged E (ChangedRes rd) s1 = Ret (e2, s2)"
      by (auto simp: commitAll_def andThen_Ret_iff)
    note h = hw_only_trans [OF commitRes_hw [OF 1] commitChanged_hw [OF 2]]
    show ?thesis
    proof (cases e2)
      case Some
      with a 1 2 None have "s' = destroyRes E g s2" by (simp add: commitAll_def)
      with h show ?thesis using hw_only_trans destroyRes_hw by blast
    next
      case n2: None
      with a 1 2 None obtain e3 s3 where 3: "setOS E s2 = Ret (e3, s3)" "s' = s3 \<or> s' = destroyRes E g s3"
        by (auto simp: commitAll_def andThen_Ret_iff split: option.splits)
      with h show ?thesis using hw_only_trans setOS_hw destroyRes_hw by metis
    qed
  qed
qed

section \<open>The class of a workload\<close>

text \<open>
  A request that is not for the shared group takes the first free class. On success it is the class of
  the workload; on failure the class named in the workload before the call is given back, not the one
  that was taken.
\<close>

definition taken :: "'b rmd \<Rightarrow> clos_pool" where
  "taken s = snd (UseAvailableCLOS (cpool s))"

lemma enforceRDT_cases:
  assumes "enforceRDT E w er rd s = Ret (e, w', s')"
  obtains (no_class) c x where "takeClos er s = ((c, Some x), s')" "e = Some x" "w' = w"
  | (failed) c s1 s2 x where "takeClos er s = ((c, None), s1)" "hw_only s1 s2" "e = Some x"
      "giveBack (reqType er \<noteq> Shared) w s2 = (w', s')"
  | (programmed) c s1 where "takeClos er s = ((c, None), s1)" "hw_only s1 s'" "e = None" "w' = w\<lparr>CosName := c\<rparr>"
proof -
  obtain c err s1 where t: "takeClos er s = ((c, err), s1)" by (metis surj_pair)
  show thesis
  proof (cases err)
    case (Some x)
    with assms t show thesis by (intro no_class) (auto simp: enforceRDT_def)
  next
    case None
    with assms t obtain r where r: "buildRes er rd c = Ret r" by (auto simp: enforceRDT_def andThen_Ret_iff)
    show thesis
    proof (cases r)
      case (Inl x)
      with None assms t r show thesis
        by (intro failed [of c s1 s1 x]) (auto simp: enforceRDT_def split: prod.splits)
    next
      case (Inr resAss)
      with None assms t r obtain res e2 s2 where 2: "commitAll E rd c res s1 = Ret (e2, s2)"
        "(case e2 of None \<Rightarrow> Ret (None, w\<lparr>CosName := c\<rparr>, s2)
          | Some x \<Rightarrow> Ret (Some x, giveBack (reqType er \<noteq> Shared) w s2)) = Ret (e, w', s')"
        by (auto simp: enforceRDT_def andThen_Ret_iff Let_def)
      note h = commitAll_hw [OF 2(1)]
      show thesis
      proof (cases e2)
        case n: None
        with 2 h t None show thesis by (intro programmed [of c s1]) auto
      next
        case (Some x)
        with 2 h t None show thesis by (intro failed [of c s1 s2 x]) auto
      qed
    qed
  qed
qed

lemma enforceRDT_class:
  assumes "enforceRDT E w er rd s = Ret (e, w', s')" "reqType er \<noteq> Shared" "availableCLOSes (cpool s) = c # cs"
  shows "(e = None \<longrightarrow> w' = w\<lparr>CosName := c\<rparr> \<and> hw_only (s\<lparr>cpool := taken s\<rparr>) s') \<and>
    (e \<noteq> None \<longrightarrow> w' = w\<lparr>CosName := []\<rparr> \<and>
       hw_only (s\<lparr>cpool := snd (ReturnClos (CosName w) (taken s))\<rparr>) s')"
proof -
  have t: "takeClos er s = ((c, None), s\<lparr>cpool := taken s\<rparr>)"
    using assms(2,3) by (simp add: takeClos_def UseAvailableCLOS_def taken_def)
  from assms(1) show ?thesis
  proof (cases rule: enforceRDT_cases)
    case (failed c' s1 s2 x)
    then have h: "hw_only (s\<lparr>cpool := taken s\<rparr>) s2" using t by simp
    have "hw_only (s\<lparr>cpool := p\<rparr>) (s2\<lparr>cpool := p\<rparr>)" for p
      using h by (cases s; cases s2) (auto simp: hw_only_def)
    with failed hw_onlyD(1) [OF h] assms(2) show ?thesis by (auto simp: giveBack_def)
  qed (use t in auto)
qed

lemma ReturnClos_empty [simp]: "snd (ReturnClos [] p) = p"
  by (simp add: ReturnClos_def)

lemma enforceCache_hw: "enforceCache E er rd s = Ret (e, rd', s') \<Longrightarrow> hw_only s s'"
  by (auto simp: enforceCache_def andThen_Ret_iff Let_def case_prod_beta split: option.split_asm sum.split_asm)
    (metis hw_only_upd(1) sumE prod_cases3)

lemma enforceMba_hw: "enforceMba E er rd s = Ret (e, rd', s') \<Longrightarrow> hw_only s s'"
  by (auto simp: enforceMba_def andThen_Ret_iff Let_def case_prod_beta split: option.split_asm)

lemma populate_hw:
  assumes "populateEnforceRequest E w s = Ret (e, er, w', s')"
  shows "hw_only s s'" "w' = w\<lparr>Status := NoneStatus\<rparr>"
proof -
  obtain bm err where b: "BitmapsCPUWrapper (hostAt E s) (ArgStrings (CoreIDs w)) = Ret (bm, err)"
    using assms by (auto simp: populateEnforceRequest_def andThen_Ret_iff Let_def)
  have "hw_only s s' \<and> w' = w\<lparr>Status := NoneStatus\<rparr>"
  proof (cases err)
    case None
    with assms b show ?thesis
      by (auto simp: populateEnforceRequest_def andThen_Ret_iff Let_def case_prod_beta
          split: if_split_asm option.split_asm)
  qed (use assms b in \<open>auto simp: populateEnforceRequest_def Let_def\<close>)
  then show "hw_only s s'" "w' = w\<lparr>Status := NoneStatus\<rparr>" by simp_all
qed


lemma enforcePlugins_frame:
  "enforcePlugins E ps w s = (e, w', s') \<Longrightarrow>
   s' = s\<lparr>plugCalls := plugCalls s'\<rparr> \<and> w' = w\<lparr>BackendPluginInfo := BackendPluginInfo w'\<rparr>"
proof (induction E ps w s arbitrary: e w' s' rule: enforcePlugins.induct)
  case (2 E m ps rest w s)
  show ?case
  proof (cases "unify E ps")
    case (Pair paramsMap err)
    show ?thesis
    proof (cases err)
      case (Some x)
      with 2 Pair show ?thesis by auto
    next
      case None
      obtain r re h where c: "client_Enforce (eup E) (eplugins E) m
          (withIds (fst (prepareCoreIDs (CoreIDs w) [])) (fst (prepareCoreIDs (TaskIDs w) [])) paramsMap)
          (plugCalls s) = ((r, re), h)" by (metis surj_pair)
      show ?thesis
      proof (cases re)
        case (Some x)
        with 2 Pair None c show ?thesis by auto
      next
        case n: None
        with 2(2) Pair None c have "enforcePlugins E rest
             (w\<lparr>BackendPluginInfo := Some (al_put m r (gm_items (BackendPluginInfo w)))\<rparr>)
             (s\<lparr>plugCalls := h\<rparr>) = (e, w', s')" by simp
        from 2(1) [OF Pair [symmetric] None c [symmetric] refl n this] show ?thesis by simp
      qed
    qed
  qed
qed simp


lemma giveBack_frame:
  "giveBack f w s = (w', s') \<Longrightarrow> s' = s\<lparr>cpool := cpool s'\<rparr> \<and> w' = w\<lparr>CosName := CosName w'\<rparr>"
  by (auto simp: giveBack_def split: if_splits)

text \<open>Whatever happens, enforcing changes neither the store nor what the request asked for.\<close>

lemma hw_only_cpool: "hw_only s t \<Longrightarrow> t' = t\<lparr>cpool := cpool t'\<rparr> \<Longrightarrow> hw_only (s\<lparr>cpool := cpool t'\<rparr>) t'"
  by (cases s; cases t; cases t') (auto simp: hw_only_def)

lemma takeClos_frame: "takeClos er s = (r, s1) \<Longrightarrow> s1 = s\<lparr>cpool := cpool s1\<rparr>"
  by (auto simp: takeClos_def split: prod.splits)

lemma enforceRDT_frame:
  assumes "enforceRDT E w er rd s = Ret (e, w', s')"
  shows "hw_only (s\<lparr>cpool := cpool s'\<rparr>) s' \<and> w' = w\<lparr>CosName := CosName w'\<rparr>"
  using assms
proof (cases rule: enforceRDT_cases)
  case (no_class c x)
  with takeClos_frame [OF no_class(1)] show ?thesis by (cases s; cases s') (auto simp: hw_only_def)
next
  case (failed c s1 s2 x)
  note g = giveBack_frame [OF failed(4)]
  show ?thesis
    using failed(2) takeClos_frame [OF failed(1)] g
    by (cases s; cases s1; cases s2; cases s') (auto simp: hw_only_def)
next
  case (programmed c s1)
  with takeClos_frame [OF programmed(1)] show ?thesis
    by (cases s; cases s1; cases s') (auto simp: hw_only_def)
qed

definition asked_same :: "RDTWorkLoad \<Rightarrow> RDTWorkLoad \<Rightarrow> bool" where
  "asked_same w w' \<longleftrightarrow> w' = w\<lparr>Status := Status w', CosName := CosName w', BackendPluginInfo := BackendPluginInfo w'\<rparr>"

lemma Enforce_cases:
  assumes "Enforce E w s = Ret (e, w', s')"
  obtains (early) "e \<noteq> None" "hw_only s s'" "w' = w\<lparr>Status := NoneStatus\<rparr>"
  | (rdt) er rd s2 where "hw_only s s2" "UseMba er \<or> UseCache er" "e \<noteq> None"
      "enforceRDT E (w\<lparr>Status := NoneStatus\<rparr>) er rd s2 = Ret (e, w', s')"
  | (finished) er rd s2 w3 s3 where "hw_only s s2"
      "if UseMba er \<or> UseCache er then enforceRDT E (w\<lparr>Status := NoneStatus\<rparr>) er rd s2 = Ret (None, w3, s3)
       else w3 = w\<lparr>Status := NoneStatus\<rparr> \<and> s3 = s2"
      "s' = s3\<lparr>plugCalls := plugCalls s'\<rparr>"
      "w' = w3\<lparr>Status := (if e = None then Successful else NoneStatus), BackendPluginInfo := BackendPluginInfo w'\<rparr>"
proof -
  let ?w = "w\<lparr>Status := NoneStatus\<rparr>"
  obtain e0 er w0 s0 where 0: "populateEnforceRequest E (w\<lparr>Status := FailedStatus\<rparr>) s = Ret (e0, er, w0, s0)"
    using assms by (auto simp: Enforce_def andThen_Ret_iff)
  then have p: "hw_only s s0" "w0 = ?w" using populate_hw [OF 0] by simp_all
  show thesis
  proof (cases e0)
    case (Some x)
    with assms 0 p show thesis by (intro early) (auto simp: Enforce_def)
  next
    case None
    with assms 0 obtain e1 rd1 s1 where 1:
      "(if UseCache er then enforceCache E er zeroRDTEnforce s0 else Ret (None, zeroRDTEnforce, s0)) = Ret (e1, rd1, s1)"
      by (auto simp: Enforce_def andThen_Ret_iff)
    then have h1: "hw_only s s1" using p(1)
      by (auto split: if_splits intro: hw_only_trans dest!: enforceCache_hw)
    show thesis
    proof (cases e1)
      case (Some x)
      with assms 0 1 None p(2) h1 show thesis by (intro early) (auto simp: Enforce_def)
    next
      case n1: None
      with assms 0 1 None obtain e2 rd2 s2 where 2:
        "(if UseMba er then enforceMba E er rd1 s1 else Ret (None, rd1, s1)) = Ret (e2, rd2, s2)"
        by (auto simp: Enforce_def andThen_Ret_iff)
      then have h2: "hw_only s s2" using h1
        by (auto split: if_splits intro: hw_only_trans dest!: enforceMba_hw)
      show thesis
      proof (cases e2)
        case (Some x)
        with assms 0 1 2 None n1 p(2) h2 show thesis by (intro early) (auto simp: Enforce_def)
      next
        case n2: None
        with assms 0 1 2 None n1 p(2) obtain e3 w3 s3 where 3:
          "(if UseMba er \<or> UseCache er then enforceRDT E ?w er rd2 s2 else Ret (None, ?w, s2)) = Ret (e3, w3, s3)"
          by (auto simp: Enforce_def andThen_Ret_iff)
        show thesis
        proof (cases e3)
          case (Some x)
          with assms 0 1 2 3 None n1 n2 p(2) h2 show thesis
            by (intro rdt [of s2 er rd2]) (auto simp: Enforce_def split: if_splits)
        next
          case n3: None
          obtain e4 w4 s4 where 4: "enforcePlugins E (gm_items (Plugins w3)) w3 s3 = (e4, w4, s4)"
            by (metis surj_pair)
          have "w3 = ?w\<lparr>CosName := CosName w3\<rparr>"
            using 3 enforceRDT_frame [of E ?w er rd2 s2 e3 w3 s3] by (auto split: if_splits)
          then have "Status w3 = Status (?w\<lparr>CosName := CosName w3\<rparr>)" by (rule arg_cong)
          then have st: "Status w3 = NoneStatus" by simp
          note f = enforcePlugins_frame [OF 4]
          have "(case e4 of None \<Rightarrow> Ret (None, w4\<lparr>Status := Successful\<rparr>, s4) | Some x \<Rightarrow> Ret (Some x, w4, s4)) = Ret (e, w', s')"
            using assms 0 1 2 3 4 None n1 n2 n3 p(2) by (cases e4) (auto simp: Enforce_def)
          then have x: "s' = s4" "w' = w4\<lparr>Status := (if e = None then Successful else Status w4)\<rparr>"
            by (auto split: option.splits)
          have "w' = w3\<lparr>Status := (if e = None then Successful else NoneStatus), BackendPluginInfo := BackendPluginInfo w'\<rparr>"
            using x(2) f st by (cases w3; cases w4; cases w') auto
          with x(1) f 3 n3 h2 show thesis
            by (intro finished [of s2 er rd2 w3 s3]) (auto split: if_splits)
        qed
      qed
    qed
  qed
qed


lemma Enforce_frame:
  assumes "Enforce E w s = Ret (e, w', s')"
  shows "store s' = store s \<and> dbOpen s' = dbOpen s \<and> asked_same w w'"
  using assms
proof (cases rule: Enforce_cases)
  case early
  then show ?thesis using hw_onlyD [OF early(2)] by (simp add: asked_same_def)
next
  case (rdt er rd s2)
  note f = enforceRDT_frame [OF rdt(4)]
  have "asked_same w w'" using f by (cases w; cases w') (auto simp: asked_same_def)
  then show ?thesis using hw_onlyD [OF rdt(1)] f hw_onlyD [of "s2\<lparr>cpool := cpool s'\<rparr>" s'] by simp
next
  case (finished er rd s2 w3 s3)
  have f: "hw_only (s2\<lparr>cpool := cpool s3\<rparr>) s3 \<and> w3 = w\<lparr>Status := NoneStatus, CosName := CosName w3\<rparr>"
    using finished(2) enforceRDT_frame [of E "w\<lparr>Status := NoneStatus\<rparr>" er rd s2 None w3 s3]
    by (auto split: if_splits)
  have "asked_same w w'" using f finished(4) by (cases w; cases w3; cases w') (auto simp: asked_same_def)
  moreover have "store s' = store s3" "dbOpen s' = dbOpen s3"
    using arg_cong [OF finished(3), of store] arg_cong [OF finished(3), of dbOpen] by simp_all
  ultimately show ?thesis using hw_onlyD [OF finished(1)] f hw_onlyD [of "s2\<lparr>cpool := cpool s3\<rparr>" s3] by simp
qed

text \<open>The class a successful enforcement leaves in the workload.\<close>

lemma takeClos_pool: "takeClos er s = (r, s1) \<Longrightarrow>
  (if reqType er = Shared then GetSharedCLOS (cpool s) else UseAvailableCLOS (cpool s)) = (r, cpool s1)"
  by (auto simp: takeClos_def split: prod.splits)

lemma enforceRDT_ok_class:
  assumes "enforceRDT E w er rd s = Ret (None, w', s')"
  shows "(if reqType er = Shared then GetSharedCLOS (cpool s) else UseAvailableCLOS (cpool s)) =
    ((CosName w', None), cpool s')"
  using assms
proof (cases rule: enforceRDT_cases)
  case (programmed c s1)
  with takeClos_pool [OF programmed(1)] hw_onlyD(1) [OF programmed(2)] show ?thesis by simp
qed auto

lemma Enforce_class:
  assumes "Enforce E w s = Ret (None, w', s')"
  shows "Status w' = Successful \<and>
    (UseAvailableCLOS (cpool s) = ((CosName w', None), cpool s') \<or>
     GetSharedCLOS (cpool s) = ((CosName w', None), cpool s') \<or>
     CosName w' = CosName w \<and> cpool s' = cpool s)"
  using assms
proof (cases rule: Enforce_cases)
  case (finished er rd s2 w3 s3)
  have "Status w' = Successful" "CosName w' = CosName w3"
    using arg_cong [OF finished(4), of Status] arg_cong [OF finished(4), of CosName] by simp_all
  moreover have "cpool s' = cpool s3" using arg_cong [OF finished(3), of cpool] by simp
  moreover have "cpool s2 = cpool s" using hw_onlyD [OF finished(1)] by simp
  ultimately show ?thesis
    using finished(2) enforceRDT_ok_class [of E "w\<lparr>Status := NoneStatus\<rparr>" er rd s2 w3 s3]
    by (auto split: if_splits)
qed auto

text \<open>A failed enforcement of a new workload can only lose a class from the pool, never add one.\<close>

lemma giveBack_new: "CosName w = [] \<Longrightarrow> giveBack f w s = (w', s') \<Longrightarrow> cpool s' = cpool s"
  by (auto simp: giveBack_def split: if_splits)

lemma enforceRDT_fail_pool:
  assumes "enforceRDT E w er rd s = Ret (Some x, w', s')" "CosName w = []"
  shows "cpool s' = snd (if reqType er = Shared then GetSharedCLOS (cpool s) else UseAvailableCLOS (cpool s))"
  using assms(1)
proof (cases rule: enforceRDT_cases)
  case (no_class c y)
  with takeClos_pool [OF no_class(1)] show ?thesis by simp
next
  case (failed c s1 s2 y)
  with takeClos_pool [OF failed(1)] hw_onlyD(1) [OF failed(2)] giveBack_new [OF assms(2) failed(4)]
  show ?thesis by simp
qed simp

lemma Enforce_fail_pool:
  assumes "Enforce E w s = Ret (Some x, w', s')" "CosName w = []"
  shows "cpool s' = cpool s \<or> cpool s' = snd (UseAvailableCLOS (cpool s)) \<or> cpool s' = snd (GetSharedCLOS (cpool s))"
  using assms(1)
proof (cases rule: Enforce_cases)
  case early
  then show ?thesis using hw_onlyD(1) [OF early(2)] by simp
next
  case (rdt er rd s2)
  then show ?thesis
    using enforceRDT_fail_pool [OF rdt(4)] hw_onlyD(1) [OF rdt(1)] assms(2) by (auto split: if_splits)
next
  case (finished er rd s2 w3 s3)
  have "cpool s' = cpool s3" using arg_cong [OF finished(3), of cpool] by simp
  with finished(2) enforceRDT_ok_class [of E "w\<lparr>Status := NoneStatus\<rparr>" er rd s2 w3 s3] hw_onlyD(1) [OF finished(1)]
  show ?thesis by (auto split: if_splits)
qed

end
