(* ===== verification/Workload_Ops_Laws.thy ===== *)
theory Workload_Ops_Laws
  imports Workload_Laws Cache_Laws Hospitality_Laws
begin

text \<open>
  What the operations on workloads guarantee: which requests validation accepts, what it may fill in,
  what a patch can and cannot change, how the plugins see a list of cores, that a created workload is
  read back, what the clean-up of the data base removes and when a class of service is given back.
\<close>

section \<open>Requests that are accepted\<close>

lemma requestMba_cases:
  assumes "requestMba w s = Inr s1"
  shows "s1 = s\<lparr>mbaValue := mbaValue s1\<rparr>"
    "isMbaSupported s \<Longrightarrow> isMbaMbpsAvailable s \<Longrightarrow> mbaPercentage w = None \<and> (mbaMbps w = None \<or> mbaMbps w = Some (mbaValue s1))"
    "isMbaSupported s \<Longrightarrow> \<not> isMbaMbpsAvailable s \<Longrightarrow> mbaMbps w = None \<and> (mbaPercentage w = None \<or> mbaPercentage w = Some (mbaValue s1))"
  using assms by (auto simp: requestMba_def split: if_splits option.splits)

lemma validate_accepts:
  assumes "validate E w s = Ret (None, w', s')" "Policy w = []"
  shows "w' = w" "TaskIDs w \<noteq> [] \<or> CoreIDs w \<noteq> []" "cacheMax w = None \<longleftrightarrow> cacheMin w = None"
    "requestMba w s = Inr s'" "checkMba w s' = None" "checkSupport w s' = None"
    "cacheMax w \<noteq> None \<or> mbaPercentage w \<noteq> None \<or> gm_items (Plugins w) \<noteq> []"
proof -
  note v = assms(1) [unfolded validate_def]
  show "TaskIDs w \<noteq> [] \<or> CoreIDs w \<noteq> []" using v by (auto split: if_splits)
  then obtain ps where p: "ListProcesses (hfs (ehost E)) (hglob (ehost E)) = Ret ps"
    using v by (auto simp: andThen_Ret_iff split: if_splits)
  have f: "find (\<lambda>task. map_of ps task = None) (TaskIDs w) = None"
    using v p \<open>TaskIDs w \<noteq> [] \<or> CoreIDs w \<noteq> []\<close> by (cases "find (\<lambda>task. map_of ps task = None) (TaskIDs w)") (auto split: if_splits)
  note v2 = v [unfolded p andThen.simps f option.case]
  show c: "cacheMax w = None \<longleftrightarrow> cacheMin w = None"
    using v2 assms(2) \<open>TaskIDs w \<noteq> [] \<or> CoreIDs w \<noteq> []\<close> by (auto split: if_splits)
  show r: "requestMba w s = Inr s'"
    using v2 assms(2) c \<open>TaskIDs w \<noteq> [] \<or> CoreIDs w \<noteq> []\<close> by (auto split: if_splits sum.splits option.splits)
  have m: "checkMba w s' = None" using v2 assms(2) c r \<open>TaskIDs w \<noteq> [] \<or> CoreIDs w \<noteq> []\<close> by (cases "checkMba w s'") auto
  have u: "checkSupport w s' = None" using v2 assms(2) c r m \<open>TaskIDs w \<noteq> [] \<or> CoreIDs w \<noteq> []\<close> by (cases "checkSupport w s'") auto
  show "checkMba w s' = None" "checkSupport w s' = None" by (fact m, fact u)
  show "w' = w" using v2 assms(2) c r m u \<open>TaskIDs w \<noteq> [] \<or> CoreIDs w \<noteq> []\<close> by (auto split: option.splits if_splits)
  show "cacheMax w \<noteq> None \<or> mbaPercentage w \<noteq> None \<or> gm_items (Plugins w) \<noteq> []"
    using v2 assms(2) c r m u \<open>TaskIDs w \<noteq> [] \<or> CoreIDs w \<noteq> []\<close> by (auto split: option.splits if_splits)
qed

lemma validate_bounds:
  assumes "validate E w s = Ret (None, w', s')" "Policy w = []" "mbaPercentage w \<noteq> None \<or> mbaMbps w \<noteq> None"
  shows "0 < mbaValue s' \<and> mbaValue s' \<le> mbaMaxValue s \<and>
    (isMbaSupported s \<longrightarrow> (if isMbaMbpsAvailable s then mbaMbps w else mbaPercentage w) = Some (mbaValue s')) \<and>
    (isL3CATSupported s \<longrightarrow> isMbaSupported s \<and> cacheMax w \<noteq> None) \<and>
    (\<forall>mx mn. cacheMax w = Some mx \<longrightarrow> cacheMin w = Some mn \<longrightarrow> mx \<noteq> mn \<or> mx = 0 \<longrightarrow> mbaValue s' = mbaMaxValue s)"
proof -
  note a = validate_accepts [OF assms(1,2)]
  note q = requestMba_cases [OF a(4)]
  have g: "mbaMaxValue s' = mbaMaxValue s" "isMbaSupported s' = isMbaSupported s" "isL3CATSupported s' = isL3CATSupported s"
    using arg_cong [OF q(1), of mbaMaxValue] arg_cong [OF q(1), of isMbaSupported] arg_cong [OF q(1), of isL3CATSupported] by simp_all
  have m: "0 < mbaValue s' \<and> mbaValue s' \<le> mbaMaxValue s'"
    using a(5) assms(3) by (auto simp: checkMba_def word_gt_0 split: if_splits)
  have x: "isMbaSupported s \<longrightarrow> (if isMbaMbpsAvailable s then mbaMbps w else mbaPercentage w) = Some (mbaValue s')"
    using q(2,3) assms(3) by auto
  have y: "isL3CATSupported s \<longrightarrow> isMbaSupported s \<and> cacheMax w \<noteq> None"
    using a(3,6) assms(3) g by (auto simp: checkSupport_def split: if_splits)
  have z: "\<forall>mx mn. cacheMax w = Some mx \<longrightarrow> cacheMin w = Some mn \<longrightarrow> mx \<noteq> mn \<or> mx = 0 \<longrightarrow> mbaValue s' = mbaMaxValue s"
    using a(5) assms(3) g by (auto simp: checkMba_def split: if_splits)
  from m x y z g show ?thesis by simp
qed

text \<open>A request for bandwidth alone is refused when it is given in Mbps.\<close>

lemma validate_mbps_only:
  assumes "Policy w = []" "cacheMax w = None" "mbaPercentage w = None" "gm_items (Plugins w) = []"
  shows "validate E w s \<noteq> Ret (None, w', s')"
  using validate_accepts(7) [of E w s w' s'] assms by auto

section \<open>Patching cores and tasks\<close>

lemma validateWorkload_existing:
  assumes "ID w \<noteq> []" "\<exists>v \<in> set ws. ID v = ID w" "validateWorkload w ws = Ret e"
  shows "e \<noteq> None"
proof -
  have "find (\<lambda>i. ID w = ID i) ws \<noteq> None" using assms(2) by (auto simp: find_None_iff)
  with assms(1,3) show ?thesis by (auto simp: validateWorkload_def split: if_splits)
qed

lemma validate_keeps:
  assumes "validate E w s = Ret (e, w', s')"
  shows "store s' = store s" "dbOpen s' = dbOpen s" "ID w' = ID w"
proof -
  have f: "fillWorkloadByPolicy E w = Ret (e, w') \<Longrightarrow> ID w' = ID w" for e w'
    by (auto simp: fillWorkloadByPolicy_def andThen_Ret_iff Let_def split: if_split_asm option.split_asm)
  have r: "store s1 = store s \<and> dbOpen s1 = dbOpen s" if "requestMba w s = Inr s1" for s1
    using arg_cong [OF requestMba_cases(1) [OF that], of store] arg_cong [OF requestMba_cases(1) [OF that], of dbOpen] by simp
  have "store s' = store s \<and> dbOpen s' = dbOpen s \<and> ID w' = ID w"
    using assms f r
    by (auto simp: validate_def andThen_Ret_iff split: if_split_asm option.split_asm sum.split_asm)
  then show "store s' = store s" "dbOpen s' = dbOpen s" "ID w' = ID w" by simp_all
qed

lemma patchMembers_refused:
  assumes "patchMembers E patched w s = Ret (e, w', s')"
    "CoreIDs patched \<noteq> CoreIDs w \<or> TaskIDs patched \<noteq> TaskIDs w"
    "GetAllWorkload (ecodec E) (ebolt E) (store s) = (ws, None)" "\<exists>v \<in> set ws. ID v = ID patched" "ID patched \<noteq> []"
  shows "e \<noteq> None \<and> w' = w"
proof -
  obtain resaall e1 p' s1 where v: "resNow E s = Ret resaall" "Validate E patched s = Ret (e1, p', s1)"
    using assms(1,2) by (auto simp: patchMembers_def andThen_Ret_iff)
  have "e1 \<noteq> None"
  proof -
    obtain e0 w0 s0 where 0: "validate E patched s = Ret (e0, w0, s0)"
      using v(2) by (auto simp: Validate_def andThen_Ret_iff)
    show ?thesis
    proof (cases e0)
      case None
      with v(2) 0 obtain e2 where 2: "validateInDB E w0 s0 = Ret e2" "e1 = e2"
        by (auto simp: Validate_def andThen_Ret_iff)
      note k = validate_keeps [OF 0]
      show ?thesis
      proof (cases "dbOpen s0")
        case True
        with 2 assms(3) k obtain e3 where "validateWorkload w0 ws = Ret e3" "e2 = None \<longleftrightarrow> e3 = None"
          by (auto simp: validateInDB_def ValidateWorkload_def andThen_Ret_iff)
        with validateWorkload_existing [of w0 ws e3] assms(4,5) k 2(2) show ?thesis by auto
      qed (use 2 in \<open>auto simp: validateInDB_def\<close>)
    qed (use v(2) 0 in \<open>auto simp: Validate_def\<close>)
  qed
  with assms(1,2) v show ?thesis by (auto simp: patchMembers_def)
qed

lemma update_members_refused:
  assumes "update E w patched s = Ret (e, w', s')"
    "Policy patched = []" "cacheMax patched = None" "cacheMin patched = None" "mbaPercentage patched = None"
    "mbaMbps patched = None" "gm_items (Plugins patched) = []" "Policy w = []"
    "CoreIDs patched \<noteq> CoreIDs w \<or> TaskIDs patched \<noteq> TaskIDs w"
    "GetAllWorkload (ecodec E) (ebolt E) (store s) = (ws, None)" "\<exists>v \<in> set ws. ID v = ID patched" "ID patched \<noteq> []"
  shows "e \<noteq> None \<and> w' = w"
proof -
  have "patchParams E patched w s = Ret (None, w, False, s)"
    using assms(2-8) by (simp add: patchParams_def patchCache_def patchMode_def patchPercentage_def patchMbps_def)
  with assms(1,2) have "patchMembers E patched w s = Ret (e, w', s')" by (simp add: update_def)
  with patchMembers_refused assms(9-12) show ?thesis by blast
qed

section \<open>Core lists for plugins\<close>

fun item_ints :: "item \<Rightarrow> int list" where
  "item_ints (One s n) = [n]"
| "item_ints (Span s l h) = [l..h]"

lemma indexOf_dash: "indexOf ''-'' s = (if CHR ''-'' \<in> set s then Some (length (takeWhile (\<lambda>c. c \<noteq> CHR ''-'') s)) else None)"
  by (induction s) auto

lemma prepareCoreIDs_items:
  "\<forall>it \<in> set its. item_ok (2 ^ 63) it \<and> item_sign it \<Longrightarrow>
   prepareCoreIDs (map item_text its) acc = (acc @ concat (map item_ints its), None)"
proof (induction its arbitrary: acc)
  case (Cons it its)
  have digits: "CHR ''-'' \<notin> set (Itoa n)" "TrimSpace (Itoa n) = Itoa n" "Atoi (Itoa n) = (n, None)"
    if "0 \<le> n" "n < 2 ^ 63" for n
  proof -
    show "TrimSpace (Itoa n) = Itoa n" using item_text_chars(3) [of "2 ^ 63" "One True n"] that by (simp add: item_text_def)
    show "Atoi (Itoa n) = (n, None)" using Atoi_Itoa that by blast
    show "CHR ''-'' \<notin> set (Itoa n)"
      using item_text_chars(7) [of "2 ^ 63" "One True n"] that by (simp add: item_text_def isSpan_def)
  qed
  show ?case
  proof (cases it)
    case (One s n)
    with Cons show ?thesis using digits [of n] by (simp add: item_text_def indexOf_dash)
  next
    case (Span s l h)
    then have b: "0 \<le> l" "l \<le> h" "h < 2 ^ 63" "s" using Cons.prems by auto
    then have b': "0 \<le> h" "l < 2 ^ 63" by auto
    have tw: "takeWhile (\<lambda>c. c \<noteq> CHR ''-'') (Itoa l @ CHR ''-'' # Itoa h) = Itoa l"
      using digits(1) [OF b(1) b'(2)] by (auto simp: takeWhile_append)
    have "prepareCoreIDs (map item_text (it # its)) acc = prepareCoreIDs (map item_text its) (acc @ [l..h])"
      using Span b digits [OF b(1) b'(2)] digits [OF b'(1) b(3)] tw
      by (simp add: item_text_def indexOf_dash Let_def)
    with Cons Span show ?thesis by simp
  qed
qed simp

text \<open>The plugins are told the cores that the bit map of the same list has.\<close>

lemma prepareCoreIDs_bitmap:
  assumes "0 < n" "n \<le> 2 ^ 63" "\<forall>it \<in> set its. item_ok n it \<and> item_sign it"
  shows "\<exists>xs b. prepareCoreIDs (map item_text its) [] = (xs, None) \<and>
    NewBitmap [ArgInt n, ArgStrings (map item_text its)] = Ret (b, None) \<and> nat ` set xs = bm_set b"
proof -
  have ok: "item_ok (2 ^ 63) it" if "item_ok n it" for it using that assms(2) by (cases it) auto
  have t: "map items_text (map (\<lambda>it. [it]) its) = map item_text its" by (simp add: items_text_def comp_def)
  obtain b where b: "NewBitmap [ArgInt n, ArgStrings (map item_text its)] = Ret (b, None)"
    "bm_set b = foldl item_apply {} (concat (map (\<lambda>it. [it]) its))"
    using NewBitmap_items [OF assms(1,2), of "map (\<lambda>it. [it]) its"] assms(3) unfolding t by auto
  have "bm_set b = (\<Union>it \<in> set its. item_set it)"
    using b(2) foldl_item_apply_same [of its True "{}"] assms(3) by (simp add: Let_def)
  moreover have "nat ` set (item_ints it) = item_set it" if "item_ok n it" for it
  proof (cases it)
    case (Span s l h)
    with that have "0 \<le> l" "l \<le> h" by simp_all
    then have "int x \<in> {l..h}" if "x \<in> {nat l..nat h}" for x using that by auto
    then have "x \<in> nat ` {l..h}" if "x \<in> {nat l..nat h}" for x using that by (metis imageI nat_int)
    moreover have "nat ` {l..h} \<subseteq> {nat l..nat h}" by (auto simp: nat_mono)
    ultimately have "nat ` {l..h} = {nat l..nat h}" by blast
    with Span show ?thesis by simp
  qed simp
  then have "nat ` set (concat (map item_ints its)) = (\<Union>it \<in> set its. item_set it)"
    using assms(3) by (auto simp: image_Union image_UN)
  ultimately show ?thesis using b(1) prepareCoreIDs_items [of its "[]"] assms(3) ok by auto
qed

section \<open>Workloads of another origin\<close>

lemma foreign_untouched:
  assumes "workload_GetWorkloadByID E i s = (w, err)" "Origin w \<noteq> ''REST''"
  shows "\<exists>r r'. DeleteByID E i s = Ret (r, s) \<and> Patch E i body s = Ret (r', s)"
  using assms by (cases err) (auto simp: DeleteByID_def Patch_def)

section \<open>Reading back what was created\<close>

text \<open>Validation may fill in the parameters of a policy; it leaves the members and the names alone.\<close>

definition filled :: "RDTWorkLoad \<Rightarrow> RDTWorkLoad \<Rightarrow> bool" where
  "filled w w' \<longleftrightarrow> w' = w\<lparr>cacheMax := cacheMax w', cacheMin := cacheMin w', mbaPercentage := mbaPercentage w', Plugins := Plugins w'\<rparr>"

lemma fillWorkloadByPolicy_filled: "fillWorkloadByPolicy E w = Ret (e, w') \<Longrightarrow> filled w w'"
  by (auto simp: fillWorkloadByPolicy_def filled_def andThen_Ret_iff Let_def split: if_split_asm option.split_asm)

lemma validate_filled:
  assumes "validate E w s = Ret (e, w', s')"
  shows "filled w w'" "s' = s\<lparr>mbaValue := mbaValue s'\<rparr>"
proof -
  have id: "filled w w" by (simp add: filled_def)
  have "filled w w' \<and> s' = s\<lparr>mbaValue := mbaValue s'\<rparr>"
    using assms id requestMba_cases(1) [of w s] fillWorkloadByPolicy_filled [of E w]
    by (auto simp: validate_def andThen_Ret_iff split: if_split_asm option.split_asm sum.split_asm)
  then show "filled w w'" "s' = s\<lparr>mbaValue := mbaValue s'\<rparr>" by simp_all
qed

lemma Validate_validate:
  assumes "Validate E w s = Ret (e, w', s')"
  shows "\<exists>e0. validate E w s = Ret (e0, w', s')"
  using assms by (auto simp: Validate_def andThen_Ret_iff split: option.split_asm prod.split_asm)

lemma CreateWorkload_named: "CreateWorkload js bo w s = Ret (None, w', s') \<Longrightarrow> ID w' \<noteq> []"
proof -
  assume a: "CreateWorkload js bo w s = Ret (None, w', s')"
  then obtain w1 s1 where n: "nextID bo w s = Inl (w1, s1)" "w1 = w'"
    by (auto simp: CreateWorkload_def andThen_Ret_iff case_prod_beta split: if_split_asm sum.split_asm) (metis sumE)+
  have "Itoa (int k) \<noteq> []" for k
    using item_text_chars(5) [of "int k + 1" "One True (int k)"] by (simp add: item_text_def)
  with n show ?thesis by (auto simp: nextID_def split: if_split_asm sum.split_asm prod.split_asm)
qed

lemma filledD:
  assumes "filled w w'"
  shows "CoreIDs w' = CoreIDs w" "TaskIDs w' = TaskIDs w" "Origin w' = Origin w"
proof -
  note f = assms [unfolded filled_def]
  show "CoreIDs w' = CoreIDs w" "TaskIDs w' = TaskIDs w" "Origin w' = Origin w"
    by (subst f, simp)+
qed

lemma asked_sameD:
  assumes "asked_same w w'"
  shows "CoreIDs w' = CoreIDs w" "TaskIDs w' = TaskIDs w" "Origin w' = Origin w" "UUID w' = UUID w"
proof -
  note f = assms [unfolded asked_same_def]
  show "CoreIDs w' = CoreIDs w" "TaskIDs w' = TaskIDs w" "Origin w' = Origin w" "UUID w' = UUID w"
    by (subst f, simp)+
qed

lemma NewWorkload_created:
  assumes "bolt_contract (ebolt E)" "codec_roundtrip (ecodec E)" "hasTables (ebolt E) (store s)"
    "NewWorkload E (u, None) s = Ret (Entity c r, s')"
  shows "c = StatusCreated \<and> workload_GetByID E (userID r) s' = Entity StatusOK r \<and> userStatus r = Successful \<and>
    userOrigin r = ''REST'' \<and> userCoreIDs r = userCoreIDs u \<and> userTaskIDs r = userTaskIDs u \<and>
    (\<forall>i. i \<noteq> userID r \<longrightarrow>
       GetWorkloadByID (ecodec E) (ebolt E) i (store s') = GetWorkloadByID (ecodec E) (ebolt E) i (store s))"
proof -
  let ?u = "u\<lparr>userOrigin := ''REST''\<rparr>"
  note n = assms(4) [unfolded NewWorkload_def prod.case option.case Let_def]
  obtain e0 w0 s0 where 0: "Validate E (ofUser ?u) s = Ret (e0, w0, s0)"
    using n unfolding andThen_Ret_iff by auto
  note n0 = n [unfolded 0 andThen.simps prod.case]
  have e0: "e0 = None" using n0 by (cases e0) auto
  note n1 = n0 [unfolded e0 option.case]
  obtain e1 w1 s1 where 1: "Enforce E w0 s0 = Ret (e1, w1, s1)" using n1 unfolding andThen_Ret_iff by auto
  note n2 = n1 [unfolded 1 andThen.simps prod.case]
  have e1: "e1 = None" using n2 by (cases e1) (auto split: option.split_asm prod.split_asm if_split_asm)
  note n3 = n2 [unfolded e1 option.case]
  from n3 obtain e2 w2 where 2: "Create E w1 s1 = Ret (e2, w2, s')"
    "(case e2 of Some e \<Rightarrow> ErrorStatus StatusInternalServerError e
      | None \<Rightarrow> Entity StatusCreated
          (?u\<lparr>userID := ID w2, userStatus := Status w2, userCosName := CosName w2,
             userUUID := UUID w2, userPolicy := Policy w2, userCacheMax := cacheMax w2,
             userCacheMin := cacheMin w2, userMbaPercentage := mbaPercentage w2,
             userMbaMbps := mbaMbps w2, userPlugins := Plugins w2\<rparr>)) = Entity c r"
    unfolding andThen_Ret_iff by (auto split: option.split_asm)
  obtain e0' where v: "validate E (ofUser ?u) s = Ret (e0', w0, s0)" using Validate_validate [OF 0] by blast
  note f0 = validate_filled [OF v]
  note f1 = Enforce_frame [OF 1] and c1 = Enforce_class [OF 1 [unfolded e1]]
  have st: "store s1 = store s" "dbOpen s1 = dbOpen s"
    using f1 arg_cong [OF f0(2), of store] arg_cong [OF f0(2), of dbOpen] by simp_all
  have e2: "e2 = None" using 2(2) by (cases e2) auto
  with 2(1) have op: "dbOpen s1" and cr: "CreateWorkload (ecodec E) (ebolt E) w1 (store s) = Ret (None, w2, store s')"
    "s' = s1\<lparr>store := store s'\<rparr>"
    using st by (auto simp: Create_def andThen_Ret_iff split: if_split_asm)
  have db: "bolt_db (ebolt E) (ecodec E)" using assms(1,2) by (simp add: bolt_db_def bolt_db_axioms_def)
  note ok = workload_store.create_ok [OF bolt_db.store [OF db] assms(3) cr(1)]
  note frame = workload_store.create_frame [OF bolt_db.store [OF db] assms(3) cr(1)]
  from ok obtain i where i: "w2 = w1\<lparr>ID := i\<rparr>" by blast
  have w: "CoreIDs w2 = userCoreIDs u" "TaskIDs w2 = userTaskIDs u" "Origin w2 = ''REST''"
    using i asked_sameD [of w0 w1] f1 filledD [OF f0(1)] by (simp_all add: ofUser_def)
  have r: "c = StatusCreated" "r = toUser w2" using 2(2) e2 w by (auto simp: toUser_def)
  have "dbOpen s'" using arg_cong [OF cr(2), of dbOpen] op by simp
  moreover have "Status w2 = Successful" using c1 i by simp
  ultimately show ?thesis
    using r w ok frame CreateWorkload_named [OF cr(1)]
    by (simp add: workload_GetByID_def workload_GetWorkloadByID_def toUser_def)
qed

section \<open>Cleaning up\<close>

definition stale :: "'b rmd_env \<Rightarrow> RDTWorkLoad \<Rightarrow> bool" where
  "stale E w \<longleftrightarrow> TaskIDs w \<noteq> [] \<and> (\<forall>t \<in> set (TaskIDs w). estat E (''/proc/'' @ t) \<noteq> Some True)"

lemma stale_iff: "length (TaskIDs w) \<noteq> 0 \<and> shouldRemoveWorkload E w \<longleftrightarrow> stale E w"
  by (auto simp: stale_def shouldRemoveWorkload_def find_None_iff)

lemma Delete_store: "snd (Delete E w s) = s\<lparr>store := store (snd (Delete E w s))\<rparr>"
  by (auto simp: Delete_def split: prod.split option.split)

lemma removeStale_spec:
  assumes "bolt_contract (ebolt E)" "codec_roundtrip (ecodec E)"
  shows "hasTables (ebolt E) (store s) \<Longrightarrow> dbOpen s \<Longrightarrow>
    \<forall>w \<in> set ws. \<forall>b. hasTables (ebolt E) b \<longrightarrow> fst (DeleteWorkload (ebolt E) w b) = None \<Longrightarrow>
    removeStale E ws s = s\<lparr>store := store (removeStale E ws s)\<rparr> \<and>
    hasTables (ebolt E) (store (removeStale E ws s)) \<and>
    (\<forall>i. if \<exists>w \<in> set ws. stale E w \<and> ID w = i
         then snd (GetWorkloadByID (ecodec E) (ebolt E) i (store (removeStale E ws s))) \<noteq> None
         else GetWorkloadByID (ecodec E) (ebolt E) i (store (removeStale E ws s)) =
              GetWorkloadByID (ecodec E) (ebolt E) i (store s))"
proof (induction ws arbitrary: s)
  case (Cons w ws)
  have db: "bolt_db (ebolt E) (ecodec E)" using assms by (simp add: bolt_db_def bolt_db_axioms_def)
  note st = bolt_db.store [OF db]
  show ?case
  proof (cases "stale E w")
    case False
    then have "removeStale E (w # ws) s = removeStale E ws s" using stale_iff [of w E] by auto
    with Cons.IH [OF Cons.prems(1,2)] Cons.prems(3) False show ?thesis by auto
  next
    case stw: True
    let ?s1 = "snd (Delete E w s)"
    obtain b where b: "DeleteWorkload (ebolt E) w (store s) = (None, b)"
      using Cons.prems(1,3) by (metis list.set_intros(1) prod.collapse)
    then have s1: "?s1 = s\<lparr>store := b\<rparr>" using Cons.prems(2) by (simp add: Delete_def)
    have r: "removeStale E (w # ws) s = removeStale E ws ?s1" using stw stale_iff [of w E] by auto
    note ok = workload_store.remove_ok [OF st Cons.prems(1) b] workload_store.remove_frame [OF st Cons.prems(1) b]
    note ih = Cons.IH [of "s\<lparr>store := b\<rparr>", folded s1]
    have h1: "hasTables (ebolt E) (store ?s1)" "dbOpen ?s1" using ok(1) Cons.prems(2) by (simp_all add: s1)
    have h2: "\<forall>w \<in> set ws. \<forall>b. hasTables (ebolt E) b \<longrightarrow> fst (DeleteWorkload (ebolt E) w b) = None"
      using Cons.prems(3) by simp
    note IH = ih [OF h1 h2]
    have 1: "removeStale E ws ?s1 = s\<lparr>store := store (removeStale E ws ?s1)\<rparr>"
      using conjunct1 [OF IH] by (rule trans) (simp add: s1)
    show ?thesis unfolding r
    proof (intro conjI allI)
      show "removeStale E ws ?s1 = s\<lparr>store := store (removeStale E ws ?s1)\<rparr>" by (rule 1)
      show "hasTables (ebolt E) (store (removeStale E ws ?s1))" using IH by blast
      fix i
      show "if \<exists>w \<in> set (w # ws). stale E w \<and> ID w = i
         then snd (GetWorkloadByID (ecodec E) (ebolt E) i (store (removeStale E ws ?s1))) \<noteq> None
         else GetWorkloadByID (ecodec E) (ebolt E) i (store (removeStale E ws ?s1)) =
              GetWorkloadByID (ecodec E) (ebolt E) i (store s)"
      proof (cases "\<exists>w \<in> set ws. stale E w \<and> ID w = i")
        case True
        with IH have "snd (GetWorkloadByID (ecodec E) (ebolt E) i (store (removeStale E ws ?s1))) \<noteq> None" by presburger
        with True show ?thesis by simp
      next
        case F: False
        with IH have e: "GetWorkloadByID (ecodec E) (ebolt E) i (store (removeStale E ws ?s1)) =
          GetWorkloadByID (ecodec E) (ebolt E) i (store ?s1)" by presburger
        have sb: "store ?s1 = b" by (simp add: s1)
        show ?thesis
        proof (cases "i = ID w")
          case True
          with ok e stw sb show ?thesis by auto
        next
          case False
          with ok e F sb show ?thesis by auto
        qed
      qed
    qed
  qed
qed simp

lemma dbContentValidation_spec:
  assumes "bolt_contract (ebolt E)" "codec_roundtrip (ecodec E)" "hasTables (ebolt E) (store s)" "dbOpen s"
    "GetAllWorkload (ecodec E) (ebolt E) (store s) = (ws, None)"
    "\<forall>w \<in> set ws. \<forall>b. hasTables (ebolt E) b \<longrightarrow> fst (DeleteWorkload (ebolt E) w b) = None"
  shows "dbContentValidation E s = s\<lparr>store := store (dbContentValidation E s)\<rparr> \<and>
    (\<forall>i. if \<exists>w \<in> set ws. stale E w \<and> ID w = i
         then snd (GetWorkloadByID (ecodec E) (ebolt E) i (store (dbContentValidation E s))) \<noteq> None
         else GetWorkloadByID (ecodec E) (ebolt E) i (store (dbContentValidation E s)) =
              GetWorkloadByID (ecodec E) (ebolt E) i (store s))"
proof -
  have "dbContentValidation E s = removeStale E ws s"
    using assms(4,5) by (simp add: dbContentValidation_def GetAll_def)
  with removeStale_spec [OF assms(1-4), of ws] assms(6) show ?thesis by simp
qed

section \<open>Giving a class back\<close>

lemma releasePlugins_frame: "releasePlugins E w ps s = (e, s') \<Longrightarrow> s' = s\<lparr>plugCalls := plugCalls s'\<rparr>"
proof (induction E w ps s arbitrary: e s' rule: releasePlugins.induct)
  case (2 E w m ps rest s)
  obtain pm e1 where u: "unify E ps = (pm, e1)" by fastforce
  obtain cpus e2 where c: "prepareCoreIDs (CoreIDs w) [] = (cpus, e2)" by fastforce
  obtain tasks e3 where t: "prepareCoreIDs (TaskIDs w) [] = (tasks, e3)" by fastforce
  show ?case
  proof (cases "e1 = None \<and> e2 = None \<and> e3 = None")
    case True
    define p1 where "p1 = (if BackendPluginInfo w = None then pm
      else al_put ''ENFORCEID'' (VString (case gm_get (BackendPluginInfo w) m of Some x \<Rightarrow> x | None \<Rightarrow> [])) pm)"
    obtain r h where r: "client_Release (eup E) (eplugins E) m (withIds cpus tasks p1) (plugCalls s) = (r, h)" by fastforce
    show ?thesis
    proof (cases r)
      case (Some x)
      with 2(2) u c t True r show ?thesis by (auto simp: p1_def [symmetric] Let_def)
    next
      case None
      then have "releasePlugins E w rest (s\<lparr>plugCalls := h\<rparr>) = (e, s')"
        using 2(2) u c t True r by (simp add: p1_def [symmetric] Let_def)
      from 2(1) [OF u [symmetric] _ c [symmetric] _ t [symmetric] _ p1_def r [symmetric] None this] True
      show ?thesis by simp
    qed
  qed (use 2(2) u c t in \<open>auto split: option.split_asm\<close>)
qed simp

text \<open>
  Releasing a workload does not touch the store; either its class goes back to the pool as the last
  resource, or the pool is as before, also when a call into the library failed and no error is reported.
\<close>

definition released :: "RDTWorkLoad \<Rightarrow> 'b rmd \<Rightarrow> 'b rmd \<Rightarrow> bool" where
  "released w s s' \<longleftrightarrow> store s' = store s \<and> dbOpen s' = dbOpen s \<and>
     (cpool s' = cpool s \<or> cpool s' = snd (ReturnClos (CosName w) (cpool s)))"

lemma setOS_keeps: "setOS E s = Ret (e, s') \<Longrightarrow> store s' = store s \<and> dbOpen s' = dbOpen s \<and> cpool s' = cpool s"
  using hw_onlyD [OF setOS_hw] by blast

lemma releaseClos_released:
  assumes "releaseClos E w s = Ret (e, s')"
  shows "released w s s'"
proof -
  obtain e1 pq where 1: "client_ResetCOSParamsToDefaults (eup E) (epqos E) (CosName w) (pqs s) = Ret (e1, pq)"
    using assms by (auto simp: releaseClos_def andThen_Ret_iff)
  show ?thesis
  proof (cases e1)
    case None
    with assms 1 have "setOS E (s\<lparr>pqs := pq, cpool := snd (ReturnClos (CosName w) (cpool s))\<rparr>) = Ret (e, s')"
      by (simp add: releaseClos_def Let_def)
    from setOS_keeps [OF this] show ?thesis by (simp add: released_def)
  qed (use assms 1 in \<open>auto simp: releaseClos_def released_def Let_def\<close>)
qed

lemma Release_effects:
  assumes "Release E w s = Ret (e, s')"
  shows "released w s s'"
proof -
  obtain e0 s0 where 0: "releasePlugins E w (gm_items (Plugins w)) s = (e0, s0)" by fastforce
  note fr = releasePlugins_frame [OF 0]
  have s0: "store s0 = store s" "dbOpen s0 = dbOpen s" "cpool s0 = cpool s"
    using arg_cong [OF fr, of store] arg_cong [OF fr, of dbOpen] arg_cong [OF fr, of cpool] by simp_all
  show ?thesis
  proof (cases "e0 = None \<and> CosName w \<noteq> []")
    case True
    with assms 0 obtain e1 pq1 where 1: "(if 0 < length (TaskIDs w)
        then client_RemoveTasks (eup E) (epqos E) (TaskIDs w) (pqs s0) else Ret (None, pqs s0)) = Ret (e1, pq1)"
      by (auto simp: Release_def andThen_Ret_iff)
    show ?thesis
    proof (cases e1)
      case (Some x)
      with assms 0 1 True s0 show ?thesis by (auto simp: Release_def released_def Let_def)
    next
      case None
      define s1 where "s1 = s0\<lparr>pqs := pq1\<rparr>"
      from assms 0 1 True None have a: "andThen (if 0 < length (CoreIDs w)
          then client_RemoveCores (eup E) (epqos E) (CoreIDs w) (pqs s1) else Ret (None, pqs s1)) (\<lambda>(e2, pq2).
          let s2 = s1\<lparr>pqs := pq2\<rparr> in if e2 \<noteq> None then Ret (None, s2)
            else if IsSharedCLOS (CosName w) (cpool s2)
            then andThen (sharedInUse E w s2) (\<lambda>u. case u of
                None \<Rightarrow> Ret (None, s2\<lparr>cpool := snd (ReturnClos (CosName w) (cpool s2))\<rparr>)
              | Some True \<Rightarrow> setOS E s2 | Some False \<Rightarrow> releaseClos E w s2)
            else releaseClos E w s2) = Ret (e, s')"
        unfolding Release_def s1_def by (simp only: prod.case option.case Let_def if_True if_False simp_thms andThen.simps)
      then obtain e2 pq2 where 2: "(if 0 < length (CoreIDs w)
          then client_RemoveCores (eup E) (epqos E) (CoreIDs w) (pqs s1) else Ret (None, pqs s1)) = Ret (e2, pq2)"
        unfolding andThen_Ret_iff by fastforce
      define s2 where "s2 = s1\<lparr>pqs := pq2\<rparr>"
      have s2: "released w s2 s' \<Longrightarrow> released w s s'" using s0 by (simp add: s2_def s1_def released_def)
      have r2: "released w s2 s2" by (simp add: released_def)
      from a have b: "(if e2 \<noteq> None then Ret (None, s2)
            else if IsSharedCLOS (CosName w) (cpool s2)
            then andThen (sharedInUse E w s2) (\<lambda>u. case u of
                None \<Rightarrow> Ret (None, s2\<lparr>cpool := snd (ReturnClos (CosName w) (cpool s2))\<rparr>)
              | Some True \<Rightarrow> setOS E s2 | Some False \<Rightarrow> releaseClos E w s2)
            else releaseClos E w s2) = Ret (e, s')"
        unfolding 2 s2_def by (simp only: andThen.simps prod.case Let_def)
      show ?thesis
      proof (cases "e2 \<noteq> None \<or> \<not> IsSharedCLOS (CosName w) (cpool s2)")
        case True
        with b r2 s2 show ?thesis by (auto dest: releaseClos_released split: if_split_asm)
      next
        case False
        with b obtain u where "(case u of None \<Rightarrow> Ret (None, s2\<lparr>cpool := snd (ReturnClos (CosName w) (cpool s2))\<rparr>)
              | Some True \<Rightarrow> setOS E s2 | Some False \<Rightarrow> releaseClos E w s2) = Ret (e, s')"
          by (cases "sharedInUse E w s2") auto
        then have "released w s2 s'"
          by (auto simp: released_def dest!: releaseClos_released setOS_keeps split: option.split_asm bool.split_asm)
        then show ?thesis by (rule s2)
      qed
    qed
  qed (use assms 0 s0 in \<open>auto simp: Release_def released_def split: option.split_asm\<close>)
qed

section \<open>Workloads and the pool of classes\<close>

lemma acquire_reachable:
  assumes "reachable n \<lparr>pool = p, held = hs\<rparr>" "n \<le> 2 ^ 63"
  shows "UseAvailableCLOS p = ((c, e), p') \<Longrightarrow> \<exists>hs'. reachable n \<lparr>pool = p', held = hs'\<rparr> \<and> set hs \<subseteq> set hs' \<and>
      (e = None \<longrightarrow> c \<in> set hs' \<and> c \<notin> set hs)"
    "GetSharedCLOS p = ((c, e), p') \<Longrightarrow> \<exists>hs'. reachable n \<lparr>pool = p', held = hs'\<rparr> \<and> set hs \<subseteq> set hs' \<and>
      (e = None \<longrightarrow> c \<in> set hs' \<and> (c \<in> set hs \<longrightarrow> c = sharedCLOS p))"
proof -
  have new: "c \<notin> set hs" if "UseAvailableCLOS p = ((c, None), p')" for c p'
    using that reachable_exclusive(3) [OF assms] by (auto simp: UseAvailableCLOS_def split: list.splits)
  show "\<exists>hs'. reachable n \<lparr>pool = p', held = hs'\<rparr> \<and> set hs \<subseteq> set hs' \<and> (e = None \<longrightarrow> c \<in> set hs' \<and> c \<notin> set hs)"
    if r: "UseAvailableCLOS p = ((c, e), p')"
  proof (cases e)
    case None
    with r have u: "UseAvailableCLOS p = ((c, None), p')" by simp
    from reachable.more [OF assms(1) pool_step.take_step [OF u]] new [OF u] None show ?thesis
      by (intro exI [of _ "c # hs"]) auto
  next
    case (Some x)
    with r have "p' = p" by (auto simp: UseAvailableCLOS_def split: list.splits)
    with assms(1) Some show ?thesis by auto
  qed
  show "\<exists>hs'. reachable n \<lparr>pool = p', held = hs'\<rparr> \<and> set hs \<subseteq> set hs' \<and>
      (e = None \<longrightarrow> c \<in> set hs' \<and> (c \<in> set hs \<longrightarrow> c = sharedCLOS p))"
    if r: "GetSharedCLOS p = ((c, e), p')"
  proof (cases "sharedCLOS p = []")
    case fresh: True
    show ?thesis
    proof (cases e)
      case None
      with r fresh obtain q where u: "UseAvailableCLOS p = ((c, None), q)"
        by (auto simp: GetSharedCLOS_def split: prod.split_asm option.split_asm)
      from None r have "GetSharedCLOS p = ((c, None), p')" by simp
      from reachable.more [OF assms(1) pool_step.share_new [OF fresh this]] new [OF u] None show ?thesis
        by (intro exI [of _ "c # hs"]) auto
    next
      case (Some x)
      with r fresh have "p' = p"
        by (auto simp: GetSharedCLOS_def UseAvailableCLOS_def split: list.splits)
      with assms(1) Some show ?thesis by auto
    qed
  next
    case False
    with r have c: "c = sharedCLOS p" "e = None" "p' = p" by (auto simp: GetSharedCLOS_def)
    have "c \<in> set hs" using reachable_conserved [OF assms(1)] False c(1) by (auto simp: conserved_def)
    with assms(1) c show ?thesis by auto
  qed
qed

lemma Enforce_reachable:
  assumes "Enforce E w s = Ret (e, w', s')" "CosName w = []" "reachable n \<lparr>pool = cpool s, held = hs\<rparr>" "n \<le> 2 ^ 63"
  shows "\<exists>hs'. reachable n \<lparr>pool = cpool s', held = hs'\<rparr> \<and> set hs \<subseteq> set hs' \<and>
    (e = None \<longrightarrow> CosName w' = [] \<or>
      CosName w' \<in> set hs' \<and> (CosName w' \<in> set hs \<longrightarrow> CosName w' = sharedCLOS (cpool s)))"
proof (cases e)
  case None
  with assms(1) have "Enforce E w s = Ret (None, w', s')" by simp
  from Enforce_class [OF this] consider
    "UseAvailableCLOS (cpool s) = ((CosName w', None), cpool s')"
    | "GetSharedCLOS (cpool s) = ((CosName w', None), cpool s')"
    | "CosName w' = CosName w" "cpool s' = cpool s" by blast
  then show ?thesis
  proof cases
    case 1
    from acquire_reachable(1) [OF assms(3,4) 1] show ?thesis by auto
  next
    case 2
    from acquire_reachable(2) [OF assms(3,4) 2] show ?thesis by auto
  next
    case 3
    with assms(2,3) show ?thesis by auto
  qed
next
  case (Some x)
  obtain c e' p' where u: "UseAvailableCLOS (cpool s) = ((c, e'), p')" by (metis prod.collapse)
  obtain d e'' p'' where g: "GetSharedCLOS (cpool s) = ((d, e''), p'')" by (metis prod.collapse)
  from Enforce_fail_pool [OF assms(1) [unfolded Some] assms(2)]
    acquire_reachable(1) [OF assms(3,4) u] acquire_reachable(2) [OF assms(3,4) g] assms(3) u g Some
  show ?thesis by auto
qed

lemma Release_reachable:
  assumes "Release E w s = Ret (e, s')" "CosName w \<noteq> sharedCLOS (cpool s)" "CosName w \<in> set hs"
    "reachable n \<lparr>pool = cpool s, held = hs\<rparr>"
  shows "reachable n \<lparr>pool = cpool s', held = hs\<rparr> \<and> cpool s' = cpool s \<or>
    reachable n \<lparr>pool = cpool s', held = remove1 (CosName w) hs\<rparr> \<and> CosName w \<in> set (availableCLOSes (cpool s'))"
proof (cases "cpool s' = cpool s")
  case False
  with Release_effects [OF assms(1)] have p: "cpool s' = snd (ReturnClos (CosName w) (cpool s))" by (simp add: released_def)
  obtain e1 where r: "ReturnClos (CosName w) (cpool s) = (e1, cpool s')" using p by (metis prod.collapse)
  with False have n: "e1 = None" by (auto simp: ReturnClos_def split: if_split_asm option.split_asm)
  from reachable.more [OF assms(4) pool_step.give_back [OF assms(3) r [unfolded n]]]
  have "reachable n \<lparr>pool = cpool s', held = remove1 (CosName w) hs\<rparr>" .
  moreover have "fst (ReturnClos c p) = None \<Longrightarrow> c \<in> set (availableCLOSes (snd (ReturnClos c p)))" for c p
    by (auto simp: ReturnClos_def split: option.split_asm option.split)
  from this [of "CosName w" "cpool s"] r n have "CosName w \<in> set (availableCLOSes (cpool s'))" by simp
  ultimately show ?thesis by blast
qed (use assms(4) in simp)

end
