(* ===== verification/Enforce_Laws.thy ===== *)
theory Enforce_Laws
  imports Workload_Laws Cache_Laws Hospitality_Laws
begin

text \<open>
  Which ways of the last-level cache a request gets. On every requested cache it is given the highest
  free window: of the wanted size from the guaranteed pool, of the longest free run up to the maximum from
  the best-effort pool; when a cache has no such window the request is refused. A window lies in the pool
  and meets the ways of no other group.
\<close>

section \<open>The ways one cache can give\<close>

definition grantOf :: "EnforceRequest \<Rightarrow> nat set \<Rightarrow> nat option" where
  "grantOf er A =
     (if reqType er = Guarantee
      then if \<exists>s. window A s (unat (MaxWays er)) then Some (unat (MaxWays er)) else None
      else if unat (MinWays er) \<le> longestRun A then Some (min (longestRun A) (unat (MaxWays er))) else None)"

definition top_window :: "nat set \<Rightarrow> nat \<Rightarrow> nat set \<Rightarrow> bool" where
  "top_window A w C \<longleftrightarrow> 0 < w \<and> (\<exists>s. C = {s..<s + w} \<and> window A s w \<and> (\<forall>s'. window A s' w \<longrightarrow> s' \<le> s))"

lemma top_window_sub: "top_window A w C \<Longrightarrow> C \<subseteq> A \<and> C \<noteq> {}"
  by (auto simp: top_window_def window_def)

lemma connective_top:
  assumes "bm_wf b" "0 < Len b" "Len b < 2 ^ 32" "0 < ways"
  shows "\<exists>r. GetConnectiveBits b ways 0 False = Ret r \<and> bm_wf r \<and> Len r = Len b \<and>
    (if \<exists>s. window (bm_set b) s (unat ways) then top_window (bm_set b) (unat ways) (bm_set r) else bm_set r = {})"
proof -
  have w: "0 < unat ways" using assms(4) by (simp add: word_less_nat_alt)
  have in_range: "s + unat ways \<le> nat (Len b)" if "window (bm_set b) s (unat ways)" for s
  proof -
    have "s + unat ways - 1 \<in> bm_set b" using that w by (auto simp: window_def)
    then show ?thesis using bm_wfD(4) [OF assms(1)] w by fastforce
  qed
  have "unat (0 :: 32 word) + unat ways < 2 ^ 32" using unsigned_less [of ways, where 'a = nat] by simp
  from GetConnectiveBits_fromHigh [OF assms this, unfolded unsigned_0] obtain r where r: "GetConnectiveBits b ways 0 False = Ret r"
    "bm_wf r" "Len r = Len b"
    "if \<exists>s. s + unat ways + 0 \<le> nat (Len b) \<and> window (bm_set b) s (unat ways)
     then \<exists>s. s + unat ways + 0 \<le> nat (Len b) \<and> window (bm_set b) s (unat ways) \<and> bm_set r = {s..<s + unat ways} \<and>
       (\<forall>s'. s' + unat ways + 0 \<le> nat (Len b) \<longrightarrow> window (bm_set b) s' (unat ways) \<longrightarrow> s' \<le> s)
     else bm_set r = {}" by blast
  have "if \<exists>s. window (bm_set b) s (unat ways) then top_window (bm_set b) (unat ways) (bm_set r) else bm_set r = {}"
  proof (cases "\<exists>s. window (bm_set b) s (unat ways)")
    case True
    with r(4) in_range obtain s where "window (bm_set b) s (unat ways)" "bm_set r = {s..<s + unat ways}"
      "\<forall>s'. window (bm_set b) s' (unat ways) \<longrightarrow> s' \<le> s" by (auto split: if_split_asm)
    with True w show ?thesis by (auto simp: top_window_def)
  qed (use r(4) in auto)
  with r(1-3) show ?thesis by blast
qed

lemma longestRun_window: "longest A k \<Longrightarrow> w \<le> k \<Longrightarrow> \<exists>s. window A s w"
  by (auto simp: longest_def window_def) (metis atLeastLessThan_iff nat_add_left_cancel_le order_less_le_trans subset_eq)

lemma candidateOf_spec:
  assumes "bm_wf b" "0 < Len b" "Len b < 2 ^ 24" "0 < MaxWays er" "0 < MinWays er"
    "reqType er = Guarantee \<or> reqType er = Besteffort \<and> map_of reserved Besteffort = Some r \<and> \<not> Shrink r"
  shows "case grantOf er (bm_set b) of
      Some w \<Rightarrow> \<exists>c. candidateOf E s er reserved k (Some b) resaall changed = Ret (Inr (Some c, resaall, changed)) \<and>
        bm_wf c \<and> Len c = Len b \<and> top_window (bm_set b) w (bm_set c)
    | None \<Rightarrow> candidateOf E s er reserved k (Some b) resaall changed = Ret (Inl (notEnough k)) \<or>
        (\<exists>c. candidateOf E s er reserved k (Some b) resaall changed = Ret (Inr (Some c, resaall, changed)) \<and>
          bm_wf c \<and> bm_set c = {})"
proof (cases "reqType er = Guarantee")
  case True
  have "Len b < 2 ^ 32" using assms(3) by simp
  from connective_top [OF assms(1,2) this assms(4)] True show ?thesis
    by (fastforce simp: candidateOf_def grantOf_def deref_def)
next
  case False
  then have be: "reqType er = Besteffort" "map_of reserved Besteffort = Some r" "\<not> Shrink r" using assms(6) by auto
  have l: "Len b < 2 ^ 32" "MinWays er \<noteq> 0" using assms(3,5) by auto
  obtain k' fbs where k: "longest (bm_set b) k'" "k' \<le> nat (Len b)" "ToBinStrings b = Ret fbs"
    "bestRun (MinWays er) fbs 0 = Ret (of_nat (if unat (MinWays er) \<le> k' then k' else 0))"
    using bestRun_free [OF assms(1,2) l] by blast
  have "nat (Len b) < 2 ^ 32" using l(1) by (simp add: nat_less_iff)
  then have k32: "k' < 2 ^ 32" using k(2) by simp
  then have u: "unat (of_nat k' :: 32 word) = k'" by (simp add: unsigned_of_nat take_bit_nat_eq_self)
  note lr = longestRun_eq [OF k(1)]
  show ?thesis
  proof (cases "unat (MinWays er) \<le> k'")
    case True
    let ?w = "if MaxWays er < of_nat k' then MaxWays er else of_nat k'"
    have pos: "0 < k'" using True assms(5) by (simp add: word_less_nat_alt)
    then have nz: "\<not> (of_nat k' :: 32 word) \<le> 0" using u by (metis neq0_conv unat_0 word_le_0_iff)
    have uw: "unat ?w = min k' (unat (MaxWays er))" using u by (auto simp: word_less_nat_alt)
    have "0 < unat ?w" unfolding uw using pos assms(4) by (simp add: word_less_nat_alt)
    then have "0 < ?w" by (simp only: word_less_nat_alt unat_0)
    from connective_top [OF assms(1,2) l(1) this] obtain c where c: "GetConnectiveBits b ?w 0 False = Ret c"
      "bm_wf c" "Len c = Len b" "top_window (bm_set b) (unat ?w) (bm_set c)"
      using longestRun_window [OF k(1), of "unat ?w"] uw by auto
    have g: "grantOf er (bm_set b) = Some (min k' (unat (MaxWays er)))" using be(1) True lr by (simp add: grantOf_def)
    have "candidateOf E s er reserved k (Some b) resaall changed = Ret (Inr (Some c, resaall, changed))"
      using be k(3,4) True nz c(1) by (simp add: candidateOf_def bestEffortWays_def deref_def)
    with g c uw show ?thesis by simp
  next
    case F: False
    then have "grantOf er (bm_set b) = None" using be(1) lr by (simp add: grantOf_def)
    moreover have "candidateOf E s er reserved k (Some b) resaall changed = Ret (Inl (notEnough k))"
      using be k(3,4) F by (simp add: candidateOf_def bestEffortWays_def deref_def)
    ultimately show ?thesis by simp
  qed
qed

section \<open>The ways a request gets on every cache\<close>

definition requested :: "EnforceRequest \<Rightarrow> string \<Rightarrow> bool" where
  "requested er k \<longleftrightarrow> inCacheList (of_int (fst (Atoi k))) (SocketIDs er)"

lemma candidateLoop_spec:
  assumes "0 < MaxWays er" "0 < MinWays er"
    "reqType er = Guarantee \<or> reqType er = Besteffort \<and> map_of reserved Besteffort = Some r \<and> \<not> Shrink r"
    "GetCosInfo (hostAt E s) = Ret ci" "NewBitmap [ArgInt (CbmMaskLen ci), ArgString (cosCbmMask ci)] = Ret (fb, e)"
  shows "distinct (map fst cand @ map fst av) \<Longrightarrow>
    \<forall>(k, v) \<in> set av. \<exists>b. v = Some b \<and> bm_wf b \<and> 0 < Len b \<and> Len b < 2 ^ 24 \<Longrightarrow>
    if \<forall>(k, v) \<in> set av. requested er k \<longrightarrow> grantOf er (bm_set (the v)) \<noteq> None
    then \<exists>cand'. candidateLoop E s er reserved av resaall changed cand = Ret (Inr (cand', resaall, changed)) \<and>
      (\<forall>k \<in> fst ` set cand. map_of cand' k = map_of cand k) \<and>
      (\<forall>(k, v) \<in> set av. \<exists>c. map_of cand' k = Some (Some c) \<and>
         (if requested er k then top_window (bm_set (the v)) (the (grantOf er (bm_set (the v)))) (bm_set c) else c = fb))
    else \<exists>k. candidateLoop E s er reserved av resaall changed cand = Ret (Inl (notEnough k))"
proof (induction av arbitrary: cand)
  case (Cons x av)
  obtain k b where x: "x = (k, Some b)" "bm_wf b" "0 < Len b" "Len b < 2 ^ 24" using Cons.prems(2) by (cases x) auto
  have ns: "reqType er \<noteq> Shared" using assms(3) by auto
  have fresh: "k \<notin> fst ` set cand" using Cons.prems(1) x by auto
  have dist: "distinct (map fst (al_put k c cand) @ map fst av)" for c
    using Cons.prems(1) x fresh by (auto simp: al_put_fresh)
  note IH = Cons.IH [OF dist] and av = Cons.prems(2)
  show ?case
  proof (cases "requested er k")
    case False
    let ?cand = "al_put k (Some fb) cand"
    have "candidateLoop E s er reserved (x # av) resaall changed cand =
        candidateLoop E s er reserved av resaall changed ?cand"
      using x(1) False ns assms(4,5) by (simp add: requested_def NewBitmapIgn_def)
    with IH [of "Some fb"] av x False fresh show ?thesis by (auto simp: keys_al_put split: if_split_asm)
  next
    case True
    then have step: "candidateLoop E s er reserved (x # av) resaall changed cand =
        andThen (candidateOf E s er reserved k (Some b) resaall changed) (\<lambda>r.
             case r of
               Inl e \<Rightarrow> Ret (Inl e)
             | Inr (c, resaall', changed') \<Rightarrow>
                 andThen (deref c) (\<lambda>b.
                   if IsEmpty b then Ret (Inl (notEnough k))
                   else candidateLoop E s er reserved av resaall' changed' (al_put k c cand)))"
      using x(1) by (simp add: requested_def)
    note one = candidateOf_spec [OF x(2-4) assms(1-3), of E s k resaall changed]
    show ?thesis
    proof (cases "grantOf er (bm_set b)")
      case None
      with one have "candidateLoop E s er reserved (x # av) resaall changed cand = Ret (Inl (notEnough k))"
        using bms.is_empty_spec unfolding step by (auto simp: deref_def)
      with x True None show ?thesis by auto
    next
      case (Some w)
      with one obtain c where c: "candidateOf E s er reserved k (Some b) resaall changed = Ret (Inr (Some c, resaall, changed))"
        "bm_wf c" "top_window (bm_set b) w (bm_set c)" by auto
      have "\<not> IsEmpty c" using bms.is_empty_spec [OF c(2)] top_window_sub [OF c(3)] by simp
      then have "candidateLoop E s er reserved (x # av) resaall changed cand =
          candidateLoop E s er reserved av resaall changed (al_put k (Some c) cand)"
        unfolding step using c(1) by (simp add: deref_def)
      with IH [of "Some c"] av x True fresh Some c(3) show ?thesis by (auto simp: keys_al_put split: if_split_asm)
    qed
  qed
qed simp


lemma GetReservedInfo_again: "GetReservedInfo H st = Ret (i, st') \<Longrightarrow> GetReservedInfo H st' = Ret (i, st')"
  by (auto simp: GetReservedInfo_def andThen_Ret_iff Let_def split: option.split_asm)

lemma takeWays_distinct: "takeWays H sv s = Ret s' \<Longrightarrow> distinct (map fst s) \<Longrightarrow> distinct (map fst s')"
  by (induction sv arbitrary: s) (auto simp: Let_def andThen_Ret_iff split: if_split_asm)

lemma takeGroups_distinct: "takeGroups H ig lev res s = Ret s' \<Longrightarrow> distinct (map fst s) \<Longrightarrow> distinct (map fst s')"
proof (induction res arbitrary: s)
  case (Cons r res)
  then show ?case
    by (cases r) (auto simp: andThen_Ret_iff dest: takeWays_distinct split: if_split_asm option.split_asm)
qed simp

lemma fold_al_put_distinct: "distinct (map fst m) \<Longrightarrow> distinct (map fst (fold (\<lambda>(k, v) m. al_put k v m) xs m))"
  by (induction xs arbitrary: m) auto

lemma GetAvailableCacheSchemata_distinct:
  assumes "GetAvailableCacheSchemata H res ig p lev st = Ret ((s, None), st')" "p \<noteq> ''none''"
  shows "distinct (map fst s)"
proof -
  obtain info ci s0 where "startSchemata H ci info p = Ret (s0, None)" "takeGroups H ig lev res s0 = Ret s"
    using assms(1) by (auto simp: GetAvailableCacheSchemata_def andThen_Ret_iff split: if_split_asm option.split_asm)
  moreover from this(1) assms(2) have "distinct (map fst s0)"
    by (auto simp: startSchemata_def fold_al_put_distinct split: option.split_asm)
  ultimately show ?thesis by (metis takeGroups_distinct)
qed

abbreviation infra_os :: "string list" where
  "infra_os \<equiv> [InfraGoupCOS, OSGroupCOS]"

lemma enforceCache_spec:
  fixes E :: "'b rmd_env" and s :: "'b rmd"
  defines "H \<equiv> hostAt E s"
  assumes "resNow E s = Ret res" "GetLLC H = Ret llc" "GetReservedInfo H (cst s) = Ret (info, c1)"
    and ci: "GetCosInfo H = Ret ci" "0 < CbmMaskLen ci" "CbmMaskLen ci \<le> 32" "good_mask (CbmMaskLen ci) (cosCbmMask ci)"
    and "int (length res) < cosNumClosids ci"
    and ty: "reqType er = Guarantee \<or> reqType er = Besteffort \<and> \<not> Shrink resv"
    and pool: "map_of info (reqType er) = Some resv" "distinct (map fst (Schemata resv))"
      "\<forall>k \<in> fst ` set (Schemata resv). has_ways (CbmMaskLen ci) (Schemata resv) k (A k)"
    and groups: "\<forall>(g, v) \<in> set res. g \<notin> set infra_os \<longrightarrow> group_ok ci (fst ` set (Schemata resv)) (levelKey llc) v"
    and ways: "0 < MaxWays er" "0 < MinWays er"
  defines "free \<equiv> \<lambda>k. A k - groupWays ci infra_os (levelKey llc) res k"
  shows "if \<forall>k \<in> fst ` set (Schemata resv). requested er k \<longrightarrow> grantOf er (free k) \<noteq> None
    then \<exists>rd. enforceCache E er rd0 s = Ret (None, rd, s\<lparr>cst := c1\<rparr>) \<and>
      (\<forall>k \<in> fst ` set (Schemata resv). \<exists>c. map_of (CandidateCache rd) k = Some (Some c) \<and>
         (if requested er k then top_window (free k) (the (grantOf er (free k))) (bm_set c)
          else bm_set c = maskSet (CbmMaskLen ci) (cosCbmMask ci)))
    else \<exists>k. enforceCache E er rd0 s = Ret (Some (notEnough k), rd0, s\<lparr>cst := c1\<rparr>)"
proof -
  let ?L = "CbmMaskLen ci" and ?K = "fst ` set (Schemata resv)"
  have np: "reqType er \<noteq> ''none''" using ty by (auto simp: Guarantee_def Besteffort_def)
  have L0: "?L \<noteq> 0" using ci(2) by simp
  obtain av where av: "GetAvailableCacheSchemata H res infra_os (reqType er) (levelKey llc) (cst s) = Ret ((av, None), c1)"
    "fst ` set av = ?K" "\<forall>k \<in> fst ` set av. has_ways ?L av k (free k)"
    using GetAvailableCacheSchemata_spec [OF assms(4) ci(1) L0 assms(9) np pool groups] unfolding free_def by blast
  note dist = GetAvailableCacheSchemata_distinct [OF av(1) np]
  have each: "\<exists>b. v = Some b \<and> bm_wf b \<and> Len b = ?L \<and> bm_set b = free k" if "(k, v) \<in> set av" for k v
  proof -
    have "map_of av k = Some v" using that dist by simp
    moreover have "k \<in> fst ` set av" using that by force
    ultimately show ?thesis using av(3) by (auto simp: has_ways_def)
  qed
  have ok: "\<forall>(k, v) \<in> set av. \<exists>b. v = Some b \<and> bm_wf b \<and> 0 < Len b \<and> Len b < 2 ^ 24"
    using each ci(2,3) by fastforce
  obtain fb where fb: "NewBitmap [ArgInt ?L, ArgString (cosCbmMask ci)] = Ret (fb, None)" "bm_set fb = maskSet ?L (cosCbmMask ci)"
    using ci(4) by (rule good_maskE)
  have ty': "reqType er = Guarantee \<or> reqType er = Besteffort \<and> map_of info Besteffort = Some resv \<and> \<not> Shrink resv"
    using ty pool(1) by auto
  note loop = candidateLoop_spec [OF ways ty' ci(1) [unfolded H_def] fb(1), of "[]" av res "[]", OF _ ok]
  have dom: "?K = fst ` set av" using av(2) by simp
  have all: "(\<forall>k \<in> ?K. requested er k \<longrightarrow> grantOf er (free k) \<noteq> None) \<longleftrightarrow>
      (\<forall>(k, v) \<in> set av. requested er k \<longrightarrow> grantOf er (bm_set (the v)) \<noteq> None)"
    unfolding dom using each by fastforce
  note call = enforceCache_def assms(2) assms(3) [unfolded H_def] av(1) [unfolded H_def]
    GetReservedInfo_again [OF assms(4), unfolded H_def]
  show ?thesis
  proof (cases "\<forall>k \<in> ?K. requested er k \<longrightarrow> grantOf er (free k) \<noteq> None")
    case True
    then have T: "\<forall>(k, v) \<in> set av. requested er k \<longrightarrow> grantOf er (bm_set (the v)) \<noteq> None" using all by blast
    have "distinct (map fst [] @ map fst av)" using dist by simp
    from loop [OF this, unfolded if_P [OF T]] obtain cand where c: "candidateLoop E s er info av res [] [] = Ret (Inr (cand, res, []))"
      "\<forall>(k, v) \<in> set av. \<exists>c. map_of cand k = Some (Some c) \<and>
         (if requested er k then top_window (bm_set (the v)) (the (grantOf er (bm_set (the v)))) (bm_set c) else c = fb)"
      by blast
    have "\<forall>k \<in> ?K. \<exists>c. map_of cand k = Some (Some c) \<and>
         (if requested er k then top_window (free k) (the (grantOf er (free k))) (bm_set c)
          else bm_set c = maskSet ?L (cosCbmMask ci))"
    proof
      fix k assume "k \<in> ?K"
      then obtain v where v: "(k, v) \<in> set av" unfolding dom by force
      with each have "bm_set (the v) = free k" by fastforce
      with bspec [OF c(2) v] fb(2) show "\<exists>c. map_of cand k = Some (Some c) \<and>
         (if requested er k then top_window (free k) (the (grantOf er (free k))) (bm_set c)
          else bm_set c = maskSet ?L (cosCbmMask ci))" by (auto split: if_split_asm)
    qed
    with True c(1) show ?thesis by (simp add: call)
  next
    case False
    with loop dist all obtain k where "candidateLoop E s er info av res [] [] = Ret (Inl (notEnough k))"
      by (auto split: if_split_asm)
    with False show ?thesis by (simp add: call) metis
  qed
qed

section \<open>What hospitality promises\<close>

lemma longest_exists: "finite A \<Longrightarrow> \<exists>k. longest A k"
proof -
  assume f: "finite A"
  have b: "w \<le> card A" if "window A s w" for s w
    using card_mono [OF f, of "{s..<s + w}"] that by (simp add: window_def)
  define k where "k = (GREATEST k. \<exists>s. window A s k)"
  have z: "\<exists>s. window A s 0" by (simp add: window_def)
  have "\<exists>s. window A s k" unfolding k_def by (rule GreatestI_nat [where k = 0 and b = "card A"]) (use z b in blast)+
  moreover have "w \<le> k" if "window A s w" for s w
    unfolding k_def by (rule Greatest_le_nat [where b = "card A"]) (use that b in blast)+
  ultimately show ?thesis by (auto simp: longest_def)
qed

text \<open>
  The two modules agree: the score of a cache is positive exactly when enforcement grants ways on it, for
  maxima up to one hundred ways.
\<close>

lemma score_grants:
  assumes "finite A" "0 < unat (MinWays er)" "unat (MaxWays er) \<le> 100"
    "reqType er = Guarantee \<Longrightarrow> MaxWays er = MinWays er"
  shows "scoreOf (unat (MaxWays er)) (unat (MinWays er)) (longestRun A) \<noteq> 0 \<longleftrightarrow>
    grantOf er A \<noteq> None \<and> 0 < unat (MaxWays er)"
proof -
  obtain k where k: "longest A k" using longest_exists [OF assms(1)] by blast
  note lr = longestRun_eq [OF k]
  have w: "(\<exists>s. window A s (unat (MaxWays er))) \<longleftrightarrow> unat (MaxWays er) \<le> k"
    using k longestRun_window [OF k] by (auto simp: longest_def)
  have "k * 100 div unat (MaxWays er) \<noteq> 0 \<longleftrightarrow> 0 < unat (MaxWays er) \<and> unat (MaxWays er) \<le> k * 100" for k
    by (auto simp: div_eq_0_iff)
  then show ?thesis using assms(2-4) w lr by (auto simp: scoreOf_def grantOf_def)
qed

lemma GetByRequestMaxMin_scores:
  assumes "GetResAssociation (htree H (sysResctrl H)) [] = Ret res" "GetReservedInfo H st = Ret (info, st1)"
    and ci: "GetCosInfo H = Ret ci" "0 < CbmMaskLen ci" "CbmMaskLen ci \<le> 32" "int (length res) < cosNumClosids ci"
    and ty: "requestType mx mn = Some rt" "rt \<noteq> Shared"
    and pool: "map_of info rt = Some resv" "distinct (map fst (Schemata resv))"
      "\<forall>k \<in> fst ` set (Schemata resv). has_ways (CbmMaskLen ci) (Schemata resv) k (A k)"
    and groups: "\<forall>(g, v) \<in> set res. g \<notin> set [''infra'', ''.''] \<longrightarrow> group_ok ci (fst ` set (Schemata resv)) (''L'' @ lev) v"
  defines "free \<equiv> \<lambda>k. A k - groupWays ci [''infra'', ''.''] (''L'' @ lev) res k"
  shows "\<exists>sc. GetByRequestMaxMin H js bo db mx mn cid lev h st = Ret (None, h\<lparr>SC := [(''l'' @ lev, sc)]\<rparr>, st1) \<and>
    fst ` set sc = {k \<in> fst ` set (Schemata resv). wanted cid k} \<and>
    (\<forall>k \<in> fst ` set sc. map_of sc k = Some (of_nat (scoreOf (unat mx) (unat mn) (longestRun (free k)))))"
proof -
  have nz: "mx \<noteq> 0" "mn \<noteq> 0" using ty by (auto simp: requestType_def split: if_split_asm)
  have np: "rt \<noteq> ''none''" using ty by (auto simp: requestType_def Guarantee_def Besteffort_def split: if_split_asm)
  have L0: "CbmMaskLen ci \<noteq> 0" using ci(2) by simp
  obtain av where av: "GetAvailableCacheSchemata H res [''infra'', ''.''] rt (''L'' @ lev) st = Ret ((av, None), st1)"
    "fst ` set av = fst ` set (Schemata resv)" "\<forall>k \<in> fst ` set av. has_ways (CbmMaskLen ci) av k (free k)"
    using GetAvailableCacheSchemata_spec [OF assms(2) ci(1) L0 ci(4) np pool groups] unfolding free_def by blast
  note dist = GetAvailableCacheSchemata_distinct [OF av(1) np]
  have each: "\<exists>b. v = Some b \<and> bm_wf b \<and> Len b = CbmMaskLen ci \<and> bm_set b = free k" if "(k, v) \<in> set av" for k v
  proof -
    have "map_of av k = Some v" using that dist by simp
    moreover have "k \<in> fst ` set av" using that by force
    ultimately show ?thesis using av(3) by (auto simp: has_ways_def)
  qed
  define sc where "sc = map (\<lambda>(k, v). (k, of_nat (scoreOf (unat mx) (unat mn) (longestRun (bm_set (the v)))) :: 32 word))
    (filter (\<lambda>(k, v). wanted cid k) av)"
  have loop: "scoreLoop mx mn cid av [] = Ret sc"
    unfolding sc_def using scoreLoop_spec [OF nz(2,1), of "[]" av cid] dist each ci(2,3) by fastforce
  have "GetByRequestMaxMin H js bo db mx mn cid lev h st = Ret (None, h\<lparr>SC := [(''l'' @ lev, sc)]\<rparr>, st1)"
    using ty assms(1) av(1) GetReservedInfo_again [OF assms(2)] loop by (simp add: GetByRequestMaxMin_def)
  moreover have "fst ` set sc = {k \<in> fst ` set (Schemata resv). wanted cid k}"
    unfolding sc_def av(2) [symmetric] by force
  moreover have "map_of sc k = Some (of_nat (scoreOf (unat mx) (unat mn) (longestRun (free k))))" if k: "k \<in> fst ` set sc" for k
  proof -
    have d: "distinct (map fst sc)"
      using dist distinct_map_filter [of fst av] unfolding sc_def by (simp add: comp_def case_prod_beta)
    obtain v where v: "(k, v) \<in> set av" "wanted cid k" using k unfolding sc_def by force
    then have "(k, of_nat (scoreOf (unat mx) (unat mn) (longestRun (free k)))) \<in> set sc"
      using each [OF v(1)] v unfolding sc_def by (auto intro!: image_eqI [of _ _ "(k, v)"])
    with d show ?thesis by simp
  qed
  ultimately show ?thesis by blast
qed

end
