(* ===== verification/Demo.thy ===== *)
theory Demo
  imports Workload_Ops_Laws Enforce_Laws "HOL-Library.Code_Target_Nat"
begin

text \<open>
  One machine on which the general statements are exercised: eight CPUs on two sockets, a last-level
  cache of eleven ways on each, sixteen classes, one way for the operating system and pools of five,
  three and two ways.
\<close>

definition demoIndex :: "string \<Rightarrow> string \<Rightarrow> fnode" where
  "demoIndex k cpus = FDir ''index3'' [FFile ''id'' k, FFile ''level'' ''3'', FFile ''shared_cpu_list'' (cpus @ ''\<newline>''),
     FFile ''size'' ''11264K'', FFile ''ways_of_associativity'' ''11'']"

definition demoInfo :: fnode where
  "demoInfo = FDir ''info'' [FDir ''L3'' [FFile ''cbm_mask'' ''7ff'', FFile ''min_cbm_bits'' ''1'', FFile ''num_closids'' ''16'']]"

definition demoHost :: host where
  "demoHost = \<lparr>hfs = (\<lambda>p. if p = ''/sys/devices/system/cpu/possible'' then Some ''0-7\<newline>''
       else if p = ''/sys/devices/system/cpu/cpu0/cache/index0/level'' then Some ''1\<newline>''
       else if p = ''/sys/devices/system/cpu/cpu0/cache/index3/level'' then Some ''3\<newline>'' else None),
     hglob = (\<lambda>p. if p = ''/sys/devices/system/cpu/cpu0/cache/index*/level''
       then [''/sys/devices/system/cpu/cpu0/cache/index0/level'', ''/sys/devices/system/cpu/cpu0/cache/index3/level'']
       else if p = ''/sys/devices/system/cpu/cpu*/cache/index3''
       then [''/sys/devices/system/cpu/cpu0/cache/index3'', ''/sys/devices/system/cpu/cpu4/cache/index3''] else []),
     htree = (\<lambda>p. if p = ''/sys/fs/resctrl/info'' then Some demoInfo
       else if p = ''/sys/devices/system/cpu/cpu0/cache/index3'' then Some (demoIndex ''0'' ''0-3'')
       else if p = ''/sys/devices/system/cpu/cpu4/cache/index3'' then Some (demoIndex ''1'' ''4-7'') else None),
     hlstat = (\<lambda>p. None), sysResctrl = ''/sys/fs/resctrl'', hostInfra = None,
     hostOS = Some \<lparr>osCacheWays = 1, osCPUSet = ''0''\<rparr>,
     hostPool = Some \<lparr>MaxAllowedShared = 10, cpGuarantee = 5, cpBesteffort = 3, cpShared = 2, cpShrink = False\<rparr>\<rparr>"

definition demoCos :: CosInfo where
  "demoCos = \<lparr>CbmMaskLen = 11, cosMinCbmBits = 1, cosNumClosids = 16, cosCbmMask = ''7ff''\<rparr>"

definition demoCaches :: "(string \<times> SysCache) list" where
  "demoCaches = map (\<lambda>(k, cpus). (k, zeroSysCache\<lparr>cacheNo := k, Level := ''3'', SharedCPUList := cpus, Size := ''11264K'', WaysOfAssociativity := ''11''\<rparr>))
     [(''0'', ''0-3''), (''1'', ''4-7'')]"

lemma demo_host:
  "HostCPUNum (hfs demoHost) = Ret 8" "GetLLC demoHost = Ret 3" "GetCosInfo demoHost = Ret demoCos"
  "GetSysCaches demoHost 3 = (demoCaches, None)"
  by code_simp+

lemma demo_cpus: "good_cpus 8 ''0-3''" "good_cpus 8 ''4-7''" "good_cpus 8 ''0''"
  "cpuSet 8 ''0-3'' = {0..3}" "cpuSet 8 ''4-7'' = {4..7}" "cpuSet 8 ''0'' = {0}"
proof -
  have t: "items_text [Span True 0 3] = ''0-3''" "items_text [Span True 4 7] = ''4-7''" "items_text [One True 0] = ''0''"
    by code_simp+
  note g = good_cpus_items [of 8 "[Span True 0 3]"] good_cpus_items [of 8 "[Span True 4 7]"]
    good_cpus_items [of 8 "[One True 0]"]
  from g t show "good_cpus 8 ''0-3''" "good_cpus 8 ''4-7''" "good_cpus 8 ''0''"
    "cpuSet 8 ''0-3'' = {0..3}" "cpuSet 8 ''4-7'' = {4..7}" "cpuSet 8 ''0'' = {0}"
    by (simp_all add: item_apply_def)
qed

lemma demo_platform: "platform demoHost 8 demoCos 3 demoCaches"
  using demo_cpus by (simp add: platform_def demo_host demoCos_def demoCaches_def)

lemma demo_mask: "good_mask 11 ''7ff''" "maskSet 11 ''7ff'' = {..<11}"
proof -
  have t: "hex64 0x7ff = ''7ff''" by code_simp
  have m: "(0x7ff :: 64 word) = mask 11" by (simp add: mask_eq_exp_minus_1)
  have "take_bit (nat 11) (0x7ff :: 64 word) = 0x7ff" unfolding m by simp
  note g = good_mask_hex64 [OF _ _ this, unfolded t]
  have s: "{n. bit (0x7ff :: 64 word) n} = {..<11}" unfolding m bit_mask_iff by auto
  show "good_mask 11 ''7ff''" by (rule g(1)) simp_all
  show "maskSet 11 ''7ff'' = {..<11}" using g(2) unfolding s by simp
qed

section \<open>The running server on this machine\<close>

definition demoTree :: fnode where
  "demoTree = FDir ''resctrl'' [FFile ''cpus'' ''ff'', FFile ''schemata'' ''L3:0=7ff;1=7ff\<newline>'', FFile ''tasks'' ''1\<newline>'',
     FDir ''COS2'' [FFile ''cpus'' ''03'', FFile ''schemata'' ''L3:0=30;1=7ff\<newline>'', FFile ''tasks'' []]]"

definition demoPool :: "nat \<Rightarrow> 64 word \<Rightarrow> 64 word \<Rightarrow> Reserved" where
  "demoPool q m0 m1 = zeroReserved\<lparr>Schemata := [(''0'', Some \<lparr>Len = 11, Bits = [m0]\<rparr>), (''1'', Some \<lparr>Len = 11, Bits = [m1]\<rparr>)],
     Quota := of_nat q\<rparr>"

definition demoReserved :: "(string \<times> Reserved) list" where
  "demoReserved = [(OS, demoPool 0 0x1 0), (Guarantee, demoPool 0 0x3e 0x1f), (Besteffort, demoPool 0 0x1c0 0xe0),
     (Shared, demoPool 10 0x600 0x300)]"

definition demoStored :: RDTWorkLoad where
  "demoStored = zeroWorkLoad\<lparr>ID := ''1'', CoreIDs := [''2''], Plugins := Some [(''pstate'', Some [(''ratio'', VString ''1'')])],
     Origin := ''REST'', Status := Successful, BackendPluginInfo := Some [(''pstate'', ''id'')]\<rparr>"

definition demoJson :: codec where
  "demoJson = \<lparr>marshal = (\<lambda>w. if w = demoStored then Inl ''doc'' else Inr (Errorf ''json'' [])),
     unmarshal = (\<lambda>b. Inl demoStored)\<rparr>"

definition demoWorld :: "memdb rmd_env" where
  "demoWorld = \<lparr>ehost = demoHost, eres = (\<lambda>_ _. Some demoTree), epqos = (\<lambda>_ _. (0, [0])), eup = True,
     eos = (\<lambda>_ _. None), ecodec = demoJson, ebolt = memBolt,
     epolicy = \<lparr>policyPath = [], readConfig = (\<lambda>_ _. None), unmarshalPolicy = (\<lambda>_ _. ([], None)), cpuMaps = []\<rparr>,
     esched = (\<lambda>_. (0, replicate 16 0)),
     eplugins = \<lparr>Interfaces = [(''pstate'', True)], mValidate = (\<lambda>_ _. None), mEnforce = (\<lambda>_ _ _. (''id'', None)),
       mRelease = (\<lambda>_ _ _. None)\<rparr>,
     eParseFloat = (\<lambda>_. None), eWiden = id, estat = (\<lambda>_. None)\<rparr>"

definition demoServer :: "memdb rmd" where
  "demoServer = \<lparr>cst = \<lparr>osOnce = Some ((demoPool 0 0x1 0)\<lparr>AllCPUs := Some \<lparr>Len = 8, Bits = [1]\<rparr>\<rparr>), infraOnce = None, poolOnce = None,
       revinfoOnce = Some demoReserved, mbaMbpsMode = False\<rparr>,
     cpool = \<lparr>availableCLOSes = [''COS3'', ''COS4''], usedCLOSes = [''COS2''], reservedCLOSes = [''.'', ''COS1''], sharedCLOS = []\<rparr>,
     pqs = \<lparr>numOfSockets = 2, numOfCacheways = 11, calls = []\<rparr>, fsops = [], plugCalls = [],
     store = \<lparr>m_tables = [''workload'', ''mapping''], m_rows = [], m_seq = 0\<rparr>, dbOpen = True,
     isMbaSupported = False, isL3CATSupported = True, isMbaMbpsAvailable = False, mbaMaxValue = 100, mbaValue = 100\<rparr>"

definition demoBare :: "memdb rmd_env" where
  "demoBare = demoWorld\<lparr>ehost := demoHost\<lparr>hglob := (\<lambda>p. if p = ''/sys/devices/system/cpu/cpu0/cache/index*/level''
     then [''/sys/devices/system/cpu/cpu0/cache/index3/level''] else [])\<rparr>, eres := (\<lambda>_ _. None)\<rparr>"

definition demoBareServer :: "memdb rmd" where
  "demoBareServer = demoServer\<lparr>cst := (cst demoServer)\<lparr>revinfoOnce := Some [(OS, zeroReserved)]\<rparr>, isL3CATSupported := False\<rparr>"

definition demoUser :: UserRDTWorkLoad where
  "demoUser = (toUser zeroWorkLoad)\<lparr>userCoreIDs := [''2''], userPlugins := Some [(''pstate'', Some [(''ratio'', VString ''1'')])]\<rparr>"
text \<open>A request for a plugin only, from the first request to the entity of the answer.\<close>

lemma demo_post:
  "\<exists>s'. NewWorkload demoBare (demoUser, None) demoBareServer = Ret (Entity StatusCreated (toUser demoStored), s')"
proof -
  have "(case NewWorkload demoBare (demoUser, None) demoBareServer of
      Ret (r, s) \<Rightarrow> r = Entity StatusCreated (toUser demoStored) | _ \<Rightarrow> False)" by code_simp
  then show ?thesis by (auto split: outcome.splits)
qed

lemma demo_store: "bolt_contract memBolt" "codec_roundtrip demoJson" "hasTables memBolt (store demoBareServer)"
  "ebolt demoBare = memBolt" "ecodec demoBare = demoJson"
  by (rule mem.bolt_contract_axioms)
    (auto simp: codec_roundtrip_def demoJson_def hasTables_def memBolt_def demoBareServer_def demoServer_def
      demoBare_def demoWorld_def WorkloadTableName_def MappingTableName_def split: if_splits)

section \<open>Groups, pools and masks\<close>

lemma bits_set:
  fixes v :: "64 word"
  assumes "take_bit 11 v = v"
  shows "{n. bit v n} = Set.filter (bit v) {..<11 :: nat}"
proof -
  have "bit v n = (n < 11 \<and> bit v n)" for n using arg_cong [OF assms, of "\<lambda>w. bit w n"] by (simp add: bit_take_bit_iff)
  then show ?thesis by auto
qed

lemma groupWays_Nil: "groupWays ci ig lev [] k = {}"
  by (simp add: groupWays_def)

lemma groupWays_Cons: "groupWays ci ig lev ((g, v) # r) k =
  (if g \<in> set ig then {} else case gm_get (CacheSchemata v) lev of None \<Rightarrow> {} | Some sv \<Rightarrow> usedWays ci sv k) \<union>
  groupWays ci ig lev r k"
  by (auto simp: groupWays_def)

lemma usedWays_Nil: "usedWays ci [] k = {}"
  by (simp add: usedWays_def)

lemma usedWays_Cons: "usedWays ci (cv # sv) k =
  (if Itoa (uint (cacheID cv)) = k \<and> Mask cv \<noteq> cosCbmMask ci then maskSet (CbmMaskLen ci) (Mask cv) else {}) \<union>
  usedWays ci sv k"
  by (auto simp: usedWays_def)

definition demoGroups :: "(string \<times> ResAssociation) list" where
  "demoGroups = [(''.'', \<lparr>Tasks = [''1''], CPUs = ''ff'', CacheSchemata =
       Some [(''L3'', [\<lparr>cacheID = 0, Mask = ''7ff''\<rparr>, \<lparr>cacheID = 1, Mask = ''7ff''\<rparr>])], MbaSchemata = None\<rparr>),
     (''COS2'', \<lparr>Tasks = [], CPUs = ''03'', CacheSchemata =
       Some [(''L3'', [\<lparr>cacheID = 0, Mask = ''30''\<rparr>, \<lparr>cacheID = 1, Mask = ''7ff''\<rparr>])], MbaSchemata = None\<rparr>)]"

lemma demo_groups: "GetResAssociation (Some demoTree) [''COS3'', ''COS4''] = Ret demoGroups"
  "GetResAssociation (Some demoTree) [] = Ret demoGroups"
  by code_simp+

definition demoWays :: "string \<Rightarrow> nat set" where
  "demoWays k = (if k = ''0'' then {1..<6} else {0..<5})"

lemma demo_cos: "CbmMaskLen demoCos = 11" "cosCbmMask demoCos = ''7ff''" "cosNumClosids demoCos = 16"
  by (simp_all add: demoCos_def)

lemma demo_mask30: "good_mask 11 ''30''" "maskSet 11 ''30'' = {4, 5}"
proof -
  have t: "hex64 0x30 = ''30''" by code_simp
  have b: "take_bit (nat 11) (0x30 :: 64 word) = 0x30" by code_simp
  have b11: "take_bit 11 (0x30 :: 64 word) = 0x30" by code_simp
  have f: "Set.filter (bit (0x30 :: 64 word)) {..<11} = {4, 5 :: nat}" by code_simp
  note s = bits_set [OF b11, unfolded f]
  note g = good_mask_hex64 [OF _ _ b, unfolded t s]
  show "good_mask 11 ''30''" "maskSet 11 ''30'' = {4, 5}" by (rule g; simp)+
qed

lemma demo_ways: "has_ways 11 (Schemata (demoPool 0 0x3e 0x1f)) ''0'' (demoWays ''0'')"
  "has_ways 11 (Schemata (demoPool 0 0x3e 0x1f)) ''1'' (demoWays ''1'')"
proof -
  have b: "take_bit 11 (0x3e :: 64 word) = 0x3e" "take_bit 11 (0x1f :: 64 word) = 0x1f" by code_simp+
  have f: "Set.filter (bit (0x3e :: 64 word)) {..<11} = {1..<6 :: nat}" "Set.filter (bit (0x1f :: 64 word)) {..<11} = {0..<5 :: nat}"
    by code_simp+
  note s = bits_set [OF b(1), unfolded f(1)] bits_set [OF b(2), unfolded f(2)]
  show "has_ways 11 (Schemata (demoPool 0 0x3e 0x1f)) ''0'' (demoWays ''0'')"
    using bm_wf_one [of 11 "0x3e", unfolded s] b by (simp add: has_ways_def demoPool_def demoWays_def)
  show "has_ways 11 (Schemata (demoPool 0 0x3e 0x1f)) ''1'' (demoWays ''1'')"
    using bm_wf_one [of 11 "0x1f", unfolded s] b by (simp add: has_ways_def demoPool_def demoWays_def)
qed

lemma demo_reserved: "GetReservedInfo H (cst demoServer) = Ret (demoReserved, cst demoServer)"
  "map_of demoReserved Guarantee = Some (demoPool 0 0x3e 0x1f)"
  "map fst (Schemata (demoPool 0 0x3e 0x1f)) = [''0'', ''1'']"
  by (simp_all add: GetReservedInfo_def demoServer_def demoReserved_def OS_def Guarantee_def demoPool_def)

lemma demo_groups_ok: "\<forall>(g, v) \<in> set demoGroups. g \<notin> set ignore \<longrightarrow> group_ok demoCos {''0'', ''1''} ''L3'' v"
proof -
  have "Itoa 0 = ''0''" "Itoa 1 = ''1''" by code_simp+
  then show ?thesis using demo_mask demo_mask30 by (auto simp: demoGroups_def group_ok_def demo_cos gm_get_def gm_items_def)
qed

lemma demo_held: "groupWays demoCos [InfraGoupCOS, OSGroupCOS] ''L3'' demoGroups ''0'' = {4, 5}"
  "groupWays demoCos [InfraGoupCOS, OSGroupCOS] ''L3'' demoGroups ''1'' = {}"
proof -
  have "Itoa 0 = ''0''" "Itoa 1 = ''1''" by code_simp+
  then show "groupWays demoCos [InfraGoupCOS, OSGroupCOS] ''L3'' demoGroups ''0'' = {4, 5}"
    "groupWays demoCos [InfraGoupCOS, OSGroupCOS] ''L3'' demoGroups ''1'' = {}"
    using demo_mask30
    by (simp_all add: demoGroups_def groupWays_Cons groupWays_Nil usedWays_Cons usedWays_Nil gm_get_def gm_items_def demo_cos InfraGoupCOS_def OSGroupCOS_def)
qed

definition demoRows :: memdb where
  "demoRows = \<lparr>m_tables = [''workload'', ''mapping''], m_rows = [((''workload'', ''1''), ''doc'')], m_seq = 1\<rparr>"

end
