(* ===== verification/Inventory.thy ===== *)
theory Inventory
  imports Host Types
begin

text \<open>
  The capabilities of the host that the server reports (\<^verbatim>\<open>internal/inventory\<close>) and the resource
  description written for Nova (\<^verbatim>\<open>internal/openstack/providercfg.go\<close>). The checks run once and keep
  their answer; the definitions give the value that is kept. How YAML is printed is a parameter.
\<close>

section \<open>Checks of the platform (rdt_cat.go, pstate.go)\<close>

record Capability =
  Name :: string
  Available :: bool

text \<open>One \<^verbatim>\<open>Read\<close> into a buffer of \<open>n\<close> bytes; an empty file reads as the error \<^verbatim>\<open>io.EOF\<close>.\<close>

definition readBuf :: "nat \<Rightarrow> readFile \<Rightarrow> string \<Rightarrow> string option" where
  "readBuf n fs path =
     (case fs path of None \<Rightarrow> None | Some d \<Rightarrow> if d = [] then None else Some (take n d))"

text \<open>
  The lines a \<^verbatim>\<open>bufio.Scanner\<close> delivers: a line of 64 KiB or more ends the scan, a carriage
  return before the newline is dropped.
\<close>

definition dropCR :: "string \<Rightarrow> string" where
  "dropCR l = (if l \<noteq> [] \<and> last l = char_of (13 :: nat) then butlast l else l)"

definition scanLines :: "string \<Rightarrow> string list" where
  "scanLines d =
     (let ls = split_on (CHR ''\<newline>'') d
      in map dropCR (takeWhile (\<lambda>l. length l < 65536) (if last ls = [] then butlast ls else ls)))"

definition checkKernelCmd :: "readFile \<Rightarrow> bool" where
  "checkKernelCmd fs =
     (case readBuf 1024 fs ''/proc/cmdline'' of
        None \<Rightarrow> False
      | Some line \<Rightarrow> str_contains line ''rdt=l3cat'')"

fun cpuFlagLoop :: "string list \<Rightarrow> bool" where
  "cpuFlagLoop [] = True"
| "cpuFlagLoop (line # rest) =
     (if HasPrefix line ''flags''
      then length (split_on (CHR '':'') line) = 2 \<and> str_contains line ''rdt_a'' \<and> str_contains line ''cat_l3''
      else cpuFlagLoop rest)"

definition checkCPUFlag :: "readFile \<Rightarrow> bool" where
  "checkCPUFlag fs = (case fs ''/proc/cpuinfo'' of None \<Rightarrow> False | Some d \<Rightarrow> cpuFlagLoop (scanLines d))"

definition checkResctrlFs :: "readFile \<Rightarrow> bool" where
  "checkResctrlFs fs = (case fs ''/proc/filesystems'' of None \<Rightarrow> False | Some d \<Rightarrow> str_contains d ''resctrl'')"

definition CheckRDT :: "readFile \<Rightarrow> Capability" where
  "CheckRDT fs = \<lparr>Name = ''pstate'', Available = checkKernelCmd fs \<and> checkCPUFlag fs \<and> checkResctrlFs fs\<rparr>"

definition supportedDrivers :: "string list" where
  "supportedDrivers = [''acpi'', ''intel_pstate'']"

definition Trim :: "string \<Rightarrow> string \<Rightarrow> string" where
  "Trim s cutset = TrimRight (TrimLeft s cutset) cutset"

definition checkPstateAvailability :: "readFile \<Rightarrow> bool" where
  "checkPstateAvailability fs =
     (case readBuf 128 fs ''/sys/devices/system/cpu/cpu0/cpufreq/scaling_driver'' of
        None \<Rightarrow> False
      | Some buf \<Rightarrow> Trim buf '' \<newline>'' \<in> set supportedDrivers)"

definition CheckScaling :: "readFile \<Rightarrow> Capability" where
  "CheckScaling fs = \<lparr>Name = ''pstate'', Available = checkPstateAvailability fs\<rparr>"

definition GetCapabilities :: "readFile \<Rightarrow> Capability list response" where
  "GetCapabilities fs = Entity StatusOK [CheckRDT fs, CheckScaling fs]"

section \<open>The description for Nova (providercfg.go)\<close>

text \<open>\<^verbatim>\<open>uint\<close> is a 64-bit word: the difference of total and reserved ways wraps.\<close>

record customResourceDetails =
  Total :: "64 word"
  rReserved :: "64 word"
  MinUnit :: "64 word"
  MaxUnit :: "64 word"
  StepSize :: "64 word"
  AllocationRatio :: "64 word"

record providerEntity =
  entityUUID :: string
  inventoriesAdditional :: "customResourceDetails list"
  traitsAdditional :: "string list"

record providerData =
  schemaVersion :: string
  providers :: "providerEntity list"

definition zeroResource :: customResourceDetails where
  "zeroResource = \<lparr>Total = 0, rReserved = 0, MinUnit = 0, MaxUnit = 0, StepSize = 0, AllocationRatio = 0\<rparr>"

definition llcResource :: "readFile \<Rightarrow> OSGroup option \<Rightarrow> goerror + customResourceDetails" where
  "llcResource fs oscfg =
     (if \<not> Available (CheckRDT fs) then Inr zeroResource
      else case fs ''/sys/devices/system/cpu/cpu0/cache/index3/ways_of_associativity'' of
             None \<Rightarrow> Inl (Errorf ''open'' [])
           | Some buffer \<Rightarrow>
               (case ParseInt (Trim buffer '' \<newline>'') 10 32 of
                  (_, Some e) \<Rightarrow> Inl (NumError e (Trim buffer '' \<newline>''))
                | (t, None) \<Rightarrow>
                    (let reserved = osCacheWays (NewOSConfig oscfg)
                     in Inr \<lparr>Total = of_int t, rReserved = reserved, MinUnit = 1,
                             MaxUnit = of_int t - reserved, StepSize = 1, AllocationRatio = 1\<rparr>)))"

definition providerOf :: "readFile \<Rightarrow> customResourceDetails \<Rightarrow> providerData" where
  "providerOf fs r =
     \<lparr>schemaVersion = ''1.0'',
      providers = [\<lparr>entityUUID = ''$COMPUTE_NODE'', inventoriesAdditional = [r],
                    traitsAdditional = [if Available (CheckScaling fs) then ''CUSTOM_P_STATE_ENABLED''
                                        else ''CUSTOM_P_STATE_DISABLED'']\<rparr>]\<rparr>"

text \<open>\<open>yaml\<close> prints the data; writing the file is an operation of the system with its history.\<close>

definition GenerateFile :: "(providerData \<Rightarrow> string + goerror) \<Rightarrow> os \<Rightarrow> readFile \<Rightarrow> OSGroup option \<Rightarrow> string \<Rightarrow> fsop list
    \<Rightarrow> goerror option \<times> fsop list" where
  "GenerateFile yaml o_s fs oscfg filePath h =
     (if length filePath = 0 then (Some (Errorf ''Invalid (empty) file path'' []), h)
      else case llcResource fs oscfg of
             Inl e \<Rightarrow> (Some e, h)
           | Inr r \<Rightarrow>
               (case yaml (providerOf fs r) of
                  Inr e \<Rightarrow> (Some e, h)
                | Inl buffer \<Rightarrow>
                    (case extcall o_s (WriteFile filePath buffer) h of (e, h') \<Rightarrow> (os_err e, h'))))"

section \<open>What the description promises\<close>

lemma llcResource_units:
  assumes "llcResource fs oscfg = Inr r" "Available (CheckRDT fs)"
    and "osCacheWays (NewOSConfig oscfg) \<le> Total r"
  shows "unat (MinUnit r) = 1 \<and> unat (MaxUnit r) + unat (rReserved r) = unat (Total r)"
  using assms
  by (auto simp: llcResource_def Let_def unat_sub word_le_nat_alt split: if_splits option.splits prod.splits)

text \<open>With more ways reserved than there are, the largest request is close to \<open>2 ^ 64\<close>.\<close>

lemma llcResource_wraps:
  assumes "llcResource fs oscfg = Inr r" "Available (CheckRDT fs)" "Total r < rReserved r"
  shows "Total r < MaxUnit r"
proof -
  have "MaxUnit r = Total r - rReserved r"
    using assms(1,2) by (auto simp: llcResource_def Let_def split: if_splits option.splits prod.splits)
  moreover have "unat (rReserved r) < 2 ^ 64" using unsigned_less [of "rReserved r"] by simp
  ultimately show ?thesis
    using assms(3) by (simp add: word_less_nat_alt unat_sub_if_size word_size)
qed

lemma GenerateFile_frame: "snd (GenerateFile yaml o_s fs oscfg p h) = h \<or>
    (\<exists>buf. p \<noteq> [] \<and> snd (GenerateFile yaml o_s fs oscfg p h) = h @ [WriteFile p buf])"
  by (auto simp: GenerateFile_def extcall_def split: sum.splits)

end
