(* ===== verification/Taskset.thy ===== *)
theory Taskset
  imports Inventory
begin

unbundle bit_operations_syntax

text \<open>
  Finding the cores an instance is pinned to (\<^verbatim>\<open>internal/openstack/util.go\<close>). The commands
  \<^verbatim>\<open>pgrep\<close> and \<^verbatim>\<open>taskset\<close> are parameters: what one prints may depend on the commands run
  before. The mask \<^verbatim>\<open>taskset\<close> prints is a hexadecimal number of any length.
\<close>

section \<open>Texts and commands\<close>

text \<open>\<^verbatim>\<open>strings.Fields\<close>.\<close>

definition Fields :: "string \<Rightarrow> string list" where
  "Fields s = fieldsLoop [] s"

type_synonym cmd_env = "string list list \<Rightarrow> string list \<Rightarrow> string + goerror"

definition getPIDByName :: "cmd_env \<Rightarrow> string \<Rightarrow> string list list \<Rightarrow> string with_err \<times> string list list" where
  "getPIDByName env name h =
     (case extcall env [''pgrep'', ''-f'', name] h of
        (Inr e, h') \<Rightarrow> (([], Some e), h')
      | (Inl out, h') \<Rightarrow> ((Trim out '' \<newline>'', None), h'))"

section \<open>The mask\<close>

text \<open>The digits from the last to the first; \<open>i\<close> counts them.\<close>

fun maskLoop :: "nat \<Rightarrow> string \<Rightarrow> string list \<Rightarrow> string list" where
  "maskLoop i [] ret = ret"
| "maskLoop i (c # cs) ret =
     (case ParseInt [c] 16 16 of
        (_, Some _) \<Rightarrow> []
      | (val, None) \<Rightarrow>
          maskLoop (i + 1) cs
            (ret @ map (\<lambda>j. format_nat 10 (i * 4 + j)) (filter (\<lambda>j. (push_bit j 1 AND val) \<noteq> 0) [0, 1, 2, 3])))"

text \<open>The length less one of an empty mask wraps around, and its last digit is out of range.\<close>

definition parseTasksetMask :: "string \<Rightarrow> string list outcome" where
  "parseTasksetMask msk = (if msk = [] then Panic IndexOutOfRange else Ret (maskLoop 0 (rev msk) []))"

definition getPIDTaskSet :: "cmd_env \<Rightarrow> string \<Rightarrow> string list list
    \<Rightarrow> ((string list) with_err \<times> string list list) outcome" where
  "getPIDTaskSet env pid h =
     (case extcall env [''taskset'', ''-p'', pid] h of
        (Inr e, h') \<Rightarrow> Ret (([], Some e), h')
      | (Inl out, h') \<Rightarrow>
          (let words = Fields out
           in andThen (go_index words (int (length words) - 1)) (\<lambda>w.
                let msk = ToLower w
                in if count_list msk (CHR ''f'') \<noteq> length msk
                   then andThen (parseTasksetMask msk) (\<lambda>tset. Ret ((tset, None), h'))
                   else Ret (([], None), h'))))"

section \<open>The mask is read as the number it prints\<close>

definition hexDigit :: "char \<Rightarrow> nat option" where
  "hexDigit c = (case digit_val c of Some d \<Rightarrow> if d < 16 then Some d else None | None \<Rightarrow> None)"

text \<open>The number of digits given from the last to the first.\<close>

fun revVal :: "string \<Rightarrow> nat" where
  "revVal [] = 0"
| "revVal (c # cs) = (case hexDigit c of Some d \<Rightarrow> d | None \<Rightarrow> 0) + 16 * revVal cs"

lemma revVal_snoc: "revVal (cs @ [c]) = revVal cs + 16 ^ length cs * (case hexDigit c of Some d \<Rightarrow> d | None \<Rightarrow> 0)"
  by (induction cs) (auto simp: algebra_simps)

lemma revVal_less: "revVal cs < 16 ^ length cs"
proof (induction cs)
  case (Cons c cs)
  have "(case hexDigit c of Some d \<Rightarrow> d | None \<Rightarrow> 0) < 16" by (auto simp: hexDigit_def split: option.splits)
  with Cons show ?case by simp
qed simp

lemma parse_uint_hex:
  "acc * 16 ^ length s + revVal (rev s) \<le> m \<Longrightarrow> \<forall>c \<in> set s. hexDigit c \<noteq> None \<Longrightarrow>
   parse_uint 16 m acc s = (acc * 16 ^ length s + revVal (rev s), None)"
proof (induction s arbitrary: acc)
  case (Cons c cs)
  then obtain d where d: "hexDigit c = Some d" by auto
  have dv: "digit_val c = Some d" "d < 16" using d by (auto simp: hexDigit_def split: option.splits if_splits)
  have eq: "(acc * 16 + d) * 16 ^ length cs + revVal (rev cs) = acc * 16 ^ length (c # cs) + revVal (rev (c # cs))"
    using d by (simp add: revVal_snoc algebra_simps)
  have "acc * 16 + d \<le> (acc * 16 + d) * 16 ^ length cs" by simp
  with Cons.prems(1) eq have "acc * 16 + d \<le> m" by linarith
  moreover have "parse_uint 16 m (acc * 16 + d) cs = ((acc * 16 + d) * 16 ^ length cs + revVal (rev cs), None)"
    using Cons.prems eq by (intro Cons.IH) auto
  ultimately show ?case using dv eq by (simp add: not_le [symmetric])
qed simp

lemma parse_uint_bad:
  "\<exists>c \<in> set s. hexDigit c = None \<Longrightarrow> \<exists>e. snd (parse_uint 16 m acc s) = Some e"
proof (induction s arbitrary: acc)
  case (Cons c cs)
  then show ?case by (cases "hexDigit c") (auto simp: hexDigit_def split: option.splits if_splits)
qed simp

lemma ParseUint_mask:
  assumes "msk \<noteq> []"
  shows "(\<forall>c \<in> set msk. hexDigit c \<noteq> None) \<Longrightarrow> ParseUint msk 16 (4 * length msk) = (revVal (rev msk), None)"
    and "\<exists>c \<in> set msk. hexDigit c = None \<Longrightarrow> \<exists>v e. ParseUint msk 16 (4 * length msk) = (v, Some e)"
proof -
  have "(2 :: nat) ^ (4 * length msk) = 16 ^ length msk" by (simp add: power_mult)
  then have "revVal (rev msk) \<le> 2 ^ (4 * length msk) - 1"
    using revVal_less [of "rev msk"] by simp
  then show "(\<forall>c \<in> set msk. hexDigit c \<noteq> None) \<Longrightarrow> ParseUint msk 16 (4 * length msk) = (revVal (rev msk), None)"
    using assms parse_uint_hex [of 0 msk] by (simp add: ParseUint_def)
  show "\<exists>c \<in> set msk. hexDigit c = None \<Longrightarrow> \<exists>v e. ParseUint msk 16 (4 * length msk) = (v, Some e)"
    using assms parse_uint_bad [of msk] by (auto simp: ParseUint_def) (metis prod.collapse)
qed

lemma ParseInt_digit:
  "hexDigit c = Some d \<Longrightarrow> ParseInt [c] 16 16 = (int d, None)"
  "hexDigit c = None \<Longrightarrow> \<exists>v e. ParseInt [c] 16 16 = (v, Some e)"
proof -
  assume "hexDigit c = Some d"
  then have d: "digit_val c = Some d" "d < 16" by (auto simp: hexDigit_def split: option.splits if_splits)
  then have "c \<noteq> CHR ''-''" "c \<noteq> CHR ''+''" by (auto simp: digit_val_def)
  with d show "ParseInt [c] 16 16 = (int d, None)" by (simp add: ParseInt_def ParseUint_def)
next
  assume "hexDigit c = None"
  then have "parse_uint 16 m 0 [c] = (0, Some ErrSyntax)" for m
    by (auto simp: hexDigit_def split: option.splits if_splits)
  then show "\<exists>v e. ParseInt [c] 16 16 = (v, Some e)"
    by (auto simp: ParseInt_def ParseUint_def Let_def simp del: parse_uint.simps)
qed

lemma digit_bits:
  "d < 16 \<Longrightarrow> filter (\<lambda>j. (push_bit j 1 AND int d) \<noteq> 0) [0, 1, 2, 3] = filter (bit (d + 16 * v)) [0..<4]"
proof -
  have b: "bit (d + 16 * v) j = bit d j" if "j < 4" for j
  proof -
    have "(d + 16 * v) mod 2 ^ 4 = d mod 2 ^ 4" by simp
    then have "bit (take_bit 4 (d + 16 * v)) j = bit (take_bit 4 d) j" unfolding take_bit_eq_mod by (rule arg_cong)
    with that show ?thesis by (simp add: bit_take_bit_iff)
  qed
  have "[0..<4] = [0, 1, 2, 3 :: nat]" by (simp add: upt_rec)
  moreover have "(push_bit j 1 AND int d) \<noteq> 0 \<longleftrightarrow> bit d j" for j
    using bit_iff_and_push_bit_not_eq_0 [of "int d" j] by (simp add: and.commute bit_of_nat_iff)
  ultimately show ?thesis using b by simp
qed

lemma maskLoop_bits:
  "\<forall>c \<in> set cs. hexDigit c \<noteq> None \<Longrightarrow>
   maskLoop i cs ret = ret @ map (\<lambda>k. format_nat 10 (4 * i + k)) (filter (bit (revVal cs)) [0..<4 * length cs])"
proof (induction cs arbitrary: i ret)
  case (Cons c cs)
  then obtain d where d: "hexDigit c = Some d" by auto
  then have d16: "d < 16" by (auto simp: hexDigit_def split: option.splits if_splits)
  have "bit (d + 16 * revVal cs) (k + 4) = bit (revVal cs) k" for k
  proof -
    have "drop_bit 4 (d + 16 * revVal cs) = revVal cs" using d16 by (simp add: drop_bit_eq_div)
    then show ?thesis by (metis add.commute bit_drop_bit_eq comp_apply)
  qed
  then have "filter (bit (d + 16 * revVal cs)) (map (\<lambda>k. k + 4) ks) = map (\<lambda>k. k + 4) (filter (bit (revVal cs)) ks)" for ks
    by (simp add: filter_map comp_def)
  moreover have "[0..<4 * length (c # cs)] = [0..<4] @ map (\<lambda>k. k + 4) [0..<4 * length cs]"
    by (simp add: map_add_upt upt_add_eq_append [symmetric] add.commute)
  ultimately show ?case
    using d Cons.prems digit_bits [OF d16, of "revVal cs"]
    by (simp add: ParseInt_digit(1) Cons.IH algebra_simps comp_def del: upt_Suc)
qed simp

lemma maskLoop_bad: "\<exists>c \<in> set cs. hexDigit c = None \<Longrightarrow> maskLoop i cs ret = []"
proof (induction cs arbitrary: i ret)
  case (Cons c cs)
  then show ?case
    using ParseInt_digit(1) [of c] ParseInt_digit(2) [of c]
    by (cases "hexDigit c") (auto split: prod.splits option.splits)
qed simp

text \<open>The positions of the ones of a number of \<open>4 * n\<close> bits, in ascending order, in decimal.\<close>

definition bitNames :: "nat \<Rightarrow> nat \<Rightarrow> string list" where
  "bitNames n v = map (format_nat 10) (filter (bit v) [0..<4 * n])"

lemma parseTasksetMask_spec:
  assumes "msk \<noteq> []"
  shows "parseTasksetMask msk =
    Ret (case ParseUint msk 16 (4 * length msk) of (v, None) \<Rightarrow> bitNames (length msk) v | (_, Some _) \<Rightarrow> [])"
proof (cases "\<forall>c \<in> set msk. hexDigit c \<noteq> None")
  case True
  then show ?thesis
    using assms ParseUint_mask(1) [OF assms] maskLoop_bits [of "rev msk" 0 "[]"]
    by (simp add: parseTasksetMask_def bitNames_def)
next
  case False
  then have "\<exists>c \<in> set (rev msk). hexDigit c = None" by auto
  then show ?thesis
    using assms ParseUint_mask(2) [OF assms] maskLoop_bad [of "rev msk" 0 "[]"]
    by (auto simp: parseTasksetMask_def)
qed

end
