(* ===== verification/Openstack.thy ===== *)
theory Openstack
  imports WorkloadOps Taskset
begin

text \<open>
  The OpenStack integration (\<^verbatim>\<open>internal/openstack\<close>): the client that fetches a token, the service
  catalogue and workload policies over HTTP, the listener on the message queue, and the handling of
  Nova's notifications about instances. HTTP, the AMQP library, the commands and the configuration are
  parameters whose answers depend on the calls made before. How a text is parsed as JSON is a parameter
  too; how \<^verbatim>\<open>encoding/json\<close> fills the structs of the source from a parsed value is modelled.
\<close>

section \<open>JSON values and structs\<close>

datatype json = JNull | JBool bool | JNum string | JStr string | JArr "json list" | JObj "(string \<times> json) list"

text \<open>A Go map decoded from an object keeps the last value of a key that is repeated.\<close>

definition lastOf :: "string \<Rightarrow> (string \<times> json) list \<Rightarrow> json option" where
  "lastOf k kvs = map_of (rev kvs) k"

text \<open>
  A struct takes from an object the members whose names are its tags, exactly or up to case; \<open>null\<close>
  leaves a field as it is; a value of another type is an error, and the decoding goes on. The second
  component tells whether there was one.
\<close>

definition jField :: "string list \<Rightarrow> string \<Rightarrow> string option" where
  "jField tags k = (if k \<in> set tags then Some k else find (\<lambda>t. ToLower t = ToLower k) tags)"

definition jStruct :: "string list \<Rightarrow> (string \<Rightarrow> json \<Rightarrow> 's \<Rightarrow> 's \<times> bool) \<Rightarrow> json \<Rightarrow> 's \<Rightarrow> 's \<times> bool" where
  "jStruct tags f j s =
     (case j of
        JNull \<Rightarrow> (s, False)
      | JObj kvs \<Rightarrow>
          foldl (\<lambda>(s, bad) (k, v). case jField tags k of
                   None \<Rightarrow> (s, bad)
                 | Some t \<Rightarrow> (case f t v s of (s', b) \<Rightarrow> (s', bad \<or> b))) (s, False) kvs
      | _ \<Rightarrow> (s, True))"

definition jString :: "((string \<Rightarrow> string) \<Rightarrow> 's \<Rightarrow> 's) \<Rightarrow> json \<Rightarrow> 's \<Rightarrow> 's \<times> bool" where
  "jString upd v s = (case v of JStr x \<Rightarrow> (upd (\<lambda>_. x) s, False) | JNull \<Rightarrow> (s, False) | _ \<Rightarrow> (s, True))"

definition Unmarshal :: "(string \<Rightarrow> json + goerror) \<Rightarrow> (json \<Rightarrow> 's \<Rightarrow> 's \<times> bool) \<Rightarrow> string \<Rightarrow> 's \<Rightarrow> 's with_err" where
  "Unmarshal parse f data s =
     (case parse data of
        Inr e \<Rightarrow> (s, Some e)
      | Inl j \<Rightarrow> (case f j s of (s', bad) \<Rightarrow> (s', if bad then Some (Errorf ''json: cannot unmarshal'' []) else None)))"

text \<open>\<^verbatim>\<open>strings.Replace(s, old, new, 1)\<close> for a text that is not empty.\<close>

definition ReplaceFirst :: "string \<Rightarrow> string \<Rightarrow> string \<Rightarrow> string" where
  "ReplaceFirst s old new =
     (case indexOf old s of None \<Rightarrow> s | Some i \<Rightarrow> take i s @ new @ drop (i + length old) s)"

section \<open>Configuration, environment and state\<close>

record OpenstackConfig =
  ProviderConfigPath :: string
  AmqpURI :: string
  BindingKey :: string
  KeystoneURL :: string
  KeystoneLogin :: string
  KeystonePassword :: string

text \<open>What is sent over HTTP; \<open>HttpDo\<close> carries the token of the header \<^verbatim>\<open>X-Auth-Token\<close>.\<close>

datatype httpCall = HttpPost string string string | HttpDo string string string

record httpResponse =
  subjectToken :: string
  respStatus :: int
  respBody :: "string with_err"

text \<open>Exchanges and queues are declared with their durability.\<close>

datatype amqpCall =
    Dial string | OpenChannel | ExchangeDeclare string string bool | QueueDeclare string bool
  | QueueBind string string string | Consume string string | CancelConsumer string | CloseConnection

record 'b os_env =
  rmdE :: "'b rmd_env"
  http :: "httpCall list \<Rightarrow> httpCall \<Rightarrow> httpResponse + goerror"
  badRequest :: "string \<Rightarrow> string \<Rightarrow> goerror option"
  commands :: cmd_env
  amqp :: "amqpCall list \<Rightarrow> amqpCall \<Rightarrow> string with_err"
  parseJson :: "string \<Rightarrow> json + goerror"
  oscfg :: OpenstackConfig
  osHostname :: "string with_err"
  euid :: int
  yamlMarshal :: "providerData \<Rightarrow> string + goerror"

record 'b os_state =
  rmdS :: "'b rmd"
  token :: string
  endpointsMap :: "(string \<times> string) list"
  httpCalls :: "httpCall list"
  cmdCalls :: "string list list"
  amqpCalls :: "amqpCall list"
  curNotifType :: string
  novaOnce :: bool
  novaConsumer :: "string option"
  hostname :: string

section \<open>Token and endpoints (openstackclient.go)\<close>

definition tokenRequest :: "string \<Rightarrow> string \<Rightarrow> string" where
  \<open>tokenRequest login password =
     ''{"auth":{"methods":["password"],"tennant":"admin","identity":{"methods":["password"],"password":{"user":{"name":"'' @ login
     @ ''","domain": {"id":"default"},"password":"'' @ password
     @ ''"}}},"scope": {"project": {"domain":{"id": "default"},"name": "admin"}}}}''\<close>

text \<open>
  \<^verbatim>\<open>result["token"]["catalog"]\<close> of the decoded answer; a text that is not JSON decodes to nothing
  and the error is ignored.
\<close>

definition catalogOf :: "json + goerror \<Rightarrow> json option" where
  "catalogOf r =
     (case r of
        Inl (JObj kvs) \<Rightarrow> (case lastOf ''token'' kvs of Some (JObj ms) \<Rightarrow> lastOf ''catalog'' ms | _ \<Rightarrow> None)
      | _ \<Rightarrow> None)"

fun assertString :: "json option \<Rightarrow> string \<Rightarrow> string outcome" where
  "assertString None dflt = Ret dflt"
| "assertString (Some (JStr s)) dflt = Ret s"
| "assertString (Some _) dflt = Panic TypeAssertion"

fun endpointUrl :: "string \<Rightarrow> string \<Rightarrow> json \<Rightarrow> string outcome" where
  "endpointUrl name url (JObj m) =
     (case lastOf ''url'' m of
        None \<Rightarrow> Ret url
      | Some v \<Rightarrow>
          andThen (assertString (Some v) []) (\<lambda>s.
            Ret (if name = ''swift'' \<and> \<not> str_contains (TrimSpace s) ''AUTH'' then url else TrimSpace s)))"
| "endpointUrl name url _ = Panic TypeAssertion"

fun catalogItem :: "(string \<times> string) list \<Rightarrow> json \<Rightarrow> ((string \<times> string) list) outcome" where
  "catalogItem eps (JObj m) =
     andThen (assertString (lastOf ''name'' m) []) (\<lambda>name.
       andThen (case lastOf ''endpoints'' m of
                  None \<Rightarrow> Ret []
                | Some (JArr es) \<Rightarrow> foldO (endpointUrl name) [] es
                | Some _ \<Rightarrow> Panic TypeAssertion) (\<lambda>url.
         Ret (if name \<noteq> [] \<and> url \<noteq> [] then al_put name url eps else eps)))"
| "catalogItem eps _ = Panic TypeAssertion"

definition obtainEndpoints :: "'b os_env \<Rightarrow> httpResponse \<Rightarrow> 'b os_state \<Rightarrow> 'b os_state outcome" where
  "obtainEndpoints E resp s =
     (case respBody resp of
        (_, Some _) \<Rightarrow> Ret s
      | (data, None) \<Rightarrow>
          (case catalogOf (parseJson E data) of
             None \<Rightarrow> Ret s
           | Some (JArr items) \<Rightarrow>
               andThen (foldO catalogItem (endpointsMap s) items) (\<lambda>eps. Ret (s\<lparr>endpointsMap := eps\<rparr>))
           | Some _ \<Rightarrow> Panic TypeAssertion))"

definition obtainToken :: "'b os_env \<Rightarrow> 'b os_state \<Rightarrow> 'b os_state outcome" where
  "obtainToken E s =
     (case extcall (http E) (HttpPost (KeystoneURL (oscfg E)) ''application/json''
                       (tokenRequest (KeystoneLogin (oscfg E)) (KeystonePassword (oscfg E)))) (httpCalls s) of
        (Inr _, h) \<Rightarrow> Ret (s\<lparr>httpCalls := h\<rparr>)
      | (Inl resp, h) \<Rightarrow> obtainEndpoints E resp (s\<lparr>httpCalls := h, token := subjectToken resp\<rparr>))"

definition getToken :: "'b os_env \<Rightarrow> 'b os_state \<Rightarrow> 'b os_state outcome" where
  "getToken E s = (if token s = [] then obtainToken E s else Ret s)"

text \<open>
  The error of \<^verbatim>\<open>client.Do\<close> is bound by a new variable and does not leave the block: the caller
  gets no data, the status 400 and no error.
\<close>

definition sendSingleQuery :: "'b os_env \<Rightarrow> string \<Rightarrow> string \<Rightarrow> 'b os_state
    \<Rightarrow> (string \<times> int \<times> goerror option \<times> 'b os_state) outcome" where
  "sendSingleQuery E method url s =
     (case badRequest E method url of
        Some e \<Rightarrow> Ret ([], 400, Some e, s)
      | None \<Rightarrow>
          andThen (getToken E s) (\<lambda>s1.
            case extcall (http E) (HttpDo method url (token s1)) (httpCalls s1) of
              (Inr _, h) \<Rightarrow> Ret ([], 400, None, s1\<lparr>httpCalls := h\<rparr>)
            | (Inl resp, h) \<Rightarrow> Ret (fst (respBody resp), respStatus resp, None, s1\<lparr>httpCalls := h\<rparr>)))"

definition sendQuery :: "'b os_env \<Rightarrow> string \<Rightarrow> string \<Rightarrow> 'b os_state \<Rightarrow> (string with_err \<times> 'b os_state) outcome" where
  "sendQuery E method url s =
     andThen (sendSingleQuery E method url s) (\<lambda>(data, statusCode, err, s1).
       if err = None \<and> statusCode = 401
       then andThen (obtainToken E s1) (\<lambda>s2.
              andThen (sendSingleQuery E method url s2) (\<lambda>(data', _, err', s3). Ret ((data', err'), s3)))
       else Ret ((data, err), s1))"

section \<open>Policies\<close>

text \<open>
  \<^verbatim>\<open>json.Unmarshal\<close> into a pointer to a workload: the value \<^verbatim>\<open>null\<close> makes the pointer nil.
\<close>

definition policyOf :: "'b os_env \<Rightarrow> string \<Rightarrow> (RDTWorkLoad option) with_err" where
  "policyOf E data =
     (case parseJson E data of
        Inr e \<Rightarrow> (None, Some e)
      | Inl JNull \<Rightarrow> (None, None)
      | Inl _ \<Rightarrow> (case unmarshal (ecodec (rmdE E)) data of Inr e \<Rightarrow> (None, Some e) | Inl w \<Rightarrow> (Some w, None)))"

definition fetchPolicy :: "'b os_env \<Rightarrow> string \<Rightarrow> 'b os_state \<Rightarrow> ((RDTWorkLoad option) with_err \<times> 'b os_state) outcome" where
  "fetchPolicy E url s =
     andThen (sendQuery E ''GET'' url s) (\<lambda>((data, err), s').
       Ret (case err of Some e \<Rightarrow> ((None, Some e), s') | None \<Rightarrow> (policyOf E data, s')))"

definition getGlanceWorkloadPolicyByUUID :: "'b os_env \<Rightarrow> string \<Rightarrow> 'b os_state
    \<Rightarrow> ((RDTWorkLoad option) with_err \<times> 'b os_state) outcome" where
  "getGlanceWorkloadPolicyByUUID E imageID s =
     (let filled = ReplaceFirst ''{http://localhost/v2/images}/{imageID}/file'' ''{imageID}'' imageID
      in case map_of (endpointsMap s) ''glance'' of
           None \<Rightarrow> Ret ((None, Some (Errorf ''Glance record not found in endpoint map'' [])), s)
         | Some v \<Rightarrow> fetchPolicy E (ReplaceFirst filled ''{http://localhost/v2/images}'' v) s)"

definition getSwiftWorkloadPolicyByURL :: "'b os_env \<Rightarrow> string \<Rightarrow> 'b os_state
    \<Rightarrow> ((RDTWorkLoad option) with_err \<times> 'b os_state) outcome" where
  "getSwiftWorkloadPolicyByURL E workloadPolicyURL s =
     (let base = ''{http://localhost:8080/v1/AUTH_0ff337bec7d4415dbc60ffca09db14ef}''
      in case map_of (endpointsMap s) ''swift'' of
           None \<Rightarrow> Ret ((None, Some (Errorf ''Swift record not found in endpoint map'' [])), s)
         | Some v \<Rightarrow>
             fetchPolicy E (ReplaceFirst (ReplaceFirst (base @ ''/{workloadPolicyURL}'') base v)
                              ''{workloadPolicyURL}'' workloadPolicyURL) s)"

definition extraSpec :: "'b os_env \<Rightarrow> string \<Rightarrow> string \<Rightarrow> string" where
  "extraSpec E tag responseData =
     (if length responseData = 0 then []
      else fst (Unmarshal (parseJson E) (jStruct [''extra_specs''] (\<lambda>_. jStruct [tag] (\<lambda>_. jString id))) responseData []))"

definition unMarshallGlanceWorkloadPolicyUUID :: "'b os_env \<Rightarrow> string \<Rightarrow> string" where
  "unMarshallGlanceWorkloadPolicyUUID E = extraSpec E ''rmd:glance_workload_policy_uuid''"

definition unMarshallSwiftWorkloadPolicyUUID :: "'b os_env \<Rightarrow> string \<Rightarrow> string" where
  "unMarshallSwiftWorkloadPolicyUUID E = extraSpec E ''rmd:swift_workload_policy_url''"

definition getWorkloadPolicyUUID :: "'b os_env \<Rightarrow> string \<Rightarrow> bool \<Rightarrow> 'b os_state \<Rightarrow> (string \<times> 'b os_state) outcome" where
  "getWorkloadPolicyUUID E flavorID useSwiftInsteadOfGlance s =
     (let filled = ReplaceFirst ''{http://localhost/compute/v2.1}/flavors/{flavorId}/os-extra_specs'' ''{flavorId}'' flavorID
      in case map_of (endpointsMap s) ''nova'' of
           None \<Rightarrow> Ret ([], s)
         | Some v \<Rightarrow>
             andThen (sendQuery E ''GET'' (ReplaceFirst filled ''{http://localhost/compute/v2.1}'' v) s) (\<lambda>((data, err), s').
               Ret (if err \<noteq> None then []
                    else if useSwiftInsteadOfGlance then unMarshallSwiftWorkloadPolicyUUID E data
                    else unMarshallGlanceWorkloadPolicyUUID E data, s')))"

end
