(* ===== verification/Nova.thy ===== *)
theory Nova
  imports Openstack
begin

text \<open>
  Nova's notifications (\<^verbatim>\<open>internal/openstack/notifhandler.go\<close>), the listener on the message queue
  (\<^verbatim>\<open>novalistener.go\<close>) and the start of the integration (\<^verbatim>\<open>openstack_enabled.go\<close>). The
  deliveries are handled one after the other, so the handler is a fold over them.
\<close>

section \<open>Notifications (notifhandler.go)\<close>

record osloMsg =
  osloPayload :: string
  osloVersion :: string
  msgType :: string

text \<open>The anonymous structs for the flavor and its extra specifications are flattened.\<close>

record NovaNotificationPayload =
  DisplayName :: string
  nHost :: string
  Node :: string
  InstanceID :: string
  nState :: string
  nMessage :: string
  FlavorID :: string
  SwiftURL :: string
  GlanceID :: string

record NovaNotification =
  Payload :: NovaNotificationPayload
  EventType :: string

definition zeroPayload :: NovaNotificationPayload where
  "zeroPayload = \<lparr>DisplayName = [], nHost = [], Node = [], InstanceID = [], nState = [], nMessage = [],
     FlavorID = [], SwiftURL = [], GlanceID = []\<rparr>"

definition jOslo :: "json \<Rightarrow> osloMsg \<Rightarrow> osloMsg \<times> bool" where
  "jOslo = jStruct [''oslo.message'', ''oslo.version'', ''Type'']
     (\<lambda>t. if t = ''oslo.message'' then jString osloPayload_update
          else if t = ''oslo.version'' then jString osloVersion_update else jString msgType_update)"

definition jExtra :: "json \<Rightarrow> NovaNotificationPayload \<Rightarrow> NovaNotificationPayload \<times> bool" where
  "jExtra = jStruct [''rmd:swift_workload_policy_url'', ''rmd:glance_workload_policy_uuid'']
     (\<lambda>t. if t = ''rmd:swift_workload_policy_url'' then jString SwiftURL_update else jString GlanceID_update)"

definition jFlavor :: "json \<Rightarrow> NovaNotificationPayload \<Rightarrow> NovaNotificationPayload \<times> bool" where
  "jFlavor = jStruct [''nova_object.data'']
     (\<lambda>_. jStruct [''flavorid'', ''extra_specs'']
       (\<lambda>t. if t = ''flavorid'' then jString FlavorID_update else jExtra))"

definition jData :: "json \<Rightarrow> NovaNotificationPayload \<Rightarrow> NovaNotificationPayload \<times> bool" where
  "jData = jStruct [''display_name'', ''host'', ''node'', ''uuid'', ''state'', ''message'', ''flavor'']
     (\<lambda>t. if t = ''display_name'' then jString DisplayName_update
          else if t = ''host'' then jString nHost_update
          else if t = ''node'' then jString Node_update
          else if t = ''uuid'' then jString InstanceID_update
          else if t = ''state'' then jString nState_update
          else if t = ''message'' then jString nMessage_update
          else jFlavor)"

definition jNotification :: "json \<Rightarrow> NovaNotification \<Rightarrow> NovaNotification \<times> bool" where
  "jNotification = jStruct [''payload'', ''event_type'']
     (\<lambda>t v n. if t = ''payload''
              then (case jStruct [''nova_object.data''] (\<lambda>_. jData) v (Payload n) of (p, bad) \<Rightarrow> (n\<lparr>Payload := p\<rparr>, bad))
              else jString EventType_update v n)"

definition notificationCreateType :: string where
  "notificationCreateType = ''instance.create.end''"

definition notificationDeleteType :: string where
  "notificationDeleteType = ''instance.delete.end''"

definition missingData :: "NovaNotificationPayload \<Rightarrow> string list" where
  "missingData p = (if length (InstanceID p) = 0 then [''InstanceID''] else []) @
     (if length (SwiftURL p) = 0 then [''SwiftURL''] else [])"

definition validateCreateNoti :: "NovaNotification \<Rightarrow> goerror option" where
  "validateCreateNoti notif =
     (if 0 < length (missingData (Payload notif))
      then Some (Errorf (''Missing data in notification: '' @ join '','' (missingData (Payload notif))) []) else None)"

text \<open>
  The workload of a new instance goes through the checks, the enforcement and the data base; each error
  ends the handling without undoing what was done.
\<close>

definition launch :: "'b os_env \<Rightarrow> RDTWorkLoad \<Rightarrow> 'b os_state \<Rightarrow> 'b os_state outcome" where
  "launch E wrkld s =
     andThen (Validate (rmdE E) wrkld (rmdS s)) (\<lambda>(e0, w0, r0).
       if e0 \<noteq> None then Ret (s\<lparr>rmdS := r0\<rparr>)
       else andThen (Enforce (rmdE E) w0 r0) (\<lambda>(e1, w1, r1).
         if e1 \<noteq> None then Ret (s\<lparr>rmdS := r1\<rparr>)
         else andThen (Create (rmdE E) w1 r1) (\<lambda>(_, _, r2). Ret (s\<lparr>rmdS := r2\<rparr>))))"

definition processCreateNotification :: "'b os_env \<Rightarrow> NovaNotification \<Rightarrow> 'b os_state \<Rightarrow> 'b os_state outcome" where
  "processCreateNotification E notif s =
     (if validateCreateNoti notif \<noteq> None then Ret s
      else case getPIDByName (commands E) (InstanceID (Payload notif)) (cmdCalls s) of
        ((_, Some _), h1) \<Rightarrow> Ret (s\<lparr>cmdCalls := h1\<rparr>)
      | ((pid, None), h1) \<Rightarrow>
          andThen (getPIDTaskSet (commands E) pid h1) (\<lambda>((tset, e2), h2).
            let s2 = s\<lparr>cmdCalls := h2\<rparr>
            in if e2 \<noteq> None \<or> length tset = 0 then Ret s2
               else andThen (getSwiftWorkloadPolicyByURL E (SwiftURL (Payload notif)) s2) (\<lambda>((policy, e3), s3).
                 if e3 \<noteq> None then Ret s3
                 else case policy of
                        None \<Rightarrow> Panic NilDereference
                      | Some w \<Rightarrow>
                          launch E (w\<lparr>UUID := InstanceID (Payload notif), CoreIDs := tset, Origin := ''OPENSTACK''\<rparr>) s3)))"

definition processDeleteNotification :: "'b os_env \<Rightarrow> NovaNotification \<Rightarrow> 'b os_state \<Rightarrow> 'b os_state outcome" where
  "processDeleteNotification E notif s =
     (if length (InstanceID (Payload notif)) = 0 then Ret s
      else case GetByUUID (rmdE E) (InstanceID (Payload notif)) (rmdS s) of
        (_, Some _) \<Rightarrow> Ret s
      | (w, None) \<Rightarrow>
          if Origin w = ''OPENSTACK''
          then andThen (Release (rmdE E) w (rmdS s)) (\<lambda>(e, r1).
                 Ret (s\<lparr>rmdS := (case e of Some _ \<Rightarrow> r1 | None \<Rightarrow> snd (Delete (rmdE E) w r1))\<rparr>))
          else Ret s)"

definition handleVersionedNotification :: "'b os_env \<Rightarrow> NovaNotification \<Rightarrow> 'b os_state \<Rightarrow> 'b os_state outcome" where
  "handleVersionedNotification E notif s =
     (if EventType notif = notificationCreateType then processCreateNotification E notif s
      else if EventType notif = notificationDeleteType then processDeleteNotification E notif s
      else Ret s)"

definition handleUnversionedNotification :: "NovaNotification \<Rightarrow> 'b os_state \<Rightarrow> 'b os_state outcome" where
  "handleUnversionedNotification notif s = Ret s"

definition handleNovaNotification :: "'b os_env \<Rightarrow> osloMsg \<Rightarrow> 'b os_state \<Rightarrow> 'b os_state outcome" where
  "handleNovaNotification E msg s =
     (case Unmarshal (parseJson E) jNotification (osloPayload msg) \<lparr>Payload = zeroPayload, EventType = []\<rparr> of
        (_, Some _) \<Rightarrow> Ret s
      | (notif, None) \<Rightarrow>
          if hostname s \<noteq> nHost (Payload notif) \<and> hostname s \<noteq> Node (Payload notif) then Ret s
          else if msgType msg = ''versioned'' then handleVersionedNotification E notif s
          else handleUnversionedNotification notif s)"

section \<open>The listener (novalistener.go)\<close>

definition messageFilter :: "string list" where
  "messageFilter = [notificationCreateType, notificationDeleteType]"

definition go_filter :: "string \<Rightarrow> string list \<Rightarrow> bool \<times> string" where
  "go_filter input ws = (case find (str_contains input) ws of Some w \<Rightarrow> (True, w) | None \<Rightarrow> (False, []))"

definition handleDelivery :: "'b os_env \<Rightarrow> 'b os_state \<Rightarrow> string \<Rightarrow> 'b os_state outcome" where
  "handleDelivery E s body =
     (if fst (go_filter body messageFilter)
      then (case Unmarshal (parseJson E) jOslo body \<lparr>osloPayload = [], osloVersion = [], msgType = []\<rparr> of
              (_, Some _) \<Rightarrow> Ret s
            | (msg, None) \<Rightarrow> handleNovaNotification E (msg\<lparr>msgType := curNotifType s\<rparr>) s)
      else Ret s)"

definition handle :: "'b os_env \<Rightarrow> string list \<Rightarrow> 'b os_state \<Rightarrow> 'b os_state outcome" where
  "handle E deliveries s = foldO (handleDelivery E) s deliveries"

text \<open>One call to the AMQP library; an error is wrapped with the name of the step.\<close>

definition amqpStep :: "'b os_env \<Rightarrow> string \<Rightarrow> amqpCall \<Rightarrow> amqpCall list \<Rightarrow> (goerror + string) \<times> amqpCall list" where
  "amqpStep E what call h =
     (case extcall (amqp E) call h of
        ((_, Some e), h') \<Rightarrow> (Inl (Errorf what []), h')
      | ((r, None), h') \<Rightarrow> (Inr r, h'))"

definition bindQueue :: "'b os_env \<Rightarrow> string \<Rightarrow> string \<Rightarrow> string \<Rightarrow> string \<Rightarrow> amqpCall list
    \<Rightarrow> (string option) with_err \<times> amqpCall list" where
  "bindQueue E queueName exchange key ctag h =
     (case amqpStep E ''Queue Declare: %s'' (QueueDeclare queueName True) h of
        (Inl e, h4) \<Rightarrow> ((None, Some e), h4)
      | (Inr q, h4) \<Rightarrow>
          (case amqpStep E ''Queue Bind: %s'' (QueueBind q key exchange) h4 of
             (Inl e, h5) \<Rightarrow> ((None, Some e), h5)
           | (Inr _, h5) \<Rightarrow>
               (case amqpStep E ''Queue Consume: %s'' (Consume q ctag) h5 of
                  (Inl e, h6) \<Rightarrow> ((None, Some e), h6)
                | (Inr _, h6) \<Rightarrow> ((Some ctag, None), h6))))"

definition newConsumer :: "'b os_env \<Rightarrow> string \<Rightarrow> string \<Rightarrow> string \<Rightarrow> string \<Rightarrow> string \<Rightarrow> string \<Rightarrow> amqpCall list
    \<Rightarrow> (string option) with_err \<times> amqpCall list" where
  "newConsumer E amqpURI exchange exchangeType queueName key ctag h =
     (case amqpStep E ''Dial: %s'' (Dial amqpURI) h of
        (Inl e, h1) \<Rightarrow> ((None, Some e), h1)
      | (Inr _, h1) \<Rightarrow>
          (case amqpStep E ''Channel: %s'' OpenChannel h1 of
             (Inl e, h2) \<Rightarrow> ((None, Some e), h2)
           | (Inr _, h2) \<Rightarrow>
               (case amqpStep E ''Exchange Declare: %s'' (ExchangeDeclare exchange exchangeType False) h2 of
                  (Inl e, h3) \<Rightarrow> ((None, Some e), h3)
                | (Inr _, h3) \<Rightarrow> bindQueue E queueName exchange key ctag h3)))"

text \<open>The consumer is made at most once; a second start reports no error whatever the first one did.\<close>

definition NovaListenerStart :: "'b os_env \<Rightarrow> string \<Rightarrow> string \<Rightarrow> 'b os_state \<Rightarrow> goerror option \<times> 'b os_state" where
  "NovaListenerStart E uri bindingKey s0 =
     (let s = s0\<lparr>curNotifType := (if bindingKey = ''versioned_notifications.info'' then ''versioned'' else ''unversioned'')\<rparr>
      in if novaOnce s then (None, s)
         else case newConsumer E uri ''nova'' ''topic'' ''rmd-queue'' bindingKey ''rmd-consumer'' (amqpCalls s) of
                ((c, err), h) \<Rightarrow> (err, s\<lparr>novaOnce := True, novaConsumer := c, amqpCalls := h\<rparr>))"

definition CloseListener :: "'b os_env \<Rightarrow> 'b os_state \<Rightarrow> (goerror option \<times> 'b os_state) outcome" where
  "CloseListener E s =
     (case novaConsumer s of
        None \<Rightarrow> Panic NilDereference
      | Some tag \<Rightarrow>
          (case amqpStep E ''Consumer cancel failed: %s'' (CancelConsumer tag) (amqpCalls s) of
             (Inl e, h1) \<Rightarrow> Ret (Some e, s\<lparr>amqpCalls := h1\<rparr>)
           | (Inr _, h1) \<Rightarrow>
               (case amqpStep E ''AMQP connection close error: %s'' CloseConnection h1 of
                  (Inl e, h2) \<Rightarrow> Ret (Some e, s\<lparr>amqpCalls := h2\<rparr>)
                | (Inr _, h2) \<Rightarrow> Ret (None, s\<lparr>amqpCalls := h2\<rparr>))))"

section \<open>Start of the integration (openstack_enabled.go)\<close>

definition Openstack_Init :: "'b os_env \<Rightarrow> 'b os_state \<Rightarrow> (goerror option \<times> 'b os_state) outcome" where
  "Openstack_Init E s0 =
     (let s = s0\<lparr>hostname := fst (osHostname E)\<rparr>; R = rmdE E; cfg = oscfg E
      in if snd (osHostname E) \<noteq> None then Ret (Some (Errorf ''Could not get host name'' []), s)
         else if euid E = 0
         then if length (ProviderConfigPath cfg) = 0
              then Ret (Some (Errorf ''Missing Provider Configuration file path'' []), s)
              else (case GenerateFile (yamlMarshal E) (eos R) (hfs (ehost R)) (hostOS (ehost R)) (ProviderConfigPath cfg)
                           (fsops (rmdS s)) of
                      (err, h) \<Rightarrow> Ret (err, s\<lparr>rmdS := (rmdS s)\<lparr>fsops := h\<rparr>\<rparr>))
         else andThen (getToken E s) (\<lambda>s1. Ret (NovaListenerStart E (AmqpURI cfg) (BindingKey cfg) s1)))"

end
