(* ===== verification/Nova_Laws.thy ===== *)
theory Nova_Laws
  imports Nova Workload_Ops_Laws
begin

text \<open>
  What a notification can do. The client changes only its own token, catalogue and history; releasing
  and enforcing do not touch the data base; so a notification leaves the stored workloads as they are,
  adds one workload of the origin \<^verbatim>\<open>OPENSTACK\<close> or removes one.
\<close>

section \<open>The client\<close>

definition client_only :: "'b os_state \<Rightarrow> 'b os_state \<Rightarrow> bool" where
  "client_only s s' \<longleftrightarrow> s' = s\<lparr>token := token s', endpointsMap := endpointsMap s', httpCalls := httpCalls s'\<rparr>"

lemma client_onlyD: "client_only s s' \<Longrightarrow> rmdS s' = rmdS s \<and> hostname s' = hostname s"
  unfolding client_only_def by (drule arg_cong [where f = "\<lambda>s. (rmdS s, hostname s)"]) simp

lemma client_only_refl: "client_only s s" by (simp add: client_only_def)

lemma client_only_trans: "client_only s t \<Longrightarrow> client_only t u \<Longrightarrow> client_only s u"
  by (cases s; cases t; cases u) (auto simp: client_only_def)

lemma obtainToken_only: "obtainToken E s = Ret s' \<Longrightarrow> client_only s s'"
  by (cases s)
    (auto simp: obtainToken_def obtainEndpoints_def client_only_def extcall_def andThen_Ret_iff
      split: sum.split_asm prod.split_asm option.split_asm json.split_asm)

lemma getToken_only: "getToken E s = Ret s' \<Longrightarrow> client_only s s'"
  by (auto simp: getToken_def client_only_refl dest: obtainToken_only split: if_split_asm)

lemma sendSingleQuery_only: "sendSingleQuery E m u s = Ret (d, c, e, s') \<Longrightarrow> client_only s s'"
proof -
  assume a: "sendSingleQuery E m u s = Ret (d, c, e, s')"
  have h: "client_only t (t\<lparr>httpCalls := h\<rparr>)" for t :: "'a os_state" and h by (simp add: client_only_def)
  show ?thesis
  proof (cases "badRequest E m u")
    case None
    with a obtain s1 where g: "getToken E s = Ret s1" and
      r: "(case extcall (http E) (HttpDo m u (token s1)) (httpCalls s1) of
              (Inr _, h) \<Rightarrow> Ret ([], 400, None, s1\<lparr>httpCalls := h\<rparr>)
            | (Inl resp, h) \<Rightarrow> Ret (fst (respBody resp), respStatus resp, None, s1\<lparr>httpCalls := h\<rparr>)) = Ret (d, c, e, s')"
      by (auto simp: sendSingleQuery_def andThen_Ret_iff)
    from r have "client_only s1 s'" using h [of s1] by (auto split: prod.split_asm sum.split_asm)
    with getToken_only [OF g] show ?thesis by (rule client_only_trans)
  qed (use a in \<open>auto simp: sendSingleQuery_def client_only_refl\<close>)
qed

lemma sendQuery_only: "sendQuery E m u s = Ret (r, s') \<Longrightarrow> client_only s s'"
  by (auto simp: sendQuery_def andThen_Ret_iff split: if_split_asm
      dest!: sendSingleQuery_only obtainToken_only intro: client_only_trans)

lemma fetchPolicy_only: "fetchPolicy E u s = Ret (r, s') \<Longrightarrow> client_only s s'"
  by (auto simp: fetchPolicy_def andThen_Ret_iff split: option.split_asm dest: sendQuery_only)

lemma getSwiftWorkloadPolicyByURL_only: "getSwiftWorkloadPolicyByURL E u s = Ret (r, s') \<Longrightarrow> client_only s s'"
  by (auto simp: getSwiftWorkloadPolicyByURL_def Let_def client_only_refl split: option.split_asm dest: fetchPolicy_only)

section \<open>The token\<close>

text \<open>
  An answer 401 makes the client ask for a new token and send the query once more, with the new token;
  every other answer is final.
\<close>

lemma sendQuery_retries:
  assumes "badRequest E m u = None" "token s \<noteq> []"
    and first: "http E (httpCalls s) (HttpDo m u (token s)) = Inl r1"
  shows "respStatus r1 \<noteq> 401 \<Longrightarrow> sendQuery E m u s =
      Ret ((fst (respBody r1), None), s\<lparr>httpCalls := httpCalls s @ [HttpDo m u (token s)]\<rparr>)"
    and "respStatus r1 = 401 \<Longrightarrow> obtainToken E (s\<lparr>httpCalls := httpCalls s @ [HttpDo m u (token s)]\<rparr>) = Ret s2 \<Longrightarrow>
      token s2 \<noteq> [] \<Longrightarrow>
      \<exists>d. sendQuery E m u s = Ret ((d, None), s2\<lparr>httpCalls := httpCalls s2 @ [HttpDo m u (token s2)]\<rparr>)"
  using assms by (auto simp: sendQuery_def sendSingleQuery_def getToken_def extcall_def split: sum.split)

section \<open>One notification\<close>

text \<open>
  \<open>added\<close> and \<open>removed\<close>: the data base after one workload was stored or deleted, as its
  readers see it.
\<close>

definition sameRow :: "'b rmd_env \<Rightarrow> 'b \<Rightarrow> 'b \<Rightarrow> string \<Rightarrow> bool" where
  "sameRow R b b' i \<longleftrightarrow> GetWorkloadByID (ecodec R) (ebolt R) i b' = GetWorkloadByID (ecodec R) (ebolt R) i b"

definition added :: "'b rmd_env \<Rightarrow> RDTWorkLoad \<Rightarrow> 'b \<Rightarrow> 'b \<Rightarrow> bool" where
  "added R w b b' \<longleftrightarrow> GetWorkloadByID (ecodec R) (ebolt R) (ID w) b' = (w, None) \<and>
     (UUID w \<noteq> [] \<longrightarrow> GetWorkloadByUUID (ecodec R) (ebolt R) (UUID w) b' = (w, None)) \<and>
     (\<forall>i. i \<noteq> ID w \<longrightarrow> sameRow R b b' i)"

definition removed :: "'b rmd_env \<Rightarrow> RDTWorkLoad \<Rightarrow> 'b \<Rightarrow> 'b \<Rightarrow> bool" where
  "removed R w b b' \<longleftrightarrow> snd (GetWorkloadByID (ecodec R) (ebolt R) (ID w) b') \<noteq> None \<and>
     (UUID w \<noteq> [] \<longrightarrow> snd (GetWorkloadByUUID (ecodec R) (ebolt R) (UUID w) b') \<noteq> None) \<and>
     (\<forall>i. i \<noteq> ID w \<longrightarrow> sameRow R b b' i)"

definition good_store :: "'b rmd_env \<Rightarrow> bool" where
  "good_store R \<longleftrightarrow> bolt_contract (ebolt R) \<and> codec_roundtrip (ecodec R)"

lemma good_db: "good_store R \<Longrightarrow> bolt_db (ebolt R) (ecodec R)"
  by (simp add: good_store_def bolt_db_def bolt_db_axioms_def)

lemma filled_UUID: "filled w w' \<Longrightarrow> UUID w' = UUID w"
  unfolding filled_def by (drule arg_cong [where f = UUID]) simp

lemma launch_effect:
  assumes "good_store (rmdE E)" "hasTables (ebolt (rmdE E)) (store (rmdS s))" "launch E w s = Ret s'"
  shows "store (rmdS s') = store (rmdS s) \<or>
    (\<exists>w'. added (rmdE E) w' (store (rmdS s)) (store (rmdS s')) \<and> CoreIDs w' = CoreIDs w \<and> UUID w' = UUID w \<and>
      Origin w' = Origin w \<and> Status w' = Successful \<and> hasTables (ebolt (rmdE E)) (store (rmdS s')))"
proof -
  let ?R = "rmdE E"
  obtain e0 w0 r0 where 0: "Validate ?R w (rmdS s) = Ret (e0, w0, r0)"
    using assms(3) by (auto simp: launch_def andThen_Ret_iff)
  obtain e0' where v: "validate ?R w (rmdS s) = Ret (e0', w0, r0)" using Validate_validate [OF 0] by blast
  note f0 = validate_filled [OF v]
  have r0: "store r0 = store (rmdS s)" using arg_cong [OF f0(2), of store] by simp
  show ?thesis
  proof (cases e0)
    case (Some x)
    then show ?thesis using assms(3) 0 r0 by (auto simp: launch_def)
  next
    case n0: None
    then obtain e1 w1 r1 where 1: "Enforce ?R w0 r0 = Ret (e1, w1, r1)"
      using assms(3) 0 by (auto simp: launch_def andThen_Ret_iff)
    note f1 = Enforce_frame [OF 1]
    have w1: "CoreIDs w1 = CoreIDs w" "UUID w1 = UUID w" "Origin w1 = Origin w"
      using asked_sameD [of w0 w1] f1 filledD [OF f0(1)] filled_UUID [OF f0(1)] by simp_all
    show ?thesis
    proof (cases e1)
      case (Some x)
      then show ?thesis using assms(3) 0 1 n0 r0 f1 by (auto simp: launch_def)
    next
      case n1: None
      then obtain e2 w2 where 2: "Create ?R w1 r1 = Ret (e2, w2, rmdS s')"
        using assms(3) 0 1 n0 by (auto simp: launch_def andThen_Ret_iff)
      have h: "hasTables (ebolt ?R) (store r1)" using assms(2) f1 r0 by simp
      note st = bolt_db.store [OF good_db [OF assms(1)]]
      show ?thesis
      proof (cases "e2 = None \<and> dbOpen r1")
        case True
        with 2 have c: "CreateWorkload (ecodec ?R) (ebolt ?R) w1 (store r1) = Ret (None, w2, store (rmdS s'))"
          by (auto simp: Create_def andThen_Ret_iff) (metis rmd.select_convs(6) rmd.surjective rmd.update_convs(6))
        note ok = workload_store.create_ok [OF st h c]
        from ok obtain i where i: "w2 = w1\<lparr>ID := i\<rparr>" by blast
        have "Status w2 = Successful" using Enforce_class [OF 1 [unfolded n1]] i by simp
        moreover have "added ?R w2 (store (rmdS s)) (store (rmdS s'))"
          using ok workload_store.create_frame [OF st h c] f1 r0 i by (auto simp: added_def sameRow_def)
        ultimately show ?thesis using w1 i ok by (intro disjI2 exI [of _ w2]) simp
      next
        case False
        have "store (rmdS s') = store r1"
        proof (cases "dbOpen r1")
          case True
          with False 2 obtain e b where "CreateWorkload (ecodec ?R) (ebolt ?R) w1 (store r1) = Ret (Some e, w2, b)"
            "rmdS s' = r1\<lparr>store := b\<rparr>"
            by (auto simp: Create_def andThen_Ret_iff)
          then show ?thesis using workload_store.create_fail [OF st h] by simp
        qed (use 2 in \<open>auto simp: Create_def\<close>)
        with f1 r0 show ?thesis by simp
      qed
    qed
  qed
qed

section \<open>Any sequence of notifications\<close>

text \<open>
  The abstract machine: one step stores a workload of an instance, with its cores, as enforced, or
  deletes a stored workload of the same origin. Rows carry the name they are stored under.
\<close>

definition keyed :: "'b rmd_env \<Rightarrow> 'b \<Rightarrow> bool" where
  "keyed R b \<longleftrightarrow> hasTables (ebolt R) b \<and> (\<forall>i w. GetWorkloadByID (ecodec R) (ebolt R) i b = (w, None) \<longrightarrow> ID w = i)"

inductive os_change :: "'b rmd_env \<Rightarrow> 'b \<Rightarrow> 'b \<Rightarrow> bool" for R where
  launched: "Origin w = ''OPENSTACK'' \<Longrightarrow> UUID w \<noteq> [] \<Longrightarrow> CoreIDs w \<noteq> [] \<Longrightarrow> Status w = Successful \<Longrightarrow>
     added R w b b' \<Longrightarrow> os_change R b b'"
| ended: "Origin w = ''OPENSTACK'' \<Longrightarrow> GetWorkloadByID (ecodec R) (ebolt R) (ID w) b = (w, None) \<Longrightarrow>
     removed R w b b' \<Longrightarrow> os_change R b b'"

lemma keyed_added: "keyed R b \<Longrightarrow> added R w b b' \<Longrightarrow> hasTables (ebolt R) b' \<Longrightarrow> keyed R b'"
  unfolding keyed_def added_def sameRow_def by (metis prod.inject)

lemma keyed_removed: "keyed R b \<Longrightarrow> removed R w b b' \<Longrightarrow> hasTables (ebolt R) b' \<Longrightarrow> keyed R b'"
  unfolding keyed_def removed_def sameRow_def by (metis snd_conv)

lemma GetWorkloadByUUID_row:
  "GetWorkloadByUUID js bo u b = (w, None) \<Longrightarrow> \<exists>i. GetWorkloadByID js bo i b = (w, None)"
proof -
  assume a: "GetWorkloadByUUID js bo u b = (w, None)"
  then obtain i v where "b_has bo b WorkloadTableName" "b_get bo b WorkloadTableName i = Some v" "decode js v = (w, None)"
    by (auto simp: GetWorkloadByUUID_def split: if_split_asm option.split_asm)
  then show ?thesis by (intro exI [of _ i]) (simp add: GetWorkloadByID_def)
qed

definition os_step :: "'b os_env \<Rightarrow> 'b os_state \<Rightarrow> 'b os_state \<Rightarrow> bool" where
  "os_step E s s' \<longleftrightarrow> store (rmdS s') = store (rmdS s) \<or>
     os_change (rmdE E) (store (rmdS s)) (store (rmdS s')) \<and> keyed (rmdE E) (store (rmdS s'))"

lemma processDelete_step:
  assumes "good_store (rmdE E)" "keyed (rmdE E) (store (rmdS s))" "processDeleteNotification E n s = Ret s'"
  shows "os_step E s s'"
proof -
  let ?R = "rmdE E" and ?b = "store (rmdS s)"
  obtain w e where g: "GetByUUID ?R (InstanceID (Payload n)) (rmdS s) = (w, e)" by fastforce
  show ?thesis
  proof (cases "InstanceID (Payload n) \<noteq> [] \<and> e = None \<and> Origin w = ''OPENSTACK''")
    case True
    with assms(3) g obtain e1 r1 where r: "Release ?R w (rmdS s) = Ret (e1, r1)"
      by (auto simp: processDeleteNotification_def andThen_Ret_iff)
    note rel = Release_effects [OF r, unfolded released_def]
    have s': "rmdS s' = (case e1 of Some _ \<Rightarrow> r1 | None \<Rightarrow> snd (Delete ?R w r1))"
      using assms(3) g True r by (auto simp: processDeleteNotification_def)
    from g True have op: "dbOpen (rmdS s)" and "GetWorkloadByUUID (ecodec ?R) (ebolt ?R) (InstanceID (Payload n)) ?b = (w, None)"
      by (auto simp: GetByUUID_def split: if_split_asm prod.split_asm option.split_asm)
    from GetWorkloadByUUID_row [OF this(2)] assms(2)
    have row: "GetWorkloadByID (ecodec ?R) (ebolt ?R) (ID w) ?b = (w, None)" by (auto simp: keyed_def)
    have h: "hasTables (ebolt ?R) ?b" using assms(2) by (simp add: keyed_def)
    note st = bolt_db.store [OF good_db [OF assms(1)]]
    obtain e2 b where d: "DeleteWorkload (ebolt ?R) w ?b = (e2, b)" by fastforce
    show ?thesis
    proof (cases "e1 = None \<and> e2 = None")
      case True
      with s' d rel op have b: "store (rmdS s') = b" by (simp add: Delete_def)
      from d True have d0: "DeleteWorkload (ebolt ?R) w ?b = (None, b)" by simp
      note ok = workload_store.remove_ok [OF st h d0] workload_store.remove_frame [OF st h d0]
      have "removed ?R w ?b b" using ok by (simp add: removed_def sameRow_def)
      with row \<open>InstanceID (Payload n) \<noteq> [] \<and> _\<close> ok keyed_removed [OF assms(2)] show ?thesis
        by (auto simp: os_step_def b intro: os_change.ended)
    next
      case False
      then have "store (rmdS s') = ?b"
        using s' d rel op workload_store.remove_fail [OF st h]
        by (cases e1; cases e2) (auto simp: Delete_def)
      then show ?thesis by (simp add: os_step_def)
    qed
  next
    case False
    with assms(3) g have "s' = s" by (cases e) (auto simp: processDeleteNotification_def split: if_split_asm)
    then show ?thesis by (simp add: os_step_def)
  qed
qed

text \<open>A notification of a new instance changes the daemon only through \<open>launch\<close>.\<close>

lemma processCreate_cases:
  assumes "processCreateNotification E n s = Ret s'"
  obtains (idle) "rmdS s' = rmdS s"
  | (launch) pid h1 h2 tset w s3 where "InstanceID (Payload n) \<noteq> []" "tset \<noteq> []" "rmdS s3 = rmdS s"
      "getPIDTaskSet (commands E) pid h1 = Ret ((tset, None), h2)"
      "launch E (w\<lparr>UUID := InstanceID (Payload n), CoreIDs := tset, Origin := ''OPENSTACK''\<rparr>) s3 = Ret s'"
proof (cases "rmdS s' = rmdS s")
  case False
  then have ne: "s' \<noteq> s" "s' \<noteq> s\<lparr>cmdCalls := h\<rparr>" for h by auto
  obtain pid h1 where p: "getPIDByName (commands E) (InstanceID (Payload n)) (cmdCalls s) = ((pid, None), h1)"
    and iu: "validateCreateNoti n = None"
    using assms ne by (auto simp: processCreateNotification_def split: if_split_asm prod.split_asm option.split_asm)
  have u: "InstanceID (Payload n) \<noteq> []" using iu by (auto simp: validateCreateNoti_def missingData_def)
  obtain tset e2 h2 where t: "getPIDTaskSet (commands E) pid h1 = Ret ((tset, e2), h2)"
    using assms p iu by (auto simp: processCreateNotification_def andThen_Ret_iff)
  have e2: "e2 = None" "tset \<noteq> []" using assms p iu t ne
    by (auto simp: processCreateNotification_def Let_def split: if_split_asm)
  obtain policy e3 s3 where f: "getSwiftWorkloadPolicyByURL E (SwiftURL (Payload n)) (s\<lparr>cmdCalls := h2\<rparr>) = Ret ((policy, e3), s3)"
    using assms p iu t e2 by (auto simp: processCreateNotification_def andThen_Ret_iff)
  have r: "rmdS s3 = rmdS s" using client_onlyD [OF getSwiftWorkloadPolicyByURL_only [OF f]] by simp
  with False have n3: "s' \<noteq> s3" by auto
  have q: "(if e3 \<noteq> None then Ret s3
       else case policy of None \<Rightarrow> Panic NilDereference
            | Some w \<Rightarrow> launch E (w\<lparr>UUID := InstanceID (Payload n), CoreIDs := tset, Origin := ''OPENSTACK''\<rparr>) s3) = Ret s'"
    using assms p iu t e2 f by (simp add: processCreateNotification_def)
  from q n3 obtain w where
    l: "launch E (w\<lparr>UUID := InstanceID (Payload n), CoreIDs := tset, Origin := ''OPENSTACK''\<rparr>) s3 = Ret s'"
    by (auto split: if_split_asm option.split_asm)
  from t e2 u r l show thesis by (intro launch [OF u e2(2) r _ l]) simp
qed

lemma processCreate_step:
  assumes "good_store (rmdE E)" "keyed (rmdE E) (store (rmdS s))" "processCreateNotification E n s = Ret s'"
  shows "os_step E s s'"
  using assms(3)
proof (cases rule: processCreate_cases)
  case (launch pid h1 h2 tset w s3)
  have h: "hasTables (ebolt (rmdE E)) (store (rmdS s3))" using assms(2) launch(3) by (simp add: keyed_def)
  from launch_effect [OF assms(1) h launch(5)] show ?thesis
    using launch(1,2) keyed_added [OF assms(2)] by (auto simp: os_step_def launch(3) intro: os_change.launched)
qed (simp add: os_step_def)

lemma handleDelivery_step:
  assumes "good_store (rmdE E)" "keyed (rmdE E) (store (rmdS s))" "handleDelivery E s body = Ret s'"
  shows "os_step E s s'"
proof -
  have "os_step E s s" by (simp add: os_step_def)
  with assms processCreate_step [OF assms(1,2)] processDelete_step [OF assms(1,2)] show ?thesis
    by (auto simp: handleDelivery_def handleNovaNotification_def handleVersionedNotification_def
        handleUnversionedNotification_def split: if_split_asm prod.split_asm option.split_asm)
qed

lemma handle_refines:
  assumes "good_store (rmdE E)" "keyed (rmdE E) (store (rmdS s))" "handle E ds s = Ret s'"
  shows "(os_change (rmdE E))\<^sup>*\<^sup>* (store (rmdS s)) (store (rmdS s')) \<and> keyed (rmdE E) (store (rmdS s'))"
  using assms(2,3)
proof (induction ds arbitrary: s)
  case (Cons d ds)
  then obtain s1 where 1: "handleDelivery E s d = Ret s1" "handle E ds s1 = Ret s'"
    by (auto simp: handle_def andThen_Ret_iff)
  from handleDelivery_step [OF assms(1) Cons.prems(1) 1(1)] show ?case
    using Cons.IH [OF _ 1(2)] Cons.prems(1) unfolding os_step_def
    by (metis converse_rtranclp_into_rtranclp)
qed (simp add: handle_def)

text \<open>A workload of another origin stays as it is, until an instance is stored under its name.\<close>

lemma os_change_spares:
  assumes "os_change R b b'" "GetWorkloadByID (ecodec R) (ebolt R) i b = (w, None)" "Origin w \<noteq> ''OPENSTACK''"
  shows "GetWorkloadByID (ecodec R) (ebolt R) i b' = (w, None) \<or>
    (\<exists>v. ID v = i \<and> Origin v = ''OPENSTACK'' \<and> GetWorkloadByID (ecodec R) (ebolt R) i b' = (v, None))"
  using assms(1)
proof cases
  case (launched v)
  then show ?thesis using assms(2) by (cases "i = ID v") (auto simp: added_def sameRow_def)
next
  case (ended v)
  have "i \<noteq> ID v" using ended(1,2) assms(2,3) by auto
  with ended(3) assms(2) show ?thesis by (simp add: removed_def sameRow_def)
qed

end
