(* ===== verification/Auth.thy ===== *)
theory Auth
  imports Host Types
begin

text \<open>
  Who may use the REST interface: the access control list (\<^verbatim>\<open>utils/acl\<close>), the two filters in front
  of the handlers (\<^verbatim>\<open>utils/tls/tls.go\<close>, \<^verbatim>\<open>utils/auth/pam.go\<close>) with the client
  certificates they know, and the PAM transaction of the privileged process (\<^verbatim>\<open>internal/pam\<close>).
  The casbin library, the certificate library and the PAM library are parameters.
\<close>

section \<open>Configuration (utils/acl/config/config.go, utils/config/config.go)\<close>

datatype Author = Signature | OU | CN | OtherAuthor nat

record aclConfig =
  aclPath :: string
  Filter :: string
  AdminCert :: string
  UserCert :: string
  Authorization :: Author

definition CertClientUserRole :: string where
  "CertClientUserRole = ''Cert Client User''"

definition authmap :: "(string \<times> Author) list" where
  "authmap = [(''signature'', Signature), (''role'', OU), (''username'', CN)]"

definition defaultACL :: aclConfig where
  "defaultACL = \<lparr>aclPath = ''/etc/rmd/acl/'', Filter = ''url'', AdminCert = [], UserCert = [], Authorization = Signature\<rparr>"

text \<open>\<open>acl\<close> is what viper leaves in the defaults, \<open>txt\<close> the text under \<^verbatim>\<open>acl.authorization\<close>.\<close>

definition NewACLConfig :: "aclConfig \<Rightarrow> string \<Rightarrow> aclConfig" where
  "NewACLConfig acl txt =
     (case map_of authmap (ToLower txt) of Some v \<Rightarrow> acl\<lparr>Authorization := v\<rparr> | None \<Rightarrow> acl)"

text \<open>The types of client authentication of \<^verbatim>\<open>crypto/tls\<close>, in their order.\<close>

definition NoClientCert :: nat where "NoClientCert = 0"

definition RequireAndVerifyClientCert :: nat where "RequireAndVerifyClientCert = 4"

definition ClientAuth :: "(string \<times> nat) list" where
  "ClientAuth = [(''no'', NoClientCert), (''require'', 1), (''require_any'', 2), (''challenge_given'', 3),
     (''challenge'', RequireAndVerifyClientCert)]"

section \<open>The enforcer (utils/acl/acl.go)\<close>

text \<open>\<^verbatim>\<open>path.Clean\<close>: the elements of the path, those of \<^verbatim>\<open>..\<close> taken back.\<close>

definition cleanStep :: "bool \<Rightarrow> string list \<Rightarrow> string \<Rightarrow> string list" where
  "cleanStep rooted st e =
     (if e = [] \<or> e = ''.'' then st
      else if e \<noteq> ''..'' then st @ [e]
      else if st \<noteq> [] \<and> last st \<noteq> ''..'' then butlast st
      else if rooted then st else st @ [e])"

definition path_Clean :: "string \<Rightarrow> string" where
  "path_Clean s =
     (let rooted = HasPrefix s ''/'';
          st = foldl (cleanStep rooted) [] (split_on (CHR ''/'') s)
      in if rooted then ''/'' @ join ''/'' st else if st = [] then ''.'' else join ''/'' st)"

definition path_Join :: "string list \<Rightarrow> string" where
  "path_Join es = (let ns = filter (\<lambda>e. e \<noteq> []) es in if ns = [] then [] else path_Clean (join ''/'' ns))"

text \<open>
  \<open>casbinNew\<close> loads a model and a policy, \<open>None\<close> when it panics. The flag \<open>aclOnce\<close>
  tells whether the loading has been entered; a function that panics counts as done for
  \<^verbatim>\<open>sync.Once\<close>.
\<close>

record 'e authEnv =
  aclconf :: aclConfig
  casbinNew :: "string \<Rightarrow> string \<Rightarrow> 'e option"
  AddRoleForUser :: "'e \<Rightarrow> string \<Rightarrow> string \<Rightarrow> 'e"
  casbinEnforce :: "'e \<Rightarrow> string \<Rightarrow> string \<Rightarrow> string \<Rightarrow> bool"

record 'e authState =
  aclOnce :: bool
  aclUrl :: "'e option"
  adminCertSignature :: "string list"
  userCertSignature :: "string list"

text \<open>The loop over the filters; the second component tells whether a load panicked.\<close>

fun loadFilters :: "'e authEnv \<Rightarrow> string list \<Rightarrow> 'e authState \<Rightarrow> 'e authState \<times> bool" where
  "loadFilters A [] st = (st, False)"
| "loadFilters A (f # fs) st =
     (if f = ''url''
      then (case casbinNew A (path_Join [aclPath (aclconf A), f, ''model.conf'']) (path_Join [aclPath (aclconf A), f, ''policy.csv'']) of
              None \<Rightarrow> (st, True)
            | Some e \<Rightarrow> loadFilters A fs (st\<lparr>aclUrl := Some (AddRoleForUser A e CertClientUserRole ''user'')\<rparr>))
      else loadFilters A fs st)"

text \<open>
  The recovered panic is stored in a local variable, not in a named result: the caller gets the nil
  pointer (\<open>False\<close>) and no error.
\<close>

definition NewEnforcer :: "'e authEnv \<Rightarrow> 'e authState \<Rightarrow> bool with_err \<times> 'e authState" where
  "NewEnforcer A st =
     (if aclOnce st then ((True, None), st)
      else case loadFilters A (split_on (CHR '','') (Filter (aclconf A))) (st\<lparr>aclOnce := True\<rparr>) of
             (st', panicked) \<Rightarrow> ((\<not> panicked, None), st'))"

text \<open>\<^verbatim>\<open>ReplaceAllString\<close> with the expression \<open>^/v\d+/\<close> and the text \<^verbatim>\<open>/\<close>.\<close>

definition VersionTrim :: "string \<Rightarrow> string" where
  "VersionTrim s =
     (if HasPrefix s ''/v''
      then (let r = drop 2 s; ds = takeWhile is_digit r; t = dropWhile is_digit r
            in if ds \<noteq> [] \<and> HasPrefix t ''/'' then t else s)
      else s)"

record peerCert =
  CommonName :: string
  OrganizationalUnit :: "string list"
  certSignature :: string

text \<open>\<open>TLSpeers\<close> is \<open>None\<close> for a request over plain HTTP.\<close>

record hrequest =
  RequestURI :: string
  Method :: string
  TLSpeers :: "peerCert list option"
  BasicAuth :: "(string \<times> string) option"

definition aclObject :: "hrequest \<Rightarrow> string" where
  "aclObject req = VersionTrim (path_Clean (RequestURI req))"

definition acl_Enforce :: "'e authEnv \<Rightarrow> 'e authState \<Rightarrow> hrequest \<Rightarrow> string \<Rightarrow> bool" where
  "acl_Enforce A st req sub =
     (case aclUrl st of Some e \<Rightarrow> casbinEnforce A e sub (aclObject req) (Method req) | None \<Rightarrow> True)"

text \<open>The files below the configured directories, by a glob.\<close>

definition certFiles :: "(string \<Rightarrow> string list with_err) \<Rightarrow> string \<Rightarrow> string list with_err" where
  "certFiles glob dir = (if dir = [] then ([], None) else glob (dir @ ''/*.pem''))"

definition GetAdminCerts :: "(string \<Rightarrow> string list with_err) \<Rightarrow> 'e authEnv \<Rightarrow> string list with_err" where
  "GetAdminCerts glob A = certFiles glob (AdminCert (aclconf A))"

definition GetUserCerts :: "(string \<Rightarrow> string list with_err) \<Rightarrow> 'e authEnv \<Rightarrow> string list with_err" where
  "GetUserCerts glob A = certFiles glob (UserCert (aclconf A))"

definition GetCertsPath :: "'e authEnv \<Rightarrow> string list" where
  "GetCertsPath A = [AdminCert (aclconf A), UserCert (aclconf A)]"

section \<open>The filters (utils/tls/tls.go, utils/auth/pam.go)\<close>

text \<open>
  A filter hands the request on, writes an error, or returns without either, and then the client gets an
  empty answer.
\<close>

datatype verdict = Next | Refused int string | Silent

definition check :: "'e authEnv \<Rightarrow> hrequest \<Rightarrow> string \<Rightarrow> 'e authState \<Rightarrow> (verdict \<times> 'e authState) outcome" where
  "check A req user st =
     (case NewEnforcer A st of
        ((e, _), st') \<Rightarrow>
          if \<not> e then Panic NilDereference
          else Ret (if acl_Enforce A st' req user then Next
                    else Refused 403 (''User \"'' @ user @ ''\" is not authorized to access this resource\<newline>''), st'))"

fun anyUnit :: "'e authEnv \<Rightarrow> hrequest \<Rightarrow> bool \<Rightarrow> 'e authState \<Rightarrow> string list \<Rightarrow> bool outcome" where
  "anyUnit A req e st [] = Ret False"
| "anyUnit A req e st (v # vs) =
     (if \<not> e then Panic NilDereference
      else if acl_Enforce A st req (ToLower v) then Ret True else anyUnit A req e st vs)"

text \<open>The message for an unknown signature prints its first eight bytes.\<close>

definition bySignature :: "'e authEnv \<Rightarrow> hrequest \<Rightarrow> peerCert \<Rightarrow> 'e authState \<Rightarrow> (verdict \<times> 'e authState) outcome" where
  "bySignature A req peer st =
     (let sig = certSignature peer
      in if sig \<in> set (adminCertSignature st) then Ret (Next, st)
         else if sig \<in> set (userCertSignature st) then check A req CertClientUserRole st
         else andThen (go_slice sig 0 8) (\<lambda>_. Ret (Refused 401 (CommonName peer @ '' is not authorized''), st)))"

definition byUnit :: "'e authEnv \<Rightarrow> hrequest \<Rightarrow> peerCert \<Rightarrow> 'e authState \<Rightarrow> (verdict \<times> 'e authState) outcome" where
  "byUnit A req peer st =
     (case NewEnforcer A st of
        ((e, _), st') \<Rightarrow>
          andThen (anyUnit A req e st' (OrganizationalUnit peer)) (\<lambda>ok.
            Ret (if ok then Next
                 else Refused 401 (''OU: '' @ join '', '' (OrganizationalUnit peer) @ '' is not authorized''), st')))"

definition ACL :: "'e authEnv \<Rightarrow> string \<Rightarrow> hrequest \<Rightarrow> 'e authState \<Rightarrow> (verdict \<times> 'e authState) outcome" where
  "ACL A clientAuth req st =
     (case map_of ClientAuth clientAuth of
        None \<Rightarrow> Ret (Refused 500 ''Bad client auth option configuration\<newline>'', st)
      | Some ca \<Rightarrow>
          (case TLSpeers req of
             None \<Rightarrow> Ret (Next, st)
           | Some peers \<Rightarrow>
               if NoClientCert < ca \<and> ca < RequireAndVerifyClientCert then Ret (Next, st)
               else if ca = NoClientCert
               then (case BasicAuth req of
                       None \<Rightarrow> Ret (Refused 400 ''Malformed credentials\<newline>'', st)
                     | Some (u, _) \<Rightarrow> check A req u st)
               else andThen (go_index peers 0) (\<lambda>peer.
                      case Authorization (aclconf A) of
                        Signature \<Rightarrow> bySignature A req peer st
                      | OU \<Rightarrow> byUnit A req peer st
                      | CN \<Rightarrow> check A req (CommonName peer) st
                      | OtherAuthor _ \<Rightarrow> Ret (Silent, st))))"

text \<open>\<open>pam\<close> is the answer of the privileged process, the text of its error.\<close>

definition PAMAuthenticate :: "(string \<Rightarrow> string \<Rightarrow> string option) \<Rightarrow> hrequest \<Rightarrow> verdict" where
  "PAMAuthenticate pam req =
     (if TLSpeers req = None then Next
      else case BasicAuth req of
             None \<Rightarrow> Refused 400 ''Malformed credentials\<newline>''
           | Some (u, p) \<Rightarrow> (case pam u p of Some e \<Rightarrow> Refused 401 (e @ ''\<newline>'') | None \<Rightarrow> Next))"

text \<open>The filters in the order \<^verbatim>\<open>Initialize\<close> of the server installs them.\<close>

definition isClientCertAuthOption :: "string \<Rightarrow> bool" where
  "isClientCertAuthOption clientAuth = (map_of ClientAuth clientAuth \<noteq> Some NoClientCert)"

definition serverFilters :: "'e authEnv \<Rightarrow> (string \<Rightarrow> string \<Rightarrow> string option) \<Rightarrow> string \<Rightarrow> hrequest \<Rightarrow> 'e authState
    \<Rightarrow> (verdict \<times> 'e authState) outcome" where
  "serverFilters A pam clientAuth req st =
     (if isClientCertAuthOption clientAuth then ACL A clientAuth req st
      else case PAMAuthenticate pam req of
             Next \<Rightarrow> ACL A clientAuth req st
           | v \<Rightarrow> Ret (v, st))"

section \<open>Certificates of clients (utils/tls/tls.go)\<close>

text \<open>
  \<open>pemDecode\<close> gives the type and the bytes of the first block of a file, \<open>parseCert\<close> the
  signature of a certificate. A file without a block makes the message about it use a nil pointer; a
  block of another type is reported and parsed all the same.
\<close>

record certEnv =
  certGlob :: "string \<Rightarrow> string list with_err"
  certRead :: readFile
  pemDecode :: "string \<Rightarrow> (string \<times> string) option"
  parseCert :: "string \<Rightarrow> string option"
  appendCerts :: "string \<Rightarrow> bool"
  loadKeyPair :: "string \<Rightarrow> string \<Rightarrow> goerror option"
  newWatcher :: "goerror option"
  watchAdd :: "string \<Rightarrow> goerror option"

fun signatureFiles :: "certEnv \<Rightarrow> string list \<Rightarrow> string list \<Rightarrow> (string list) outcome" where
  "signatureFiles C [] sigs = Ret sigs"
| "signatureFiles C (f # fs) sigs =
     (case pemDecode C (contents (certRead C) f) of
        None \<Rightarrow> Panic NilDereference
      | Some (ty, bytes) \<Rightarrow>
          signatureFiles C fs (case parseCert C bytes of Some s \<Rightarrow> sigs @ [s] | None \<Rightarrow> sigs))"

definition NewCertSignatures :: "certEnv \<Rightarrow> 'e authEnv \<Rightarrow> bool \<Rightarrow> (string list) with_err outcome" where
  "NewCertSignatures C A admin =
     (case (if admin then GetAdminCerts (certGlob C) A else GetUserCerts (certGlob C) A) of
        (_, Some e) \<Rightarrow> Ret ([], Some e)
      | (files, None) \<Rightarrow> andThen (signatureFiles C files []) (\<lambda>sigs. Ret (sigs, None)))"

text \<open>What the watcher's goroutine does on one event; the operations create, write and remove are 1, 2, 4.\<close>

definition onCertEvent :: "certEnv \<Rightarrow> 'e authEnv \<Rightarrow> nat \<Rightarrow> string \<Rightarrow> 'e authState \<Rightarrow> 'e authState outcome" where
  "onCertEvent C A op name st =
     (let paths = GetCertsPath A
      in if (op AND 7) = 0 then Ret st
         else if HasPrefix name (paths ! 0)
         then andThen (NewCertSignatures C A True) (\<lambda>(cs, _). Ret (st\<lparr>adminCertSignature := cs\<rparr>))
         else if HasPrefix name (paths ! 1)
         then andThen (NewCertSignatures C A False) (\<lambda>(cs, _). Ret (st\<lparr>userCertSignature := cs\<rparr>))
         else Ret st)"

definition InitCertSignatures :: "certEnv \<Rightarrow> 'e authEnv \<Rightarrow> 'e authState \<Rightarrow> (goerror option \<times> 'e authState) outcome" where
  "InitCertSignatures C A st =
     (case newWatcher C of
        Some e \<Rightarrow> Ret (Some e, st)
      | None \<Rightarrow>
          (case find (\<lambda>p. watchAdd C p \<noteq> None) (GetCertsPath A) of
             Some p \<Rightarrow> Ret (watchAdd C p, st)
           | None \<Rightarrow>
               andThen (NewCertSignatures C A True) (\<lambda>(cs, e).
                 let st1 = st\<lparr>adminCertSignature := cs\<rparr>
                 in if e \<noteq> None then Ret (e, st1)
                    else andThen (NewCertSignatures C A False) (\<lambda>(us, e'). Ret (e', st1\<lparr>userCertSignature := us\<rparr>)))))"

section \<open>The configuration of the TLS server (utils/tls/tls.go)\<close>

text \<open>A certificate pool is the text it was made of.\<close>

definition GetCertPool :: "certEnv \<Rightarrow> string \<Rightarrow> goerror + string" where
  "GetCertPool C cafile =
     (case certRead C cafile of
        None \<Rightarrow> Inl (Errorf ''open'' [cafile])
      | Some d \<Rightarrow> if appendCerts C d then Inr d else Inl (Errorf ''failed to parse root certificate'' []))"

fun tlsFiles :: "certEnv \<Rightarrow> string list \<Rightarrow> (string \<times> string) list \<Rightarrow> string option \<Rightarrow> goerror + ((string \<times> string) list \<times> string option)" where
  "tlsFiles C [] m roots = Inr (m, roots)"
| "tlsFiles C (f # fs) m roots =
     (if baseName f = ''ca.pem''
      then (case GetCertPool C f of
              Inl e \<Rightarrow> Inl e
            | Inr p \<Rightarrow> tlsFiles C fs (al_put ''ca'' f m) (Some p))
      else if baseName f = ''rmd-cert.pem'' then tlsFiles C fs (al_put ''cert'' f m) roots
      else if baseName f = ''rmd-key.pem'' then tlsFiles C fs (al_put ''key'' f m) roots
      else tlsFiles C fs m roots)"

record tlsConfig =
  RootCAs :: "string option"
  clientAuthType :: nat
  Certificates :: "(string \<times> string) list"
  ClientCAs :: "string option"

definition missingFiles :: "(string \<times> string) list \<Rightarrow> string list" where
  "missingFiles m = filter (\<lambda>k. map_of m k = None) [''cert'', ''ca'', ''key'']"

definition fileOf :: "(string \<times> string) list \<Rightarrow> string \<Rightarrow> string" where
  "fileOf m k = (case map_of m k of Some f \<Rightarrow> f | None \<Rightarrow> [])"

definition GenTLSConfig :: "certEnv \<Rightarrow> string \<Rightarrow> string \<Rightarrow> string \<Rightarrow> goerror + tlsConfig" where
  "GenTLSConfig C certPath clientAuth clientCAPath =
     (case certGlob C (certPath @ ''/*.pem'') of
        (_, Some e) \<Rightarrow> Inl e
      | (files, None) \<Rightarrow>
          (case tlsFiles C files [] None of
             Inl e \<Rightarrow> Inl e
           | Inr (m, roots) \<Rightarrow>
               if length m < 3 then Inl (Errorf ''Missing enough files for tls config: %s'' [join '', '' (missingFiles m)])
               else case map_of ClientAuth clientAuth of
                 None \<Rightarrow> Inl (Errorf (''Unknow ClientAuth config setting: '' @ clientAuth) [])
               | Some ca \<Rightarrow>
                   (case (if 3 \<le> ca then (case GetCertPool C (path_Join [clientCAPath, ''ca.pem'']) of
                                             Inl e \<Rightarrow> Inl e | Inr p \<Rightarrow> Inr (Some p))
                          else Inr None) of
                      Inl e \<Rightarrow> Inl e
                    | Inr pool \<Rightarrow>
                        (case loadKeyPair C (fileOf m ''cert'') (fileOf m ''key'') of
                           Some e \<Rightarrow> Inl e
                         | None \<Rightarrow>
                             Inr \<lparr>RootCAs = roots, clientAuthType = ca,
                                  Certificates = [(fileOf m ''cert'', fileOf m ''key'')], ClientCAs = pool\<rparr>))))"

end
