(* ===== verification/Auth_Laws.thy ===== *)
theory Auth_Laws
  imports Auth
begin

text \<open>
  Who is admitted: a request over TLS reaches a handler exactly when its credentials or its certificate
  are accepted and the access control list allows it. Two ways around the list are shown as the code has
  them: a list that cannot be loaded allows everything, and the query string is part of the path that
  the list sees.
\<close>

section \<open>The filters admit exactly these requests\<close>

definition aclAllows :: "'e authEnv \<Rightarrow> 'e \<Rightarrow> hrequest \<Rightarrow> string \<Rightarrow> bool" where
  "aclAllows A e req sub = casbinEnforce A e sub (aclObject req) (Method req)"

definition certAllows :: "'e authEnv \<Rightarrow> 'e \<Rightarrow> 'e authState \<Rightarrow> hrequest \<Rightarrow> peerCert \<Rightarrow> bool" where
  "certAllows A e st req peer =
     (case Authorization (aclconf A) of
        Signature \<Rightarrow> certSignature peer \<in> set (adminCertSignature st) \<or>
          certSignature peer \<in> set (userCertSignature st) \<and> aclAllows A e req CertClientUserRole
      | OU \<Rightarrow> (\<exists>v \<in> set (OrganizationalUnit peer). aclAllows A e req (ToLower v))
      | CN \<Rightarrow> aclAllows A e req (CommonName peer)
      | OtherAuthor _ \<Rightarrow> False)"

definition admitted :: "'e authEnv \<Rightarrow> 'e \<Rightarrow> (string \<Rightarrow> string \<Rightarrow> string option) \<Rightarrow> string \<Rightarrow> 'e authState \<Rightarrow> hrequest \<Rightarrow> bool" where
  "admitted A e pam clientAuth st req =
     (case TLSpeers req of
        None \<Rightarrow> True
      | Some peers \<Rightarrow>
          if clientAuth = ''no''
          then (\<exists>u p. BasicAuth req = Some (u, p) \<and> pam u p = None \<and> aclAllows A e req u)
          else if clientAuth = ''challenge'' then (\<exists>peer rest. peers = peer # rest \<and> certAllows A e st req peer)
          else True)"

text \<open>A server whose list was loaded.\<close>

definition loaded :: "'e authState \<Rightarrow> 'e \<Rightarrow> bool" where
  "loaded st e \<longleftrightarrow> aclOnce st \<and> aclUrl st = Some e"

lemma check_loaded:
  "loaded st e \<Longrightarrow> check A req u st = Ret (v, st') \<Longrightarrow> st' = st \<and> (v = Next \<longleftrightarrow> aclAllows A e req u)"
  by (auto simp: check_def NewEnforcer_def loaded_def acl_Enforce_def aclAllows_def split: if_split_asm)

lemma check_returns: "loaded st e \<Longrightarrow> \<exists>v. check A req u st = Ret (v, st)"
  by (auto simp: check_def NewEnforcer_def loaded_def)

lemma anyUnit_loaded:
  "loaded st e \<Longrightarrow> anyUnit A req True st us = Ret (\<exists>v \<in> set us. aclAllows A e req (ToLower v))"
  by (induction us) (auto simp: loaded_def acl_Enforce_def aclAllows_def)

lemma bySignature_next:
  "loaded st e \<Longrightarrow> bySignature A req peer st = Ret (Next, st) \<longleftrightarrow>
     certSignature peer \<in> set (adminCertSignature st) \<or>
     certSignature peer \<in> set (userCertSignature st) \<and> aclAllows A e req CertClientUserRole"
  using check_returns [of st e A req CertClientUserRole] check_loaded [of st e A req CertClientUserRole]
  by (auto simp: bySignature_def Let_def andThen_Ret_iff)

lemma byUnit_next:
  "loaded st e \<Longrightarrow> byUnit A req peer st = Ret (Next, st) \<longleftrightarrow> (\<exists>v \<in> set (OrganizationalUnit peer). aclAllows A e req (ToLower v))"
  using anyUnit_loaded [of st e A req "OrganizationalUnit peer"]
  by (auto simp: byUnit_def NewEnforcer_def loaded_def)

lemma check_next: "loaded st e \<Longrightarrow> check A req u st = Ret (Next, st) \<longleftrightarrow> aclAllows A e req u"
  using check_returns [of st e A req u] check_loaded [of st e A req u] by auto

lemma ACL_cert_next:
  assumes "loaded st e" "TLSpeers req = Some peers"
  shows "ACL A ''challenge'' req st = Ret (Next, st) \<longleftrightarrow> (\<exists>peer rest. peers = peer # rest \<and> certAllows A e st req peer)"
proof (cases peers)
  case (Cons peer rest)
  then show ?thesis
    using assms bySignature_next [OF assms(1)] byUnit_next [OF assms(1)] check_next [OF assms(1)]
    by (auto simp: ACL_def ClientAuth_def NoClientCert_def RequireAndVerifyClientCert_def go_index_def certAllows_def
        split: Author.split)
qed (use assms in \<open>auto simp: ACL_def ClientAuth_def NoClientCert_def RequireAndVerifyClientCert_def go_index_def\<close>)

lemma clientAuth_cases:
  "map_of ClientAuth c \<noteq> None \<Longrightarrow> c = ''no'' \<or> c = ''require'' \<or> c = ''require_any'' \<or> c = ''challenge_given'' \<or> c = ''challenge''"
  by (auto simp: ClientAuth_def split: if_split_asm)

lemma serverFilters_admit:
  assumes "loaded st e" "map_of ClientAuth c \<noteq> None"
  shows "serverFilters A pam c req st = Ret (Next, st) \<longleftrightarrow> admitted A e pam c st req"
proof (cases "TLSpeers req")
  case None
  then show ?thesis using assms(2)
    by (auto simp: serverFilters_def ACL_def PAMAuthenticate_def admitted_def)
next
  case (Some peers)
  consider "c = ''no''" | "c \<in> {''require'', ''require_any'', ''challenge_given''}" | "c = ''challenge''"
    using clientAuth_cases [OF assms(2)] by auto
  then show ?thesis
  proof cases
    case 1
    have "map_of ClientAuth c = Some NoClientCert" by (simp add: 1 ClientAuth_def)
    then show ?thesis using 1 Some check_next [OF assms(1)]
      by (auto simp: serverFilters_def isClientCertAuthOption_def PAMAuthenticate_def ACL_def admitted_def
          NoClientCert_def split: option.split prod.split)
  next
    case 2
    then obtain n where n: "map_of ClientAuth c = Some n" "NoClientCert < n" "n < RequireAndVerifyClientCert"
      by (auto simp: ClientAuth_def NoClientCert_def RequireAndVerifyClientCert_def)
    have "isClientCertAuthOption c" "c \<noteq> ''no''" "c \<noteq> ''challenge''" using n 2 by (auto simp: isClientCertAuthOption_def)
    with n Some show ?thesis by (simp add: serverFilters_def ACL_def admitted_def)
  next
    case 3
    have "isClientCertAuthOption ''challenge''"
      by (simp add: isClientCertAuthOption_def ClientAuth_def NoClientCert_def RequireAndVerifyClientCert_def)
    then show ?thesis unfolding 3 using Some ACL_cert_next [OF assms(1) Some, of A]
      by (simp add: serverFilters_def admitted_def)
  qed
qed

lemma serverFilters_bad_option:
  "map_of ClientAuth c = None \<Longrightarrow> serverFilters A pam c req st = Ret (Refused 500 ''Bad client auth option configuration\<newline>'', st)"
  by (simp add: serverFilters_def isClientCertAuthOption_def ACL_def)

text \<open>With the option \<^verbatim>\<open>no\<close>, good credentials and the consent of the list are all it takes.\<close>

lemma filters_check:
  assumes "check A req u st = Ret (Next, st)" "BasicAuth req = Some (u, p)" "pam u p = None"
  shows "serverFilters A pam ''no'' req st = Ret (Next, st)"
proof -
  have "map_of ClientAuth ''no'' = Some NoClientCert" by (simp add: ClientAuth_def)
  with assms show ?thesis
    by (simp add: serverFilters_def isClientCertAuthOption_def PAMAuthenticate_def ACL_def NoClientCert_def
        split: option.split)
qed

section \<open>A list that cannot be loaded allows everything\<close>

lemma loadFilters_panics:
  assumes "\<forall>m p. casbinNew A m p = None" "''url'' \<in> set fs"
  shows "loadFilters A fs st = (st, True)"
  using assms(2) by (induction fs) (auto simp: assms(1))

lemma enforcer_opens:
  assumes "\<forall>m p. casbinNew A m p = None" "''url'' \<in> set (split_on (CHR '','') (Filter (aclconf A)))"
    "\<not> aclOnce st" "aclUrl st = None" "NewEnforcer A st = ((ok, err), st1)"
  shows "err = None \<and> \<not> ok \<and> check A req u st1 = Ret (Next, st1)"
proof -
  have l: "loadFilters A (split_on (CHR '','') (Filter (aclconf A))) (st\<lparr>aclOnce := True\<rparr>) = (st\<lparr>aclOnce := True\<rparr>, True)"
    by (rule loadFilters_panics [OF assms(1,2)])
  with assms(3,5) have "ok = False" "err = None" "st1 = st\<lparr>aclOnce := True\<rparr>" by (auto simp: NewEnforcer_def)
  with assms(4) show ?thesis by (simp add: check_def NewEnforcer_def acl_Enforce_def)
qed

section \<open>The list sees the query string\<close>

text \<open>
  The path below a resource and a query with enough \<^verbatim>\<open>..\<close> looks like any other resource to the
  list; the router looks at the path alone.
\<close>

lemma foldl_cleanStep_names:
  "\<forall>e \<in> set es. e \<noteq> [] \<and> e \<noteq> ''.'' \<and> e \<noteq> ''..'' \<Longrightarrow> foldl (cleanStep True) st es = st @ es"
  by (induction es arbitrary: st) (auto simp: cleanStep_def)

lemma aclObject_query:
  assumes "r \<noteq> []" "CHR ''/'' \<notin> set r" "o' \<noteq> []" "o' \<noteq> ''.''" "o' \<noteq> ''..''" "CHR ''/'' \<notin> set o'"
  shows "VersionTrim (path_Clean (''/v1/'' @ r @ ''?/../../v1/'' @ o')) = ''/'' @ o'"
proof -
  have q: "CHR ''/'' \<notin> set (r @ ''?'')" using assms(2) by simp
  have nd: "r @ ''?'' \<noteq> ''.''" "r @ ''?'' \<noteq> ''..''" by (cases r; simp)+
  have s: "split_on (CHR ''/'') (''/v1/'' @ r @ ''?/../../v1/'' @ o') = [[], ''v1'', r @ ''?'', ''..'', ''..'', ''v1'', o']"
    using split_on_append_sep [OF q, of "''../../v1/'' @ o'"] assms(6) by simp
  have "path_Clean (''/v1/'' @ r @ ''?/../../v1/'' @ o') = ''/v1/'' @ o'"
    using assms nd unfolding path_Clean_def s by (simp add: HasPrefix_def cleanStep_def)
  then show ?thesis
    using assms(3) by (simp add: VersionTrim_def HasPrefix_def is_digit_def)
qed

end
