(* ===== verification/Pam.thy ===== *)
theory Pam
  imports Types
begin

text \<open>
  Authentication against PAM in the privileged process (\<^verbatim>\<open>internal/pam\<close>): the registry of
  callbacks (\<^verbatim>\<open>callback.go\<close>), transactions (\<^verbatim>\<open>transaction.go\<close>) and the conversation
  (\<^verbatim>\<open>pam.go\<close>). The PAM library is a parameter: it answers with a code, and while it authenticates
  it may ask the conversation function anything.
\<close>

section \<open>The registry of callbacks (callback.go)\<close>

record 'h pamReg =
  cbMap :: "(int \<times> 'h) list"
  cbCount :: int

definition cbAdd :: "'h \<Rightarrow> 'h pamReg \<Rightarrow> int \<times> 'h pamReg" where
  "cbAdd v r = (cbCount r + 1, r\<lparr>cbCount := cbCount r + 1, cbMap := al_put (cbCount r + 1) v (cbMap r)\<rparr>)"

definition cbGet :: "int \<Rightarrow> 'h pamReg \<Rightarrow> 'h outcome" where
  "cbGet c r = (case map_of (cbMap r) c of Some v \<Rightarrow> Ret v | None \<Rightarrow> Panic LibraryPanic)"

definition cbDelete :: "int \<Rightarrow> 'h pamReg \<Rightarrow> 'h pamReg outcome" where
  "cbDelete c r =
     (case map_of (cbMap r) c of
        None \<Rightarrow> Panic LibraryPanic
      | Some _ \<Rightarrow> Ret (r\<lparr>cbMap := filter (\<lambda>e. fst e \<noteq> c) (cbMap r)\<rparr>))"

section \<open>The conversation (pam.go)\<close>

record Credential =
  Username :: string
  Password :: string

text \<open>The message styles and codes of the C header.\<close>

definition PromptEchoOff :: int where "PromptEchoOff = 1"

definition PromptEchoOn :: int where "PromptEchoOn = 2"

definition ErrorMsg :: int where "ErrorMsg = 3"

definition TextInfo :: int where "TextInfo = 4"

definition PAM_SUCCESS :: int where "PAM_SUCCESS = 0"

definition PAM_CONV_ERR :: int where "PAM_CONV_ERR = 19"

definition PAMResponseHandler :: "Credential \<Rightarrow> int \<Rightarrow> string \<Rightarrow> string with_err" where
  "PAMResponseHandler c s msg =
     (if s = PromptEchoOff then (Password c, None)
      else if s = PromptEchoOn then (Password c, None)
      else if s = ErrorMsg then ([], None)
      else if s = TextInfo then ([], None)
      else ([], Some (Errorf ''unrecognized conversation message style'' [])))"

section \<open>Transactions (transaction.go)\<close>

text \<open>
  \<open>pam_start\<close> gets the service and the user (nil for the empty name); \<open>pam_authenticate\<close>
  also gets the conversation function; \<open>pam_strerror\<close> is the text of a code.
\<close>

record pamLib =
  pam_start :: "string \<Rightarrow> string option \<Rightarrow> int"
  pam_authenticate :: "string \<Rightarrow> string option \<Rightarrow> (int \<Rightarrow> string \<Rightarrow> (string option \<times> int) outcome) \<Rightarrow> int \<Rightarrow> int outcome"
  pam_strerror :: "int \<Rightarrow> string"

record Transaction =
  tService :: string
  tUser :: "string option"
  response :: int
  callbackindex :: int

type_synonym handler = "int \<Rightarrow> string \<Rightarrow> string with_err"

definition cbConv :: "handler pamReg \<Rightarrow> int \<Rightarrow> int \<Rightarrow> string \<Rightarrow> (string option \<times> int) outcome" where
  "cbConv reg i s msg =
     andThen (cbGet i reg) (\<lambda>h.
       case h s msg of
         (_, Some _) \<Rightarrow> Ret (None, PAM_CONV_ERR)
       | (r, None) \<Rightarrow> Ret (Some r, PAM_SUCCESS))"

text \<open>
  A transaction that does not start is itself the error, and its callback stays registered.
\<close>

definition StartTransaction :: "pamLib \<Rightarrow> string \<Rightarrow> string \<Rightarrow> handler \<Rightarrow> handler pamReg
    \<Rightarrow> (Transaction option \<times> string option) \<times> handler pamReg" where
  "StartTransaction L service user h reg =
     (case cbAdd h reg of
        (i, reg1) \<Rightarrow>
          (let u = (if length user = 0 then None else Some user); code = pam_start L service u;
               t = \<lparr>tService = service, tUser = u, response = code, callbackindex = i\<rparr>
           in if code \<noteq> PAM_SUCCESS then ((None, Some (pam_strerror L code)), reg1) else ((Some t, None), reg1)))"

definition Authenticate :: "pamLib \<Rightarrow> int \<Rightarrow> Transaction \<Rightarrow> handler pamReg \<Rightarrow> (string option \<times> Transaction) outcome" where
  "Authenticate L f t reg =
     andThen (pam_authenticate L (tService t) (tUser t) (cbConv reg (callbackindex t)) f) (\<lambda>code.
       Ret (if code \<noteq> PAM_SUCCESS then Some (pam_strerror L code) else None, t\<lparr>response := code\<rparr>))"

definition EndTransaction :: "Transaction \<Rightarrow> handler pamReg \<Rightarrow> handler pamReg outcome" where
  "EndTransaction t reg = cbDelete (callbackindex t) reg"

definition pamTxAuthenticate :: "pamLib \<Rightarrow> Transaction \<Rightarrow> handler pamReg \<Rightarrow> (string option \<times> handler pamReg) outcome" where
  "pamTxAuthenticate L t reg =
     andThen (Authenticate L 0 t reg) (\<lambda>(err, t').
       andThen (EndTransaction t' reg) (\<lambda>reg'. Ret (err, reg')))"

definition PAMStartFunc :: "pamLib \<Rightarrow> string \<Rightarrow> Credential \<Rightarrow> handler pamReg
    \<Rightarrow> (Transaction option \<times> string option) \<times> handler pamReg" where
  "PAMStartFunc L service c = StartTransaction L service (Username c) (PAMResponseHandler c)"

text \<open>The result is the text of the error.\<close>

definition Credential_PAMAuthenticate :: "pamLib \<Rightarrow> string \<Rightarrow> Credential \<Rightarrow> handler pamReg
    \<Rightarrow> (string option \<times> handler pamReg) outcome" where
  "Credential_PAMAuthenticate L service c reg =
     (case PAMStartFunc L service c reg of
        ((_, Some e), reg1) \<Rightarrow> Ret (Some e, reg1)
      | ((None, None), reg1) \<Rightarrow> Panic NilDereference
      | ((Some t, None), reg1) \<Rightarrow> pamTxAuthenticate L t reg1)"

definition Proxy_PAMAuthenticate :: "pamLib \<Rightarrow> string \<Rightarrow> string \<Rightarrow> string \<Rightarrow> handler pamReg
    \<Rightarrow> (string option \<times> handler pamReg) outcome" where
  "Proxy_PAMAuthenticate L service user pass =
     Credential_PAMAuthenticate L service \<lparr>Username = user, Password = pass\<rparr>"

section \<open>The registry is used correctly\<close>

text \<open>Every key was given out by the counter.\<close>

definition reg_ok :: "'h pamReg \<Rightarrow> bool" where
  "reg_ok r \<longleftrightarrow> (\<forall>c \<in> fst ` set (cbMap r). c \<le> cbCount r)"

lemma cbAdd_ok:
  assumes "reg_ok r" "cbAdd v r = (i, r')"
  shows "reg_ok r'" "map_of (cbMap r) i = None" "cbMap r' = cbMap r @ [(i, v)]"
proof -
  have i: "i = cbCount r + 1" "i \<notin> fst ` set (cbMap r)" using assms by (force simp: cbAdd_def reg_ok_def)+
  then show "map_of (cbMap r) i = None" by (simp add: map_of_eq_None_iff)
  show m: "cbMap r' = cbMap r @ [(i, v)]" using assms(2) i by (auto simp: cbAdd_def al_put_fresh)
  show "reg_ok r'" using assms m i by (auto simp: reg_ok_def cbAdd_def)
qed

text \<open>
  An authentication asks only its own conversation, cannot hit a missing callback, and leaves the
  registry as it was; a start that fails leaves its callback behind.
\<close>

lemma PAMAuthenticate_registry:
  assumes "reg_ok reg"
    and lib: "\<And>s u conv f. (\<And>x m. \<exists>r. conv x m = Ret r) \<Longrightarrow> \<exists>code. pam_authenticate L s u conv f = Ret code"
  shows "\<exists>err reg'. Credential_PAMAuthenticate L service c reg = Ret (err, reg') \<and> reg_ok reg' \<and>
    (if pam_start L service (if Username c = [] then None else Some (Username c)) = PAM_SUCCESS
     then cbMap reg' = cbMap reg
     else err \<noteq> None \<and> cbMap reg' = cbMap reg @ [(cbCount reg + 1, PAMResponseHandler c)])"
proof -
  let ?u = "if Username c = [] then None else Some (Username c)"
  obtain i reg1 where a: "cbAdd (PAMResponseHandler c) reg = (i, reg1)" by fastforce
  note ok = cbAdd_ok [OF assms(1) a]
  have i: "i = cbCount reg + 1" using a by (simp add: cbAdd_def)
  show ?thesis
  proof (cases "pam_start L service ?u = PAM_SUCCESS")
    case True
    define t where "t = \<lparr>tService = service, tUser = ?u, response = PAM_SUCCESS, callbackindex = i\<rparr>"
    have g: "cbGet i reg1 = Ret (PAMResponseHandler c)" using ok(2,3) by (simp add: cbGet_def map_add_def)
    have "\<exists>r. cbConv reg1 i x m = Ret r" for x m
      using g by (auto simp: cbConv_def split: prod.split option.split)
    then obtain code where p: "pam_authenticate L service ?u (cbConv reg1 i) 0 = Ret code" using lib by blast
    have f: "filter (\<lambda>e. fst e \<noteq> i) (cbMap reg) = cbMap reg"
      using ok(2) by (auto simp: filter_id_conv map_of_eq_None_iff)
    have s: "PAMStartFunc L service c reg = ((Some t, None), reg1)"
      using True a by (simp add: PAMStartFunc_def StartTransaction_def Let_def t_def)
    have d: "EndTransaction (t\<lparr>response := code\<rparr>) reg1 = Ret (reg1\<lparr>cbMap := cbMap reg\<rparr>)"
      using ok(2,3) f by (simp add: EndTransaction_def cbDelete_def map_add_def t_def)
    have "reg_ok (reg1\<lparr>cbMap := cbMap reg\<rparr>)" using ok(1,3) by (auto simp: reg_ok_def)
    then show ?thesis
      using True s p d by (simp add: Credential_PAMAuthenticate_def pamTxAuthenticate_def Authenticate_def t_def)
  next
    case False
    then show ?thesis using a ok i
      by (simp add: Credential_PAMAuthenticate_def PAMStartFunc_def StartTransaction_def Let_def)
  qed
qed

end
