(* ===== verification/Boot.thy ===== *)
theory Boot
  imports WorkloadOps Auth
begin

text \<open>
  Start-up: the advisory lock and the pid file (\<^verbatim>\<open>utils/flock\<close>, \<^verbatim>\<open>utils/pidfile\<close>), the
  loading of plugins and the check of the memory bandwidth mode (\<^verbatim>\<open>cmd/rmd/rmd.go\<close>,
  \<^verbatim>\<open>internal/plugins/loader.go\<close>), the sanity check of the user process
  (\<^verbatim>\<open>utils/bootcheck\<close>) and the server that is put together (\<^verbatim>\<open>cmd/rmd/server.go\<close>).
  A fatal log message ends the process: the panic \<open>OsExit\<close>.
\<close>

section \<open>Advisory locks (utils/flock/flock.go)\<close>

datatype flockErr = EWOULDBLOCK | EFlock int | FlockTimeout

definition LOCK_SH :: int where "LOCK_SH = 1"

definition LOCK_EX :: int where "LOCK_EX = 2"

definition LOCK_NB :: int where "LOCK_NB = 4"

definition LOCK_UN :: int where "LOCK_UN = 8"

text \<open>
  \<open>sys flag i\<close> answers the \<open>i\<close>-th attempt and \<open>clock i\<close> is the time before it. A
  negative timeout waits for ever, so the loop is partial.
\<close>

partial_function (option) flockLoop :: "(int \<Rightarrow> nat \<Rightarrow> flockErr option) \<Rightarrow> (nat \<Rightarrow> int) \<Rightarrow> int \<Rightarrow> int \<Rightarrow> int \<Rightarrow> nat
    \<Rightarrow> flockErr option option" where
  "flockLoop sys clock timeout flag t i =
     (if timeout \<le> 0 \<or> clock i < t
      then (if timeout = 0 then Some (sys (flag OR LOCK_NB) i)
            else if sys (flag OR LOCK_NB) i = Some EWOULDBLOCK then flockLoop sys clock timeout flag t (Suc i)
            else Some (sys (flag OR LOCK_NB) i))
      else Some (Some FlockTimeout))"

definition flockFlag :: "bool list \<Rightarrow> int" where
  "flockFlag exclusive = (case exclusive of [] \<Rightarrow> LOCK_SH | e # _ \<Rightarrow> if e then LOCK_EX else LOCK_SH)"

definition Flock :: "(int \<Rightarrow> nat \<Rightarrow> flockErr option) \<Rightarrow> (nat \<Rightarrow> int) \<Rightarrow> int \<Rightarrow> bool list \<Rightarrow> flockErr option option" where
  "Flock sys clock timeout exclusive =
     flockLoop sys clock timeout (flockFlag exclusive) (if 0 < timeout then clock 0 + timeout else clock 0) 0"

definition Funlock :: "(int \<Rightarrow> nat \<Rightarrow> flockErr option) \<Rightarrow> flockErr option" where
  "Funlock sys = sys LOCK_UN 0"

section \<open>The pid file (utils/pidfile/pidfile.go)\<close>

definition PIDFile :: string where "PIDFile = ''/var/run/rmd.pid''"

text \<open>Opening the file with truncation and writing it are one operation of the system.\<close>

definition CreatePID :: "os \<Rightarrow> readFile \<Rightarrow> (string \<Rightarrow> string list) \<Rightarrow> int \<Rightarrow> fsop list \<Rightarrow> goerror option \<times> fsop list" where
  "CreatePID o_s fs glob pid h =
     (case fs PIDFile of
        Some dat \<Rightarrow>
          if 0 < length (glob (''/proc/'' @ TrimSpace dat))
          then (Some (Errorf ''RMD %s is already running, exit'' [TrimSpace dat]), h)
          else (case extcall o_s (WriteFile PIDFile (Itoa pid)) h of (e, h') \<Rightarrow> (os_err e, h'))
      | None \<Rightarrow> (case extcall o_s (WriteFile PIDFile (Itoa pid)) h of (e, h') \<Rightarrow> (os_err e, h')))"

definition ClosePID :: "os \<Rightarrow> readFile \<Rightarrow> int \<Rightarrow> fsop list \<Rightarrow> fsop list" where
  "ClosePID o_s fs pid h =
     (case fs PIDFile of
        Some dat \<Rightarrow> if TrimSpace dat = Itoa pid then snd (extcall o_s (Remove PIDFile) h) else h
      | None \<Rightarrow> h)"

section \<open>Loading plugins (internal/plugins/loader.go, cmd/rmd/rmd.go)\<close>

text \<open>\<open>pluginConf\<close> is the section of the configuration file as viper reads it.\<close>

record loaderEnv =
  pluginOpen :: "string \<Rightarrow> goerror option"
  pluginLookup :: "string \<Rightarrow> string \<Rightarrow> goerror option"
  implementsModule :: "string \<Rightarrow> bool"
  pluginConf :: "string \<Rightarrow> plist with_err"
  pluginInit :: "string \<Rightarrow> plist \<Rightarrow> goerror option"

definition Load :: "host \<Rightarrow> loaderEnv \<Rightarrow> string \<Rightarrow> bool with_err" where
  "Load H L path =
     (case IsRegularFile H path of
        (isfile, err) \<Rightarrow>
          if err \<noteq> None \<or> \<not> isfile then (False, Some (Errorf ''Invalid plugin path %s'' [path]))
          else if pluginOpen L path \<noteq> None then (False, Some (Errorf ''Failed to open plugin file %s: %s'' [path]))
          else if pluginLookup L path ''Handle'' \<noteq> None
          then (False, Some (Errorf ''Failed to load symbol %s: %s'' [''Handle'']))
          else if \<not> implementsModule L path
          then (False, Some (Errorf ''Symbol %s in not implementing ModuleInterface'' [''Handle'']))
          else (True, None))"

definition plugins_GetConfig :: "loaderEnv \<Rightarrow> string \<Rightarrow> plist with_err" where
  "plugins_GetConfig L name =
     (case pluginConf L name of
        (_, Some e) \<Rightarrow> ([], Some (Errorf ''plugins.GetConfig(%s) failed: %s'' [name]))
      | (result, None) \<Rightarrow>
          if length result = 0 then ([], Some (Errorf ''No config for %v found'' [name])) else (result, None))"

definition trimSet :: "string \<Rightarrow> string \<Rightarrow> string" where
  "trimSet s cutset = TrimRight (TrimLeft s cutset) cutset"

definition loadPlugin :: "host \<Rightarrow> loaderEnv \<Rightarrow> string \<Rightarrow> pluginEnv \<Rightarrow> pluginEnv outcome" where
  "loadPlugin H L name pe =
     (case plugins_GetConfig L name of
        (_, Some _) \<Rightarrow> Panic OsExit
      | (cfg, None) \<Rightarrow>
          (case map_of cfg ''path'' of
             Some (VString path) \<Rightarrow>
               if snd (Load H L path) \<noteq> None \<or> pluginInit L path cfg \<noteq> None then Panic OsExit
               else (case plugins_Store name True pe of
                       (Some _, _) \<Rightarrow> Panic OsExit
                     | (None, pe') \<Rightarrow> Ret pe')
           | _ \<Rightarrow> Panic OsExit))"

definition skipped :: "string \<Rightarrow> bool" where
  "skipped name \<longleftrightarrow> length (trimSet name [CHR '' '', char_of (9 :: nat)]) = 0 \<or>
     trimSet (trimSet name [CHR '' '', char_of (9 :: nat)]) '' '' = ''cache''"

fun loadPlugins :: "host \<Rightarrow> loaderEnv \<Rightarrow> string list \<Rightarrow> pluginEnv \<Rightarrow> pluginEnv outcome" where
  "loadPlugins H L [] pe = Ret pe"
| "loadPlugins H L (n # ns) pe =
     (if skipped n then loadPlugins H L ns pe
      else andThen (loadPlugin H L (trimSet n [CHR '' '', char_of (9 :: nat)]) pe) (loadPlugins H L ns))"

section \<open>The mode of memory bandwidth allocation (cmd/rmd/rmd.go)\<close>

definition MBAPercentage :: int where "MBAPercentage = 1"

text \<open>
  \<open>rdt\<close> is the configured mode, or the error of reading it. The platform is reset to the
  configured mode only with \<^verbatim>\<open>--force-config\<close>, and has to be in it afterwards.
\<close>

definition resetMode :: "pqos_env \<Rightarrow> int \<Rightarrow> pqos_state \<Rightarrow> pqos_state outcome" where
  "resetMode env mbaInt st =
     (case ResetAPI env (if mbaInt = 0 then MBAPercentage else MBAMbps) st of
        (Some _, _) \<Rightarrow> Panic OsExit
      | (None, st1) \<Rightarrow>
          (case CheckMBA env st1 of
             ((platformMba, err), st2) \<Rightarrow> if err \<noteq> None \<or> platformMba \<noteq> mbaInt then Panic OsExit else Ret st2))"

definition checkMbaMode :: "pqos_env \<Rightarrow> string with_err \<Rightarrow> string \<Rightarrow> pqos_state \<Rightarrow> pqos_state outcome" where
  "checkMbaMode env rdt forceFlagString st =
     (case rdt of
        (_, Some _) \<Rightarrow> Panic OsExit
      | (mode, None) \<Rightarrow>
          (case MBAModeToInt mode of
             (_, Some _) \<Rightarrow> Panic OsExit
           | (mbaInt, None) \<Rightarrow>
               (let forceFlag = (ToLower forceFlagString = ''true'')
                in if mbaInt = - 1 then Ret st
                   else case CheckMBA env st of
                     ((platformMba, err), st1) \<Rightarrow>
                       if err \<noteq> None \<or> platformMba \<noteq> mbaInt
                       then (if forceFlag then resetMode env mbaInt st1 else Panic OsExit)
                       else Ret st1)))"

section \<open>The sanity check of the user process (utils/bootcheck/bootcheck.go)\<close>

definition orphan :: "(string \<times> ResAssociation) list \<Rightarrow> RDTWorkLoad \<Rightarrow> bool" where
  "orphan resaall w \<longleftrightarrow>
     (if CosName w = [] then True
      else if CosName w \<in> {''os'', ''OS'', ''.'', ''infra'', ''default''} then False
      else map_of resaall (CosName w) = None)"

fun dropOrphans :: "'b bolt \<Rightarrow> (string \<times> ResAssociation) list \<Rightarrow> RDTWorkLoad list \<Rightarrow> 'b \<Rightarrow> 'b" where
  "dropOrphans bo resaall [] b = b"
| "dropOrphans bo resaall (w # ws) b =
     dropOrphans bo resaall ws (if orphan resaall w then snd (DeleteWorkload bo w b) else b)"

definition DBCheck :: "'b rmd_env \<Rightarrow> string \<Rightarrow> 'b rmd \<Rightarrow> (goerror option \<times> 'b rmd) outcome" where
  "DBCheck E backend s =
     (case NewDB backend of
        Some e \<Rightarrow> Ret (Some e, s)
      | None \<Rightarrow>
          (case Initialize (ebolt E) (store s) of
             (Some e, b) \<Rightarrow> Ret (Some e, s\<lparr>store := b\<rparr>)
           | (None, b) \<Rightarrow>
               andThen (GetResAssociation (htree (hostAt E s) (sysResctrl (ehost E))) []) (\<lambda>resaall.
                 case GetAllWorkload (ecodec E) (ebolt E) b of
                   (_, Some e) \<Rightarrow> Ret (Some e, s\<lparr>store := b\<rparr>)
                 | (wl, None) \<Rightarrow> Ret (None, s\<lparr>store := dropOrphans (ebolt E) resaall wl b\<rparr>))))"

definition fatal :: "goerror option \<Rightarrow> 'a \<Rightarrow> 'a outcome" where
  "fatal e x = (case e of Some _ \<Rightarrow> Panic OsExit | None \<Rightarrow> Ret x)"

definition setGroups :: "'b rmd_env \<Rightarrow> globlib \<Rightarrow> 'b rmd \<Rightarrow> 'b rmd outcome" where
  "setGroups E gl s =
     andThen (SetOSGroup (hostAt E s) (cpool s) (eup E) (epqos E) (cst s, pqs s)) (\<lambda>(e1, c1, q1).
       andThen (fatal e1 (s\<lparr>cst := c1, pqs := q1\<rparr>)) (\<lambda>s1.
         andThen (SetInfraGroup (hostAt E s1) gl (cpool s1) (eup E) (epqos E) (cst s1, pqs s1)) (\<lambda>(e2, c2, q2).
           andThen (fatal e2 (s1\<lparr>cst := c2, pqs := q2\<rparr>)) (\<lambda>s2.
             andThen (GetCachePoolLayoutOnce (hostAt E s2) (cst s2)) (\<lambda>((_, e3), c3).
               fatal e3 (s2\<lparr>cst := c3\<rparr>))))))"

definition mountRdt :: "'b rmd_env \<Rightarrow> bool \<Rightarrow> 'b rmd \<Rightarrow> 'b rmd outcome" where
  "mountRdt E mounted s =
     (if mounted then Ret s
      else case client_EnableCat (eup E) (eos E) (fsops s) of
             (e, h) \<Rightarrow> fatal e (s\<lparr>fsops := h\<rparr>))"

definition SanityCheck :: "'b rmd_env \<Rightarrow> 'e authEnv \<Rightarrow> string \<Rightarrow> string list option \<Rightarrow> (string \<Rightarrow> bool) \<Rightarrow> globlib
    \<Rightarrow> 'b rmd \<times> 'e authState \<Rightarrow> ('b rmd \<times> 'e authState) outcome" where
  "SanityCheck E A backend mountinfo statOk gl = (\<lambda>(s, st).
     andThen (GetSignature (hfs (ehost E))) (\<lambda>sig.
       if GetMicroArch (cpuMaps (epolicy E)) sig = [] then Panic OsExit
       else case NewEnforcer A st of
         ((_, err), st1) \<Rightarrow>
           andThen (fatal err ()) (\<lambda>_.
             andThen (HostCPUNum (hfs (ehost E))) (\<lambda>cpunum.
               if cpunum = 0 then Panic OsExit
               else andThen (IsIntelRdtMounted mountinfo statOk []) (\<lambda>(mounted, _).
                 andThen (mountRdt E mounted s) (\<lambda>s1.
                   andThen (DBCheck E backend s1) (\<lambda>(e, s2).
                     andThen (fatal e s2) (\<lambda>s3.
                       andThen (setGroups E gl s3) (\<lambda>s4. Ret (s4, st1))))))))))"

section \<open>The server (cmd/rmd/server.go)\<close>

record appConfig =
  cAddress :: string
  cTLSPort :: "64 word"
  cDebugport :: "64 word"
  cCertPath :: string
  cClientCAPath :: string
  cClientAuth :: string
  cUnixSock :: string
  cBackend :: string
  cTransport :: string
  cDBName :: string
  cDebug :: bool
  cOpenStackEnable :: bool

record GenericConfig =
  Address :: string
  Port :: string
  TLSPort :: string
  UnixSock :: string
  DBBackend :: string
  Transport :: string
  DBName :: string
  IsClientCertAuthOption :: bool
  Debug :: bool
  OpenStackEnable :: bool

definition buildServerConfig :: "appConfig \<Rightarrow> GenericConfig" where
  "buildServerConfig c =
     \<lparr>Address = cAddress c, Port = format_nat 10 (unat (cDebugport c)), TLSPort = format_nat 10 (unat (cTLSPort c)),
      UnixSock = cUnixSock c, DBBackend = cBackend c, Transport = cTransport c, DBName = cDBName c,
      IsClientCertAuthOption = isClientCertAuthOption (cClientAuth c), Debug = cDebug c,
      OpenStackEnable = cOpenStackEnable c\<rparr>"

datatype filterKind = PamFilter | AclFilter

record container =
  cFilters :: "filterKind list"
  cModules :: "string list"
  cRoutes :: "(string \<times> string) list"

text \<open>\<open>endpoints\<close> gives the prefixes of a plugin; a nil interface ends the registration.\<close>

fun pluginRoutes :: "(string \<Rightarrow> string list) \<Rightarrow> (string \<times> bool) list \<Rightarrow> goerror + (string \<times> string) list" where
  "pluginRoutes endpoints [] = Inr []"
| "pluginRoutes endpoints ((name, iface) # rest) =
     (if \<not> iface then Inl (Errorf ''Internal error: nil interface'' [])
      else case pluginRoutes endpoints rest of
             Inl e \<Rightarrow> Inl e
           | Inr rs \<Rightarrow> Inr (map (\<lambda>ep. (name, ''/v1/'' @ ep)) (endpoints name) @ rs))"

definition server_Initialize :: "certEnv \<Rightarrow> 'e authEnv \<Rightarrow> (string \<Rightarrow> string list) \<Rightarrow> (string \<times> bool) list \<Rightarrow> GenericConfig
    \<Rightarrow> 'e authState \<Rightarrow> ((goerror + container) \<times> 'e authState) outcome" where
  "server_Initialize C A endpoints ifaces c st =
     andThen (if Debug c then Ret (None, st) else InitCertSignatures C A st) (\<lambda>(e, st').
       case e of
         Some x \<Rightarrow> Ret (Inl x, st')
       | None \<Rightarrow>
           Ret (case pluginRoutes endpoints ifaces of
                  Inl x \<Rightarrow> Inl x
                | Inr rs \<Rightarrow>
                    Inr \<lparr>cFilters = (if IsClientCertAuthOption c then [] else [PamFilter]) @ [AclFilter],
                         cModules = [''cache'', ''policy'', ''hospitality'', ''workloads'', ''mba''], cRoutes = rs\<rparr>, st'))"

text \<open>
  How the server ends up: it serves, or the process exits. With a Unix socket configured the TCP
  listener runs beside a main flow that always ends the process. The start of the OpenStack integration
  in between (\<open>Openstack_Init\<close> of the theory \<open>Nova\<close>) has its own state; its error is
  only logged.
\<close>

datatype serving = ServeHTTP string container | ServeTLS string tlsConfig container

definition RunServer :: "certEnv \<Rightarrow> 'e authEnv \<Rightarrow> (string \<Rightarrow> string list) \<Rightarrow> (string \<times> bool) list \<Rightarrow> appConfig \<Rightarrow> 'e authState
    \<Rightarrow> (serving \<times> 'e authState) outcome" where
  "RunServer C A endpoints ifaces app st =
     (let c = buildServerConfig app
      in andThen (server_Initialize C A endpoints ifaces c st) (\<lambda>(r, st1).
           case r of
             Inl _ \<Rightarrow> Panic OsExit
           | Inr cont \<Rightarrow>
               andThen (if Debug c then Ret (ServeHTTP (Address c @ '':'' @ Port c) cont)
                        else case GenTLSConfig C (cCertPath app) (cClientAuth app) (cClientCAPath app) of
                               Inl _ \<Rightarrow> Panic OsExit
                             | Inr t \<Rightarrow> Ret (ServeTLS (Address c @ '':'' @ TLSPort c) t cont)) (\<lambda>srv.
                 if UnixSock c = [] then Ret (srv, st1) else Panic OsExit)))"

end
