(* ===== verification/Boot_Laws.thy ===== *)
theory Boot_Laws
  imports Boot Auth_Laws Db_Laws
begin

text \<open>
  The start-up: the lock loop ends and answers what the system answered, the configured plugins are all
  registered, the bandwidth mode of the platform is the configured one, the data base holds no workload
  of a class that is gone, and a list of rights that cannot be loaded does not stop the start.
\<close>

section \<open>Waiting for a lock\<close>

definition waiting :: "(nat \<Rightarrow> int) \<Rightarrow> int \<Rightarrow> nat \<Rightarrow> bool" where
  "waiting clock timeout i \<longleftrightarrow> timeout < 0 \<or> clock i < clock 0 + timeout"

lemma flockLoop_unfold:
  "timeout \<noteq> 0 \<Longrightarrow> t = (if 0 < timeout then clock 0 + timeout else clock 0) \<Longrightarrow>
   flockLoop sys clock timeout flag t i =
     (if waiting clock timeout i
      then if sys (flag OR LOCK_NB) i = Some EWOULDBLOCK then flockLoop sys clock timeout flag t (Suc i)
           else Some (sys (flag OR LOCK_NB) i)
      else Some (Some FlockTimeout))"
  by (subst flockLoop.simps) (auto simp: waiting_def)

lemma flockLoop_runs:
  assumes "timeout \<noteq> 0" "t = (if 0 < timeout then clock 0 + timeout else clock 0)"
    and "\<forall>j. i \<le> j \<and> j < n \<longrightarrow> waiting clock timeout j \<and> sys (flag OR LOCK_NB) j = Some EWOULDBLOCK" "i \<le> n"
  shows "flockLoop sys clock timeout flag t i = flockLoop sys clock timeout flag t n"
  using assms(3,4)
proof (induction "n - i" arbitrary: i)
  case (Suc k)
  then have "i < n" by simp
  with Suc.prems have "flockLoop sys clock timeout flag t i = flockLoop sys clock timeout flag t (Suc i)"
    by (subst flockLoop_unfold [where clock = clock, OF assms(1,2)]) auto
  also have "\<dots> = flockLoop sys clock timeout flag t n" using Suc \<open>i < n\<close> by (intro Suc.hyps(1)) auto
  finally show ?case .
qed simp

text \<open>
  The first attempt that is not told to wait, or that comes too late, decides; there is one when the
  clock reaches the deadline.
\<close>

lemma Flock_answer:
  assumes "timeout \<noteq> 0" "\<not> (waiting clock timeout n \<and> sys (flockFlag ex OR LOCK_NB) n = Some EWOULDBLOCK)"
    and "\<forall>j < n. waiting clock timeout j \<and> sys (flockFlag ex OR LOCK_NB) j = Some EWOULDBLOCK"
  shows "Flock sys clock timeout ex =
    Some (if waiting clock timeout n then sys (flockFlag ex OR LOCK_NB) n else Some FlockTimeout)"
proof -
  define t where "t = (if 0 < timeout then clock 0 + timeout else clock 0)"
  have "Flock sys clock timeout ex = flockLoop sys clock timeout (flockFlag ex) t 0" by (simp add: Flock_def t_def)
  also have "\<dots> = flockLoop sys clock timeout (flockFlag ex) t n"
    using assms(3) by (intro flockLoop_runs [where clock = clock, OF assms(1) t_def]) auto
  also have "\<dots> = Some (if waiting clock timeout n then sys (flockFlag ex OR LOCK_NB) n else Some FlockTimeout)"
    using assms(2) by (subst flockLoop_unfold [where clock = clock, OF assms(1) t_def]) auto
  finally show ?thesis .
qed

lemma Flock_ends:
  assumes "0 < timeout" "clock 0 + timeout \<le> clock m"
  shows "\<exists>n \<le> m. (\<forall>j < n. clock j < clock 0 + timeout \<and> sys (flockFlag ex OR LOCK_NB) j = Some EWOULDBLOCK) \<and>
    Flock sys clock timeout ex =
      Some (if clock n < clock 0 + timeout then sys (flockFlag ex OR LOCK_NB) n else Some FlockTimeout) \<and>
    (clock n < clock 0 + timeout \<longrightarrow> sys (flockFlag ex OR LOCK_NB) n \<noteq> Some EWOULDBLOCK)"
proof -
  let ?stop = "\<lambda>n. \<not> (waiting clock timeout n \<and> sys (flockFlag ex OR LOCK_NB) n = Some EWOULDBLOCK)"
  have m: "?stop m" using assms by (simp add: waiting_def)
  define n where "n = (LEAST n. ?stop n)"
  have n: "?stop n" "n \<le> m" unfolding n_def by (rule LeastI [of ?stop, OF m]) (rule Least_le [of ?stop, OF m])
  have b: "\<forall>j < n. waiting clock timeout j \<and> sys (flockFlag ex OR LOCK_NB) j = Some EWOULDBLOCK"
    using not_less_Least [of _ ?stop] unfolding n_def by blast
  have "timeout \<noteq> 0" using assms by simp
  from Flock_answer [where clock = clock and sys = sys and ex = ex, OF this n(1) b] n b assms(1) show ?thesis
    by (intro exI [of _ n]) (auto simp: waiting_def)
qed

lemma Flock_once: "Flock sys clock 0 ex = Some (sys (flockFlag ex OR LOCK_NB) 0)"
  by (simp add: Flock_def flockLoop.simps)

section \<open>Plugins\<close>

definition pluginName :: "string \<Rightarrow> string" where
  "pluginName n = trimSet n [CHR '' '', char_of (9 :: nat)]"

lemma loadPlugin_stores:
  "loadPlugin H L name pe = Ret pe' \<Longrightarrow>
     name \<noteq> [] \<and> map_of (Interfaces pe) name = None \<and> Interfaces pe' = Interfaces pe @ [(name, True)]"
proof -
  assume "loadPlugin H L name pe = Ret pe'"
  then have "plugins_Store name True pe = (None, pe')"
    by (auto simp: loadPlugin_def split: prod.split_asm option.split_asm gval.split_asm if_split_asm)
  then show ?thesis
    by (auto simp: plugins_Store_def map_of_eq_None_iff al_put_fresh split: if_split_asm)
qed

text \<open>A start that goes on has registered every plugin of the list, each under its own name.\<close>

lemma loadPlugins_registers:
  "loadPlugins H L ns pe = Ret pe' \<Longrightarrow> distinct (map fst (Interfaces pe)) \<Longrightarrow>
   Interfaces pe' = Interfaces pe @ map (\<lambda>n. (pluginName n, True)) (filter (\<lambda>n. \<not> skipped n) ns) \<and>
   distinct (map fst (Interfaces pe'))"
proof (induction ns arbitrary: pe)
  case (Cons n ns)
  show ?case
  proof (cases "skipped n")
    case False
    then obtain p1 where p: "loadPlugin H L (pluginName n) pe = Ret p1" "loadPlugins H L ns p1 = Ret pe'"
      using Cons.prems by (auto simp: andThen_Ret_iff pluginName_def)
    note st = loadPlugin_stores [OF p(1)]
    have "distinct (map fst (Interfaces p1))" using st Cons.prems(2) by (auto simp: map_of_eq_None_iff)
    note ih = Cons.IH [OF p(2) this]
    have "Interfaces pe' = Interfaces pe @ map (\<lambda>n. (pluginName n, True)) (filter (\<lambda>n. \<not> skipped n) (n # ns))"
      using conjunct1 [OF ih] st False by simp
    with ih show ?thesis by (rule conjI [OF _ conjunct2, rotated])
  next
    case True
    with Cons.prems(1) have "loadPlugins H L ns pe = Ret pe'" by simp
    note ih = Cons.IH [OF this Cons.prems(2)]
    have "filter (\<lambda>n. \<not> skipped n) (n # ns) = filter (\<lambda>n. \<not> skipped n) ns" using True by simp
    then show ?thesis by (rule ssubst) (rule ih)
  qed
qed simp

section \<open>The bandwidth mode\<close>

lemma checkMbaMode_agrees:
  assumes "checkMbaMode env (mode, None) force st = Ret st'" "MBAModeToInt mode = (m, None)" "m \<noteq> - 1"
  shows "\<exists>st1. CheckMBA env st1 = ((m, None), st')"
  using assms
  by (auto simp: checkMbaMode_def resetMode_def Let_def split: prod.split_asm option.split_asm if_split_asm)

lemma checkMbaMode_gentle:
  assumes "checkMbaMode env (mode, None) force st = Ret st'" "ToLower force \<noteq> ''true''"
  shows "calls st' = calls st \<or> calls st' = calls st @ [PCheckMba]"
  using assms
  by (auto simp: checkMbaMode_def CheckMBA_def pcall_def extcall_def Let_def
      split: prod.split_asm option.split_asm if_split_asm)

section \<open>Orphans\<close>

context bolt_db
begin

lemma dropOrphans_spec:
  "hasTables bo b \<Longrightarrow> \<forall>w \<in> set ws. \<forall>b. hasTables bo b \<longrightarrow> fst (DeleteWorkload bo w b) = None \<Longrightarrow>
   hasTables bo (dropOrphans bo ra ws b) \<and>
   (\<forall>i. if \<exists>w \<in> set ws. orphan ra w \<and> ID w = i
        then snd (GetWorkloadByID js bo i (dropOrphans bo ra ws b)) \<noteq> None
        else GetWorkloadByID js bo i (dropOrphans bo ra ws b) = GetWorkloadByID js bo i b)"
proof (induction ws arbitrary: b)
  case (Cons w ws)
  show ?case
  proof (cases "orphan ra w")
    case False
    with Cons.IH [OF Cons.prems(1)] Cons.prems(2) show ?thesis by simp
  next
    case True
    obtain b1 where d: "DeleteWorkload bo w b = (None, b1)"
      using Cons.prems by (metis list.set_intros(1) prod.collapse)
    note ok = ws.remove_ok [OF Cons.prems(1) d] ws.remove_frame [OF Cons.prems(1) d]
    have h: "hasTables bo b1" using ok(1) by blast
    have ih: "hasTables bo (dropOrphans bo ra ws b1) \<and>
       (\<forall>i. if \<exists>w \<in> set ws. orphan ra w \<and> ID w = i
            then snd (GetWorkloadByID js bo i (dropOrphans bo ra ws b1)) \<noteq> None
            else GetWorkloadByID js bo i (dropOrphans bo ra ws b1) = GetWorkloadByID js bo i b1)"
      using Cons.prems(2) by (intro Cons.IH [OF h]) simp
    have r: "dropOrphans bo ra (w # ws) b = dropOrphans bo ra ws b1" using True d by simp
    show ?thesis unfolding r
    proof (intro conjI allI)
      fix i
      show "if \<exists>w \<in> set (w # ws). orphan ra w \<and> ID w = i
        then snd (GetWorkloadByID js bo i (dropOrphans bo ra ws b1)) \<noteq> None
        else GetWorkloadByID js bo i (dropOrphans bo ra ws b1) = GetWorkloadByID js bo i b"
        using ih ok True by (cases "i = ID w"; cases "\<exists>w \<in> set ws. orphan ra w \<and> ID w = i") (auto split: if_split_asm)
    qed (use ih in blast)
  qed
qed simp

end

lemma bolt_db_I: "bolt_contract bo \<Longrightarrow> codec_roundtrip js \<Longrightarrow> bolt_db bo js"
  by (simp add: bolt_db_def bolt_db_axioms_def)

text \<open>
  After the check the rows of workloads without a class, or of a class without a group, are gone, and
  every other row is as it was.
\<close>

lemma DBCheck_spec:
  assumes "bolt_contract (ebolt E)" "codec_roundtrip (ecodec E)" "DBCheck E backend s = Ret (None, s')"
    and del: "\<And>w b. hasTables (ebolt E) b \<Longrightarrow> fst (DeleteWorkload (ebolt E) w b) = None"
  shows "\<exists>b ra ws. Initialize (ebolt E) (store s) = (None, b) \<and>
    GetResAssociation (htree (hostAt E s) (sysResctrl (ehost E))) [] = Ret ra \<and>
    GetAllWorkload (ecodec E) (ebolt E) b = (ws, None) \<and> s' = s\<lparr>store := store s'\<rparr> \<and>
    (\<forall>i. if \<exists>w \<in> set ws. orphan ra w \<and> ID w = i
         then snd (GetWorkloadByID (ecodec E) (ebolt E) i (store s')) \<noteq> None
         else GetWorkloadByID (ecodec E) (ebolt E) i (store s') = GetWorkloadByID (ecodec E) (ebolt E) i b)"
proof -
  obtain b where b: "Initialize (ebolt E) (store s) = (None, b)" and n: "NewDB backend = None"
    using assms(3) by (auto simp: DBCheck_def split: prod.split_asm option.split_asm)
  obtain ra where ra: "GetResAssociation (htree (hostAt E s) (sysResctrl (ehost E))) [] = Ret ra"
    using assms(3) b n by (auto simp: DBCheck_def andThen_Ret_iff)
  obtain ws e where w: "GetAllWorkload (ecodec E) (ebolt E) b = (ws, e)" by fastforce
  have ws: "GetAllWorkload (ecodec E) (ebolt E) b = (ws, None)" and s': "s' = s\<lparr>store := dropOrphans (ebolt E) ra ws b\<rparr>"
    using assms(3) b n ra w by (cases e; simp add: DBCheck_def)+
  have "hasTables (ebolt E) b"
  proof -
    obtain s1 where "b_create (ebolt E) (store s) WorkloadTableName = Inl s1" "b_create (ebolt E) s1 MappingTableName = Inl b"
      using b by (auto simp: Initialize_def txUpdate_def split: sum.split_asm)
    then show ?thesis using bolt_contract.create_has [OF assms(1)] by (simp add: hasTables_def)
  qed
  from bolt_db.dropOrphans_spec [OF bolt_db_I [OF assms(1,2)] this, of ws ra] del
  show ?thesis using b ra ws s' by auto
qed

section \<open>A list of rights that cannot be loaded\<close>

text \<open>The sanity check does not see it, and the server that starts afterwards checks nothing.\<close>

lemma SanityCheck_passes_enforcer:
  assumes "SanityCheck E A backend mi statOk gl (s, st) = Ret (s', st')"
  shows "st' = snd (NewEnforcer A st)"
  using assms
  by (auto simp: SanityCheck_def andThen_Ret_iff split: if_split_asm prod.split_asm)

lemma unlisted_admits:
  assumes "\<forall>m p. casbinNew A m p = None" "''url'' \<in> set (split_on (CHR '','') (Filter (aclconf A)))"
    "\<not> aclOnce st" "aclUrl st = None" "SanityCheck E A backend mi statOk gl (s, st) = Ret (s', st1)"
    "BasicAuth req = Some (u, p)" "pam u p = None"
  shows "serverFilters A pam ''no'' req st1 = Ret (Next, st1)"
proof -
  obtain ok err where n: "NewEnforcer A st = ((ok, err), st1)"
    using SanityCheck_passes_enforcer [OF assms(5)] by (metis prod.collapse)
  from enforcer_opens [OF assms(1-4) n, of req u] have "check A req u st1 = Ret (Next, st1)" by blast
  then show ?thesis using assms(6,7) by (rule filters_check)
qed

end
