(* ===== verification/SamplePlugin.thy ===== *)
theory SamplePlugin
  imports Plugins
begin

text \<open>
  The plugin that comes with the sources (\<^verbatim>\<open>external/sampleplugin\<close>): the state of the module
  and the operations of \<^verbatim>\<open>ModuleInterface\<close>. As a loaded plugin its answers are functions of the
  calls made before, which is what the workload module assumes of any plugin.
\<close>

record module =
  initialized :: bool
  counter :: "64 word"
  ident :: int
  lastValue :: rat

record inputData =
  dataName :: string
  dataValue :: rat

definition zeroModule :: module where
  "zeroModule = \<lparr>initialized = False, counter = 0, ident = 0, lastValue = 0\<rparr>"

section \<open>Operations (interface.go, internal.go)\<close>

definition convertParamsToData :: "plist \<Rightarrow> inputData with_err" where
  "convertParamsToData params =
     (let fail = (\<lambda>t. (\<lparr>dataName = [], dataValue = 0\<rparr>, Some (Errorf t [])))
      in if length params = 0 then fail ''No params given''
         else case map_of params ''value'' of
           None \<Rightarrow> fail ''Lack of 'value' input param''
         | Some (VFloat64 v) \<Rightarrow>
             (case map_of params ''name'' of
                None \<Rightarrow> (\<lparr>dataName = [], dataValue = v\<rparr>, None)
              | Some (VString n) \<Rightarrow>
                  if CHR '' '' \<in> set n \<or> char_of (9 :: nat) \<in> set n
                  then fail ''Invalid content of 'name' input param''
                  else (\<lparr>dataName = n, dataValue = v\<rparr>, None)
              | Some _ \<Rightarrow> fail ''Invalid type of 'name' input param'')
         | Some _ \<Rightarrow> fail ''Invalid type of 'value' input param'')"

definition module_Initialize :: "plist \<Rightarrow> module \<Rightarrow> goerror option \<times> module" where
  "module_Initialize config m =
     (case map_of config ''identifier'' of
        None \<Rightarrow> (Some (Errorf ''sampleplugin::Initialize() Missing 'identifier' initialization param'' []), m)
      | Some (VInt64 v) \<Rightarrow>
          if v \<le> 0 then (Some (Errorf ''sampleplugin::Initialize() Invalid value of 'identifier' initialization param'' []), m)
          else (None, m\<lparr>ident := v, counter := 0, initialized := True\<rparr>)
      | Some _ \<Rightarrow> (Some (Errorf ''sampleplugin::Initialize() Invalid type of 'identifier' initialization param'' []), m))"

definition module_Enforce :: "plist \<Rightarrow> module \<Rightarrow> string with_err \<times> module" where
  "module_Enforce params m =
     (if \<not> initialized m then (([], Some (Errorf ''sampleplugin::Enforce() Plugin not initialized'' [])), m)
      else case convertParamsToData params of
        (_, Some _) \<Rightarrow> (([], Some (Errorf ''sampleplugin::Enforce() Failed to get params'' [])), m)
      | (d, None) \<Rightarrow>
          (let c = counter m + 1 in ((Itoa (sint c), None), m\<lparr>lastValue := dataValue d, counter := c\<rparr>)))"

definition module_Release :: "plist \<Rightarrow> module \<Rightarrow> goerror option" where
  "module_Release params m =
     (if \<not> initialized m then Some (Errorf ''sampleplugin::Release() Plugin not initialized'' [])
      else case map_of params ''ENFORCEID'' of
        None \<Rightarrow> Some (Errorf ''sampleplugin::Release() No necessary input params'' [])
      | Some (VString s) \<Rightarrow>
          (case Atoi s of
             (i, err) \<Rightarrow> if err \<noteq> None \<or> i < 1
                          then Some (Errorf ''sampleplugin::Release() Invalid value of input param'' []) else None)
      | Some _ \<Rightarrow> Some (Errorf ''sampleplugin::Release() Invalid type of input param'' []))"

definition module_Validate :: "plist \<Rightarrow> module \<Rightarrow> goerror option" where
  "module_Validate params m =
     (if \<not> initialized m then Some (Errorf ''sampleplugin::Validate() Plugin not initialized'' [])
      else case convertParamsToData params of
        (_, Some e) \<Rightarrow> Some (Errorf ''sampleplugin::Validate() %v'' [])
      | (_, None) \<Rightarrow> None)"

definition GetEndpointPrefixes :: "module \<Rightarrow> string list" where
  "GetEndpointPrefixes m = (if \<not> initialized m then [] else [''/sampleplugin'', ''/sampleplugin/status''])"

section \<open>REST (rest.go)\<close>

datatype restResult = ResultID string int | ResultStatus bool

definition handleMain :: "module \<Rightarrow> restResult" where
  "handleMain m = ResultID ''sampleplugin'' (ident m)"

definition handleStatus :: "module \<Rightarrow> restResult" where
  "handleStatus m = ResultStatus (initialized m)"

definition HandleRequest :: "string \<Rightarrow> module \<Rightarrow> restResult response" where
  "HandleRequest uri m =
     (if \<not> initialized m then ErrorStatus StatusInternalServerError (Errorf ''Data requested from not initialized plugin'' [])
      else if suffix ''/sampleplugin'' uri then Entity StatusOK (handleMain m)
      else if suffix ''/sampleplugin/status'' uri then Entity StatusOK (handleStatus m)
      else ErrorStatus StatusInternalServerError (Errorf ''Invalid request uri to /sampleplugin'' []))"

section \<open>As a loaded plugin\<close>

text \<open>The state after the calls made so far; releasing does not change it.\<close>

fun moduleAfter :: "module \<Rightarrow> string \<Rightarrow> plugCall list \<Rightarrow> module" where
  "moduleAfter m name [] = m"
| "moduleAfter m name (c # cs) =
     moduleAfter (case c of PlugEnforce n ps \<Rightarrow> if n = name then snd (module_Enforce ps m) else m
                  | PlugRelease n ps \<Rightarrow> m) name cs"

definition samplePlugin :: "module \<Rightarrow> string \<Rightarrow> pluginEnv" where
  "samplePlugin m0 name =
     \<lparr>Interfaces = [(name, True)],
      mValidate = (\<lambda>_ ps. module_Validate ps m0),
      mEnforce = (\<lambda>h _ ps. fst (module_Enforce ps (moduleAfter m0 name h))),
      mRelease = (\<lambda>h _ ps. module_Release ps (moduleAfter m0 name h))\<rparr>"

lemma moduleAfter_append: "moduleAfter m name (h @ h') = moduleAfter (moduleAfter m name h) name h'"
  by (induction h arbitrary: m) auto

lemma moduleAfter_initialized [simp]: "initialized (moduleAfter m name h) = initialized m"
  by (induction h arbitrary: m) (auto simp: module_Enforce_def Let_def split: plugCall.split prod.split option.split)

definition enforcesIn :: "string \<Rightarrow> plugCall list \<Rightarrow> nat" where
  "enforcesIn name h = length (filter (\<lambda>c. case c of PlugEnforce n _ \<Rightarrow> n = name | _ \<Rightarrow> False) h)"

lemma moduleAfter_counter:
  "unat (counter m) + enforcesIn name h < 2 ^ 63 \<Longrightarrow>
   unat (counter (moduleAfter m name h)) \<le> unat (counter m) + enforcesIn name h"
proof (induction h arbitrary: m)
  case (Cons c cs)
  show ?case
  proof (cases "\<exists>ps. c = PlugEnforce name ps")
    case True
    then obtain ps where c: "c = PlugEnforce name ps" by blast
    have s: "unat (counter m + 1) = unat (counter m) + 1"
      using Cons.prems c by (simp add: enforcesIn_def unat_add_lem [THEN iffD1] unat_word_ariths)
    have m': "counter (snd (module_Enforce ps m)) = counter m \<or> counter (snd (module_Enforce ps m)) = counter m + 1"
      by (auto simp: module_Enforce_def Let_def split: prod.split option.split)
    from m' show ?thesis
    proof
      assume "counter (snd (module_Enforce ps m)) = counter m"
      with Cons.IH [of "snd (module_Enforce ps m)"] Cons.prems c show ?thesis by (simp add: enforcesIn_def)
    next
      assume "counter (snd (module_Enforce ps m)) = counter m + 1"
      with Cons.IH [of "snd (module_Enforce ps m)"] Cons.prems c s show ?thesis by (simp add: enforcesIn_def)
    qed
  next
    case False
    then have "enforcesIn name (c # cs) = enforcesIn name cs" "moduleAfter m name (c # cs) = moduleAfter m name cs"
      by (auto simp: enforcesIn_def split: plugCall.split)
    with Cons show ?thesis by simp
  qed
qed simp

text \<open>
  The identifier given for an enforcement is accepted when it comes back for the release, however many
  calls are made in between.
\<close>

lemma sample_id_accepted:
  assumes "initialized m0" "mEnforce (samplePlugin m0 name) h name ps = (i, None)"
    and "unat (counter m0) + enforcesIn name h + 1 < 2 ^ 63" "map_of qs ''ENFORCEID'' = Some (VString i)"
  shows "mRelease (samplePlugin m0 name) h' name qs = None"
proof -
  let ?c = "counter (moduleAfter m0 name h)"
  have u: "unat ?c \<le> unat (counter m0) + enforcesIn name h" using assms(3) by (intro moduleAfter_counter) simp
  then have s: "unat (?c + 1) = unat ?c + 1" using assms(3) by (simp add: unat_word_ariths)
  have "i = Itoa (sint (?c + 1))"
    using assms(1,2) by (auto simp: samplePlugin_def module_Enforce_def Let_def split: prod.split_asm option.split_asm)
  moreover have "sint (?c + 1) = int (unat (?c + 1))"
  proof -
    define n where "n = unat (?c + 1)"
    have n: "n < 2 ^ 63" using s u assms(3) unfolding n_def by linarith
    have "sint (?c + 1) = signed_take_bit 63 (int n)" by (simp add: sint_uint n_def del: of_nat_add)
    also have "\<dots> = int n" by (rule signed_take_bit_int_eq_self) (use n in auto)
    finally show ?thesis by (simp only: n_def)
  qed
  ultimately have i: "i = Itoa (int (unat (?c + 1)))" by (simp only:)
  have "unat (?c + 1) < 2 ^ 63" using s u assms(3) by linarith
  then have "int (unat (?c + 1)) < int (2 ^ 63)" by (simp only: of_nat_less_iff)
  then have "int (unat (?c + 1)) < 2 ^ 63" by (simp only: of_nat_power of_nat_numeral)
  then have "Atoi i = (int (unat (?c + 1)), None)" unfolding i by (intro Atoi_Itoa) (simp_all only: of_nat_0_le_iff)
  moreover have "\<not> int (unat (?c + 1)) < 1" unfolding s by simp
  ultimately show ?thesis using assms(1,4) by (simp add: samplePlugin_def module_Release_def)
qed

end
