(* ===== verification/Launch.thy ===== *)
theory Launch
  imports Boot
begin

text \<open>
  The privileged process before it serves (\<^verbatim>\<open>cmd/rmd/rmd.go\<close>, the users of
  \<^verbatim>\<open>utils/util.go\<close>): it makes sure of the user, the pid file and the owner of the files, and starts
  the server as that user. The user data base and the system are parameters; what is asked of the system
  is a history.
\<close>

section \<open>Users and owners (utils/util.go)\<close>

datatype sysop =
    LookupUser string | LookPath string | RunCommand "string list" | StatFile string | MakeDir string
  | ChownFile string int int | StartProcess "64 word" "64 word"

text \<open>\<open>users\<close> gives the texts of the user and the group identifier, \<open>notExist\<close> is \<^verbatim>\<open>os.IsNotExist\<close>.\<close>

record sysEnv =
  users :: "sysop list \<Rightarrow> string \<Rightarrow> (string \<times> string) + goerror"
  lookPath :: "string \<Rightarrow> string + goerror"
  sysAnswer :: "sysop list \<Rightarrow> sysop \<Rightarrow> goerror option"
  notExist :: "goerror \<Rightarrow> bool"
  uid :: int

definition IsUserExist :: "sysEnv \<Rightarrow> string \<Rightarrow> sysop list \<Rightarrow> bool \<times> sysop list" where
  "IsUserExist U name h = ((case users U h name of Inl _ \<Rightarrow> True | Inr _ \<Rightarrow> False), h @ [LookupUser name])"

definition CreateUser :: "sysEnv \<Rightarrow> string \<Rightarrow> sysop list \<Rightarrow> goerror option \<times> sysop list" where
  "CreateUser U name h =
     (case lookPath U ''useradd'' of
        Inr e \<Rightarrow> (Some e, h @ [LookPath ''useradd''])
      | Inl path \<Rightarrow> extcall (sysAnswer U) (RunCommand [path, name]) (h @ [LookPath ''useradd'']))"

text \<open>An identifier that is no number is read as 0: the error of the conversion is dropped.\<close>

definition GetUserGUID :: "sysEnv \<Rightarrow> string \<Rightarrow> sysop list \<Rightarrow> (int \<times> int) with_err \<times> sysop list" where
  "GetUserGUID U name h =
     (case users U h name of
        Inr e \<Rightarrow> (((0, 0), Some e), h @ [LookupUser name])
      | Inl (u, g) \<Rightarrow> (((fst (Atoi u), fst (Atoi g)), None), h @ [LookupUser name]))"

definition Chown :: "sysEnv \<Rightarrow> string \<Rightarrow> string \<Rightarrow> sysop list \<Rightarrow> goerror option \<times> sysop list" where
  "Chown U file user h =
     (case extcall (sysAnswer U) (StatFile file) h of
        (Some _, h1) \<Rightarrow> (None, h1)
      | (None, h1) \<Rightarrow>
          (case GetUserGUID U user h1 of
             ((_, Some e), h2) \<Rightarrow> (Some e, h2)
           | (((u, g), None), h2) \<Rightarrow> extcall (sysAnswer U) (ChownFile file u g) h2))"

text \<open>The identifiers of the child are converted to 32 bits.\<close>

definition DropRunAs :: "sysEnv \<Rightarrow> string \<Rightarrow> sysop list \<Rightarrow> goerror option \<times> sysop list" where
  "DropRunAs U name h =
     (if uid U \<noteq> 0 then (Some (Errorf ''Need to run as root user'' []), h)
      else case GetUserGUID U name h of
        ((_, Some e), h1) \<Rightarrow> (Some e, h1)
      | (((u, g), None), h1) \<Rightarrow>
          extcall (sysAnswer U) (StartProcess (ucast (of_int u :: 32 word)) (ucast (of_int g :: 32 word))) h1)"

section \<open>The root process (cmd/rmd/rmd.go)\<close>

definition rmduser :: string where "rmduser = ''rmd''"

text \<open>Everything above a last slash, as \<^verbatim>\<open>filepath.Dir\<close> cleans it.\<close>

definition path_Dir :: "string \<Rightarrow> string" where
  "path_Dir p = path_Clean (rev (dropWhile (\<lambda>c. c \<noteq> CHR ''/'') (rev p)))"

definition orExit :: "goerror option \<times> sysop list \<Rightarrow> sysop list outcome" where
  "orExit r = fatal (fst r) (snd r)"

definition ensureUser :: "sysEnv \<Rightarrow> sysop list \<Rightarrow> sysop list outcome" where
  "ensureUser U h =
     (case IsUserExist U rmduser h of
        (True, h1) \<Rightarrow> Ret h1
      | (False, h1) \<Rightarrow> orExit (CreateUser U rmduser h1))"

text \<open>
  The owner of the directory of the data base, which is made when there is none (an error of making it
  is ignored), and of a bolt data base.
\<close>

definition ownDatabase :: "sysEnv \<Rightarrow> string \<Rightarrow> string \<Rightarrow> sysop list \<Rightarrow> sysop list outcome" where
  "ownDatabase U transport backend h =
     (case extcall (sysAnswer U) (StatFile (path_Dir transport)) h of
        (e, h1) \<Rightarrow>
          (let h2 = (if (case e of Some x \<Rightarrow> notExist U x | None \<Rightarrow> False) then snd (extcall (sysAnswer U) (MakeDir (path_Dir transport)) h1) else h1)
           in andThen (orExit (Chown U (path_Dir transport) rmduser h2)) (\<lambda>h3.
                if backend = ''bolt'' then orExit (Chown U transport rmduser h3) else Ret h3)))"

definition rootLaunch :: "sysEnv \<Rightarrow> os \<Rightarrow> readFile \<Rightarrow> (string \<Rightarrow> string list) \<Rightarrow> int \<Rightarrow> string \<Rightarrow> string \<Rightarrow> string
    \<Rightarrow> sysop list \<times> fsop list \<Rightarrow> (sysop list \<times> fsop list) outcome" where
  "rootLaunch U o_s fs glob pid logPath transport backend = (\<lambda>(h, f).
     andThen (ensureUser U h) (\<lambda>h1.
       case CreatePID o_s fs glob pid f of
         (Some _, _) \<Rightarrow> Panic OsExit
       | (None, f1) \<Rightarrow>
           andThen (orExit (Chown U logPath rmduser h1)) (\<lambda>h2.
             andThen (ownDatabase U transport backend h2) (\<lambda>h3.
               andThen (orExit (DropRunAs U rmduser h3)) (\<lambda>h4. Ret (h4, f1))))))"

section \<open>Privileges are dropped\<close>

lemma DropRunAs_starts:
  assumes "DropRunAs U name h = (None, h')"
  shows "\<exists>u g. users U h name = Inl (u, g) \<and> uid U = 0 \<and>
    h' = h @ [LookupUser name, StartProcess (ucast (of_int (fst (Atoi u)) :: 32 word)) (ucast (of_int (fst (Atoi g)) :: 32 word))]"
  using assms
  by (auto simp: DropRunAs_def GetUserGUID_def extcall_def split: if_split_asm sum.split_asm prod.split_asm)

lemma orExit_Ret: "orExit r = Ret h \<longleftrightarrow> r = (None, h)"
  by (cases r) (auto simp: orExit_def fatal_def split: option.split)

text \<open>
  The last thing the root process asks for is the child, with the identifiers of the user; with the
  numbers of an ordinary user it is not root.
\<close>

lemma rootLaunch_drops:
  assumes "rootLaunch U o_s fs glob pid l t b (h, f) = Ret (h', f')"
  shows "\<exists>h0 u g. users U h0 rmduser = Inl (u, g) \<and>
    h' = h0 @ [LookupUser rmduser, StartProcess (ucast (of_int (fst (Atoi u)) :: 32 word)) (ucast (of_int (fst (Atoi g)) :: 32 word))]"
proof -
  obtain e f1 where c: "CreatePID o_s fs glob pid f = (e, f1)" by fastforce
  with assms obtain h3 where "orExit (DropRunAs U rmduser h3) = Ret h'"
    by (cases e) (auto simp: rootLaunch_def andThen_Ret_iff)
  then show ?thesis using DropRunAs_starts [of U rmduser h3 h'] unfolding orExit_Ret by blast
qed

end
