(* ===== verification/MainProcess.thy ===== *)
theory MainProcess
  imports Launch Boot_Laws Nova
begin

text \<open>
  The main program (\<^verbatim>\<open>cmd/rmd/rmd.go\<close>) from the flags to the two processes: what both do, what the
  privileged process does before it serves the other one, and what the other one does before it serves
  requests. With it the log (\<^verbatim>\<open>utils/log\<close>) and the session of the data base
  (\<^verbatim>\<open>internal/db/boltdb.go\<close>).
\<close>

section \<open>Flags and log\<close>

definition WordSepNormalizeFunc :: "string \<Rightarrow> string" where
  "WordSepNormalizeFunc name =
     (if CHR ''_'' \<in> set name then map (\<lambda>c. if c = CHR ''_'' then CHR ''-'' else c) name else name)"

lemma WordSepNormalizeFunc_idem: "WordSepNormalizeFunc (WordSepNormalizeFunc name) = WordSepNormalizeFunc name"
  by (auto simp: WordSepNormalizeFunc_def)

record logConfig =
  logPath :: string
  logEnv :: string
  logLevel :: string
  logStdout :: bool

definition defaultLog :: logConfig where
  "defaultLog = \<lparr>logPath = ''/var/log/rmd/rmd.log'', logEnv = ''dev'', logLevel = ''debug'', logStdout = False\<rparr>"

text \<open>\<^verbatim>\<open>strconv.ParseBool\<close>; an error comes with false.\<close>

definition ParseBool :: "string \<Rightarrow> bool" where
  "ParseBool s \<longleftrightarrow> s \<in> {''1'', ''t'', ''T'', ''TRUE'', ''true'', ''True''}"

text \<open>\<open>readSection\<close> is what viper makes of the section of the configuration file.\<close>

definition log_NewConfig :: "(logConfig \<Rightarrow> logConfig) \<Rightarrow> string \<Rightarrow> string \<Rightarrow> logConfig" where
  "log_NewConfig readSection logDir logtostderr =
     (let c = readSection defaultLog;
          c1 = (if logDir \<noteq> [] then c\<lparr>logPath := logDir\<rparr> else c)
      in if ParseBool logtostderr then c1\<lparr>logStdout := True\<rparr> else c1)"

definition log_Init :: "(string \<Rightarrow> goerror option) \<Rightarrow> logConfig \<Rightarrow> goerror option" where
  "log_Init openFile c = (if logStdout c then None else openFile (logPath c))"

section \<open>The session of the data base (internal/db/boltdb.go)\<close>

text \<open>
  Whether the file was tried before, and whether the session is there. \<open>noSuchFile\<close> tells whether an
  error of \<open>IsRegularFile\<close> is that of a file that does not exist.
\<close>

record sessionState =
  sessionOnce :: bool
  boltSession :: bool

definition openSession :: "(string \<Rightarrow> goerror option) \<Rightarrow> string \<Rightarrow> goerror option \<times> sessionState" where
  "openSession openDb transport = (openDb transport, \<lparr>sessionOnce = True, boltSession = (openDb transport = None)\<rparr>)"

definition getSession :: "host \<Rightarrow> (goerror \<Rightarrow> bool) \<Rightarrow> (string \<Rightarrow> goerror option) \<Rightarrow> string \<Rightarrow> sessionState
    \<Rightarrow> goerror option \<times> sessionState" where
  "getSession H noSuchFile openDb transport st =
     (let bad = (Some (Errorf ''Provided database path is not a regular file'' []), \<lparr>sessionOnce = True, boltSession = False\<rparr>)
      in if sessionOnce st then (None, st)
         else case IsRegularFile H transport of
           (_, Some e) \<Rightarrow> if noSuchFile e then openSession openDb transport else bad
         | (isfile, None) \<Rightarrow> if isfile then openSession openDb transport else bad)"

definition newBoltDB :: "host \<Rightarrow> (goerror \<Rightarrow> bool) \<Rightarrow> (string \<Rightarrow> goerror option) \<Rightarrow> string \<Rightarrow> 'b bolt \<Rightarrow> sessionState \<times> 'b
    \<Rightarrow> (goerror option \<times> sessionState \<times> 'b) outcome" where
  "newBoltDB H noSuchFile openDb transport bo = (\<lambda>(st, b).
     case getSession H noSuchFile openDb transport st of
       (Some e, st') \<Rightarrow> Ret (Some e, st', b)
     | (None, st') \<Rightarrow>
         if boltSession st' then (case Initialize bo b of (e, b') \<Rightarrow> Ret (e, st', b')) else Panic NilDereference)"

text \<open>The session is tried once: after a failed first time the second one has no session and no error.\<close>

lemma newBoltDB_again:
  assumes "newBoltDB H noSuchFile openDb transport bo (\<lparr>sessionOnce = False, boltSession = False\<rparr>, b) = Ret (Some e, st', b')"
    "\<not> boltSession st'"
  shows "newBoltDB H noSuchFile openDb transport bo (st', b') = Panic NilDereference"
  using assms
  by (auto simp: newBoltDB_def getSession_def openSession_def Let_def split: prod.split_asm option.split_asm if_split_asm)

lemma newBoltDB_same:
  assumes "newBoltDB H noSuchFile openDb transport bo (\<lparr>sessionOnce = False, boltSession = False\<rparr>, b) = Ret (None, st', b')"
  shows "boltSession st' \<and> newBoltDB H noSuchFile openDb transport bo (st', b') =
    (case Initialize bo b' of (e, b'') \<Rightarrow> Ret (e, st', b''))"
  using assms
  by (auto simp: newBoltDB_def getSession_def openSession_def Let_def split: prod.split_asm option.split_asm if_split_asm)

section \<open>What both processes do\<close>

record 'b mainEnv =
  openstackE :: "'b os_env"
  systemE :: sysEnv
  loaderE :: loaderEnv
  versionFlag :: bool
  forceConfigFlag :: string
  logConf :: logConfig
  openLog :: "string \<Rightarrow> goerror option"
  pluginsConf :: string
  rdtModeConf :: "string with_err"
  appConf :: appConfig
  dbBackend :: string
  dbTransport :: string
  procGlob :: "string \<Rightarrow> string list"
  ownPid :: int

definition exitOn :: "goerror option \<times> 's \<Rightarrow> 's outcome" where
  "exitOn r = fatal (fst r) (snd r)"

definition withPqs :: "'b os_state \<Rightarrow> pqos_state \<Rightarrow> 'b os_state" where
  "withPqs s q = s\<lparr>rmdS := (rmdS s)\<lparr>pqs := q\<rparr>\<rparr>"

definition initPqos :: "'b mainEnv \<Rightarrow> 'b os_state \<Rightarrow> 'b os_state outcome" where
  "initPqos M s =
     (if euid (openstackE M) = 0
      then andThen (exitOn (Init (epqos (rmdE (openstackE M))) (pqs (rmdS s)))) (\<lambda>q. Ret (withPqs s q))
      else Ret s)"

definition agreeMba :: "'b mainEnv \<Rightarrow> 'b os_state \<Rightarrow> 'b os_state outcome" where
  "agreeMba M s =
     (if euid (openstackE M) = 0
      then andThen (checkMbaMode (epqos (rmdE (openstackE M))) (rdtModeConf M) (forceConfigFlag M) (pqs (rmdS s)))
             (\<lambda>q. Ret (withPqs s q))
      else Ret s)"

definition startCommon :: "'b mainEnv \<Rightarrow> 'b os_state \<Rightarrow> (pluginEnv \<times> 'b os_state) outcome" where
  "startCommon M s =
     (let R = rmdE (openstackE M)
      in if versionFlag M then Panic OsExit
         else andThen (initPqos M s) (\<lambda>s1.
           andThen (exitOn (log_Init (openLog M) (logConf M), ())) (\<lambda>_.
             andThen (loadPlugins (ehost R) (loaderE M) (split_on (CHR '','') (pluginsConf M)) (eplugins R)) (\<lambda>pe.
               if \<not> IsResctrlMounted (hfs (ehost R)) (sysResctrl (ehost R)) then Panic OsExit
               else andThen (agreeMba M s1) (\<lambda>s2. Ret (pe, s2))))))"

section \<open>The privileged process\<close>

definition rootProcess :: "'b mainEnv \<Rightarrow> 'b os_state \<times> sysop list \<Rightarrow> (pluginEnv \<times> 'b os_state \<times> sysop list) outcome" where
  "rootProcess M = (\<lambda>(s, h).
     andThen (startCommon M s) (\<lambda>(pe, s1).
       let R = rmdE (openstackE M)
       in andThen (rootLaunch (systemE M) (eos R) (hfs (ehost R)) (procGlob M) (ownPid M) (logPath (logConf M))
              (dbTransport M) (dbBackend M) (h, fsops (rmdS s1))) (\<lambda>(h', f').
            let s2 = s1\<lparr>rmdS := (rmdS s1)\<lparr>fsops := f'\<rparr>\<rparr>
            in if cOpenStackEnable (appConf M)
               then andThen (Openstack_Init (openstackE M) s2) (\<lambda>r. andThen (exitOn r) (\<lambda>s3. Ret (pe, s3, h')))
               else Ret (pe, s2, h'))))"

section \<open>The process of the server\<close>

text \<open>
  \<open>prctl\<close> and \<open>connect\<close> are the answers of the system and of the RPC library. The modules are
  registered while the server is put together; that of the workloads initialises them.
\<close>

record 'e childEnv =
  prctl :: int
  connect :: "goerror option"
  authE :: "'e authEnv"
  certE :: certEnv
  mountInfo :: "string list option"
  statOk :: "string \<Rightarrow> bool"
  globs :: globlib
  numOfClos :: "int with_err"
  pluginEndpoints :: "string \<Rightarrow> string list"

definition childProcess :: "'b mainEnv \<Rightarrow> 'e childEnv \<Rightarrow> 'b os_state \<times> 'e authState
    \<Rightarrow> (serving \<times> 'b os_state \<times> 'e authState) outcome" where
  "childProcess M K = (\<lambda>(s, a).
     andThen (startCommon M s) (\<lambda>(pe, s1).
       let R = (rmdE (openstackE M))\<lparr>eplugins := pe\<rparr>
       in if prctl K \<noteq> 0 \<or> connect K \<noteq> None then Panic OsExit
          else andThen (SanityCheck R (authE K) (dbBackend M) (mountInfo K) (statOk K) (globs K) (rmdS s1, a)) (\<lambda>(r2, a2).
            andThen (workload_Init R (dbBackend M) (numOfClos K) (rdtModeConf M) (ToLower (forceConfigFlag M) = ''true'') r2) (\<lambda>res.
              andThen (exitOn res) (\<lambda>r3.
                andThen (RunServer (certE K) (authE K) (pluginEndpoints K) (Interfaces pe) (appConf M) a2) (\<lambda>(srv, a3).
                  Ret (srv, s1\<lparr>rmdS := r3\<rparr>, a3)))))))"

section \<open>What a process that serves has done\<close>

lemma exitOn_Ret: "exitOn r = Ret s \<longleftrightarrow> r = (None, s)"
  by (cases r) (auto simp: exitOn_def fatal_def split: option.split)

text \<open>
  Both processes have every configured plugin registered, once and under its name, on a mounted file
  system; the privileged one has initialised the library and found the platform in the configured mode.
\<close>

lemma startCommon_ready:
  assumes "startCommon M s = Ret (pe, s')" "distinct (map fst (Interfaces (eplugins (rmdE (openstackE M)))))"
  shows "Interfaces pe = Interfaces (eplugins (rmdE (openstackE M))) @
      map (\<lambda>n. (pluginName n, True)) (filter (\<lambda>n. \<not> skipped n) (split_on (CHR '','') (pluginsConf M))) \<and>
    distinct (map fst (Interfaces pe)) \<and>
    IsResctrlMounted (hfs (ehost (rmdE (openstackE M)))) (sysResctrl (ehost (rmdE (openstackE M)))) \<and>
    store (rmdS s') = store (rmdS s) \<and> fsops (rmdS s') = fsops (rmdS s)"
proof -
  let ?R = "rmdE (openstackE M)"
  from assms(1) obtain s1 where i: "initPqos M s = Ret s1" "agreeMba M s1 = Ret s'"
    and l: "loadPlugins (ehost ?R) (loaderE M) (split_on (CHR '','') (pluginsConf M)) (eplugins ?R) = Ret pe"
    and m: "IsResctrlMounted (hfs (ehost ?R)) (sysResctrl (ehost ?R))"
    by (auto simp: startCommon_def Let_def andThen_Ret_iff split: if_split_asm)
  have "store (rmdS s') = store (rmdS s) \<and> fsops (rmdS s') = fsops (rmdS s)"
    using i by (auto simp: initPqos_def agreeMba_def withPqs_def andThen_Ret_iff split: if_split_asm)
  with loadPlugins_registers [OF l assms(2)] m show ?thesis by blast
qed

lemma startCommon_mode:
  assumes "startCommon M s = Ret (pe, s')" "euid (openstackE M) = 0" "rdtModeConf M = (mode, None)"
    "MBAModeToInt mode = (m, None)" "m \<noteq> - 1"
  shows "\<exists>q0 q1. Init (epqos (rmdE (openstackE M))) (pqs (rmdS s)) = (None, q0) \<and>
    CheckMBA (epqos (rmdE (openstackE M))) q1 = ((m, None), pqs (rmdS s'))"
proof -
  let ?env = "epqos (rmdE (openstackE M))"
  from assms(1) obtain s1 where i: "initPqos M s = Ret s1" "agreeMba M s1 = Ret s'"
    by (auto simp: startCommon_def Let_def andThen_Ret_iff split: if_split_asm)
  from i(2) assms(2,3) have "checkMbaMode ?env (mode, None) (forceConfigFlag M) (pqs (rmdS s1)) = Ret (pqs (rmdS s'))"
    by (auto simp: agreeMba_def withPqs_def andThen_Ret_iff)
  from checkMbaMode_agrees [OF this assms(4,5)] show ?thesis
    using i(1) assms(2) by (auto simp: initPqos_def andThen_Ret_iff exitOn_Ret)
qed

text \<open>The privileged process goes on only after it has started the server under the identifiers of its user.\<close>

lemma rootProcess_drops:
  assumes "rootProcess M (s, h) = Ret (pe, s', h')"
  shows "\<exists>h0 u g. users (systemE M) h0 rmduser = Inl (u, g) \<and>
    h' = h0 @ [LookupUser rmduser, StartProcess (ucast (of_int (fst (Atoi u)) :: 32 word)) (ucast (of_int (fst (Atoi g)) :: 32 word))]"
proof -
  from assms obtain f0 f' where
    "rootLaunch (systemE M) (eos (rmdE (openstackE M))) (hfs (ehost (rmdE (openstackE M)))) (procGlob M) (ownPid M)
       (logPath (logConf M)) (dbTransport M) (dbBackend M) (h, f0) = Ret (h', f')"
    by (auto simp: rootProcess_def Let_def andThen_Ret_iff split: if_split_asm)
  then show ?thesis by (rule rootLaunch_drops)
qed

text \<open>
  The server that answers requests checks rights behind every request, and passwords when clients need no
  certificate; its modules are those of the source and its classes and data base are initialised.
\<close>

definition served_container :: "serving \<Rightarrow> container" where
  "served_container srv = (case srv of ServeHTTP _ c \<Rightarrow> c | ServeTLS _ _ c \<Rightarrow> c)"

lemma server_Initialize_filters:
  assumes "server_Initialize C A ep ifaces c st = Ret (Inr cont, st')"
  shows "cFilters cont = (if IsClientCertAuthOption c then [] else [PamFilter]) @ [AclFilter]"
proof -
  from assms obtain rs where "pluginRoutes ep ifaces = Inr rs"
    "cont = \<lparr>cFilters = (if IsClientCertAuthOption c then [] else [PamFilter]) @ [AclFilter],
       cModules = [''cache'', ''policy'', ''hospitality'', ''workloads'', ''mba''], cRoutes = rs\<rparr>"
    unfolding server_Initialize_def andThen_Ret_iff by (auto split: option.split_asm sum.split_asm)
  then show ?thesis by simp
qed

lemma RunServer_filters:
  assumes "RunServer C A ep ifaces app st = Ret (srv, st')"
  shows "cFilters (served_container srv) = (if isClientCertAuthOption (cClientAuth app) then [AclFilter] else [PamFilter, AclFilter])"
proof -
  let ?c = "buildServerConfig app"
  obtain res st1 where r: "server_Initialize C A ep ifaces ?c st = Ret (res, st1)"
    using assms by (auto simp: RunServer_def Let_def andThen_Ret_iff)
  have "\<exists>cont. res = Inr cont" using assms r by (cases res) (simp_all add: RunServer_def Let_def)
  then obtain cont where cont: "res = Inr cont" by blast
  from assms have "served_container srv = cont"
    unfolding RunServer_def Let_def r cont andThen_Ret_iff
    by (auto simp: served_container_def split: if_split_asm sum.split_asm)
  with server_Initialize_filters [OF r [unfolded cont]] show ?thesis by (simp add: buildServerConfig_def)
qed

lemma workload_Init_classes:
  assumes "workload_Init R backend n mode force s = Ret (None, s')"
  shows "\<exists>p. InitCLOSPool n (cpool s) = Ret (None, p)"
proof -
  let ?s = "if NewDB backend = None then s\<lparr>dbOpen := True\<rparr> else s"
  have c: "cpool ?s = cpool s" by simp
  show ?thesis using assms
    unfolding workload_Init_def Let_def c andThen_Ret_iff by (auto split: if_split_asm option.split_asm)
qed

lemma childProcess_ready:
  assumes "childProcess M K (s, a) = Ret (srv, s', a')"
  shows "cFilters (served_container srv) =
      (if isClientCertAuthOption (cClientAuth (appConf M)) then [AclFilter] else [PamFilter, AclFilter]) \<and>
    (\<exists>pe s1 r2 a2. startCommon M s = Ret (pe, s1) \<and>
       SanityCheck ((rmdE (openstackE M))\<lparr>eplugins := pe\<rparr>) (authE K) (dbBackend M) (mountInfo K) (statOk K) (globs K)
         (rmdS s1, a) = Ret (r2, a2) \<and> (\<exists>p. InitCLOSPool (numOfClos K) (cpool r2) = Ret (None, p)))"
proof -
  from assms obtain pe s1 r2 a2 r3 where c: "startCommon M s = Ret (pe, s1)"
    "SanityCheck ((rmdE (openstackE M))\<lparr>eplugins := pe\<rparr>) (authE K) (dbBackend M) (mountInfo K) (statOk K) (globs K)
       (rmdS s1, a) = Ret (r2, a2)"
    "workload_Init ((rmdE (openstackE M))\<lparr>eplugins := pe\<rparr>) (dbBackend M) (numOfClos K) (rdtModeConf M)
       (ToLower (forceConfigFlag M) = ''true'') r2 = Ret (None, r3)"
    "RunServer (certE K) (authE K) (pluginEndpoints K) (Interfaces pe) (appConf M) a2 = Ret (srv, a')"
    by (auto simp: childProcess_def Let_def andThen_Ret_iff exitOn_Ret split: if_split_asm)
  from workload_Init_classes [OF c(3)] c(1,2) RunServer_filters [OF c(4)] show ?thesis by blast
qed

end
