(* ===== verification/Isolation.thy ===== *)
theory Isolation
  imports Nova_Laws
begin

text \<open>
  Isolation of the stored workloads: no two rows share a task or a core. Validation, creation and
  deletion keep it; a patch keeps it when it names no members.
\<close>

section \<open>Cores as texts\<close>

text \<open>The cores that the parser of the source reads from a list of texts.\<close>

definition coreSet :: "string list \<Rightarrow> nat set" where
  "coreSet cs =
     (if cs = [] then {}
      else case NewBitmap [ArgStrings cs] of Ret (b, None) \<Rightarrow> bm_set b | _ \<Rightarrow> {})"

text \<open>Lists of positions and spans, in the syntax of the source.\<close>

definition plain :: "string list \<Rightarrow> bool" where
  "plain cs \<longleftrightarrow> (\<exists>its. cs = map items_text its \<and> (\<forall>is \<in> set its. is \<noteq> [] \<and> (\<forall>it \<in> set is. item_ok (2 ^ 63 - 1) it)))"

lemma plain_Nil [simp]: "plain []" by (simp add: plain_def)

lemma plain_numerals:
  assumes "\<forall>n \<in> set ns. n < 2 ^ 62"
  shows "plain (map (format_nat 10) ns)"
  unfolding plain_def
proof (intro exI [of _ "map (\<lambda>n. [One True (int n)]) ns"] conjI)
  show "map (format_nat 10) ns = map items_text (map (\<lambda>n. [One True (int n)]) ns)"
    by (simp add: items_text_def item_text_def Itoa_def)
  show "\<forall>is \<in> set (map (\<lambda>n. [One True (int n)]) ns). is \<noteq> [] \<and> (\<forall>it \<in> set is. item_ok (2 ^ 63 - 1) it)"
    using assms by force
qed

definition itemsOf :: "RDTWorkLoad \<Rightarrow> item list list" where
  "itemsOf w = (SOME its. CoreIDs w = map items_text its \<and>
     (\<forall>is \<in> set its. is \<noteq> [] \<and> (\<forall>it \<in> set is. item_ok (2 ^ 63 - 1) it)))"

lemma written_plain:
  assumes "plain (CoreIDs w)"
  shows "written itemsOf w" "cores itemsOf w = coreSet (CoreIDs w)"
proof -
  show wr: "written itemsOf w"
    using someI_ex [OF assms [unfolded plain_def]] unfolding written_def itemsOf_def by blast
  show "cores itemsOf w = coreSet (CoreIDs w)"
  proof (cases "CoreIDs w = []")
    case True
    then show ?thesis using wr by (auto simp: coreSet_def cores_def written_def)
  next
    case False
    from written_bitmap [OF wr False] obtain b where
      "NewBitmap [ArgStrings (CoreIDs w)] = Ret (b, None)" "bm_set b = cores itemsOf w" by blast
    with False show ?thesis by (simp only: coreSet_def if_False outcome.case prod.case option.case)
  qed
qed

section \<open>Rows\<close>

definition row :: "'b rmd_env \<Rightarrow> 'b \<Rightarrow> string \<Rightarrow> RDTWorkLoad \<Rightarrow> bool" where
  "row R b i w \<longleftrightarrow> GetWorkloadByID (ecodec R) (ebolt R) i b = (w, None)"

definition apart :: "RDTWorkLoad \<Rightarrow> RDTWorkLoad \<Rightarrow> bool" where
  "apart w v \<longleftrightarrow> set (TaskIDs w) \<inter> set (TaskIDs v) = {} \<and> coreSet (CoreIDs w) \<inter> coreSet (CoreIDs v) = {}"

lemma apart_sym: "apart w v \<longleftrightarrow> apart v w"
  by (auto simp: apart_def)

lemma apart_members: "TaskIDs w' = TaskIDs w \<Longrightarrow> CoreIDs w' = CoreIDs w \<Longrightarrow> apart w' v = apart w v"
  by (simp add: apart_def)

text \<open>The invariant: rows carry their name, list their cores plainly, and are pairwise apart.\<close>

definition isolated :: "'b rmd_env \<Rightarrow> 'b \<Rightarrow> bool" where
  "isolated R b \<longleftrightarrow> keyed R b \<and> (\<forall>i w. row R b i w \<longrightarrow> plain (CoreIDs w)) \<and>
     (\<forall>i j w v. row R b i w \<and> row R b j v \<and> i \<noteq> j \<longrightarrow> apart w v)"

text \<open>A data base with fewer rows, and one with one row that is new or changed.\<close>

definition shrunk :: "'b rmd_env \<Rightarrow> 'b \<Rightarrow> 'b \<Rightarrow> bool" where
  "shrunk R b b' \<longleftrightarrow> hasTables (ebolt R) b' \<and> (\<forall>i w. row R b' i w \<longrightarrow> row R b i w)"

definition one_row :: "'b rmd_env \<Rightarrow> RDTWorkLoad \<Rightarrow> 'b \<Rightarrow> 'b \<Rightarrow> bool" where
  "one_row R w b b' \<longleftrightarrow> hasTables (ebolt R) b' \<and> row R b' (ID w) w \<and> (\<forall>i v. i \<noteq> ID w \<longrightarrow> row R b' i v \<longrightarrow> row R b i v)"

lemma shrunk_refl: "isolated R b \<Longrightarrow> shrunk R b b"
  by (simp add: shrunk_def isolated_def keyed_def)

lemma shrunk_trans: "shrunk R a b \<Longrightarrow> shrunk R b c \<Longrightarrow> shrunk R a c"
  by (simp add: shrunk_def)

lemma keyed_rows: "keyed R b \<longleftrightarrow> hasTables (ebolt R) b \<and> (\<forall>i w. row R b i w \<longrightarrow> ID w = i)"
  by (simp add: keyed_def row_def)

lemma row_fun: "row R b i w \<Longrightarrow> row R b i v \<Longrightarrow> v = w"
  by (simp add: row_def)

lemma isolated_shrunk: "isolated R b \<Longrightarrow> shrunk R b b' \<Longrightarrow> isolated R b'"
  unfolding isolated_def shrunk_def keyed_rows by blast

lemma isolated_one_row:
  assumes "isolated R b" "one_row R w b b'" "plain (CoreIDs w)" "\<forall>i v. row R b i v \<longrightarrow> i \<noteq> ID w \<longrightarrow> apart w v"
  shows "isolated R b'"
  unfolding isolated_def
proof (intro conjI allI impI)
  have ir: "hasTables (ebolt R) b'" "row R b' (ID w) w" "\<And>i v. i \<noteq> ID w \<Longrightarrow> row R b' i v \<Longrightarrow> row R b i v"
    using assms(2) by (simp_all add: one_row_def)
  have c: "row R b' i v \<Longrightarrow> i = ID w \<and> v = w \<or> i \<noteq> ID w \<and> row R b i v" for i v
    using ir(3) [of i v] row_fun [OF ir(2), of v] by (cases "i = ID w") simp_all
  have old: "row R b i v \<Longrightarrow> ID v = i \<and> plain (CoreIDs v)" for i v
    using assms(1) unfolding isolated_def keyed_rows by blast
  show "keyed R b'" unfolding keyed_rows
  proof (intro conjI allI impI)
    show "hasTables (ebolt R) b'" by (rule ir(1))
    show "row R b' i v \<Longrightarrow> ID v = i" for i v using c [of i v] old [of i v] by fastforce
  qed
  show "row R b' i v \<Longrightarrow> plain (CoreIDs v)" for i v using c [of i v] old [of i v] assms(3) by fastforce
  fix i j v u assume "row R b' i v \<and> row R b' j u \<and> i \<noteq> j"
  then have i: "row R b' i v" and j: "row R b' j u" and ij: "i \<noteq> j" by simp_all
  consider "i = ID w" "v = w" "row R b j u" | "j = ID w" "u = w" "row R b i v" | "row R b i v" "row R b j u"
    using c [OF i] c [OF j] ij by (elim disjE conjE) simp_all
  then show "apart v u"
  proof cases
    case 1
    then show ?thesis using assms(4) ij by simp
  next
    case 2
    then show ?thesis using assms(4) ij apart_sym [of v w] by simp
  next
    case 3
    then show ?thesis using assms(1) ij unfolding isolated_def by blast
  qed
qed

section \<open>What validation guarantees\<close>

lemma readAll_mem: "readAll js kvs = (ws, None) \<Longrightarrow> (k, v) \<in> set kvs \<Longrightarrow> \<exists>w \<in> set ws. unmarshal js v = Inl w"
  by (induction kvs arbitrary: ws) (auto split: sum.split_asm prod.split_asm)

lemma readAll_from: "readAll js kvs = (ws, None) \<Longrightarrow> w \<in> set ws \<Longrightarrow> \<exists>kv \<in> set kvs. unmarshal js (snd kv) = Inl w"
  by (induction kvs arbitrary: ws) (force split: sum.split_asm prod.split_asm)+

lemma GetAllWorkload_rows:
  assumes "bolt_contract (ebolt R)" "GetAllWorkload (ecodec R) (ebolt R) b = (ws, None)"
  shows "w \<in> set ws \<longleftrightarrow> (\<exists>i. row R b i w)"
proof -
  have h: "b_has (ebolt R) b WorkloadTableName" and r: "readAll (ecodec R) (b_items (ebolt R) b WorkloadTableName) = (ws, None)"
    using assms(2) by (auto simp: GetAllWorkload_def split: if_split_asm)
  note g = bolt_contract.items_get [OF assms(1) h]
  have "row R b i w \<longleftrightarrow> (\<exists>v. (i, v) \<in> set (b_items (ebolt R) b WorkloadTableName) \<and> unmarshal (ecodec R) v = Inl w)" for i
    using h by (auto simp: row_def GetWorkloadByID_def decode_def g split: option.split sum.split_asm)
  then show ?thesis using readAll_mem [OF r] readAll_from [OF r] by (metis Inl_inject prod.collapse)
qed

lemma validateInDB_apart:
  assumes "bolt_contract (ebolt R)" "isolated R (store s)" "plain (CoreIDs w)" "validateInDB R w s = Ret None"
  shows "\<forall>i v. row R (store s) i v \<longrightarrow> apart w v"
proof -
  obtain ws where ws: "GetAllWorkload (ecodec R) (ebolt R) (store s) = (ws, None)" "validateWorkload w ws = Ret None"
    using assms(4)
    by (auto simp: validateInDB_def ValidateWorkload_def andThen_Ret_iff split: if_split_asm prod.split_asm option.split_asm)
  note rows = GetAllWorkload_rows [OF assms(1) ws(1)]
  have pl: "\<forall>v \<in> set ws. plain (CoreIDs v)" using rows assms(2) by (auto simp: isolated_def)
  have "\<forall>v \<in> set ws. \<not> overlaps itemsOf w v"
    using validateWorkload_spec [of itemsOf w ws] written_plain assms(3) pl ws(2) by auto
  then show ?thesis
    using rows written_plain(2) assms(3) pl by (auto simp: overlaps_def apart_def)
qed

lemma Validate_apart:
  assumes "bolt_contract (ebolt R)" "isolated R (store s)" "plain (CoreIDs w)" "Validate R w s = Ret (None, w', s')"
  shows "\<forall>i v. row R (store s) i v \<longrightarrow> apart w v"
proof -
  obtain e where v: "validate R w s = Ret (e, w', s')" using Validate_validate [OF assms(4)] by blast
  have "validateInDB R w' s' = Ret None"
    using assms(4) v by (cases e) (auto simp: Validate_def andThen_Ret_iff)
  moreover have "store s' = store s" using validate_keeps [OF v] by simp
  moreover have "CoreIDs w' = CoreIDs w" "TaskIDs w' = TaskIDs w" using filledD [OF validate_filled(1) [OF v]] by simp_all
  ultimately show ?thesis
    using validateInDB_apart [OF assms(1), of s' w'] assms(2,3) by (simp add: apart_def)
qed

section \<open>Deleting and creating\<close>

lemma Delete_shrunk:
  assumes "good_store R" "isolated R (store s)"
  shows "shrunk R (store s) (store (snd (Delete R w s)))"
proof -
  have h: "hasTables (ebolt R) (store s)" using assms(2) by (simp add: isolated_def keyed_def)
  note st = bolt_db.store [OF good_db [OF assms(1)]]
  obtain e b where d: "DeleteWorkload (ebolt R) w (store s) = (e, b)" by fastforce
  show ?thesis
  proof (cases "dbOpen s \<and> e = None")
    case True
    with d have d0: "DeleteWorkload (ebolt R) w (store s) = (None, b)" by simp
    note ok = workload_store.remove_ok [OF st h d0] workload_store.remove_frame [OF st h d0]
    have "row R b i v \<Longrightarrow> row R (store s) i v" for i v
      using ok by (cases "i = ID w") (auto simp: row_def)
    with ok True d show ?thesis by (simp add: shrunk_def Delete_def)
  next
    case False
    then have "store (snd (Delete R w s)) = store s"
      using d workload_store.remove_fail [OF st h] by (cases e) (auto simp: Delete_def)
    then show ?thesis using shrunk_refl [OF assms(2)] by simp
  qed
qed

lemma removeStale_shrunk:
  assumes "good_store R"
  shows "isolated R (store s) \<Longrightarrow> shrunk R (store s) (store (removeStale R ws s)) \<and> dbOpen (removeStale R ws s) = dbOpen s"
proof (induction ws arbitrary: s)
  case Nil
  then show ?case by (simp add: shrunk_refl)
next
  case (Cons w ws)
  have "dbOpen (snd (Delete R w s)) = dbOpen s"
    using arg_cong [OF Delete_store [of R w s], of dbOpen] by simp
  moreover note d = Delete_shrunk [OF assms Cons.prems, of w]
  ultimately show ?case
    using Cons.IH [of "snd (Delete R w s)"] Cons.IH [OF Cons.prems] isolated_shrunk [OF Cons.prems d] shrunk_trans [OF d]
    by auto
qed

lemma cleanUp_shrunk:
  assumes "good_store R" "isolated R (store s)"
  shows "shrunk R (store s) (store (dbContentValidation R s)) \<and> dbOpen (dbContentValidation R s) = dbOpen s"
  using removeStale_shrunk [OF assms] shrunk_refl [OF assms(2)]
  by (auto simp: dbContentValidation_def split: prod.split option.split)

lemma Create_isolated:
  assumes "good_store R" "isolated R (store s)" "plain (CoreIDs w)" "\<forall>i v. row R (store s) i v \<longrightarrow> apart w v"
    "Create R w s = Ret (e, w', s')"
  shows "isolated R (store s')"
proof -
  have h: "hasTables (ebolt R) (store s)" using assms(2) by (simp add: isolated_def keyed_def)
  note st = bolt_db.store [OF good_db [OF assms(1)]]
  show ?thesis
  proof (cases "dbOpen s")
    case True
    with assms(5) obtain e1 b where c: "CreateWorkload (ecodec R) (ebolt R) w (store s) = Ret (e1, w', b)" "s' = s\<lparr>store := b\<rparr>"
      by (auto simp: Create_def andThen_Ret_iff)
    show ?thesis
    proof (cases e1)
      case None
      note ok = workload_store.create_ok [OF st h c(1) [unfolded None]]
      from ok obtain i where i: "w' = w\<lparr>ID := i\<rparr>" by blast
      have "one_row R w' (store s) b"
        using ok workload_store.create_frame [OF st h c(1) [unfolded None]] by (simp add: one_row_def row_def)
      then have "isolated R b"
        by (rule isolated_one_row [OF assms(2)]) (use assms(3,4) i in \<open>auto simp: apart_def\<close>)
      then show ?thesis by (simp add: c(2))
    next
      case (Some x)
      with c workload_store.create_fail [OF st h] assms(2) show ?thesis by auto
    qed
  next
    case False
    then show ?thesis using assms(2,5) by (simp add: Create_def)
  qed
qed

text \<open>What was validated and enforced may be stored.\<close>

lemma admitted_workload:
  assumes "good_store R" "isolated R (store s)" "plain (CoreIDs w)"
    "Validate R w s = Ret (None, w0, s0)" "Enforce R w0 s0 = Ret (e, w1, s1)"
  shows "store s1 = store s" "plain (CoreIDs w1)" "\<forall>i v. row R (store s1) i v \<longrightarrow> apart w1 v"
proof -
  obtain e0 where v: "validate R w s = Ret (e0, w0, s0)" using Validate_validate [OF assms(4)] by blast
  note f = filledD [OF validate_filled(1) [OF v]] Enforce_frame [OF assms(5)]
  have m: "CoreIDs w1 = CoreIDs w" "TaskIDs w1 = TaskIDs w" using f asked_sameD [of w0 w1] by simp_all
  show s1: "store s1 = store s" using f validate_keeps [OF v] by simp
  show "plain (CoreIDs w1)" using assms(3) m by simp
  have "bolt_contract (ebolt R)" using assms(1) by (simp add: good_store_def)
  from Validate_apart [OF this assms(2,3,4)] show "\<forall>i v. row R (store s1) i v \<longrightarrow> apart w1 v"
    by (simp add: s1 apart_def m)
qed

lemma Validate_store: "Validate R w s = Ret (e, w', s') \<Longrightarrow> store s' = store s"
  using Validate_validate validate_keeps(1) by blast

lemma NewWorkload_isolated:
  assumes "good_store R" "isolated R (store s)" "plain (userCoreIDs u)" "NewWorkload R (u, err) s = Ret (r, s')"
  shows "isolated R (store s')"
proof (cases err)
  case Some
  then show ?thesis using assms(2,4) by (simp add: NewWorkload_def)
next
  case None
  let ?w = "ofUser (u\<lparr>userOrigin := ''REST''\<rparr>)"
  note n = assms(4) [unfolded NewWorkload_def None prod.case option.case Let_def]
  have pl: "plain (CoreIDs ?w)" using assms(3) by (simp add: ofUser_def)
  obtain e0 w0 s0 where 0: "Validate R ?w s = Ret (e0, w0, s0)" using n unfolding andThen_Ret_iff by auto
  note n0 = n [unfolded 0 andThen.simps prod.case]
  show ?thesis
  proof (cases e0)
    case (Some x)
    then show ?thesis using n0 Validate_store [OF 0] assms(2) by simp
  next
    case e0: None
    note n1 = n0 [unfolded e0 option.case]
    obtain e1 w1 s1 where 1: "Enforce R w0 s0 = Ret (e1, w1, s1)" using n1 unfolding andThen_Ret_iff by auto
    note n2 = n1 [unfolded 1 andThen.simps prod.case]
    note adm = admitted_workload [OF assms(1,2) pl 0 [unfolded e0] 1]
    have i1: "isolated R (store s1)" using adm(1) assms(2) by simp
    show ?thesis
    proof (cases e1)
      case (Some x)
      have "s' = s1 \<or> s' = snd (Delete R w1 s1)"
        using n2 Some by (auto split: option.split_asm prod.split_asm if_split_asm)
      then show ?thesis using i1 isolated_shrunk [OF i1 Delete_shrunk [OF assms(1) i1]] by auto
    next
      case e1: None
      obtain e2 w2 s2 where c: "Create R w1 s1 = Ret (e2, w2, s2)" using n2 e1 by (cases "Create R w1 s1") auto
      have "s' = s2" using n2 [unfolded e1 option.case c andThen.simps prod.case] by (cases e2) simp_all
      with c have "Create R w1 s1 = Ret (e2, w2, s')" by simp
      then show ?thesis by (rule Create_isolated [OF assms(1) i1 adm(2,3)])
    qed
  qed
qed

lemma launch_isolated:
  assumes "good_store (rmdE E)" "isolated (rmdE E) (store (rmdS s))" "plain (CoreIDs w)" "launch E w s = Ret s'"
  shows "isolated (rmdE E) (store (rmdS s'))"
proof -
  obtain e0 w0 r0 where 0: "Validate (rmdE E) w (rmdS s) = Ret (e0, w0, r0)"
    using assms(4) by (auto simp: launch_def andThen_Ret_iff)
  show ?thesis
  proof (cases e0)
    case (Some x)
    then show ?thesis using assms(2,4) 0 Validate_store [OF 0] by (auto simp: launch_def)
  next
    case e0: None
    then obtain e1 w1 r1 where 1: "Enforce (rmdE E) w0 r0 = Ret (e1, w1, r1)"
      using assms(4) 0 by (auto simp: launch_def andThen_Ret_iff)
    note adm = admitted_workload [OF assms(1,2,3) 0 [unfolded e0] 1]
    have i1: "isolated (rmdE E) (store r1)" using adm(1) assms(2) by simp
    show ?thesis
    proof (cases e1)
      case (Some x)
      then show ?thesis using assms(4) 0 1 e0 i1 by (auto simp: launch_def)
    next
      case None
      with assms(4) 0 1 e0 obtain e2 w2 where "Create (rmdE E) w1 r1 = Ret (e2, w2, rmdS s')"
        by (auto simp: launch_def andThen_Ret_iff)
      then show ?thesis by (rule Create_isolated [OF assms(1) i1 adm(2,3)])
    qed
  qed
qed

section \<open>Patching\<close>

definition same_members :: "RDTWorkLoad \<Rightarrow> RDTWorkLoad \<Rightarrow> bool" where
  "same_members w w' \<longleftrightarrow> ID w' = ID w \<and> CoreIDs w' = CoreIDs w \<and> TaskIDs w' = TaskIDs w"

lemma same_members_refl [simp]: "same_members w w" by (simp add: same_members_def)

lemma same_members_trans: "same_members u v \<Longrightarrow> same_members v w \<Longrightarrow> same_members u w"
  by (simp add: same_members_def)

lemma filled_members:
  assumes "filled w w'"
  shows "same_members w w'"
proof -
  note f = assms [unfolded filled_def]
  have "ID w' = ID w" by (subst f) simp
  then show ?thesis using filledD [OF assms] by (simp add: same_members_def)
qed

lemma asked_members:
  assumes "asked_same w w'"
  shows "same_members w w'"
proof -
  note f = assms [unfolded asked_same_def]
  have "ID w' = ID w" by (subst f) simp
  then show ?thesis using asked_sameD [OF assms] by (simp add: same_members_def)
qed

lemma patchCache_members: "patchCache p w = (w', r) \<Longrightarrow> same_members w w'"
  by (auto simp: patchCache_def same_members_def split: option.split_asm)

lemma patchPercentage_members:
  "patchPercentage p w r s = (e, w', r', s') \<Longrightarrow> same_members w w' \<and> store s' = store s \<and> dbOpen s' = dbOpen s"
  by (auto simp: patchPercentage_def same_members_def split: option.split_asm if_split_asm)

lemma patchMbps_members:
  "patchMbps p w r s = (e, w', r', s') \<Longrightarrow> same_members w w' \<and> store s' = store s \<and> dbOpen s' = dbOpen s"
  by (auto simp: patchMbps_def same_members_def split: option.split_asm if_split_asm)

lemma patchParams_steps:
  assumes "patchParams E p w s = Ret (e, w', r, s')"
  obtains w1 w2 r2 e3 w3 r3 s3 e4 w4 r4 s4 where
    "(if 0 < length (Policy w) then andThen (fillWorkloadByPolicy E w) (\<lambda>(_, w'). Ret w') else Ret w) = Ret w1"
    "patchCache p w1 = (w2, r2)" "patchPercentage p w2 r2 s = (e3, w3, r3, s3)" "patchMbps p w3 r3 s3 = (e4, w4, r4, s4)"
    "(case patchMode p s of
       Some e \<Rightarrow> (Some e, w2, r2, s)
     | None \<Rightarrow> (case e3 of Some e \<Rightarrow> (Some e, w3, r3, s3)
         | None \<Rightarrow> (case e4 of Some e \<Rightarrow> (Some e, w4, r4, s4)
             | None \<Rightarrow> (case patchPlugins E w4 (gm_items (Plugins p)) r4 of (e, r5) \<Rightarrow> (e, w4, r5, s4))))) = (e, w', r, s')"
proof -
  obtain w1 where 1: "(if 0 < length (Policy w) then andThen (fillWorkloadByPolicy E w) (\<lambda>(_, w'). Ret w') else Ret w) = Ret w1"
    using assms unfolding patchParams_def andThen_Ret_iff by blast
  obtain w2 r2 where 2: "patchCache p w1 = (w2, r2)" by fastforce
  obtain e3 w3 r3 s3 where 3: "patchPercentage p w2 r2 s = (e3, w3, r3, s3)" by (metis prod_cases4)
  obtain e4 w4 r4 s4 where 4: "patchMbps p w3 r3 s3 = (e4, w4, r4, s4)" by (metis prod_cases4)
  from assms show thesis
    by (intro that [OF 1 2 3 4]) (simp only: patchParams_def 1 andThen.simps 2 prod.case 3 4 outcome.inject)
qed

lemma patchParams_members:
  assumes "patchParams E p w s = Ret (e, w', r, s')"
  shows "same_members w w' \<and> store s' = store s \<and> dbOpen s' = dbOpen s"
  using assms
proof (cases rule: patchParams_steps)
  case (1 w1 w2 r2 e3 w3 r3 s3 e4 w4 r4 s4)
  have m1: "same_members w w1"
    using 1(1) by (auto simp: andThen_Ret_iff split: if_split_asm intro: filled_members dest!: fillWorkloadByPolicy_filled)
  have "same_members w w2" "same_members w w3" "same_members w w4"
    using m1 patchCache_members [OF 1(2)] patchPercentage_members [OF 1(3)] patchMbps_members [OF 1(4)] same_members_trans
    by blast+
  moreover have "store s3 = store s \<and> dbOpen s3 = dbOpen s" "store s4 = store s \<and> dbOpen s4 = dbOpen s"
    using patchPercentage_members [OF 1(3)] patchMbps_members [OF 1(4)] by simp_all
  ultimately show ?thesis using 1(5) by (auto split: option.split_asm prod.split_asm)
qed

lemma reEnforce_frame:
  assumes "reEnforce E p w s = Ret (e, w', s')"
  shows "store s' = store s \<and> dbOpen s' = dbOpen s \<and> ID w' = ID w \<and>
    (e = None \<longrightarrow> CoreIDs w' = (if CoreIDs p = [] then CoreIDs w else CoreIDs p) \<and>
       TaskIDs w' = (if TaskIDs p = [] then TaskIDs w else TaskIDs p))"
proof -
  obtain e1 s1 where 1: "Release E w s = Ret (e1, s1)" using assms unfolding reEnforce_def andThen_Ret_iff by auto
  note r = Release_effects [OF 1, unfolded released_def]
  show ?thesis
  proof (cases e1)
    case None
    with assms 1 have en: "Enforce E (w\<lparr>TaskIDs := (if 0 < length (TaskIDs p) then TaskIDs p else TaskIDs w),
        CoreIDs := (if 0 < length (CoreIDs p) then CoreIDs p else CoreIDs w), Plugins := Plugins p\<rparr>) s1 = Ret (e, w', s')"
      by (simp add: reEnforce_def)
    show ?thesis using Enforce_frame [OF en] r asked_members by (fastforce simp: same_members_def)
  next
    case (Some x)
    then show ?thesis using assms 1 r by (auto simp: reEnforce_def)
  qed
qed

lemma commitRes_keeps: "commitRes E r name s = Ret (e, s') \<Longrightarrow> store s' = store s \<and> dbOpen s' = dbOpen s"
  using hw_onlyD(2,4) [of s s'] commitRes_hw [of E r name s e s'] by simp

text \<open>Without members in the patch, those of the workload stay.\<close>

lemma patchMembers_frame:
  assumes "patchMembers E p w s = Ret (e, w', s')" "CoreIDs p = []" "TaskIDs p = []"
  shows "store s' = store s \<and> dbOpen s' = dbOpen s \<and> same_members w w'"
proof (cases "CoreIDs p = CoreIDs w \<and> TaskIDs p = TaskIDs w")
  case True
  then show ?thesis using assms(1) by (auto simp: patchMembers_def andThen_Ret_iff)
next
  case False
  with assms(1) obtain resaall e1 p' s1 where 1: "resNow E s = Ret resaall" "Validate E p s = Ret (e1, p', s1)"
    by (auto simp: patchMembers_def andThen_Ret_iff)
  obtain e0 where v: "validate E p s = Ret (e0, p', s1)" using Validate_validate [OF 1(2)] by blast
  have k: "store s1 = store s" "dbOpen s1 = dbOpen s" using validate_keeps [OF v] by simp_all
  have p': "CoreIDs p' = []" "TaskIDs p' = []" using filledD [OF validate_filled(1) [OF v]] assms(2,3) by simp_all
  show ?thesis
  proof (cases e1)
    case (Some x)
    then show ?thesis using assms(1) False 1 k by (auto simp: patchMembers_def)
  next
    case None
    show ?thesis
    proof (cases "map_of resaall (CosName w)")
      case None
      then show ?thesis using assms(1) False 1 k \<open>e1 = None\<close> by (auto simp: patchMembers_def)
    next
      case (Some target)
      with assms(1) False 1 \<open>e1 = None\<close> p' obtain e3 s2 where
        "commitRes E target (CosName w) s1 = Ret (e3, s2)" "w' = w" "s' = s2"
        by (auto simp: patchMembers_def andThen_Ret_iff)
      with commitRes_keeps [OF \<open>commitRes E target (CosName w) s1 = Ret (e3, s2)\<close>] k show ?thesis by simp
    qed
  qed
qed

lemma patchMembers_store:
  assumes "patchMembers E p w s = Ret (e, w', s')"
  shows "store s' = store s \<and> dbOpen s' = dbOpen s \<and> ID w' = ID w"
proof (cases "CoreIDs p = CoreIDs w \<and> TaskIDs p = TaskIDs w")
  case True
  then show ?thesis using assms by (auto simp: patchMembers_def andThen_Ret_iff)
next
  case False
  with assms obtain resaall e1 p' s1 where 1: "resNow E s = Ret resaall" "Validate E p s = Ret (e1, p', s1)"
    by (auto simp: patchMembers_def andThen_Ret_iff)
  obtain e0 where v: "validate E p s = Ret (e0, p', s1)" using Validate_validate [OF 1(2)] by blast
  have k: "store s1 = store s" "dbOpen s1 = dbOpen s" using validate_keeps [OF v] by simp_all
  show ?thesis
  proof (cases "e1 = None \<and> map_of resaall (CosName w) \<noteq> None")
    case True
    then obtain target where t: "e1 = None" "map_of resaall (CosName w) = Some target" by auto
    define tw where "tw = (if 0 < length (TaskIDs p')
      then (target\<lparr>Tasks := Tasks target @ TaskIDs p'\<rparr>, w\<lparr>TaskIDs := TaskIDs p'\<rparr>) else (target, w))"
    obtain t1 w1 where tw1: "tw = (t1, w1)" by fastforce
    have w1: "ID w1 = ID w" using tw1 by (auto simp: tw_def split: if_split_asm)
    from assms False 1 t have "andThen (if 0 < length (CoreIDs p')
        then BitmapsCPUWrapper (ehost E) (ArgStrings (CoreIDs p')) else Ret (None, None)) (\<lambda>(bm, e2).
          case e2 of
            Some e' \<Rightarrow> Ret (Some (NewAppError [EInt StatusBadRequest,
                         EStr ''Failed to parse workload coreIDs.'', EErr e']), w1, s1)
          | None \<Rightarrow>
              andThen (if 0 < length (CoreIDs p')
                       then andThen (deref bm) (\<lambda>b. Ret (t1\<lparr>CPUs := ToString b\<rparr>, w1\<lparr>CoreIDs := CoreIDs p'\<rparr>))
                       else Ret (t1, w1)) (\<lambda>(t2, w2).
                andThen (commitRes E t2 (CosName w2) s1) (\<lambda>(e3, s2).
                  Ret (map_option (\<lambda>e'. NewAppError [EInt StatusInternalServerError,
                         EStr ''Error to commit resource group for workload.'', EErr e']) e3, w2, s2)))) = Ret (e, w', s')"
      unfolding patchMembers_def tw_def [symmetric] tw1 by (simp only: tw_def [symmetric] tw1 Let_def andThen.simps prod.case option.case if_False)
    then have "(\<exists>t2 w2 e3. commitRes E t2 (CosName w2) s1 = Ret (e3, s') \<and> w' = w2 \<and> ID w2 = ID w1) \<or> w' = w1 \<and> s' = s1"
      unfolding andThen_Ret_iff
      by (fastforce simp: andThen_Ret_iff split: option.split_asm if_split_asm)
    then show ?thesis using k w1 commitRes_keeps [of E _ _ s1 _ s'] by auto
  next
    case F: False
    then show ?thesis using assms False 1 k
      by (cases e1; cases "map_of resaall (CosName w)") (auto simp: patchMembers_def)
  qed
qed

lemma update_store:
  assumes "update E w p s = Ret (e, w', s')"
  shows "store s' = store s \<and> dbOpen s' = dbOpen s \<and> ID w' = ID w"
    "CoreIDs p = [] \<Longrightarrow> TaskIDs p = [] \<Longrightarrow> e = None \<Longrightarrow> same_members w w'"
proof -
  from assms obtain e1 w1 r s1 where 1: "(if length (Policy p) = 0 then patchParams E p w s
      else andThen (patchPolicy E p w) (\<lambda>(w', r). Ret (None, w', r, s))) = Ret (e1, w1, r, s1)"
    unfolding update_def andThen_Ret_iff by auto
  have m: "same_members w w1 \<and> store s1 = store s \<and> dbOpen s1 = dbOpen s"
  proof (cases "Policy p = []")
    case True
    then have "patchParams E p w s = Ret (e1, w1, r, s1)" using 1 by simp
    then show ?thesis by (rule patchParams_members)
  next
    case False
    with 1 have "patchPolicy E p w = Ret (w1, r)" "s1 = s" by (auto simp: andThen_Ret_iff)
    then show ?thesis
      by (auto simp: patchPolicy_def andThen_Ret_iff same_members_def split: if_split_asm
          dest!: fillWorkloadByPolicy_filled filled_members)
  qed
  from assms 1 have q: "(case e1 of Some _ \<Rightarrow> Ret (e1, w1, s1)
      | None \<Rightarrow> if r then reEnforce E p w1 s1 else patchMembers E p w1 s1) = Ret (e, w', s')"
    by (simp add: update_def)
  show "store s' = store s \<and> dbOpen s' = dbOpen s \<and> ID w' = ID w"
    using q m reEnforce_frame [of E p w1 s1 e w' s'] patchMembers_store [of E p w1 s1 e w' s']
    by (auto simp: same_members_def split: option.split_asm if_split_asm)
  assume "CoreIDs p = []" "TaskIDs p = []" "e = None"
  then show "same_members w w'"
    using q m reEnforce_frame [of E p w1 s1 e w' s'] patchMembers_frame [of E p w1 s1 e w' s']
    by (auto simp: same_members_def split: option.split_asm if_split_asm)
qed

text \<open>
  A patch leaves some of the rows, or changes the patched one to what \<open>update\<close> made of it.
\<close>

lemma Patch_effect:
  assumes "good_store R" "isolated R (store s)" "Patch R i p s = Ret (r, s')"
  shows "(\<forall>c u. r \<noteq> Entity c u) \<and> shrunk R (store s) (store s') \<or>
    (\<exists>w w' s1. row R (store s) i w \<and> Origin w = ''REST'' \<and>
       update R w (p\<lparr>ID := i\<rparr>) (dbContentValidation R s) = Ret (None, w', s1) \<and> ID w' = i \<and>
       one_row R w' (store (dbContentValidation R s)) (store s') \<and> r = Entity StatusOK (toUser w'))"
proof -
  obtain wl err where g: "workload_GetWorkloadByID R i s = (wl, err)" by fastforce
  note refl = shrunk_refl [OF assms(2)]
  show ?thesis
  proof (cases "ID wl \<noteq> [] \<and> err = None \<and> Origin wl = ''REST''")
    case False
    with assms(3) g have "s' = s \<and> (\<forall>c u. r \<noteq> Entity c u)"
      by (auto simp: Patch_def notFound_def split: if_split_asm)
    with refl show ?thesis by simp
  next
    case True
    then have op: "dbOpen s" and row: "row R (store s) i wl"
      using g by (auto simp: workload_GetWorkloadByID_def row_def split: if_split_asm prod.split_asm option.split_asm)
    have idw: "ID wl = i" using row assms(2) by (simp add: isolated_def keyed_rows)
    let ?p = "p\<lparr>ID := i\<rparr>" and ?s0 = "dbContentValidation R s"
    obtain e w' s2 where u0: "Update R wl ?p s = Ret (e, w', s2)"
      using assms(3) g True by (cases "Update R wl ?p s") (auto simp: Patch_def)
    with assms(3) g True have s2: "s2 = s'"
      and r: "(e = None \<longrightarrow> r = Entity StatusOK (toUser w')) \<and> (\<forall>c u. e \<noteq> None \<longrightarrow> r \<noteq> Entity c u)"
      by (cases e; auto simp: Patch_def)+
    note u = u0 [unfolded s2]
    from u obtain e1 w1 s1 where 1: "update R wl ?p ?s0 = Ret (e1, w1, s1)"
      unfolding Update_def andThen_Ret_iff by auto
    note us = update_store(1) [OF 1]
    note cl = cleanUp_shrunk [OF assms(1,2)]
    have h: "hasTables (ebolt R) (store s1)" using cl us by (simp add: shrunk_def)
    note st = bolt_db.store [OF good_db [OF assms(1)]]
    obtain e2 b where b: "UpdateWorkload (ecodec R) (ebolt R) w1 (store s1) = (e2, b)" by fastforce
    show ?thesis
    proof (cases "e1 = None \<and> e2 = None")
      case True
      note ok = workload_store.update_ok [OF st h b [unfolded conjunct2 [OF True]]]
      have "dbOpen s1" using us cl op by simp
      then have "e = None" "w' = w1" "store s' = b" using u 1 True b by (auto simp: Update_def updateInDB_def)
      moreover have "one_row R w1 (store ?s0) b" using ok us by (simp add: one_row_def row_def)
      ultimately show ?thesis using r row 1 True us idw \<open>ID wl \<noteq> [] \<and> err = None \<and> Origin wl = ''REST''\<close> by auto
    next
      case False
      then have "e \<noteq> None \<and> store s' = store ?s0"
        using u 1 us b workload_store.update_fail [OF st h]
        by (cases e1; cases e2) (auto simp: Update_def updateInDB_def split: if_split_asm)
      then show ?thesis using r cl by simp
    qed
  qed
qed

lemma Patch_isolated:
  assumes "good_store R" "isolated R (store s)" "CoreIDs p = []" "TaskIDs p = []" "Patch R i p s = Ret (r, s')"
  shows "isolated R (store s')"
  using Patch_effect [OF assms(1,2,5)]
proof (elim disjE conjE exE)
  assume "shrunk R (store s) (store s')"
  then show ?thesis by (rule isolated_shrunk [OF assms(2)])
next
  fix w w' s1
  assume a: "row R (store s) i w" "update R w (p\<lparr>ID := i\<rparr>) (dbContentValidation R s) = Ret (None, w', s1)" "ID w' = i"
    "one_row R w' (store (dbContentValidation R s)) (store s')"
  have m: "same_members w w'" using update_store(2) [OF a(2)] assms(3,4) by simp
  have c: "shrunk R (store s) (store (dbContentValidation R s))" using cleanUp_shrunk [OF assms(1,2)] by simp
  show ?thesis
  proof (rule isolated_one_row [OF isolated_shrunk [OF assms(2) c] a(4)])
    show "plain (CoreIDs w')" using assms(2) a(1) m by (auto simp: isolated_def same_members_def)
    have "apart w v" if "row R (store s) j v" "j \<noteq> i" for j v
      using assms(2) a(1) that unfolding isolated_def by metis
    then show "\<forall>j v. row R (store (dbContentValidation R s)) j v \<longrightarrow> j \<noteq> ID w' \<longrightarrow> apart w' v"
      using c m a(3) by (auto simp: shrunk_def same_members_def apart_def)
  qed
qed

end
