(* ===== verification/Server.thy ===== *)
theory Server
  imports Isolation
begin

text \<open>
  The running server as one machine: a request to create, patch or delete a workload, a notification
  and the periodic clean-up are its events. In every state it reaches no two stored workloads share a
  task or a core, as long as the patches name no members; a patch that changes the policy and names
  members is not checked against the other workloads.
\<close>

section \<open>Events\<close>

datatype event =
    Post "UserRDTWorkLoad with_err" | PatchBy string RDTWorkLoad | DeleteBy string | Notify string | CleanUp

definition onRmd :: "'b os_state \<Rightarrow> ('r \<times> 'b rmd) outcome \<Rightarrow> 'b os_state outcome" where
  "onRmd s x = andThen x (\<lambda>(_, r). Ret (s\<lparr>rmdS := r\<rparr>))"

fun serve :: "'b os_env \<Rightarrow> event \<Rightarrow> 'b os_state \<Rightarrow> 'b os_state outcome" where
  "serve E (Post body) s = onRmd s (NewWorkload (rmdE E) body (rmdS s))"
| "serve E (PatchBy i p) s = onRmd s (Patch (rmdE E) i p (rmdS s))"
| "serve E (DeleteBy i) s = onRmd s (DeleteByID (rmdE E) i (rmdS s))"
| "serve E (Notify body) s = handleDelivery E s body"
| "serve E CleanUp s = Ret (s\<lparr>rmdS := dbContentValidation (rmdE E) (rmdS s)\<rparr>)"

text \<open>Requests that list cores in the documented syntax, and patches of parameters only.\<close>

fun decent :: "event \<Rightarrow> bool" where
  "decent (Post body) = plain (userCoreIDs (fst body))"
| "decent (PatchBy i p) = (CoreIDs p = [] \<and> TaskIDs p = [])"
| "decent _ = True"

inductive served :: "'b os_env \<Rightarrow> 'b os_state \<Rightarrow> 'b os_state \<Rightarrow> bool" for E s0 where
  start: "served E s0 s0"
| event: "served E s0 s \<Longrightarrow> decent ev \<Longrightarrow> serve E ev s = Ret s' \<Longrightarrow> served E s0 s'"

section \<open>Notifications\<close>

lemma fieldsLoop_length: "w \<in> set (fieldsLoop acc s) \<Longrightarrow> length w \<le> length acc + length s"
  by (induction acc s rule: fieldsLoop.induct) (auto split: if_split_asm)

lemma bitNames_plain: "n < 2 ^ 59 \<Longrightarrow> plain (bitNames n v)"
  unfolding bitNames_def by (rule plain_numerals) auto

text \<open>What a command prints fits into memory.\<close>

definition short_answers :: "'b os_env \<Rightarrow> bool" where
  "short_answers E \<longleftrightarrow> (\<forall>h c out. commands E h c = Inl out \<longrightarrow> length out < 2 ^ 59)"

lemma getPIDTaskSet_plain:
  assumes "short_answers E" "getPIDTaskSet (commands E) pid h = Ret ((tset, None), h')"
  shows "plain tset"
proof -
  from assms(2) obtain out h1 where o: "commands E h [''taskset'', ''-p'', pid] = Inl out"
    by (auto simp: getPIDTaskSet_def extcall_def split: sum.split_asm)
  with assms(2) obtain w where w: "go_index (Fields out) (int (length (Fields out)) - 1) = Ret w"
    "tset = [] \<or> parseTasksetMask (ToLower w) = Ret tset"
    by (auto simp: getPIDTaskSet_def extcall_def Let_def andThen_Ret_iff split: if_split_asm)
  from w(1) have "w \<in> set (Fields out)" by (auto simp: go_index_def nat_less_iff split: if_split_asm intro!: nth_mem)
  then have l: "length (ToLower w) < 2 ^ 59"
    using fieldsLoop_length [of w "[]" out] o assms(1) by (force simp: Fields_def ToLower_def short_answers_def)
  show ?thesis
  proof (cases "tset = []")
    case False
    with w(2) have m: "ToLower w \<noteq> []" "parseTasksetMask (ToLower w) = Ret tset"
      by (simp_all add: parseTasksetMask_def split: if_split_asm)
    from parseTasksetMask_spec [OF m(1)] m(2) have "tset = [] \<or> (\<exists>v. tset = bitNames (length (ToLower w)) v)"
      by (auto split: prod.split_asm option.split_asm)
    then show ?thesis using bitNames_plain [OF l] by auto
  qed simp
qed

lemma processCreate_isolated:
  assumes "short_answers E" "good_store (rmdE E)" "isolated (rmdE E) (store (rmdS s))"
    "processCreateNotification E n s = Ret s'"
  shows "isolated (rmdE E) (store (rmdS s'))"
  using assms(4)
proof (cases rule: processCreate_cases)
  case (launch pid h1 h2 tset w s3)
  have "plain tset" by (rule getPIDTaskSet_plain [OF assms(1) launch(4)])
  then show ?thesis using launch_isolated [OF assms(2) _ _ launch(5)] assms(3) launch(3) by simp
qed (use assms(3) in simp)

lemma processDelete_isolated:
  assumes "good_store (rmdE E)" "isolated (rmdE E) (store (rmdS s))" "processDeleteNotification E n s = Ret s'"
  shows "isolated (rmdE E) (store (rmdS s'))"
proof -
  let ?R = "rmdE E"
  obtain w e where g: "GetByUUID ?R (InstanceID (Payload n)) (rmdS s) = (w, e)" by fastforce
  show ?thesis
  proof (cases "InstanceID (Payload n) \<noteq> [] \<and> e = None \<and> Origin w = ''OPENSTACK''")
    case True
    with assms(3) g obtain e1 r1 where r: "Release ?R w (rmdS s) = Ret (e1, r1)"
      by (auto simp: processDeleteNotification_def andThen_Ret_iff)
    have i: "isolated ?R (store r1)" using Release_effects [OF r, unfolded released_def] assms(2) by simp
    have "rmdS s' = r1 \<or> rmdS s' = snd (Delete ?R w r1)"
      using assms(3) g True r by (cases e1) (auto simp: processDeleteNotification_def)
    then show ?thesis using i isolated_shrunk [OF i Delete_shrunk [OF assms(1) i]] by auto
  next
    case False
    with assms(3) g have "s' = s" by (cases e) (auto simp: processDeleteNotification_def split: if_split_asm)
    then show ?thesis using assms(2) by simp
  qed
qed

lemma handleDelivery_isolated:
  assumes "short_answers E" "good_store (rmdE E)" "isolated (rmdE E) (store (rmdS s))" "handleDelivery E s body = Ret s'"
  shows "isolated (rmdE E) (store (rmdS s'))"
  using assms(3,4) processCreate_isolated [OF assms(1-3)] processDelete_isolated [OF assms(2,3)]
  by (auto simp: handleDelivery_def handleNovaNotification_def handleVersionedNotification_def
      handleUnversionedNotification_def split: if_split_asm prod.split_asm option.split_asm)

section \<open>The invariant\<close>

lemma DeleteByID_isolated:
  assumes "good_store R" "isolated R (store s)" "DeleteByID R i s = Ret (r, s')"
  shows "isolated R (store s')"
proof -
  obtain wl err where g: "workload_GetWorkloadByID R i s = (wl, err)" by fastforce
  show ?thesis
  proof (cases "ID wl \<noteq> [] \<and> err = None \<and> Origin wl = ''REST''")
    case True
    obtain e1 s1 where r1: "Release R wl s = Ret (e1, s1)"
      using assms(3) g True by (cases "Release R wl s") (auto simp: DeleteByID_def)
    have i: "isolated R (store s1)" using Release_effects [OF r1, unfolded released_def] assms(2) by simp
    have "s' = s1 \<or> s' = snd (Delete R wl s1)"
      using assms(3) g True r1 by (cases e1) (auto simp: DeleteByID_def split: prod.split_asm option.split_asm)
    then show ?thesis using i isolated_shrunk [OF i Delete_shrunk [OF assms(1) i]] by auto
  next
    case False
    with assms(2,3) g show ?thesis by (cases err) (auto simp: DeleteByID_def split: if_split_asm)
  qed
qed

lemma onRmd_Ret: "onRmd s x = Ret s' \<longleftrightarrow> (\<exists>a r. x = Ret (a, r) \<and> s' = s\<lparr>rmdS := r\<rparr>)"
  by (auto simp: onRmd_def andThen_Ret_iff)

lemma serve_isolated:
  assumes "short_answers E" "good_store (rmdE E)" "isolated (rmdE E) (store (rmdS s))" "decent ev" "serve E ev s = Ret s'"
  shows "isolated (rmdE E) (store (rmdS s'))"
proof (cases ev)
  case (Post body)
  with assms(5) obtain a r where "NewWorkload (rmdE E) (fst body, snd body) (rmdS s) = Ret (a, r)" "s' = s\<lparr>rmdS := r\<rparr>"
    by (auto simp: onRmd_Ret)
  then show ?thesis using NewWorkload_isolated [OF assms(2,3), of "fst body" "snd body" a r] assms(4) Post by simp
next
  case (PatchBy i p)
  with assms(5) obtain a r where "Patch (rmdE E) i p (rmdS s) = Ret (a, r)" "s' = s\<lparr>rmdS := r\<rparr>"
    by (auto simp: onRmd_Ret)
  then show ?thesis using Patch_isolated [OF assms(2,3), of p i a r] assms(4) PatchBy by simp
next
  case (DeleteBy i)
  with assms(5) obtain a r where "DeleteByID (rmdE E) i (rmdS s) = Ret (a, r)" "s' = s\<lparr>rmdS := r\<rparr>"
    by (auto simp: onRmd_Ret)
  then show ?thesis using DeleteByID_isolated [OF assms(2,3), of i a r] by simp
next
  case (Notify body)
  then show ?thesis using handleDelivery_isolated [OF assms(1-3)] assms(5) by simp
next
  case CleanUp
  then show ?thesis using isolated_shrunk [OF assms(3)] cleanUp_shrunk [OF assms(2,3)] assms(5) by auto
qed

lemma served_isolated:
  assumes "short_answers E" "good_store (rmdE E)" "isolated (rmdE E) (store (rmdS s0))"
  shows "served E s0 s \<Longrightarrow> isolated (rmdE E) (store (rmdS s))"
proof (induction rule: served.induct)
  case (event s ev s')
  then show ?case using serve_isolated [OF assms(1,2)] by blast
qed (rule assms(3))

section \<open>A patch of members that is not checked\<close>

text \<open>
  When the patch changes a parameter, the new cores and tasks are taken as they are; the check against
  the other workloads belongs to the branch without a new enforcement.
\<close>

definition changesParams :: "RDTWorkLoad \<Rightarrow> RDTWorkLoad \<Rightarrow> bool" where
  "changesParams p w \<longleftrightarrow>
     (if Policy p \<noteq> [] then Policy p \<noteq> Policy w
      else Policy w = [] \<and> (cacheMax p \<notin> {None, cacheMax w} \<or> cacheMin p \<notin> {None, cacheMin w} \<or>
        (\<exists>(m, ps) \<in> set (gm_items (Plugins p)). m \<noteq> ''cache'' \<and> \<not> sameParams (gm_get (Plugins w) m) ps)))"

lemma patchPlugins_keeps: "patchPlugins E w items True = (None, r') \<Longrightarrow> r'"
  by (induction items) (auto split: if_split_asm option.split_asm prod.split_asm)

lemma patchPlugins_again:
  "patchPlugins E w items r = (None, r') \<Longrightarrow>
   r \<or> (\<exists>(m, ps) \<in> set items. m \<noteq> ''cache'' \<and> \<not> sameParams (gm_get (Plugins w) m) ps) \<Longrightarrow> r'"
proof (induction items arbitrary: r)
  case (Cons i items)
  show ?case
  proof (cases "fst i = ''cache'' \<or> sameParams (gm_get (Plugins w) (fst i)) (snd i)")
    case True
    then show ?thesis using Cons by (cases i) auto
  next
    case False
    then have "patchPlugins E w items True = (None, r')"
      using Cons.prems(1) by (cases i) (auto split: option.split_asm prod.split_asm)
    then show ?thesis by (rule patchPlugins_keeps)
  qed
qed simp

lemma patchCache_again:
  "patchCache p w = (w', r) \<Longrightarrow>
   Plugins w' = Plugins w \<and> (r \<longleftrightarrow> cacheMax p \<notin> {None, cacheMax w} \<or> cacheMin p \<notin> {None, cacheMin w})"
  by (auto simp: patchCache_def split: option.split_asm)

lemma patchMba_again:
  "patchPercentage p w r s = (e, w', r', s') \<Longrightarrow> Plugins w' = Plugins w \<and> (r \<longrightarrow> r')"
  "patchMbps p w r s = (e, w', r', s') \<Longrightarrow> Plugins w' = Plugins w \<and> (r \<longrightarrow> r')"
  by (auto simp: patchPercentage_def patchMbps_def split: option.split_asm if_split_asm)

lemma patchParams_again:
  assumes "patchParams E p w s = Ret (None, w', r, s')" "Policy w = []"
    "cacheMax p \<notin> {None, cacheMax w} \<or> cacheMin p \<notin> {None, cacheMin w} \<or>
     (\<exists>(m, ps) \<in> set (gm_items (Plugins p)). m \<noteq> ''cache'' \<and> \<not> sameParams (gm_get (Plugins w) m) ps)"
  shows r
  using assms(1)
proof (cases rule: patchParams_steps)
  case (1 w1 w2 r2 e3 w3 r3 s3 e4 w4 r4 s4)
  have "patchPlugins E w4 (gm_items (Plugins p)) r4 = (None, r)"
    using 1(5) by (auto split: option.split_asm prod.split_asm)
  moreover have "w1 = w" using 1(1) assms(2) by simp
  ultimately show r
    using patchPlugins_again [of E w4 _ r4 r] patchMba_again(1) [OF 1(3)] patchMba_again(2) [OF 1(4)]
      patchCache_again [OF 1(2)] assms(3) by auto
qed

lemma update_takes_members:
  assumes "update R w p s = Ret (None, w', s')" "changesParams p w"
  shows "CoreIDs w' = (if CoreIDs p = [] then CoreIDs w else CoreIDs p) \<and>
    TaskIDs w' = (if TaskIDs p = [] then TaskIDs w else TaskIDs p)"
proof -
  from assms(1) obtain w1 r s1 where 1: "(if length (Policy p) = 0 then patchParams R p w s
      else andThen (patchPolicy R p w) (\<lambda>(w', r). Ret (None, w', r, s))) = Ret (None, w1, r, s1)"
    "(if r then reEnforce R p w1 s1 else patchMembers R p w1 s1) = Ret (None, w', s')"
    unfolding update_def andThen_Ret_iff by (auto split: option.split_asm)
  have "r \<and> same_members w w1"
  proof (cases "Policy p = []")
    case True
    then have pp: "patchParams R p w s = Ret (None, w1, r, s1)" using 1(1) by simp
    show ?thesis
      using patchParams_members [OF pp] patchParams_again [OF pp] assms(2) True by (auto simp: changesParams_def)
  next
    case False
    with 1(1) have "patchPolicy R p w = Ret (w1, r)" by (auto simp: andThen_Ret_iff)
    then show ?thesis using assms(2) False
      by (auto simp: changesParams_def patchPolicy_def andThen_Ret_iff same_members_def
          dest!: fillWorkloadByPolicy_filled filled_members)
  qed
  with 1(2) reEnforce_frame [of R p w1 s1 None w' s'] show ?thesis by (simp add: same_members_def)
qed

lemma Patch_takes_members:
  assumes "good_store R" "isolated R (store s)" "row R (store s) i w" "changesParams p w"
    "Patch R i p s = Ret (Entity c u, s')"
  shows "\<exists>w'. row R (store s') i w' \<and>
    CoreIDs w' = (if CoreIDs p = [] then CoreIDs w else CoreIDs p) \<and>
    TaskIDs w' = (if TaskIDs p = [] then TaskIDs w else TaskIDs p)"
proof -
  from Patch_effect [OF assms(1,2,5)] obtain w0 w' s1 where a: "row R (store s) i w0"
    "update R w0 (p\<lparr>ID := i\<rparr>) (dbContentValidation R s) = Ret (None, w', s1)" "ID w' = i"
    "one_row R w' (store (dbContentValidation R s)) (store s')" by blast
  have "w0 = w" using row_fun [OF assms(3) a(1)] .
  moreover have "changesParams (p\<lparr>ID := i\<rparr>) w = changesParams p w" by (simp add: changesParams_def)
  ultimately show ?thesis using update_takes_members [OF a(2)] a(3,4) assms(4)
    by (intro exI [of _ w']) (simp add: one_row_def)
qed

end
