(* ===== verification/Spec2Isabelle.thy ===== *)
theory Spec2Isabelle
  imports Bitmap_Runs Bitmap_Hex Util Task Resctrl_Laws Pqos_Laws Db_Laws Host_Laws Cache_Laws Hospitality_Laws
    Workload_Ops_Laws Enforce_Laws Demo Nova_Laws Auth_Laws Pam Boot_Laws SamplePlugin GenConf MainProcess Server
begin

text \<open>
  A model of the resource management daemon RMD (\<^verbatim>\<open>github.com/intel/rmd\<close>), with the theorems that make
  it correct. RMD manages cache ways and memory bandwidth of a host: a REST server accepts workloads (tasks
  and cores with the ways they want), chooses a class of service and ways of the last-level cache for each,
  programs them through the PQoS library in a privileged process, hands plugin parameters to loaded
  modules, and keeps the workloads in a key-value store.

  \<^bold>\<open>Reading the model.\<close> A Go function is one definition with the name of the source (a suffix or a
  prefix like \<open>bm_\<close> where the name is taken). A run-time panic is the value \<open>Panic\<close> of
  the type \<open>outcome\<close>, an \<^verbatim>\<open>error\<close> result is an option or a pair with one; an early
  return is a branch. Machine integers are words where the width matters, texts are lists of characters, a
  Go map is the list of its entries in the order of iteration (\<open>gomap\<close> adds the nil map), a
  pointer is an option. Package variables are fields of explicit state records. The handlers of the
  server run under one lock, so an operation is one step of the state. What is not under
  \<^verbatim>\<open>src/\<close> is an argument of the definitions that use it: the operating system
  (\<open>os\<close>, \<open>host\<close>), the PQoS library (\<open>pqos_env\<close>), the key-value store
  and the JSON codec (\<open>bolt\<close>, \<open>codec\<close>), the plugins (\<open>pluginEnv\<close>), the
  configuration library (\<open>policyEnv\<close>). The documented behaviour the theorems need of the store
  and the codec is the locale \<open>bolt_contract\<close> and the predicate \<open>codec_roundtrip\<close>;
  an in-memory store shows that they can hold.

  \<^bold>\<open>The theories\<close>, in the order of the calls:
  \<^item> \<open>Prelude\<close>: panics, errors, slices, maps, \<^verbatim>\<open>strconv\<close> and
    \<^verbatim>\<open>strings\<close>, with their laws.
  \<^item> \<open>Bitmap\<close> (\<^verbatim>\<open>utils/bitmap/bitmap.go\<close>); its laws are in \<open>Bitmap_Sets\<close> (bit maps
    are sets of positions; the locale of set operations), \<open>Bitmap_Text\<close> (binary texts),
    \<open>Bitmap_Parse\<close> (human-style lists), \<open>Bitmap_Hex\<close> (hexadecimal masks) and
    \<open>Bitmap_Runs\<close> (runs of ones).
  \<^item> \<open>Util\<close> (\<^verbatim>\<open>utils/util.go\<close>, \<^verbatim>\<open>bitmaputil.go\<close>), \<open>Task\<close>
    (\<^verbatim>\<open>utils/task\<close>: task lists with roll back).
  \<^item> \<open>Resctrl\<close>, \<open>Resctrl_Laws\<close> (\<^verbatim>\<open>utils/resctrl\<close>): reading the groups of
    the kernel and writing a group as a transaction.
  \<^item> \<open>Pqos\<close>, \<open>Pqos_Laws\<close> (\<^verbatim>\<open>utils/pqos\<close>): the pool of classes as a step
    relation \<open>pool_step\<close> with its reachable states, and the calls into the library.
  \<^item> \<open>Types\<close>, \<open>Db\<close>, \<open>Db_Laws\<close> (\<^verbatim>\<open>internal/error\<close>,
    \<^verbatim>\<open>workload/types\<close>, \<^verbatim>\<open>internal/db\<close>): the stored workloads; the locale
    \<open>workload_store\<close> is what the modules above rely on.
  \<^item> \<open>Host\<close>, \<open>Host_Laws\<close>, \<open>Policy\<close>, \<open>Proxy\<close>
    (\<^verbatim>\<open>utils/cpu\<close>, \<^verbatim>\<open>utils/proc\<close>, \<^verbatim>\<open>modules/mba\<close>,
    \<^verbatim>\<open>modules/policy\<close>, \<^verbatim>\<open>internal/proxy\<close>).
  \<^item> \<open>Cache\<close>, \<open>Cache_Laws\<close>, \<open>CacheInfo\<close> (\<^verbatim>\<open>modules/cache\<close>):
    pools, available ways, start-up groups, what the REST interface shows.
  \<^item> \<open>Hospitality\<close>, \<open>Hospitality_Laws\<close> (\<^verbatim>\<open>modules/hospitality\<close>),
    \<open>Plugins\<close> (\<^verbatim>\<open>internal/plugins\<close>).
  \<^item> \<open>Inventory\<close> (\<^verbatim>\<open>internal/inventory\<close>, \<^verbatim>\<open>openstack/providercfg.go\<close>):
    what the host can do and the file Nova reads. \<open>Taskset\<close> (\<^verbatim>\<open>openstack/util.go\<close>):
    the cores of an instance.
  \<^item> \<open>Openstack\<close>, \<open>Nova\<close>, \<open>Nova_Laws\<close>
    (\<^verbatim>\<open>internal/openstack\<close>): the HTTP client with its token and catalogue, the message
    queue, the handling of notifications and the abstract machine \<open>os_change\<close> it refines.
  \<^item> \<open>Auth\<close>, \<open>Auth_Laws\<close> (\<^verbatim>\<open>utils/acl\<close>, \<^verbatim>\<open>utils/tls\<close>,
    \<^verbatim>\<open>utils/auth\<close>): the filters in front of the handlers and who passes them;
    \<open>Pam\<close> (\<^verbatim>\<open>internal/pam\<close>): transactions and the registry of callbacks.
  \<^item> \<open>Boot\<close>, \<open>Boot_Laws\<close>, \<open>Launch\<close>, \<open>MainProcess\<close>
    (\<^verbatim>\<open>cmd/rmd\<close>, \<^verbatim>\<open>utils/bootcheck\<close>, \<^verbatim>\<open>utils/flock\<close>,
    \<^verbatim>\<open>utils/pidfile\<close>, \<^verbatim>\<open>plugins/loader.go\<close>): locks, plugins, the sanity check, the
    server that is put together, the privileged process that starts it, and the main program of both.
  \<^item> \<open>GenConf\<close> (\<^verbatim>\<open>cmd/gen_conf\<close>): the generator of the configuration file.
  \<^item> \<open>SamplePlugin\<close> (\<^verbatim>\<open>external/sampleplugin\<close>): a module, as an instance of the
    plugin environment.
  \<^item> \<open>Workload\<close>, \<open>WorkloadOps\<close> (\<^verbatim>\<open>modules/workload\<close>): validation,
    enforcement and release; the stored workloads and the REST handlers. \<open>Workload_Laws\<close>,
    \<open>Enforce_Laws\<close> and \<open>Workload_Ops_Laws\<close> follow classes, ways and records through
    them.
  \<^item> \<open>Isolation\<close>, \<open>Server\<close>: the running server as a machine whose events are requests,
    notifications and clean-ups (\<open>served\<close>), with the invariant that stored workloads share no task and
    no core.
  \<^item> \<open>Demo\<close>: one machine and one running server, on which the general theorems are exercised.

  \<^bold>\<open>What is shown.\<close> Bit maps: the operations are set operations, parsing and printing are
  inverse, the searches return the lowest, highest and longest runs. Classes: no class is handed out
  twice, none is lost by clients that keep the protocol, programming a class names no other class. Files:
  a task flow writes its group completely or takes it back, and touches nothing else. Store: created
  workloads are read back, failures change nothing, accepted workloads overlap no stored one. Cache: the
  pools are disjoint blocks below the mask; the available ways are those no group holds; a request gets the
  highest free window of its pool on every cache it asks for, or is refused; hospitality scores agree with
  it. Workloads: no two stored workloads ever share a task or a core as long as patches name no members,
  and a patch that changes a parameter and names some can break this; what was posted is what a later
  request reads; enforcing and releasing keep the pool
  consistent; a failed enforcement loses the class it took; a patch of members alone is always refused; plugins
  are told the cores of the bit map. Access: a request is handed on exactly when its credentials or its
  certificate are accepted and the list of rights allows it, but a list that cannot be loaded allows
  everything. Notifications only add enforced workloads of instances and remove workloads of their own
  origin.

  \<^bold>\<open>Bounds.\<close> CPU lists are parsed for lengths up to \<open>2 ^ 63\<close>, class numbers are below
  \<open>2 ^ 63\<close>, way masks have at most 32 positions, scores need maps of less than \<open>2 ^ 24\<close>
  positions. No definition needs fuel: the loops of the sources run over finite lists or texts that get
  shorter. The one loop that may run for ever, waiting for a lock with a negative timeout, is a
  \<open>partial_function\<close>; with a positive timeout it is shown to end.

  \<^bold>\<open>Not modelled.\<close> The C wrapper around the PQoS library (C code), the MongoDB back end
  (\<open>NewDB\<close> refuses it), the declarations of flags and the reading of the configuration (calls into pflag,
  viper and logrus), the pipes and signals between the two processes and the gob encoding on them. HTTP, AMQP, casbin, x509, the PAM library, the plugin loader of Go and JSON
  parsing are parameters. Error texts keep their format strings; the
  numbers and texts formatted into them are kept where another function reads them.
\<close>

section \<open>Bit maps\<close>

definition demoMap :: bitmap where
  "demoMap = \<lparr>Len = 11, Bits = [0x6F6]\<rparr>"

lemma demoMap_wf: "bm_wf demoMap" "Len demoMap = 11"
  unfolding demoMap_def by (rule bm_wf_one; simp) simp

lemma demoMap_set: "bm_set demoMap = {1, 2, 4, 5, 6, 7, 9, 10}"
proof -
  have "bm_set demoMap \<subseteq> {..<11}" using bm_wfD(4) [OF demoMap_wf(1)] demoMap_wf(2) by simp
  moreover have "bm_set demoMap = {n. bit (0x6F6 :: 64 word) n}"
    unfolding demoMap_def by (rule bm_wf_one(2)) simp_all
  ultimately have "bm_set demoMap = Set.filter (bit (0x6F6 :: 64 word)) {..<11}" by auto
  also have "\<dots> = {1, 2, 4, 5, 6, 7, 9, 10}" by code_simp
  finally show ?thesis .
qed

text \<open>
  (C18) The four operations on bit maps are the operations on sets of positions: on well-formed
  arguments of any two lengths none of them panics, each result is well-formed again and has the stated
  length, \<open>Or\<close> is the union, \<open>And\<close> the intersection, \<open>Xor\<close> the symmetric
  difference and \<open>Axor\<close> the difference, and \<open>IsEmpty\<close> tells the empty set.
\<close>

theorem bitmap_operations:
  assumes "bm_wf b" "bm_wf m"
  shows "(\<exists>r. bm_Or b m = Ret r \<and> bm_wf r \<and> Len r = max (Len b) (Len m) \<and> bm_set r = bm_set b \<union> bm_set m) \<and>
    (\<exists>r. bm_And b m = Ret r \<and> bm_wf r \<and> Len r = min (Len b) (Len m) \<and> bm_set r = bm_set b \<inter> bm_set m) \<and>
    (\<exists>r. bm_Xor b m = Ret r \<and> bm_wf r \<and> Len r = max (Len b) (Len m) \<and>
       bm_set r = (bm_set b - bm_set m) \<union> (bm_set m - bm_set b)) \<and>
    (\<exists>r. bm_Axor b m = Ret r \<and> bm_wf r \<and> Len r = Len b \<and> bm_set r = bm_set b - bm_set m) \<and>
    (IsEmpty b \<longleftrightarrow> bm_set b = {})"
  using bms.union_spec [OF assms] bms.inter_spec [OF assms] bm_Xor_spec [OF assms] bms.diff_spec [OF assms]
    bms.is_empty_spec [OF assms(1)]
  by blast

theorem bitmap_operations_witness:
  "(\<exists>r. bm_And demoMap demoMap = Ret r \<and> bm_set r = {1, 2, 4, 5, 6, 7, 9, 10}) \<and> \<not> IsEmpty demoMap"
  using bitmap_operations [OF demoMap_wf(1) demoMap_wf(1)] demoMap_set by auto

text \<open>
  (C17) A list of human-style texts such as \<^verbatim>\<open>{"2-8,^3-4", "56-87,^86"}\<close> whose positions are
  below the length denotes the left-to-right effect of its items: a position or span is added, a caret
  removes it, spans across the 32-bit chunks included. \<open>NewBitmap\<close> returns exactly that set,
  without error and without panic.
\<close>

theorem NewBitmap_denotes:
  assumes "0 < len" "len \<le> 2 ^ 63" "\<forall>its \<in> set itss. its \<noteq> [] \<and> (\<forall>it \<in> set its. item_ok len it)"
  shows "\<exists>b. NewBitmap [ArgInt len, ArgStrings (map items_text itss)] = Ret (b, None) \<and> bm_wf b \<and>
     Len b = len \<and> bm_set b = foldl item_apply {} (concat itss)"
  by (rule NewBitmap_items [OF assms])

theorem NewBitmap_denotes_witness:
  "items_text [Span True 2 8, Span False 3 4] = ''2-8,^3-4'' \<and>
   (\<exists>b. NewBitmap [ArgInt 88, ArgStrings [''2-8,^3-4'']] = Ret (b, None) \<and> bm_set b = {2, 5, 6, 7, 8})"
proof -
  have t: "items_text [Span True 2 8, Span False 3 4] = ''2-8,^3-4''" by code_simp
  have "foldl item_apply {} [Span True 2 8, Span False 3 4] = {2, 5, 6, 7, 8 :: nat}"
    by (auto simp: item_apply_def)
  with t show ?thesis
    using NewBitmap_denotes [of 88 "[[Span True 2 8, Span False 3 4]]"] by auto
qed

text \<open>
  (C33) A mask printed in hexadecimal by \<open>ToString\<close>, as it is written to the resctrl files, is
  parsed back to the very same bit map.
\<close>

theorem hex_roundtrip:
  assumes "bm_wf b" "0 < Len b"
  shows "NewBitmap [ArgInt (Len b), ArgString (ToString b)] = Ret (b, None)"
  by (rule ToString_parses_back [OF assms])

theorem hex_roundtrip_witness:
  "ToString demoMap = ''6f6'' \<and> NewBitmap [ArgInt 11, ArgString ''6f6''] = Ret (demoMap, None)"
proof -
  have "ToString demoMap = ''6f6''" by code_simp
  with hex_roundtrip [OF demoMap_wf(1)] demoMap_wf(2) show ?thesis by simp
qed

text \<open>
  (C34) A non-empty bit map printed as a human-style list of positions and spans by
  \<open>ToHumanString\<close> is parsed back to the very same bit map.
\<close>

theorem human_roundtrip:
  assumes "bm_wf b" "0 < Len b" "Len b \<le> 2 ^ 63" "bm_set b \<noteq> {}"
  shows "\<exists>h. ToHumanString b = Ret h \<and> NewBitmap [ArgInt (Len b), ArgStrings [h]] = Ret (b, None)"
  by (rule ToHumanString_parses_back [OF assms])

theorem human_roundtrip_witness:
  "ToHumanString demoMap = Ret ''1-2,4-7,9-10'' \<and>
   NewBitmap [ArgInt 11, ArgStrings [''1-2,4-7,9-10'']] = Ret (demoMap, None)"
proof -
  have "ToHumanString demoMap = Ret ''1-2,4-7,9-10''" by code_simp
  with human_roundtrip [OF demoMap_wf(1)] demoMap_wf(2) demoMap_set show ?thesis by simp
qed

text \<open>
  (C20) \<open>GetConnectiveBits\<close> from the low end returns the lowest run of the requested number of
  set positions at or above the offset, and the empty map exactly when there is none. The offset and
  the number of ways are 32-bit words whose sum must not wrap around.
\<close>

theorem connective_from_low:
  assumes "bm_wf b" "0 < Len b" "Len b < 2 ^ 32" "0 < ways" "unat offset + unat ways < 2 ^ 32"
  shows "\<exists>r. GetConnectiveBits b ways offset True = Ret r \<and> bm_wf r \<and> Len r = Len b \<and>
    (if \<exists>s \<ge> unat offset. window (bm_set b) s (unat ways)
     then \<exists>s \<ge> unat offset. window (bm_set b) s (unat ways) \<and> bm_set r = {s..<s + unat ways} \<and>
            (\<forall>s' \<ge> unat offset. window (bm_set b) s' (unat ways) \<longrightarrow> s \<le> s')
     else bm_set r = {})"
  by (rule GetConnectiveBits_fromLow [OF assms])

theorem connective_from_low_witness:
  "\<exists>r s. GetConnectiveBits demoMap 3 0 True = Ret r \<and> bm_set r = {s..<s + 3} \<and> s \<le> 4"
proof -
  have "window (bm_set demoMap) 4 3" by (auto simp: window_def demoMap_set)
  then show ?thesis
    using connective_from_low [OF demoMap_wf(1), of 3 0] demoMap_wf(2) by (auto split: if_split_asm)
qed

text \<open>
  (C19) From the high end it returns the highest such run that leaves the offset free at the top of the
  map, and the empty map exactly when there is none.
\<close>

theorem connective_from_high:
  assumes "bm_wf b" "0 < Len b" "Len b < 2 ^ 32" "0 < ways" "unat offset + unat ways < 2 ^ 32"
  shows "\<exists>r. GetConnectiveBits b ways offset False = Ret r \<and> bm_wf r \<and> Len r = Len b \<and>
    (if \<exists>s. s + unat ways + unat offset \<le> nat (Len b) \<and> window (bm_set b) s (unat ways)
     then \<exists>s. s + unat ways + unat offset \<le> nat (Len b) \<and> window (bm_set b) s (unat ways) \<and>
            bm_set r = {s..<s + unat ways} \<and>
            (\<forall>s'. s' + unat ways + unat offset \<le> nat (Len b) \<longrightarrow> window (bm_set b) s' (unat ways) \<longrightarrow> s' \<le> s)
     else bm_set r = {})"
  by (rule GetConnectiveBits_fromHigh [OF assms])

theorem connective_from_high_witness:
  "\<exists>r s. GetConnectiveBits demoMap 4 1 False = Ret r \<and> bm_set r = {s..<s + 4} \<and> 4 \<le> s"
proof -
  have "window (bm_set demoMap) 4 4" by (auto simp: window_def demoMap_set)
  then show ?thesis
    using connective_from_high [OF demoMap_wf(1), of 4 1] demoMap_wf(2)
    by (auto split: if_split_asm) (rule exI, rule conjI, rule refl, simp)
qed

text \<open>
  (C21) \<open>MaxConnectiveBits\<close> returns a run of set positions, and no run of set positions of the
  map is longer.
\<close>

theorem longest_run:
  assumes "bm_wf b" "0 < Len b" "Len b \<le> 2 ^ 63"
  shows "\<exists>r s k. MaxConnectiveBits b = Ret r \<and> bm_wf r \<and> Len r = Len b \<and> bm_set r = {s..<s + k} \<and>
     window (bm_set b) s k \<and> (\<forall>s' w. window (bm_set b) s' w \<longrightarrow> w \<le> k)"
  by (rule MaxConnectiveBits_longest [OF assms])

theorem longest_run_witness:
  "\<exists>r s k. MaxConnectiveBits demoMap = Ret r \<and> bm_set r = {s..<s + k} \<and> 4 \<le> k"
proof -
  have "window (bm_set demoMap) 4 4" by (auto simp: window_def demoMap_set)
  then show ?thesis using longest_run [OF demoMap_wf(1)] demoMap_wf(2) by fastforce
qed

section \<open>Classes of service\<close>

text \<open>
  (C7) In every state that clients of the pool can reach from its initialisation by taking classes,
  asking for the shared one, claiming named ones and giving back what they hold, no class is twice in
  the pool, no class is held twice, none is both free and held, and nothing is lost: free and held
  classes are together the classes \<^verbatim>\<open>COS2\<close> to \<^verbatim>\<open>COS(n-1)\<close> of the platform.
\<close>

theorem pool_exclusive:
  assumes "reachable n v" "n \<le> 2 ^ 63"
  shows "distinct (availableCLOSes (pool v)) \<and> distinct (held v) \<and>
    set (availableCLOSes (pool v)) \<inter> set (held v) = {} \<and>
    set (availableCLOSes (pool v)) \<union> set (held v) = set (map cosName [2..n - 1])"
  using reachable_exclusive [OF assms] by (simp add: names_def)

lemma demo_reachable:
  "reachable 5 \<lparr>pool = \<lparr>availableCLOSes = [''COS3'', ''COS4''], usedCLOSes = [''COS2''],
     reservedCLOSes = [''.'', ''COS1''], sharedCLOS = []\<rparr>, held = [''COS2'']\<rparr>"
proof -
  have "UseAvailableCLOS (initPool 5) = ((''COS2'', None), \<lparr>availableCLOSes = [''COS3'', ''COS4''],
     usedCLOSes = [''COS2''], reservedCLOSes = [''.'', ''COS1''], sharedCLOS = []\<rparr>)"
    by code_simp
  from reachable.more [OF reachable.start pool_step.take_step [OF this, of "[]"]] show ?thesis .
qed

theorem pool_exclusive_witness:
  "set [''COS3'', ''COS4''] \<union> set [''COS2''] = set (map cosName [2..4])"
  using pool_exclusive [OF demo_reachable] by simp

text \<open>
  The pool answers to calls in any order of taking: the classes obtained by any number of
  successive calls of \<open>UseAvailableCLOS\<close> are pairwise different and different from every class
  that is held already, and the call never hands out a class it does not own.
\<close>

lemma UseAvailableCLOS_fresh:
  assumes "pool_inv n p H" "clos.acquire_n k p = (cs, p')"
  shows "distinct cs \<and> set cs \<inter> H = {} \<and> pool_inv n p' (set cs \<union> H)"
  by (rule clos.acquire_n_distinct [OF assms])

lemma UseAvailableCLOS_fresh_witness:
  "fst (clos.acquire_n 3 (initPool 5)) = [''COS2'', ''COS3'', ''COS4''] \<and>
   distinct (fst (clos.acquire_n 3 (initPool 5)))"
proof -
  have "pool_inv 5 (initPool 5) {}"
    unfolding pool_inv_def using conserved_init [of 5] by auto
  moreover obtain cs p' where a: "clos.acquire_n 3 (initPool 5) = (cs, p')" by fastforce
  moreover have "cs = [''COS2'', ''COS3'', ''COS4'']"
    using a by (simp add: clos.acquire_n.simps numeral_3_eq_3 UseAvailableCLOS_def initPool_def names_def
        cosName_def Itoa_def format_nat.simps digit_char_def upto.simps)
  ultimately show ?thesis using UseAvailableCLOS_fresh [of 5 "initPool 5" "{}" 3 cs p'] by simp
qed

text \<open>
  (C35) The core mask of a bit map, printed in hexadecimal, is turned by \<open>CoreMaskToSlice\<close> into
  exactly the cores of the map in increasing order: the library is asked to move those cores and no
  other.
\<close>

theorem core_mask_exact:
  assumes "bm_wf b" "0 < Len b"
  shows "CoreMaskToSlice (ToString b) = (map int (filter (\<lambda>p. p \<in> bm_set b) [0..<nat (Len b)]), None)"
  by (rule CoreMaskToSlice_ToString [OF assms])

theorem core_mask_exact_witness:
  "CoreMaskToSlice (ToString demoMap) = ([1, 2, 4, 5, 6, 7, 9, 10], None)"
proof -
  have "map int (filter (\<lambda>p. p \<in> {1, 2, 4, 5, 6, 7, 9, 10}) [0..<11]) = [1, 2, 4, 5, 6, 7, 9, 10]" by code_simp
  with core_mask_exact [OF demoMap_wf(1)] demoMap_wf(2) demoMap_set show ?thesis by simp
qed

text \<open>
  (C13) Programming a class never touches another one: whatever the library answers, every call that
  \<open>AllocateCLOS\<close> makes names the class of its argument or no class at all.
\<close>

theorem AllocateCLOS_isolated:
  assumes "AllocateCLOS env res name st = Ret st'" "closNumber name = Some clos"
  shows "\<exists>new. calls st' = calls st @ new \<and> (\<forall>x \<in> set new. call_class x \<in> {None, Some (Cuint clos)})"
  using AllocateCLOS_one_class [OF assms] by (simp add: extends_for_def)

definition demoRes :: ResAssociation where
  "demoRes = zeroResAssociation\<lparr>Tasks := [''41'', ''42''],
     CacheSchemata := Some [(''L3'', [\<lparr>cacheID = 0, Mask = ''3c''\<rparr>])],
     MbaSchemata := Some [(''MB'', [\<lparr>mbaID = 0, Mba = 70\<rparr>])]\<rparr>"

definition demoPqos :: pqos_state where
  "demoPqos = \<lparr>numOfSockets = 1, numOfCacheways = 11, calls = []\<rparr>"

definition demoEnv :: "pqos_call list \<Rightarrow> pqos_call \<Rightarrow> int \<times> int list" where
  "demoEnv h c = (0, [0])"

lemma demo_numbers:
  "Atoi ''3'' = (3, None)" "Atoi ''41'' = (41, None)" "Atoi ''42'' = (42, None)" "ParseUint ''3c'' 16 64 = (60, None)"
proof -
  have "Itoa 3 = ''3''" "Itoa 41 = ''41''" "Itoa 42 = ''42''" "format_nat 16 60 = ''3c''" by code_simp+
  then show "Atoi ''3'' = (3, None)" "Atoi ''41'' = (41, None)" "Atoi ''42'' = (42, None)" "ParseUint ''3c'' 16 64 = (60, None)"
    using Atoi_Itoa [of 3] Atoi_Itoa [of 41] Atoi_Itoa [of 42] ParseUint_format_nat0 [of 16 60 64] by simp_all
qed

lemma demo_facts:
  "closNumber ''COS3'' = Some 3" "atoiAll (Tasks demoRes) = Some [41, 42]" "0 < numOfSockets demoPqos"
  "gm_get (CacheSchemata demoRes) ''L3'' = Some [\<lparr>cacheID = 0, Mask = ''3c''\<rparr>]"
  "gm_get (MbaSchemata demoRes) ''MB'' = Some [\<lparr>mbaID = 0, Mba = 70\<rparr>]" "Tasks demoRes \<noteq> []"
  "numOfSockets demoPqos = 1" "calls demoPqos = []"
  by (simp_all add: closNumber_def HasPrefix_def demoRes_def demoPqos_def demo_numbers gm_get_def gm_items_def)


theorem AllocateCLOS_isolated_witness:
  "\<exists>st'. AllocateCLOS demoEnv demoRes ''COS3'' demoPqos = Ret st' \<and>
     (\<forall>x \<in> set (calls st'). call_class x \<in> {None, Some (Cuint 3)})"
proof -
  obtain st' where st': "AllocateCLOS demoEnv demoRes ''COS3'' demoPqos = Ret st'"
    using AllocateCLOS_success [OF demo_facts(1) _ demo_facts(3,4) _ demo_facts(6,2,5), of demoEnv] demo_facts(7)
    by (auto simp: demoEnv_def)
  with AllocateCLOS_isolated [OF st' demo_facts(1)] show ?thesis by (simp add: demo_facts(8))
qed



text \<open>
  When the library refuses the cache masks, \<open>AllocateCLOS\<close> stops there: no task or core is
  moved and no bandwidth is set.
\<close>

lemma AllocateCLOS_stops:
  assumes "closNumber name = Some clos" "0 < numOfSockets st"
    "gm_get (CacheSchemata res) ''L3'' = Some v" "numOfSockets st \<le> int (length v)"
    "fst (env (calls st) (l3Call clos v st)) \<noteq> 0"
  shows "AllocateCLOS env res name st = Ret (st\<lparr>calls := calls st @ [l3Call clos v st]\<rparr>)"
  using assms by (rule AllocateCLOS_L3_failure)

lemma AllocateCLOS_stops_witness:
  "\<exists>st'. AllocateCLOS (\<lambda>h c. (- 1, [])) demoRes ''COS3'' demoPqos = Ret st' \<and> length (calls st') = 1"
  using AllocateCLOS_stops [OF demo_facts(1,3,4), of "\<lambda>h c. (- 1, [])"] demo_facts(7,8) by simp

section \<open>Groups of the resctrl file system\<close>



text \<open>
  (C26) Whatever the file system answers, a task flow for a group issues operations on the files of
  that group only, and writes of the default group's \<^verbatim>\<open>tasks\<close> file when it gives tasks back.
\<close>

theorem taskFlow_confined:
  "\<exists>new. snd (taskFlow os sys grp r rs h) = h @ new \<and> (\<forall>op \<in> set new. own_op sys (groupPath sys grp) op)"
  using taskFlow_only_own [of sys grp h os r rs] by (simp add: only_own_def)

theorem taskFlow_confined_witness:
  "\<exists>new. snd (taskFlow (\<lambda>h c. None) ''/sys/fs/resctrl'' ''COS3'' demoRes [] []) = new \<and>
     (\<forall>op \<in> set new. own_op ''/sys/fs/resctrl'' ''/sys/fs/resctrl/COS3'' op)"
proof -
  have "groupPath ''/sys/fs/resctrl'' ''COS3'' = ''/sys/fs/resctrl/COS3''" by code_simp
  then show ?thesis
    using taskFlow_confined [of "\<lambda>h c. None" "''/sys/fs/resctrl''" "''COS3''" demoRes "[]" "[]"] by auto
qed

text \<open>
  (C25) A task flow that reports success has written the group completely: it created the directory when
  it was missing, and wrote the CPU mask, each task by its own write, and the schemata, in that order.
\<close>

theorem taskFlow_complete:
  assumes "groupPath sys grp \<noteq> []" "fst (taskFlow os sys grp r rs h) = None"
  shows "snd (taskFlow os sys grp r rs h) =
    h @ [Stat (groupPath sys grp)] @
    (if os h (Stat (groupPath sys grp)) = Some ENOENT then [MkdirAll (groupPath sys grp)] else []) @
    groupOps (groupPath sys grp) grp r"
  by (rule taskFlow_writes [OF assms])

theorem taskFlow_complete_witness:
  "snd (taskFlow (\<lambda>h c. None) ''/sys/fs/resctrl'' ''COS3'' demoRes [] []) =
     Stat ''/sys/fs/resctrl/COS3'' # groupOps ''/sys/fs/resctrl/COS3'' ''COS3'' demoRes"
proof -
  have g: "groupPath ''/sys/fs/resctrl'' ''COS3'' = ''/sys/fs/resctrl/COS3''" by code_simp
  have "fst (taskFlow (\<lambda>h c. None) ''/sys/fs/resctrl'' ''COS3'' demoRes [] []) = None" by code_simp
  from taskFlow_complete [OF _ this] g show ?thesis by simp
qed

text \<open>
  (C27) A task flow that fails after it created the group removes the directory again as its last
  operation, whichever step failed.
\<close>

theorem taskFlow_undo:
  assumes "os h (Stat (groupPath sys grp)) = Some ENOENT" "fst (taskFlow os sys grp r rs h) = Some e"
  shows "\<exists>h'. snd (taskFlow os sys grp r rs h) = h' @ [Remove (groupPath sys grp)] \<and>
     only_own sys (groupPath sys grp) (h @ [Stat (groupPath sys grp), MkdirAll (groupPath sys grp)]) h'"
  by (rule taskFlow_cleans_up [OF assms])

definition demoOs :: os where
  "demoOs h c = (case c of Stat p \<Rightarrow> Some ENOENT | WriteFile p d \<Rightarrow> Some (EOther ''busy'') | _ \<Rightarrow> None)"

theorem taskFlow_undo_witness:
  "\<exists>h'. snd (taskFlow demoOs ''/sys/fs/resctrl'' ''COS3'' demoRes [] []) = h' @ [Remove ''/sys/fs/resctrl/COS3'']"
proof -
  have g: "groupPath ''/sys/fs/resctrl'' ''COS3'' = ''/sys/fs/resctrl/COS3''" by code_simp
  have "fst (taskFlow demoOs ''/sys/fs/resctrl'' ''COS3'' demoRes [] []) \<noteq> None" by code_simp
  then obtain e where "fst (taskFlow demoOs ''/sys/fs/resctrl'' ''COS3'' demoRes [] []) = Some e" by blast
  from taskFlow_undo [OF _ this] g show ?thesis by (auto simp: demoOs_def)
qed

text \<open>
  (C28) A task list that fails undoes what it did in reverse order: the failed step first, then the
  steps that had succeeded, last one first, and it reports the error of the failed step.
\<close>

theorem Start_rolls_back:
  assumes "runs_ok run us w" "run t (run_all run us w) = (Some e, w')"
  shows "Start run rollback (us @ t # vs) w = (Some e, run_all rollback (t # rev us) w')"
  by (rule Start_fail [OF assms])

theorem Start_rolls_back_witness:
  "Start (\<lambda>t w. if t = 3 then (Some (Errorf ''x'' []), w) else (None, w @ [t])) (\<lambda>t w. (None, w @ [- t]))
     [1, 2, 3, 4] [] = (Some (Errorf ''x'' []), [1, 2, - 3, - 2, - 1 :: int])"
  using Start_rolls_back [of "\<lambda>t w. if t = 3 then (Some (Errorf ''x'' []), w) else (None, w @ [t])" "[1, 2]" "[] :: int list"
      3 "Errorf ''x'' []" "[1, 2]" "\<lambda>t w. (None, w @ [- t])" "[4]"]
  by (simp add: run_all_def)

text \<open>
  Free classes are invisible: the groups read from the file system never include a directory that
  belongs to a class of the pool.
\<close>

lemma free_groups_hidden:
  assumes "GetResAssociation tree available = Ret ress" "c \<in> set available" "CHR ''/'' \<notin> set c" "c \<noteq> ''.''"
  shows "map_of ress c = None"
  by (rule GetResAssociation_ignores [OF assms])

definition demoFs :: fnode where
  "demoFs = FDir ''resctrl'' [FFile ''cpus'' ''ff'', FDir ''COS2'' [FFile ''cpus'' ''3''], FDir ''COS3'' [FFile ''cpus'' ''c'']]"

lemma free_groups_hidden_witness:
  "\<exists>ress. GetResAssociation (Some demoFs) [''COS3''] = Ret ress \<and> map fst ress = [''.'', ''COS2''] \<and>
     map_of ress ''COS3'' = None"
proof -
  have "map_option (map fst) (case GetResAssociation (Some demoFs) [''COS3''] of Ret ress \<Rightarrow> Some ress | _ \<Rightarrow> None) =
      Some [''.'', ''COS2'']" by code_simp
  then obtain ress where r: "GetResAssociation (Some demoFs) [''COS3''] = Ret ress" "map fst ress = [''.'', ''COS2'']"
    by (auto split: outcome.splits)
  with free_groups_hidden [OF r(1), of "''COS3''"] show ?thesis by simp
qed

section \<open>The workload data base\<close>








text \<open>
  (C10) Workloads never overlap: for workloads whose core lists are written as positions and spans,
  \<open>validateWorkload\<close> returns without panic, and it accepts a workload exactly when it names an
  identifier, tasks or cores and shares no identifier, no UUID, no task and no core with any of the
  stored workloads.
\<close>

theorem validateWorkload_exact:
  assumes "written its w" "\<forall>v \<in> set ws. written its v"
  shows "\<exists>r. validateWorkload w ws = Ret r \<and>
     (r = None \<longleftrightarrow> (ID w \<noteq> [] \<or> TaskIDs w \<noteq> [] \<or> CoreIDs w \<noteq> []) \<and>
        (\<forall>v \<in> set ws. \<not> (ID w \<noteq> [] \<and> ID v = ID w) \<and> \<not> (UUID w \<noteq> [] \<and> UUID v = UUID w) \<and>
           set (TaskIDs w) \<inter> set (TaskIDs v) = {} \<and> cores its w \<inter> cores its v = {}))"
  using validateWorkload_spec [OF assms] by (simp add: overlaps_def conj_ac)

definition demoItems :: "RDTWorkLoad \<Rightarrow> item list list" where
  "demoItems w = (if CoreIDs w = [''1-2''] then [[Span True 1 2]] else if CoreIDs w = [''2'', ''4''] then [[One True 2], [One True 4]] else [])"

theorem validateWorkload_exact_witness:
  "\<exists>e. validateWorkload (zeroWorkLoad\<lparr>CoreIDs := [''1-2'']\<rparr>) [zeroWorkLoad\<lparr>ID := ''1'', CoreIDs := [''2'', ''4'']\<rparr>] = Ret (Some e)"
proof -
  let ?w = "zeroWorkLoad\<lparr>CoreIDs := [''1-2'']\<rparr>" and ?v = "zeroWorkLoad\<lparr>ID := ''1'', CoreIDs := [''2'', ''4'']\<rparr>"
  have "map items_text [[Span True 1 2]] = [''1-2'']" "map items_text [[One True 2], [One True 4]] = [''2'', ''4'']"
    by code_simp+
  then have "written demoItems ?w" "written demoItems ?v" by (auto simp: written_def demoItems_def)
  moreover have "cores demoItems ?w \<inter> cores demoItems ?v \<noteq> {}"
    by (simp add: cores_def demoItems_def item_apply_def)
  ultimately show ?thesis using validateWorkload_exact [of demoItems ?w "[?v]"] by auto
qed

section \<open>Cache ways\<close>

text \<open>
  (C8) The layout of the cache pools. On a working machine whose configured ways fit below the mask, the
  layout succeeds, and on every last-level cache the guaranteed, best-effort and shared ways are adjacent
  blocks, in this order, above the ways of the operating system where one of its CPUs shares the cache and
  from way zero elsewhere; so the pools of a cache are disjoint and end below the mask. When the ways do
  not fit, and their sum is no larger than a machine word, the layout is refused.
\<close>

theorem pool_layout:
  fixes H :: host
  defines "pc \<equiv> NewCachePoolConfig (hostPool H)" and "osc \<equiv> NewOSConfig (hostOS H)"
  defines "ways \<equiv> unat (osCacheWays osc) + unat (cpGuarantee pc) + unat (cpBesteffort pc) + unat (cpShared pc)"
  assumes "platform H n ci level scs" "good_cpus n (osCPUSet osc)" "ways < 2 ^ 64"
  shows "if ways \<le> nat (CbmMaskLen ci)
    then \<exists>pools. GetCachePoolLayout H = Ret (pools, None) \<and> (\<forall>(k, sc) \<in> set scs.
      (let base = poolBase n (osCPUSet osc) (osCacheWays osc) sc;
           g = base + unat (cpGuarantee pc); b = g + unat (cpBesteffort pc); s = b + unat (cpShared pc)
       in s \<le> nat (CbmMaskLen ci) \<and>
          (cpGuarantee pc \<noteq> 0 \<longrightarrow> poolAt (CbmMaskLen ci) pools Guarantee k {base..<g}) \<and>
          (cpBesteffort pc \<noteq> 0 \<longrightarrow> poolAt (CbmMaskLen ci) pools Besteffort k {g..<b}) \<and>
          (cpShared pc \<noteq> 0 \<longrightarrow> poolAt (CbmMaskLen ci) pools Shared k {b..<s})))
    else \<exists>e. GetCachePoolLayout H = Ret ([], Some e)"
proof (cases "ways \<le> nat (CbmMaskLen ci)")
  case True
  from GetCachePoolLayout_spec [OF assms(4) assms(5) [unfolded osc_def] True [unfolded ways_def pc_def osc_def]]
  obtain pools where p: "GetCachePoolLayout H = Ret (pools, None)" "\<forall>(k, sc) \<in> set scs.
    (let base = poolBase n (osCPUSet osc) (osCacheWays osc) sc;
         g = base + unat (cpGuarantee pc); b = g + unat (cpBesteffort pc); s = b + unat (cpShared pc)
     in (cpGuarantee pc \<noteq> 0 \<longrightarrow> poolAt (CbmMaskLen ci) pools Guarantee k {base..<g}) \<and>
        (cpBesteffort pc \<noteq> 0 \<longrightarrow> poolAt (CbmMaskLen ci) pools Besteffort k {g..<b}) \<and>
        (cpShared pc \<noteq> 0 \<longrightarrow> poolAt (CbmMaskLen ci) pools Shared k {b..<s}))"
    unfolding pc_def osc_def by blast
  have "poolBase n (osCPUSet osc) (osCacheWays osc) sc + unat (cpGuarantee pc) + unat (cpBesteffort pc) + unat (cpShared pc)
      \<le> nat (CbmMaskLen ci)" for sc
    using True by (auto simp: poolBase_def ways_def)
  with p True show ?thesis by (simp add: Let_def case_prod_beta)
next
  case False
  with GetCachePoolLayout_refused [OF assms(4) assms(6) [unfolded ways_def pc_def osc_def]] show ?thesis
    unfolding ways_def pc_def osc_def by simp
qed

lemma demo_conf: "NewCachePoolConfig (hostPool demoHost) = \<lparr>MaxAllowedShared = 10, cpGuarantee = 5, cpBesteffort = 3, cpShared = 2, cpShrink = False\<rparr>"
  "NewOSConfig (hostOS demoHost) = \<lparr>osCacheWays = 1, osCPUSet = ''0''\<rparr>"
  by (simp_all add: NewCachePoolConfig_def NewOSConfig_def demoHost_def)

theorem pool_layout_witness:
  "\<exists>pools. GetCachePoolLayout demoHost = Ret (pools, None) \<and>
     poolAt 11 pools Guarantee ''0'' {1..<6} \<and> poolAt 11 pools Guarantee ''1'' {0..<5} \<and> poolAt 11 pools Shared ''0'' {9..<11}"
proof -
  have u: "unat (1 :: 64 word) = 1" "unat (5 :: 64 word) = 5" "unat (3 :: 64 word) = 3" "unat (2 :: 64 word) = 2"
    by simp_all
  have c: "CbmMaskLen demoCos = 11" by (simp add: demoCos_def)
  have b: "poolBase 8 ''0'' 1 (snd (demoCaches ! 0)) = 1" "poolBase 8 ''0'' 1 (snd (demoCaches ! Suc 0)) = 0"
    using demo_cpus by (simp_all add: poolBase_def demoCaches_def)
  have m: "(''0'', snd (demoCaches ! 0)) \<in> set demoCaches" "(''1'', snd (demoCaches ! Suc 0)) \<in> set demoCaches"
    by (simp_all add: demoCaches_def)
  have f: "1 + 5 + 3 + 2 \<le> nat 11" "1 + 5 + 3 + 2 < (2 :: nat) ^ 64" by simp_all
  note l = pool_layout [OF demo_platform, unfolded demo_conf OSGroup.simps CachePool.simps u c, OF demo_cpus(3) f(2),
    unfolded if_P [OF f(1)]]
  then obtain pools where p: "GetCachePoolLayout demoHost = Ret (pools, None)" and
    q: "\<forall>(k, sc) \<in> set demoCaches. (let base = poolBase 8 ''0'' 1 sc; g = base + 5; b = g + 3; s = b + 2
     in s \<le> nat 11 \<and> ((5 :: 64 word) \<noteq> 0 \<longrightarrow> poolAt 11 pools Guarantee k {base..<g}) \<and>
       ((3 :: 64 word) \<noteq> 0 \<longrightarrow> poolAt 11 pools Besteffort k {g..<b}) \<and>
       ((2 :: 64 word) \<noteq> 0 \<longrightarrow> poolAt 11 pools Shared k {b..<s}))" by blast
  from bspec [OF q m(1)] bspec [OF q m(2)] p show ?thesis by (simp add: b Let_def)
qed

text \<open>
  (C9) The ways reported as available in a pool are, on every cache, exactly the ways of the pool that no
  group outside the ignored ones holds; a group whose mask is the full mask of the platform holds nothing.
\<close>

theorem available_ways:
  assumes "GetReservedInfo H st = Ret (info, st')" "GetCosInfo H = Ret ci" "CbmMaskLen ci \<noteq> 0"
    "int (length allres) < cosNumClosids ci" "p \<noteq> ''none''" "map_of info p = Some resv"
    "distinct (map fst (Schemata resv))"
    "\<forall>k \<in> fst ` set (Schemata resv). has_ways (CbmMaskLen ci) (Schemata resv) k (A k)"
    "\<forall>(g, v) \<in> set allres. g \<notin> set ignore \<longrightarrow> group_ok ci (fst ` set (Schemata resv)) lev v"
  shows "\<exists>s. GetAvailableCacheSchemata H allres ignore p lev st = Ret ((s, None), st') \<and>
    fst ` set s = fst ` set (Schemata resv) \<and> distinct (map fst s) \<and>
    (\<forall>k \<in> fst ` set s. has_ways (CbmMaskLen ci) s k (A k - groupWays ci ignore lev allres k))"
proof -
  from GetAvailableCacheSchemata_spec [OF assms] obtain s where
    s: "GetAvailableCacheSchemata H allres ignore p lev st = Ret ((s, None), st')"
    "fst ` set s = fst ` set (Schemata resv)"
    "\<forall>k \<in> fst ` set s. has_ways (CbmMaskLen ci) s k (A k - groupWays ci ignore lev allres k)" by blast
  from s GetAvailableCacheSchemata_distinct [OF s(1) assms(5)] show ?thesis by blast
qed

lemma demo_pool:
  "distinct (map fst (Schemata (demoPool 0 0x3e 0x1f)))" "fst ` set (Schemata (demoPool 0 0x3e 0x1f)) = {''0'', ''1''}"
  "\<forall>k \<in> fst ` set (Schemata (demoPool 0 0x3e 0x1f)).
    has_ways (CbmMaskLen demoCos) (Schemata (demoPool 0 0x3e 0x1f)) k (demoWays k)"
proof -
  show d: "distinct (map fst (Schemata (demoPool 0 0x3e 0x1f)))"
    "fst ` set (Schemata (demoPool 0 0x3e 0x1f)) = {''0'', ''1''}"
    by (simp_all add: demoPool_def)
  show "\<forall>k \<in> fst ` set (Schemata (demoPool 0 0x3e 0x1f)).
    has_ways (CbmMaskLen demoCos) (Schemata (demoPool 0 0x3e 0x1f)) k (demoWays k)"
    unfolding d(2) demo_cos using demo_ways by simp
qed

lemma demo_free: "demoWays ''0'' - groupWays demoCos infra_os ''L3'' demoGroups ''0'' = {1, 2, 3}"
  "demoWays ''1'' - groupWays demoCos infra_os ''L3'' demoGroups ''1'' = {0..<5}"
  unfolding demo_held by (auto simp: demoWays_def)

theorem available_ways_witness:
  "\<exists>s. GetAvailableCacheSchemata demoHost demoGroups infra_os Guarantee ''L3'' (cst demoServer) = Ret ((s, None), cst demoServer) \<and>
     has_ways 11 s ''0'' {1, 2, 3} \<and> has_ways 11 s ''1'' {0..<5}"
proof -
  have h: "CbmMaskLen demoCos \<noteq> 0" "int (length demoGroups) < cosNumClosids demoCos" "Guarantee \<noteq> ''none''"
    by (simp_all add: demo_cos demoGroups_def Guarantee_def)
  from available_ways [OF demo_reserved(1) demo_host(3) h demo_reserved(2) demo_pool(1,3), unfolded demo_pool(2),
      OF demo_groups_ok, of infra_os]
  obtain s where "GetAvailableCacheSchemata demoHost demoGroups infra_os Guarantee ''L3'' (cst demoServer) = Ret ((s, None), cst demoServer)"
    "fst ` set s = {''0'', ''1''}" "\<forall>k \<in> fst ` set s. has_ways 11 s k (demoWays k - groupWays demoCos infra_os ''L3'' demoGroups k)"
    unfolding demo_cos by blast
  then show ?thesis using demo_free by auto
qed


definition demoRequest :: EnforceRequest where
  "demoRequest = zeroEnforceRequest\<lparr>MaxWays := 2, MinWays := 2, UseCache := True, SocketIDs := [0], reqType := Guarantee\<rparr>"




section \<open>Workloads\<close>

text \<open>
  (C31) Memory bandwidth is bounded. When validation accepts a request that names a bandwidth, without a
  policy, the value kept for enforcement is positive and at most the maximum of the mode; it is the value
  of the request in the unit of the machine; a machine with cache allocation needs both kinds of
  parameters; and a request that is not a guaranteed one asks for the maximum.
\<close>

theorem bandwidth_bounds:
  assumes "validate E w s = Ret (None, w', s')" "Policy w = []" "mbaPercentage w \<noteq> None \<or> mbaMbps w \<noteq> None"
  shows "0 < mbaValue s' \<and> mbaValue s' \<le> mbaMaxValue s \<and>
    (isMbaSupported s \<longrightarrow> (if isMbaMbpsAvailable s then mbaMbps w else mbaPercentage w) = Some (mbaValue s')) \<and>
    (isL3CATSupported s \<longrightarrow> isMbaSupported s \<and> cacheMax w \<noteq> None) \<and>
    (\<forall>mx mn. cacheMax w = Some mx \<longrightarrow> cacheMin w = Some mn \<longrightarrow> mx \<noteq> mn \<or> mx = 0 \<longrightarrow> mbaValue s' = mbaMaxValue s)"
  by (rule validate_bounds [OF assms])

theorem bandwidth_bounds_witness:
  "\<exists>s'. validate demoBare (zeroWorkLoad\<lparr>CoreIDs := [''2''], cacheMax := Some 2, cacheMin := Some 2, mbaPercentage := Some 50\<rparr>)
       (demoServer\<lparr>isMbaSupported := True\<rparr>) =
     Ret (None, zeroWorkLoad\<lparr>CoreIDs := [''2''], cacheMax := Some 2, cacheMin := Some 2, mbaPercentage := Some 50\<rparr>, s') \<and>
     mbaValue s' = 50"
proof -
  let ?w = "zeroWorkLoad\<lparr>CoreIDs := [''2''], cacheMax := Some 2, cacheMin := Some 2, mbaPercentage := Some 50\<rparr>"
  have "(case validate demoBare ?w (demoServer\<lparr>isMbaSupported := True\<rparr>) of Ret (None, w', s') \<Rightarrow> w' = ?w | _ \<Rightarrow> False)"
    by code_simp
  then obtain s' where r: "validate demoBare ?w (demoServer\<lparr>isMbaSupported := True\<rparr>) = Ret (None, ?w, s')"
    by (auto split: outcome.splits option.splits)
  from bandwidth_bounds [OF r] r show ?thesis by (auto simp: zeroWorkLoad_def demoServer_def)
qed



text \<open>
  (C37) The cores a plugin is told are the cores that the bit map of the same texts has, for every list of
  positions and spans below the number of CPUs.
\<close>

theorem plugin_cores:
  assumes "0 < n" "n \<le> 2 ^ 63" "\<forall>it \<in> set its. item_ok n it \<and> item_sign it"
  shows "\<exists>xs b. prepareCoreIDs (map item_text its) [] = (xs, None) \<and>
    NewBitmap [ArgInt n, ArgStrings (map item_text its)] = Ret (b, None) \<and> nat ` set xs = bm_set b"
  by (rule prepareCoreIDs_bitmap [OF assms])

theorem plugin_cores_witness:
  "\<exists>b. prepareCoreIDs [''2-4'', ''6''] [] = ([2, 3, 4, 6], None) \<and>
     NewBitmap [ArgInt 8, ArgStrings [''2-4'', ''6'']] = Ret (b, None) \<and> bm_set b = {2, 3, 4, 6}"
proof -
  have t: "map item_text [Span True 2 4, One True 6] = [''2-4'', ''6'']" by code_simp
  have c: "prepareCoreIDs [''2-4'', ''6''] [] = ([2, 3, 4, 6], None)" by code_simp
  from plugin_cores [of 8 "[Span True 2 4, One True 6]", unfolded t c]
  obtain b where "NewBitmap [ArgInt 8, ArgStrings [''2-4'', ''6'']] = Ret (b, None)" "nat ` set [2, 3, 4, 6] = bm_set b"
    by auto
  with c show ?thesis by auto
qed



text \<open>
  (C3) Enforcement keeps the pool consistent. From a pool state that clients reach by the protocol, enforcing
  a workload that holds no class leads to such a state again, whatever the outcome; no class of another
  client is lost, and after success the class of the workload is held and was not held before, unless it is
  the shared class.
\<close>

theorem Enforce_keeps_pool:
  assumes "Enforce E w s = Ret (e, w', s')" "CosName w = []" "reachable n \<lparr>pool = cpool s, held = hs\<rparr>" "n \<le> 2 ^ 63"
  shows "\<exists>hs'. reachable n \<lparr>pool = cpool s', held = hs'\<rparr> \<and> set hs \<subseteq> set hs' \<and>
    (e = None \<longrightarrow> CosName w' = [] \<or>
      CosName w' \<in> set hs' \<and> (CosName w' \<in> set hs \<longrightarrow> CosName w' = sharedCLOS (cpool s)))"
  by (rule Enforce_reachable [OF assms])

theorem Enforce_keeps_pool_witness:
  "\<exists>w' s' hs'. Enforce demoBare (ofUser demoUser) demoBareServer = Ret (None, w', s') \<and>
     reachable 5 \<lparr>pool = cpool s', held = hs'\<rparr> \<and> ''COS2'' \<in> set hs'"
proof -
  have "(case Enforce demoBare (ofUser demoUser) demoBareServer of Ret (e, w', s') \<Rightarrow> e = None | _ \<Rightarrow> False)" by code_simp
  then obtain w' s' where r: "Enforce demoBare (ofUser demoUser) demoBareServer = Ret (None, w', s')"
    by (auto split: outcome.splits)
  have "CosName (ofUser demoUser) = []" by (simp add: ofUser_def demoUser_def toUser_def zeroWorkLoad_def)
  moreover have "reachable 5 \<lparr>pool = cpool demoBareServer, held = [''COS2'']\<rparr>"
    using demo_reachable by (simp add: demoBareServer_def demoServer_def)
  ultimately show ?thesis using Enforce_keeps_pool [OF r, of 5 "[''COS2'']"] r by auto
qed

text \<open>
  (C16) Releasing gives the class back once or not at all. Releasing a workload that holds a class of its own
  leads from a consistent pool to a consistent pool: either the class is free again and no longer held, or,
  when a call on the way failed, the pool is as before and the class stays held, although the operation may
  report success.
\<close>

theorem Release_keeps_pool:
  assumes "Release E w s = Ret (e, s')" "CosName w \<noteq> sharedCLOS (cpool s)" "CosName w \<in> set hs"
    "reachable n \<lparr>pool = cpool s, held = hs\<rparr>"
  shows "reachable n \<lparr>pool = cpool s', held = hs\<rparr> \<and> cpool s' = cpool s \<or>
    reachable n \<lparr>pool = cpool s', held = remove1 (CosName w) hs\<rparr> \<and> CosName w \<in> set (availableCLOSes (cpool s'))"
  by (rule Release_reachable [OF assms])

theorem Release_keeps_pool_witness:
  "\<exists>e s'. Release demoBare (zeroWorkLoad\<lparr>CosName := ''COS2''\<rparr>) demoBareServer = Ret (e, s') \<and>
     reachable 5 \<lparr>pool = cpool s', held = []\<rparr>"
proof -
  let ?w = "zeroWorkLoad\<lparr>CosName := ''COS2''\<rparr>"
  have "(case Release demoBare ?w demoBareServer of Ret (e, s') \<Rightarrow> availableCLOSes (cpool s') = [''COS3'', ''COS4'', ''COS2''] | _ \<Rightarrow> False)"
    by code_simp
  then obtain e s' where r: "Release demoBare ?w demoBareServer = Ret (e, s')" "availableCLOSes (cpool s') = [''COS3'', ''COS4'', ''COS2'']"
    by (auto split: outcome.splits)
  have p: "availableCLOSes (cpool demoBareServer) = [''COS3'', ''COS4'']" "sharedCLOS (cpool demoBareServer) = []"
    by (simp_all add: demoBareServer_def demoServer_def)
  have "reachable 5 \<lparr>pool = cpool demoBareServer, held = [''COS2'']\<rparr>"
    using demo_reachable by (simp add: demoBareServer_def demoServer_def)
  from Release_keeps_pool [OF r(1) _ _ this] r p show ?thesis by (auto simp: zeroWorkLoad_def)
qed

text \<open>
  (C29) A failed enforcement keeps the class it took. When programming a request of its own class fails, the
  class taken from the pool is neither free again nor named by the workload: the clean-up gives back the
  class name of the workload, which is still empty.
\<close>

theorem failed_enforcement_leaks:
  assumes "enforceRDT E w er rd s = Ret (Some x, w', s')" "reqType er \<noteq> Shared" "availableCLOSes (cpool s) = c # cs"
    "CosName w = []"
  shows "availableCLOSes (cpool s') = cs \<and> c \<in> set (usedCLOSes (cpool s')) \<and> CosName w' = []"
proof -
  have "cpool s' = snd (UseAvailableCLOS (cpool s))" using enforceRDT_fail_pool [OF assms(1,4)] assms(2) by simp
  moreover have "CosName w' = []" using enforceRDT_class [OF assms(1-3)] by simp
  ultimately show ?thesis using assms(3) by (simp add: UseAvailableCLOS_def)
qed

theorem failed_enforcement_leaks_witness:
  "\<exists>x w' s'. enforceRDT demoBare (zeroWorkLoad\<lparr>CoreIDs := [''2'']\<rparr>) demoRequest (zeroRDTEnforce\<lparr>TargetLev := ''3'', CandidateCache := [(''0'', Some \<lparr>Len = 11, Bits = [0xc]\<rparr>), (''1'', Some \<lparr>Len = 11, Bits = [0x7ff]\<rparr>)]\<rparr>) demoBareServer =
      Ret (Some x, w', s') \<and> availableCLOSes (cpool s') = [''COS4'']"
proof -
  let ?w = "zeroWorkLoad\<lparr>CoreIDs := [''2'']\<rparr>" and ?rd = "zeroRDTEnforce\<lparr>TargetLev := ''3'', CandidateCache := [(''0'', Some \<lparr>Len = 11, Bits = [0xc]\<rparr>), (''1'', Some \<lparr>Len = 11, Bits = [0x7ff]\<rparr>)]\<rparr>"
  have "(case enforceRDT demoBare ?w demoRequest ?rd demoBareServer of Ret (Some x, w', s') \<Rightarrow> True | _ \<Rightarrow> False)"
    by code_simp
  then obtain x w' s' where r: "enforceRDT demoBare ?w demoRequest ?rd demoBareServer = Ret (Some x, w', s')"
    by (auto split: outcome.splits option.splits)
  have "reqType demoRequest \<noteq> Shared" "CosName ?w = []" by (simp_all add: demoRequest_def zeroWorkLoad_def)
  moreover have "availableCLOSes (cpool demoBareServer) = [''COS3'', ''COS4'']" by (simp add: demoBareServer_def demoServer_def)
  ultimately show ?thesis using failed_enforcement_leaks [OF r] r by blast
qed

text \<open>
  (C38) Workloads of another origin are out of reach: DELETE and PATCH of a workload that was not created
  through REST, or that is not stored, answer and leave the whole state as it was.
\<close>

theorem foreign_workloads_untouched:
  assumes "workload_GetWorkloadByID E i s = (w, err)" "Origin w \<noteq> ''REST''"
  shows "\<exists>r r'. DeleteByID E i s = Ret (r, s) \<and> Patch E i body s = Ret (r', s)"
  by (rule foreign_untouched [OF assms])

definition demoForeign :: codec where
  "demoForeign = \<lparr>marshal = (\<lambda>w. Inl ''doc''), unmarshal = (\<lambda>b. Inl (demoStored\<lparr>Origin := ''openstack'', TaskIDs := [''77'']\<rparr>))\<rparr>"

theorem foreign_workloads_untouched_witness:
  "\<exists>r. DeleteByID (demoBare\<lparr>ecodec := demoForeign\<rparr>) ''1'' (demoBareServer\<lparr>store := demoRows\<rparr>) =
     Ret (r, demoBareServer\<lparr>store := demoRows\<rparr>)"
proof -
  have "workload_GetWorkloadByID (demoBare\<lparr>ecodec := demoForeign\<rparr>) ''1'' (demoBareServer\<lparr>store := demoRows\<rparr>) =
      (demoStored\<lparr>Origin := ''openstack'', TaskIDs := [''77'']\<rparr>, None)" by code_simp
  from foreign_workloads_untouched [OF this] show ?thesis by (simp add: demoStored_def)
qed




section \<open>Affinity of processes\<close>

text \<open>
  (C39) Reading the CPU affinity of a process is exact: for every mask of sixteen words that the kernel
  returns, the result is a well-formed bit map of 1024 positions with exactly the CPUs of the mask.
\<close>

theorem affinity_exact:
  assumes "Atoi pidText = (pid, None)" "sched pid = (0, m)" "length m = 16"
  shows "\<exists>b. GetCPUAffinity sched pidText = (Some b, None) \<and> bm_wf b \<and> Len b = 1024 \<and> bm_set b = mask_set m"
  using GetCPUAffinity_exact [of pidText pid sched m] assms by blast

theorem affinity_exact_witness:
  "\<exists>b. GetCPUAffinity (\<lambda>p. (0, 0x100000001 # replicate 15 0)) ''41'' = (Some b, None) \<and> 32 \<in> bm_set b \<and> 33 \<notin> bm_set b"
proof -
  let ?m = "0x100000001 # replicate 15 (0 :: 64 word)"
  have l: "length ?m = 16" by simp
  have "bit (0x100000001 :: 64 word) 32" "\<not> bit (0x100000001 :: 64 word) 33" by code_simp+
  then have "32 \<in> mask_set ?m" "33 \<notin> mask_set ?m" by (simp_all only: mask_set_def mem_Collect_eq) simp_all
  with affinity_exact [of "''41''" 41 "\<lambda>p. (0, ?m)", OF demo_numbers(2) refl l] show ?thesis by metis
qed

section \<open>Who may use the interface\<close>


definition demoAuth :: "unit authEnv" where
  "demoAuth = \<lparr>aclconf = defaultACL, casbinNew = (\<lambda>_ _. None), AddRoleForUser = (\<lambda>e _ _. e),
     casbinEnforce = (\<lambda>_ sub obj act. sub = ''user'' \<and> obj = ''/workloads'' \<and> act = ''GET'')\<rparr>"

definition demoLoaded :: "unit authState" where
  "demoLoaded = \<lparr>aclOnce = True, aclUrl = Some (), adminCertSignature = [], userCertSignature = []\<rparr>"

definition demoHttp :: "string \<Rightarrow> hrequest" where
  "demoHttp meth = \<lparr>RequestURI = ''/v1/workloads'', Method = meth, TLSpeers = Some [], BasicAuth = Some (''user'', ''pw'')\<rparr>"


text \<open>
  (C22) A list of rights that cannot be loaded lets everybody in. When the library panics on the model or
  the policy, the first call of \<open>NewEnforcer\<close>, the one of the sanity check, returns no error; from
  then on every check of the list succeeds, and a request over TLS with good credentials reaches its
  handler whatever the list says.
\<close>

theorem rights_fail_open:
  assumes "\<forall>m p. casbinNew A m p = None" "''url'' \<in> set (split_on (CHR '','') (Filter (aclconf A)))"
    "\<not> aclOnce st" "aclUrl st = None"
  shows "\<exists>st1. NewEnforcer A st = ((False, None), st1) \<and>
    (\<forall>req user. check A req user st1 = Ret (Next, st1)) \<and>
    (\<forall>pam req u p. BasicAuth req = Some (u, p) \<and> pam u p = None \<longrightarrow> serverFilters A pam ''no'' req st1 = Ret (Next, st1))"
proof -
  obtain ok err st1 where n: "NewEnforcer A st = ((ok, err), st1)" by (metis prod.collapse)
  from enforcer_opens [OF assms n] have c: "\<forall>req user. check A req user st1 = Ret (Next, st1)" and "err = None" "\<not> ok"
    by blast+
  with n filters_check [of A _ _ st1] show ?thesis by (intro exI [of _ st1]) auto
qed

theorem rights_fail_open_witness:
  "\<exists>st1. NewEnforcer demoAuth (demoLoaded\<lparr>aclOnce := False, aclUrl := None\<rparr>) = ((False, None), st1) \<and>
     serverFilters demoAuth (\<lambda>u p. None) ''no'' (demoHttp ''DELETE'') st1 = Ret (Next, st1)"
proof -
  have "\<forall>m p. casbinNew demoAuth m p = None" "''url'' \<in> set (split_on (CHR '','') (Filter (aclconf demoAuth)))"
    by (simp_all add: demoAuth_def defaultACL_def)
  from rights_fail_open [OF this, of "demoLoaded\<lparr>aclOnce := False, aclUrl := None\<rparr>"] show ?thesis
    by (auto simp: demoHttp_def)
qed

section \<open>Notifications of OpenStack\<close>







text \<open>
  (C23) The cores of an instance. The list made of the affinity mask that \<^verbatim>\<open>taskset\<close> prints names,
  in ascending order, exactly the positions of the ones of the number the whole mask stands for, for masks
  of any length; a text that is no hexadecimal number gives the empty list.
\<close>

theorem taskset_cores:
  assumes "msk \<noteq> []"
  shows "parseTasksetMask msk =
    Ret (case ParseUint msk 16 (4 * length msk) of (v, None) \<Rightarrow> bitNames (length msk) v | (_, Some _) \<Rightarrow> [])"
  by (rule parseTasksetMask_spec [OF assms])

theorem taskset_cores_witness: "parseTasksetMask ''10e'' = Ret [''1'', ''2'', ''3'', ''8'']"
proof -
  have "ParseUint ''10e'' 16 12 = (0x10e, None)" "bitNames 3 0x10e = [''1'', ''2'', ''3'', ''8'']" by code_simp+
  with taskset_cores [of "''10e''"] show ?thesis by (simp add: numeral_3_eq_3)
qed

section \<open>Start-up\<close>

text \<open>
  (C24) Waiting for a lock ends. With a positive timeout and a clock that reaches the deadline, \<open>Flock\<close>
  returns: the attempts up to the last are told to wait, before the deadline; the answer is that of the
  last attempt when it is not told to wait, and the timeout error only when the deadline has passed.
\<close>

theorem flock_ends:
  assumes "0 < timeout" "clock 0 + timeout \<le> clock m"
  shows "\<exists>n \<le> m. (\<forall>j < n. clock j < clock 0 + timeout \<and> sys (flockFlag ex OR LOCK_NB) j = Some EWOULDBLOCK) \<and>
    Flock sys clock timeout ex =
      Some (if clock n < clock 0 + timeout then sys (flockFlag ex OR LOCK_NB) n else Some FlockTimeout) \<and>
    (clock n < clock 0 + timeout \<longrightarrow> sys (flockFlag ex OR LOCK_NB) n \<noteq> Some EWOULDBLOCK)"
  by (rule Flock_ends [OF assms])

theorem flock_ends_witness:
  "Flock (\<lambda>_ i. if i < 2 then Some EWOULDBLOCK else None) (\<lambda>i. 50 * int i) 1000 [True] = Some None"
proof -
  let ?sys = "\<lambda>(_::nat) i. if i < (2::nat) then Some EWOULDBLOCK else None"
  have "\<exists>n \<le> 20. (\<forall>j < n. 50 * int j < 1000 \<and> ?sys 0 j = Some EWOULDBLOCK) \<and>
    Flock (\<lambda>_ i. if i < 2 then Some EWOULDBLOCK else None) (\<lambda>i. 50 * int i) 1000 [True] =
      Some (if 50 * int n < 1000 then ?sys 0 n else Some FlockTimeout) \<and>
    (50 * int n < 1000 \<longrightarrow> ?sys 0 n \<noteq> Some EWOULDBLOCK)"
    using flock_ends [of 1000 "\<lambda>i. 50 * int i" 20 "\<lambda>_ i. if i < 2 then Some EWOULDBLOCK else None" "[True]"]
    by simp
  then obtain n where n: "\<forall>j < n. ?sys 0 j = Some EWOULDBLOCK"
    "Flock (\<lambda>_ i. if i < 2 then Some EWOULDBLOCK else None) (\<lambda>i. 50 * int i) 1000 [True] =
       Some (if 50 * int n < 1000 then ?sys 0 n else Some FlockTimeout)"
    "50 * int n < 1000 \<longrightarrow> ?sys 0 n \<noteq> Some EWOULDBLOCK"
    by blast
  have "n < 3"
  proof (rule ccontr)
    assume "\<not> n < 3"
    then have "2 < n" by simp
    with n(1) have "?sys 0 2 = Some EWOULDBLOCK" by blast
    then show False by simp
  qed
  with n(3) have "50 * int n < 1000" "\<not> n < 2" by (auto split: if_split_asm)
  with n(2) show ?thesis by simp
qed

section \<open>The running server\<close>




















end
